(* ===== verification/Prelude.thy ===== *)
theory Prelude
  imports Main "HOL-Library.Word"
begin

text \<open>
  What every component of the development shares: the byte and word types, the error values
  and results of the Go code, the two Go slice expressions with their run-time checks, and
  big-endian encodings of natural numbers, with the lemmas that carry the wire proofs.
\<close>

text \<open>Offsets stay sums: \<open>off + 2\<close> is not rewritten to successors.\<close>

declare add_2_eq_Suc [simp del] add_2_eq_Suc' [simp del]

section \<open>Types\<close>

type_synonym u8 = "8 word"
type_synonym u16 = "16 word"
type_synonym u32 = "32 word"
type_synonym bytes = "8 word list"

text \<open>
  Go errors. The sentinels are the \<open>common.Error\<close> constants of the package (and the one
  sentinel of \<open>common\<close> it returns); \<open>TPMError\<close> is the struct of \<open>tpm.go\<close>;
  \<open>External\<close> is any other error value made by code the package only calls (a transport,
  the codec, a random source). \<open>Panic\<close> is a Go run-time panic: not an error value a
  caller can see, but a branch of every computation that slices or indexes.
\<close>

datatype err =
    ErrShortBuffer
  | TPMError (CC: u32) (RC: u32)
  | ErrUnexpectedCapability
  | ErrPropertyNotFound
  | ErrUnsupportedNameAlg
  | ErrUnexpectedSigAlg
  | ErrBadMagic
  | ErrNotQuote
  | ErrSigInvalid
  | ErrPCRDigestMismatch
  | ErrEKPointNotOnCurve
  | ErrSRKPointNotOnCurve
  | External nat
  | Panic

type_synonym 'a res = "err + 'a"

section \<open>Results\<close>

named_theorems res_simps \<open>computing with results and unfolding their sequencing\<close>
named_theorems res_iff \<open>when a sequenced computation returns\<close>

text \<open>\<open>if err != nil { return err }\<close>, then the rest of the function.\<close>

definition rbind :: "'a res \<Rightarrow> ('a \<Rightarrow> 'b res) \<Rightarrow> 'b res" where
  "rbind m f = (case m of Inl e \<Rightarrow> Inl e | Inr a \<Rightarrow> f a)"

lemma rbind_simps [simp]:
  "rbind (Inl e) f = Inl e"
  "rbind (Inr a) f = f a"
  by (simp_all add: rbind_def)

lemma rbind_Inr_iff [res_iff]: "rbind m f = Inr b \<longleftrightarrow> (\<exists>a. m = Inr a \<and> f a = Inr b)"
  by (cases m) simp_all

lemma rbind_Inl_iff [res_iff]:
  "rbind m f = Inl e \<longleftrightarrow> m = Inl e \<or> (\<exists>a. m = Inr a \<and> f a = Inl e)"
  by (cases m) simp_all

lemma rbind_assoc: "rbind (rbind m f) g = rbind m (\<lambda>a. rbind (f a) g)"
  by (cases m) simp_all

lemma rbind_cong [fundef_cong]:
  "m = m' \<Longrightarrow> (\<And>a. m' = Inr a \<Longrightarrow> f a = f' a) \<Longrightarrow> rbind m f = rbind m' f'"
  by (cases m') simp_all

text \<open>\<open>x, ok := common.GetU16(b, off); if !ok { return common.ErrShortBuffer }\<close>\<close>

definition need :: "'a option \<Rightarrow> 'a res" where
  "need v = (case v of None \<Rightarrow> Inl ErrShortBuffer | Some x \<Rightarrow> Inr x)"

lemma need_simps [simp]:
  "need None = Inl ErrShortBuffer"
  "need (Some x) = Inr x"
  by (simp_all add: need_def)

lemma need_Inr_iff [res_iff]: "need v = Inr x \<longleftrightarrow> v = Some x"
  by (cases v) simp_all

lemma need_Inl_iff [res_iff]: "need v = Inl e \<longleftrightarrow> v = None \<and> e = ErrShortBuffer"
  by (cases v) auto

text \<open>\<open>if cond { return err }\<close>\<close>

definition guard :: "bool \<Rightarrow> err \<Rightarrow> unit res" where
  "guard ok e = (if ok then Inr () else Inl e)"

lemma guard_simps [simp]:
  "guard True e = Inr ()"
  "guard False e = Inl e"
  by (simp_all add: guard_def)

lemma guard_Inr_iff [res_iff]: "guard ok e = Inr u \<longleftrightarrow> ok"
  by (simp add: guard_def)

lemma guard_Inl_iff [res_iff]: "guard ok e = Inl e' \<longleftrightarrow> \<not> ok \<and> e' = e"
  by (auto simp: guard_def)

text \<open>
  The slice expressions \<open>b[n:]\<close> and \<open>b[:n]\<close>. Go checks the bounds at run time and
  panics outside them. (\<open>b[:n]\<close> may reach up to the capacity of \<open>b\<close>, which is not
  part of the model; the package takes such a slice only within the length.)
\<close>

definition slice_from :: "'a list \<Rightarrow> nat \<Rightarrow> 'a list res" where
  "slice_from b n = (if n \<le> length b then Inr (drop n b) else Inl Panic)"

definition slice_to :: "'a list \<Rightarrow> int \<Rightarrow> 'a list res" where
  "slice_to b n = (if 0 \<le> n \<and> n \<le> int (length b) then Inr (take (nat n) b) else Inl Panic)"

lemma slice_from_ok [simp]: "n \<le> length b \<Longrightarrow> slice_from b n = Inr (drop n b)"
  by (simp add: slice_from_def)

lemma slice_from_Inr_iff [res_iff]: "slice_from b n = Inr r \<longleftrightarrow> n \<le> length b \<and> r = drop n b"
  by (auto simp: slice_from_def)

lemma slice_from_Inl_iff [res_iff]: "slice_from b n = Inl e \<longleftrightarrow> length b < n \<and> e = Panic"
  by (auto simp: slice_from_def)

lemma slice_to_nat [simp]: "n \<le> length b \<Longrightarrow> slice_to b (int n) = Inr (take n b)"
  by (simp add: slice_to_def)

text \<open>\<open>b[lo:hi]\<close>\<close>

definition slice :: "'a list \<Rightarrow> nat \<Rightarrow> nat \<Rightarrow> 'a list res" where
  "slice b lo hi =
     (if lo \<le> hi \<and> hi \<le> length b then Inr (take (hi - lo) (drop lo b)) else Inl Panic)"

lemma slice_ok [simp]: "lo \<le> hi \<Longrightarrow> hi \<le> length b \<Longrightarrow> slice b lo hi = Inr (take (hi - lo) (drop lo b))"
  by (simp add: slice_def)

text \<open>The errors a computation can end with.\<close>

definition fails_only :: "err set \<Rightarrow> 'a res \<Rightarrow> bool" where
  "fails_only E r = (case r of Inl e \<Rightarrow> e \<in> E | Inr a \<Rightarrow> True)"

named_theorems fails_intros \<open>the errors of a sequenced computation\<close>

lemma fails_only_simps [simp]: "fails_only E (Inl e) \<longleftrightarrow> e \<in> E" "fails_only E (Inr a)"
  by (simp_all add: fails_only_def)

lemma fails_only_iff: "fails_only E r \<longleftrightarrow> (\<forall>e. r = Inl e \<longrightarrow> e \<in> E)"
  by (cases r) simp_all

lemma fails_onlyD: "fails_only E r \<Longrightarrow> r = Inl e \<Longrightarrow> e \<in> E"
  by simp

lemma fails_bind [fails_intros]:
  "fails_only E m \<Longrightarrow> (\<And>a. m = Inr a \<Longrightarrow> fails_only E (f a)) \<Longrightarrow> fails_only E (rbind m f)"
  by (cases m) simp_all

lemma fails_if [fails_intros]:
  "(c \<Longrightarrow> fails_only E a) \<Longrightarrow> (\<not> c \<Longrightarrow> fails_only E b) \<Longrightarrow> fails_only E (if c then a else b)"
  by simp

lemma fails_pair [fails_intros]:
  "(\<And>x y. p = (x, y) \<Longrightarrow> fails_only E (f x y)) \<Longrightarrow> fails_only E (case p of (x, y) \<Rightarrow> f x y)"
  by (cases p) simp

lemma fails_Inr [fails_intros]: "fails_only E (Inr a)"
  by simp

lemma fails_need [fails_intros]: "ErrShortBuffer \<in> E \<Longrightarrow> fails_only E (need v)"
  by (cases v) simp_all

lemma fails_guard [fails_intros]: "e \<in> E \<Longrightarrow> fails_only E (guard ok e)"
  by (simp add: guard_def)

lemma fails_slice_from [fails_intros]: "n \<le> length b \<Longrightarrow> fails_only E (slice_from b n)"
  by simp

lemma fails_slice [fails_intros]: "lo \<le> hi \<Longrightarrow> hi \<le> length b \<Longrightarrow> fails_only E (slice b lo hi)"
  by simp

text \<open>Go's \<open>/\<close> and \<open>%\<close> on signed integers truncate towards zero.\<close>

definition go_div :: "int \<Rightarrow> int \<Rightarrow> int" where
  "go_div a b = sgn a * sgn b * (\<bar>a\<bar> div \<bar>b\<bar>)"

definition go_mod :: "int \<Rightarrow> int \<Rightarrow> int" where
  "go_mod a b = a - b * go_div a b"

lemma go_div_nonneg: "0 \<le> a \<Longrightarrow> 0 < b \<Longrightarrow> go_div a b = a div b"
  by (cases "a = 0") (simp_all add: go_div_def)

lemma go_mod_nonneg: "0 \<le> a \<Longrightarrow> 0 < b \<Longrightarrow> go_mod a b = a mod b"
  by (simp add: go_mod_def go_div_nonneg minus_mult_div_eq_mod)

section \<open>Big-endian bytes\<close>

text \<open>\<open>be_bytes n v\<close> is the low \<open>n\<close> bytes of \<open>v\<close>, most significant first.\<close>

fun be_bytes :: "nat \<Rightarrow> nat \<Rightarrow> bytes" where
  "be_bytes 0 v = []"
| "be_bytes (Suc n) v = of_nat (v div 256 ^ n) # be_bytes n v"

fun be_nat :: "bytes \<Rightarrow> nat" where
  "be_nat [] = 0"
| "be_nat (x # xs) = unat x * 256 ^ length xs + be_nat xs"

lemma length_be_bytes [simp]: "length (be_bytes n v) = n"
  by (induction n) auto

lemma be_bytes_nil_iff [simp]: "be_bytes n v = [] \<longleftrightarrow> n = 0"
  by (cases n) auto

lemma unat_u8_bound [simp]: "unat (x :: u8) < 256"
  using unsigned_less [of x] by simp

lemma unat_u16_bound [simp]: "unat (x :: u16) < 65536"
  using unsigned_less [of x] by simp

lemma unat_u32_bound [simp]: "unat (x :: u32) < 4294967296"
  using unsigned_less [of x] by simp

lemma be_nat_less: "be_nat b < 256 ^ length b"
proof (induction b)
  case Nil
  then show ?case by simp
next
  case (Cons x xs)
  have "unat x * 256 ^ length xs + 256 ^ length xs = (unat x + 1) * 256 ^ length xs" by simp
  also have "\<dots> \<le> 256 * 256 ^ length xs" by (rule mult_le_mono1) (simp add: Suc_le_eq)
  finally show ?case
    unfolding be_nat.simps length_Cons power_Suc using Cons.IH by linarith
qed

lemma be_nat_append: "be_nat (a @ b) = be_nat a * 256 ^ length b + be_nat b"
  by (induction a) (simp_all add: algebra_simps power_add)

lemma be_nat_be_bytes: "be_nat (be_bytes n v) = v mod 256 ^ n"
proof (induction n)
  case 0
  then show ?case by simp
next
  case (Suc n)
  have "v mod (256 ^ n * 256) = 256 ^ n * (v div 256 ^ n mod 256) + v mod 256 ^ n"
    by (rule mod_mult2_eq)
  with Suc show ?case by (simp add: unat_of_nat ac_simps)
qed

lemma be_nat_be_bytes_id [simp]: "v < 256 ^ n \<Longrightarrow> be_nat (be_bytes n v) = v"
  by (simp add: be_nat_be_bytes)

lemma div_add_high: "(a * 256 ^ Suc n + v) div 256 ^ n = a * 256 + v div (256 :: nat) ^ n"
proof -
  have "a * 256 ^ Suc n + v = v + (a * 256) * 256 ^ n" by simp
  then have "(a * 256 ^ Suc n + v) div 256 ^ n = (v + (a * 256) * 256 ^ n) div 256 ^ n"
    by (rule arg_cong)
  also have "\<dots> = a * 256 + v div 256 ^ n" by (rule div_mult_self1) simp
  finally show ?thesis .
qed

lemma u8_of_nat_add_high: "(of_nat (a * 256 + v) :: u8) = of_nat v"
  by (simp add: word_unat_eq_iff unat_of_nat del: of_nat_add of_nat_mult)

lemma be_bytes_add_high: "be_bytes n (a * 256 ^ n + v) = be_bytes n v"
proof (induction n arbitrary: a)
  case 0
  then show ?case by simp
next
  case (Suc n)
  have "be_bytes n (a * 256 ^ Suc n + v) = be_bytes n v"
    using Suc [of "a * 256"] by (simp add: mult.assoc)
  then show ?case
    by (simp only: be_bytes.simps div_add_high u8_of_nat_add_high)
qed

lemma be_bytes_be_nat [simp]: "length b = n \<Longrightarrow> be_bytes n (be_nat b) = b"
proof (induction b arbitrary: n)
  case Nil
  then show ?case by simp
next
  case (Cons x xs)
  have "be_nat xs < 256 ^ length xs" by (rule be_nat_less)
  with Cons show ?case by (auto simp: be_bytes_add_high)
qed

lemma be_nat_inject: "length a = length b \<Longrightarrow> be_nat a = be_nat b \<longleftrightarrow> a = b"
  by (metis be_bytes_be_nat)

lemma be_bytes_inject: "v < 256 ^ n \<Longrightarrow> w < 256 ^ n \<Longrightarrow> be_bytes n v = be_bytes n w \<longleftrightarrow> v = w"
  by (metis be_nat_be_bytes_id)

lemma be_nat_zeros [simp]: "be_nat (replicate n 0) = 0"
  by (induction n) auto

lemma be_nat_u8 [simp]: "be_nat [x] = unat x"
  by simp

lemma word_be_u16 [simp]: "be_nat (be_bytes 2 (unat (v :: u16))) = unat v"
  by (simp add: be_nat_be_bytes)

lemma word_be_u32 [simp]: "be_nat (be_bytes 4 (unat (v :: u32))) = unat v"
  by (simp add: be_nat_be_bytes)

lemma be_u16_inject [simp]: "be_bytes 2 (unat (v :: u16)) = be_bytes 2 (unat w) \<longleftrightarrow> v = w"
  by (metis word_be_u16 word_unat_eq_iff)

lemma be_u32_inject [simp]: "be_bytes 4 (unat (v :: u32)) = be_bytes 4 (unat w) \<longleftrightarrow> v = w"
  by (metis word_be_u32 word_unat_eq_iff)

text \<open>Evaluating the fixed widths on numerals.\<close>

named_theorems be_eval \<open>unfolding the two-byte and four-byte encodings\<close>

lemma be_bytes_numeral:
  "be_bytes (numeral k) v = of_nat (v div 256 ^ pred_numeral k) # be_bytes (pred_numeral k) v"
  by (subst numeral_eq_Suc) (simp only: be_bytes.simps)

lemma u8_of_nat_mod: "(of_nat (n mod 256) :: u8) = of_nat n"
  by (simp add: word_unat_eq_iff unat_of_nat)

lemma be_bytes_2 [be_eval]: "be_bytes 2 v = [of_nat (v div 256 mod 256), of_nat (v mod 256)]"
  by (simp add: be_bytes_numeral u8_of_nat_mod)

lemma be_bytes_4 [be_eval]:
  "be_bytes 4 v = [of_nat (v div 16777216 mod 256), of_nat (v div 65536 mod 256),
     of_nat (v div 256 mod 256), of_nat (v mod 256)]"
  by (simp add: be_bytes_numeral u8_of_nat_mod)

end
