(* ===== verification/Codec.thy ===== *)
theory Codec
  imports Prelude
begin

text \<open>
  The interface of \<open>github.com/go-tpm2/common\<close>, the wire codec this package is written
  against. Its code is not part of the repository, so it is a parameter of every definition
  that uses it: a record of the functions and constants the package calls, and two locales
  with what the package relies on. The laws state what \<open>doc.go\<close> and the hand-derived
  buffers of the tests say of the codec: fields are big-endian, a TPM2B is a UINT16 size and
  the contents, a frame is tag, size, code and parameters, and a short buffer is reported as
  \<open>ErrShortBuffer\<close>. \<open>be_codec\<close> is a codec with these laws: the instance the
  concrete runs of the development use.
\<close>

section \<open>The functions and constants of the codec\<close>

record codec =
  PutU8 :: "bytes \<Rightarrow> u8 \<Rightarrow> bytes"
  PutU16 :: "bytes \<Rightarrow> u16 \<Rightarrow> bytes"
  PutU32 :: "bytes \<Rightarrow> u32 \<Rightarrow> bytes"
  GetU8 :: "bytes \<Rightarrow> nat \<Rightarrow> u8 option"
  GetU16 :: "bytes \<Rightarrow> nat \<Rightarrow> u16 option"
  GetU32 :: "bytes \<Rightarrow> nat \<Rightarrow> u32 option"
  MarshalTPM2B :: "bytes \<Rightarrow> bytes"
  UnmarshalTPM2B :: "bytes \<Rightarrow> (bytes \<times> bytes) res"
  BuildCommand :: "u16 \<Rightarrow> u32 \<Rightarrow> bytes \<Rightarrow> bytes"
  ParseResponse :: "bytes \<Rightarrow> (u16 \<times> u32 \<times> bytes) res"
  TagNoSessions :: u16
  TagSessions :: u16
  RCSuccess :: u32
  CommonRHOwner :: u32
  CCSelfTest :: u32
  CCStartup :: u32
  CCShutdown :: u32
  CCCreatePrimary :: u32
  CCCreate :: u32
  CCLoad :: u32
  CCQuote :: u32
  CCGetCapability :: u32
  CCGetRandom :: u32
  CCPCRRead :: u32
  CCPCRExtend :: u32

text \<open>A TPM2B: the size of the contents as a UINT16, then the contents.\<close>

definition tpm2b :: "bytes \<Rightarrow> bytes" where
  "tpm2b v = be_bytes 2 (length v) @ v"

text \<open>A command or response frame: tag, total size, command or response code, parameters.\<close>

definition frame :: "u16 \<Rightarrow> u32 \<Rightarrow> bytes \<Rightarrow> bytes" where
  "frame tag code params =
     be_bytes 2 (unat tag) @ be_bytes 4 (length params + 10) @ be_bytes 4 (unat code) @ params"

lemma length_tpm2b [simp]: "length (tpm2b v) = length v + 2"
  by (simp add: tpm2b_def)

lemma length_frame [simp]: "length (frame tag code params) = length params + 10"
  by (simp add: frame_def)

lemma tpm2b_append: "tpm2b v @ r = be_bytes 2 (length v) @ v @ r"
  by (simp add: tpm2b_def)

lemma frame_inject:
  assumes "frame tag code params = frame tag' code' params'"
  shows "tag = tag' \<and> code = code' \<and> params = params'"
proof -
  have "length (frame tag code params) = length (frame tag' code' params')"
    using assms by (rule arg_cong)
  then have "length params = length params'" by simp
  with assms show ?thesis by (simp add: frame_def)
qed

section \<open>The laws\<close>

locale byte_codec =
  fixes C :: codec
  assumes PutU8: "PutU8 C b v8 = b @ [v8]"
    and PutU16: "PutU16 C b v16 = b @ be_bytes 2 (unat v16)"
    and PutU32: "PutU32 C b v32 = b @ be_bytes 4 (unat v32)"
    and GetU8: "GetU8 C b off = (if off + 1 \<le> length b then Some (b ! off) else None)"
    and GetU16: "GetU16 C b off =
      (if off + 2 \<le> length b then Some (of_nat (be_nat (take 2 (drop off b)))) else None)"
    and GetU32: "GetU32 C b off =
      (if off + 4 \<le> length b then Some (of_nat (be_nat (take 4 (drop off b)))) else None)"
    and MarshalTPM2B: "length v < 65536 \<Longrightarrow> MarshalTPM2B C v = tpm2b v"
    and UnmarshalTPM2B: "length v < 65536 \<Longrightarrow> UnmarshalTPM2B C (tpm2b v @ r) = Inr (v, r)"
    and UnmarshalTPM2B_short: "length b < 2 \<Longrightarrow> UnmarshalTPM2B C b = Inl ErrShortBuffer"
    and UnmarshalTPM2B_truncated:
      "2 \<le> length b \<Longrightarrow> length b < 2 + be_nat (take 2 b) \<Longrightarrow>
       UnmarshalTPM2B C b = Inl ErrShortBuffer"

locale wire_codec = byte_codec +
  assumes BuildCommand:
      "length params + 10 < 4294967296 \<Longrightarrow> BuildCommand C tag code params = frame tag code params"
    and ParseResponse:
      "length params + 10 < 4294967296 \<Longrightarrow>
       ParseResponse C (frame tag code params) = Inr (tag, code, params)"
    and ParseResponse_short: "length b < 10 \<Longrightarrow> ParseResponse C b = Inl ErrShortBuffer"
    and TagNoSessions: "TagNoSessions C = 0x8001"
    and TagSessions: "TagSessions C = 0x8002"
    and RCSuccess: "RCSuccess C = 0"
    and CommonRHOwner: "CommonRHOwner C = 0x40000001"
    and CCSelfTest: "CCSelfTest C = 0x143"
    and CCStartup: "CCStartup C = 0x144"
    and CCShutdown: "CCShutdown C = 0x145"
    and CCCreatePrimary: "CCCreatePrimary C = 0x131"
    and CCCreate: "CCCreate C = 0x153"
    and CCLoad: "CCLoad C = 0x157"
    and CCQuote: "CCQuote C = 0x158"
    and CCGetCapability: "CCGetCapability C = 0x17A"
    and CCGetRandom: "CCGetRandom C = 0x17B"
    and CCPCRRead: "CCPCRRead C = 0x17E"
    and CCPCRExtend: "CCPCRExtend C = 0x182"

section \<open>Consequences of the laws\<close>

context byte_codec
begin

lemmas puts = PutU8 PutU16 PutU32 MarshalTPM2B

lemma split_tpm2b:
  assumes "2 + be_nat (take 2 b) \<le> length b"
  shows "b = tpm2b (take (be_nat (take 2 b)) (drop 2 b)) @ drop (2 + be_nat (take 2 b)) b"
proof -
  have two: "2 \<le> length b" using assms by simp
  then have "be_bytes 2 (be_nat (take 2 b)) = take 2 b" by simp
  moreover have "length (take (be_nat (take 2 b)) (drop 2 b)) = be_nat (take 2 b)"
    using assms by simp
  moreover have "take (be_nat (take 2 b)) (drop 2 b) @ drop (be_nat (take 2 b)) (drop 2 b) = drop 2 b"
    by (rule append_take_drop_id)
  ultimately show ?thesis
    by (simp add: tpm2b_def add.commute)
qed

lemma take2_bound: "be_nat (take 2 b) < 65536"
proof -
  have "be_nat (take 2 b) < 256 ^ length (take 2 b)" by (rule be_nat_less)
  also have "(256::nat) ^ length (take 2 b) \<le> 256 ^ 2" by (rule power_increasing) simp_all
  finally show ?thesis by simp
qed

text \<open>The three laws of \<open>UnmarshalTPM2B\<close> determine it on every buffer.\<close>

lemma UnmarshalTPM2B_eq:
  "UnmarshalTPM2B C b =
     (if 2 + be_nat (take 2 b) \<le> length b
      then Inr (take (be_nat (take 2 b)) (drop 2 b), drop (2 + be_nat (take 2 b)) b)
      else Inl ErrShortBuffer)"
proof (cases "2 + be_nat (take 2 b) \<le> length b")
  case True
  let ?v = "take (be_nat (take 2 b)) (drop 2 b)"
  have "length ?v < 65536" using take2_bound [of b] by simp
  then have "UnmarshalTPM2B C (tpm2b ?v @ drop (2 + be_nat (take 2 b)) b)
      = Inr (?v, drop (2 + be_nat (take 2 b)) b)"
    by (rule UnmarshalTPM2B)
  with True split_tpm2b [OF True] show ?thesis by simp
next
  case False
  then show ?thesis
    by (cases "length b < 2") (simp_all add: UnmarshalTPM2B_short UnmarshalTPM2B_truncated)
qed

lemma UnmarshalTPM2B_Inr_iff:
  "UnmarshalTPM2B C b = Inr (v, r) \<longleftrightarrow> length v < 65536 \<and> b = tpm2b v @ r"
proof
  assume h: "UnmarshalTPM2B C b = Inr (v, r)"
  then have le: "2 + be_nat (take 2 b) \<le> length b"
    and v: "v = take (be_nat (take 2 b)) (drop 2 b)" and r: "r = drop (2 + be_nat (take 2 b)) b"
    by (auto simp: UnmarshalTPM2B_eq split: if_splits)
  have "length v < 65536" using v take2_bound [of b] by simp
  moreover have "b = tpm2b v @ r" unfolding v r by (rule split_tpm2b [OF le])
  ultimately show "length v < 65536 \<and> b = tpm2b v @ r" by blast
qed (simp add: UnmarshalTPM2B)

lemma UnmarshalTPM2B_Inl: "UnmarshalTPM2B C b = Inl e \<Longrightarrow> e = ErrShortBuffer"
  by (simp add: UnmarshalTPM2B_eq split: if_splits)

lemma fails_Unmarshal [fails_intros]: "ErrShortBuffer \<in> E \<Longrightarrow> fails_only E (UnmarshalTPM2B C b)"
  by (simp add: fails_only_iff UnmarshalTPM2B_eq)

lemma Unmarshal_Marshal:
  "length v < 65536 \<Longrightarrow> UnmarshalTPM2B C (MarshalTPM2B C v @ r) = Inr (v, r)"
  by (simp add: MarshalTPM2B UnmarshalTPM2B)

text \<open>Reading a field at the front of a buffer, and past the fields before it.\<close>

lemma GetU8_front [simp]: "GetU8 C (v # r) 0 = Some v"
  by (simp add: GetU8)

lemma GetU16_front [simp]: "GetU16 C (be_bytes 2 n @ r) 0 = Some (of_nat n)"
  by (simp add: GetU16 be_nat_be_bytes word_unat_eq_iff unat_of_nat)

lemma GetU32_front [simp]: "GetU32 C (be_bytes 4 n @ r) 0 = Some (of_nat n)"
  by (simp add: GetU32 be_nat_be_bytes word_unat_eq_iff unat_of_nat)

lemma Get_front_only [simp]:
  "GetU16 C (be_bytes 2 n) 0 = Some (of_nat n)"
  "GetU32 C (be_bytes 4 n) 0 = Some (of_nat n)"
  using GetU16_front [of n "[]"] GetU32_front [of n "[]"] by simp_all

lemma GetU8_skip: "length a \<le> off \<Longrightarrow> GetU8 C (a @ r) off = GetU8 C r (off - length a)"
  by (auto simp: GetU8 nth_append)

lemma GetU16_skip: "length a \<le> off \<Longrightarrow> GetU16 C (a @ r) off = GetU16 C r (off - length a)"
  by (auto simp: GetU16)

lemma GetU32_skip: "length a \<le> off \<Longrightarrow> GetU32 C (a @ r) off = GetU32 C r (off - length a)"
  by (auto simp: GetU32)

lemmas get_skip = GetU8_skip GetU16_skip GetU32_skip

lemma get_Some_length:
  "GetU8 C b off = Some v8 \<Longrightarrow> off + 1 \<le> length b"
  "GetU16 C b off = Some v16 \<Longrightarrow> off + 2 \<le> length b"
  "GetU32 C b off = Some v32 \<Longrightarrow> off + 4 \<le> length b"
  by (simp_all add: GetU8 GetU16 GetU32 split: if_splits)

lemma get_None_iff:
  "GetU8 C b off = None \<longleftrightarrow> length b < off + 1"
  "GetU16 C b off = None \<longleftrightarrow> length b < off + 2"
  "GetU32 C b off = None \<longleftrightarrow> length b < off + 4"
  by (auto simp add: GetU8 GetU16 GetU32)

lemma GetU16_0_iff: "GetU16 C b 0 = Some v \<longleftrightarrow> (\<exists>r. b = be_bytes 2 (unat v) @ r)"
proof
  assume "GetU16 C b 0 = Some v"
  then have "2 \<le> length b" and "v = of_nat (be_nat (take 2 b))" by (auto simp: GetU16 split: if_splits)
  then have "be_bytes 2 (unat v) = take 2 b"
    using be_nat_less [of "take 2 b"] by (simp add: unat_of_nat)
  then show "\<exists>r. b = be_bytes 2 (unat v) @ r" by (metis append_take_drop_id)
qed auto

lemma GetU32_0_iff: "GetU32 C b 0 = Some v \<longleftrightarrow> (\<exists>r. b = be_bytes 4 (unat v) @ r)"
proof
  assume "GetU32 C b 0 = Some v"
  then have "4 \<le> length b" and "v = of_nat (be_nat (take 4 b))" by (auto simp: GetU32 split: if_splits)
  then have "be_bytes 4 (unat v) = take 4 b"
    using be_nat_less [of "take 4 b"] by (simp add: unat_of_nat)
  then show "\<exists>r. b = be_bytes 4 (unat v) @ r" by (metis append_take_drop_id)
qed auto

lemma Get_iff:
  "GetU16 C b off = Some v16 \<longleftrightarrow> off + 2 \<le> length b \<and> take 2 (drop off b) = be_bytes 2 (unat v16)"
  "GetU32 C b off = Some v32 \<longleftrightarrow> off + 4 \<le> length b \<and> take 4 (drop off b) = be_bytes 4 (unat v32)"
proof -
  have "take 2 (drop off b) = be_bytes 2 (be_nat (take 2 (drop off b)))" if "off + 2 \<le> length b"
    using that by simp
  then show "GetU16 C b off = Some v16 \<longleftrightarrow>
      off + 2 \<le> length b \<and> take 2 (drop off b) = be_bytes 2 (unat v16)"
    by (auto simp: GetU16 unat_of_nat take2_bound)
  have four: "length x = 4 \<Longrightarrow> unat (of_nat (be_nat x) :: u32) = be_nat x" for x
    using be_nat_less [of x] by (simp add: unat_of_nat)
  show "GetU32 C b off = Some v32 \<longleftrightarrow>
      off + 4 \<le> length b \<and> take 4 (drop off b) = be_bytes 4 (unat v32)"
    by (auto simp: GetU32 four)
qed

end

context wire_codec
begin

lemmas command_codes = CCSelfTest CCStartup CCShutdown CCCreatePrimary CCCreate CCLoad CCQuote
  CCGetCapability CCGetRandom CCPCRRead CCPCRExtend

lemmas wire_constants = TagNoSessions TagSessions RCSuccess CommonRHOwner command_codes

end

section \<open>A codec with the laws\<close>

definition be_Get :: "nat \<Rightarrow> bytes \<Rightarrow> nat \<Rightarrow> 'a::len word option" where
  "be_Get n b off =
     (if off + n \<le> length b then Some (of_nat (be_nat (take n (drop off b)))) else None)"

definition be_Unmarshal :: "bytes \<Rightarrow> (bytes \<times> bytes) res" where
  "be_Unmarshal b =
     (let n = be_nat (take 2 b)
      in if 2 + n \<le> length b then Inr (take n (drop 2 b), drop (2 + n) b) else Inl ErrShortBuffer)"

definition be_ParseResponse :: "bytes \<Rightarrow> (u16 \<times> u32 \<times> bytes) res" where
  "be_ParseResponse b =
     (if length b < 10 then Inl ErrShortBuffer
      else Inr (of_nat (be_nat (take 2 b)), of_nat (be_nat (take 4 (drop 6 b))), drop 10 b))"

definition be_codec :: codec where
  "be_codec = \<lparr>
     PutU8 = (\<lambda>b v. b @ [v]),
     PutU16 = (\<lambda>b v. b @ be_bytes 2 (unat v)),
     PutU32 = (\<lambda>b v. b @ be_bytes 4 (unat v)),
     GetU8 = be_Get 1, GetU16 = be_Get 2, GetU32 = be_Get 4,
     MarshalTPM2B = tpm2b, UnmarshalTPM2B = be_Unmarshal,
     BuildCommand = frame, ParseResponse = be_ParseResponse,
     TagNoSessions = 0x8001, TagSessions = 0x8002, RCSuccess = 0, CommonRHOwner = 0x40000001,
     CCSelfTest = 0x143, CCStartup = 0x144, CCShutdown = 0x145, CCCreatePrimary = 0x131,
     CCCreate = 0x153, CCLoad = 0x157, CCQuote = 0x158, CCGetCapability = 0x17A,
     CCGetRandom = 0x17B, CCPCRRead = 0x17E, CCPCRExtend = 0x182 \<rparr>"

lemma be_nat_take_1: "Suc off \<le> length b \<Longrightarrow> of_nat (be_nat (take (Suc 0) (drop off b))) = b ! off"
  by (simp add: take_Suc_conv_app_nth flip: Cons_nth_drop_Suc)

lemma be_Unmarshal_tpm2b: "length v < 65536 \<Longrightarrow> be_Unmarshal (tpm2b v @ r) = Inr (v, r)"
  by (simp add: be_Unmarshal_def tpm2b_def)

lemma be_ParseResponse_frame:
  "length params + 10 < 4294967296 \<Longrightarrow>
   be_ParseResponse (frame tag code params) = Inr (tag, code, params)"
  by (simp add: be_ParseResponse_def frame_def)

interpretation be: wire_codec be_codec
  by unfold_locales
    (simp_all add: be_codec_def be_nat_take_1 be_Get_def be_Unmarshal_tpm2b be_ParseResponse_frame,
      simp_all add: be_Unmarshal_def be_ParseResponse_def Let_def)

end
