(* ===== verification/Pcr.thy ===== *)
theory Pcr
  imports Codec
begin

text \<open>
  \<open>pcr.go\<close>: PCR selections, the octet-indexed \<open>pcrSelect\<close> bitmap, and the list of selections on
  the wire.
\<close>

unbundle bit_operations_syntax

section \<open>The code\<close>

definition pcrSelectSize :: nat where
  "pcrSelectSize = 3"

record PCRSelection =
  Hash :: u16
  PCRs :: "int list"

definition set_pcr :: "int \<Rightarrow> bytes \<Rightarrow> bytes" where
  "set_pcr pcr b =
     (if pcr < 0 \<or> pcr \<ge> int (pcrSelectSize * 8) then b
      else b[nat (go_div pcr 8) :=
               b ! nat (go_div pcr 8) OR push_bit (nat (go_mod pcr 8)) 1])"

definition bitmap :: "PCRSelection \<Rightarrow> bytes" where
  "bitmap s = fold set_pcr (PCRs s) (replicate pcrSelectSize 0)"

fun pcrs_from :: "nat \<Rightarrow> bytes \<Rightarrow> int list" where
  "pcrs_from i [] = []"
| "pcrs_from i (octet # b) =
     map (\<lambda>n. int (i * 8 + n)) (filter (\<lambda>n. octet AND push_bit n 1 \<noteq> 0) [0..<8])
     @ pcrs_from (Suc i) b"

definition pcrsFromBitmap :: "bytes \<Rightarrow> int list" where
  "pcrsFromBitmap b = pcrs_from 0 b"

definition put_selection :: "codec \<Rightarrow> bytes \<Rightarrow> PCRSelection \<Rightarrow> bytes" where
  "put_selection C out s =
     (let out = PutU16 C out (Hash s);
          out = PutU8 C out (of_nat pcrSelectSize)
      in out @ bitmap s)"

definition marshalPCRSelectionList :: "codec \<Rightarrow> PCRSelection list \<Rightarrow> bytes" where
  "marshalPCRSelectionList C sel =
     foldl (put_selection C) (PutU32 C [] (of_nat (length sel))) sel"

text \<open>The loop of \<open>parsePCRSelectionList\<close>: \<open>n\<close> entries to go, at offset \<open>off\<close>.\<close>

fun parse_selections ::
  "codec \<Rightarrow> bytes \<Rightarrow> nat \<Rightarrow> nat \<Rightarrow> PCRSelection list \<Rightarrow> (PCRSelection list \<times> nat) res" where
  "parse_selections C b 0 off sel = Inr (sel, off)"
| "parse_selections C b (Suc n) off sel =
     rbind (need (GetU16 C b off)) (\<lambda>hash.
     rbind (need (GetU8 C b (off + 2))) (\<lambda>sizeOfSelect.
       let start = off + 3; end = start + unat sizeOfSelect
       in rbind (guard (end \<le> length b) ErrShortBuffer) (\<lambda>_.
          rbind (slice b start end) (\<lambda>sl.
            parse_selections C b n end (sel @ [\<lparr>Hash = hash, PCRs = pcrsFromBitmap sl\<rparr>])))))"

definition parsePCRSelectionList :: "codec \<Rightarrow> bytes \<Rightarrow> (PCRSelection list \<times> bytes) res" where
  "parsePCRSelectionList C b =
     rbind (need (GetU32 C b 0)) (\<lambda>count.
     rbind (parse_selections C b (unat count) 4 []) (\<lambda>(sel, off).
     rbind (slice_from b off) (\<lambda>rest. Inr (sel, rest))))"

section \<open>The bitmap\<close>

lemma length_set_pcr [simp]: "length (set_pcr p b) = length b"
  by (simp add: set_pcr_def)

lemma length_fold_set_pcr [simp]: "length (fold set_pcr ps b) = length b"
  by (induction ps arbitrary: b) simp_all

lemma length_bitmap [simp]: "length (bitmap s) = 3"
  by (simp add: bitmap_def pcrSelectSize_def)

lemma bit_set_pcr:
  assumes "length b = 3" and "i < 3" and "n < 8"
  shows "bit (set_pcr p b ! i) n \<longleftrightarrow> bit (b ! i) n \<or> p = int (i * 8 + n)"
proof (cases "0 \<le> p \<and> p < 24")
  case True
  define q where "q = nat p"
  have p: "p = int q" "q < 24" using True by (auto simp: q_def)
  have dm: "nat (go_div p 8) = q div 8" "nat (go_mod p 8) = q mod 8"
    by (simp_all add: p go_div_nonneg go_mod_nonneg nat_div_distrib nat_mod_distrib)
  have set: "set_pcr p b = b[q div 8 := b ! (q div 8) OR push_bit (q mod 8) 1]"
    using True unfolding set_pcr_def dm by (simp add: pcrSelectSize_def)
  have q8: "q div 8 < 3" using p(2) by (simp add: less_mult_imp_div_less)
  have eq: "int q = int (i * 8 + n) \<longleftrightarrow> q div 8 = i \<and> q mod 8 = n"
    using assms(3) by (auto simp flip: of_nat_add of_nat_mult)
  show ?thesis
  proof (cases "q div 8 = i")
    case True
    with assms q8 show ?thesis
      unfolding set unfolding p(1) eq
      by (auto simp: bit_or_iff bit_push_bit_iff bit_1_iff bit_exp_iff le_antisym)
  next
    case False
    then show ?thesis unfolding set unfolding p(1) eq by simp
  qed
next
  case False
  with assms show ?thesis by (auto simp: set_pcr_def pcrSelectSize_def)
qed

lemma bit_fold_set_pcr:
  "\<lbrakk>length b = 3; i < 3; n < 8\<rbrakk> \<Longrightarrow>
   bit (fold set_pcr ps b ! i) n \<longleftrightarrow> bit (b ! i) n \<or> int (i * 8 + n) \<in> set ps"
  by (induction ps arbitrary: b) (auto simp: bit_set_pcr)

lemma bit_bitmap: "\<lbrakk>i < 3; n < 8\<rbrakk> \<Longrightarrow> bit (bitmap s ! i) n \<longleftrightarrow> int (i * 8 + n) \<in> set (PCRs s)"
  by (simp add: bitmap_def pcrSelectSize_def bit_fold_set_pcr)

lemma upt_octet: "map (\<lambda>n. i * 8 + n) [0..<8] = [i * 8..<Suc i * 8]"
  by (simp add: map_add_upt add.commute)

text \<open>Decoding a bitmap lists, in ascending order, the positions of its bits.\<close>

lemma pcrs_from_eq:
  "pcrs_from i b =
     map int (filter (\<lambda>k. bit (b ! (k div 8 - i)) (k mod 8)) [i * 8..<(i + length b) * 8])"
proof (induction b arbitrary: i)
  case Nil
  then show ?case by simp
next
  case (Cons x b)
  have head: "filter (\<lambda>k. bit ((x # b) ! (k div 8 - i)) (k mod 8)) [i * 8..<Suc i * 8]
      = map (\<lambda>n. i * 8 + n) (filter (\<lambda>n. bit x n) [0..<8])"
    by (simp only: upt_octet [symmetric] filter_map comp_def) (rule arg_cong, rule filter_cong, auto)
  have tail: "filter (\<lambda>k. bit ((x # b) ! (k div 8 - i)) (k mod 8)) [Suc i * 8..<(Suc i + length b) * 8]
      = filter (\<lambda>k. bit (b ! (k div 8 - Suc i)) (k mod 8)) [Suc i * 8..<(Suc i + length b) * 8]"
  proof (rule filter_cong [OF refl])
    fix k assume "k \<in> set [Suc i * 8..<(Suc i + length b) * 8]"
    then have "Suc i \<le> k div 8" by (simp add: less_eq_div_iff_mult_less_eq)
    then have "k div 8 - i = Suc (k div 8 - Suc i)" by simp
    then show "bit ((x # b) ! (k div 8 - i)) (k mod 8) = bit (b ! (k div 8 - Suc i)) (k mod 8)"
      by simp
  qed
  have "[i * 8..<(i + length (x # b)) * 8]
      = [i * 8..<Suc i * 8] @ [Suc i * 8..<(Suc i + length b) * 8]"
    using upt_add_eq_append [of "i * 8" "Suc i * 8" "length b * 8"] by (simp add: algebra_simps)
  then show ?case
    using Cons [of "Suc i"] head tail
    by (simp add: comp_def and_exp_eq_0_iff_not_bit)
qed

text \<open>The selection a bitmap can carry: the selected indices of the window, in ascending order.\<close>

definition in_window :: "PCRSelection \<Rightarrow> int list" where
  "in_window s = filter (\<lambda>n. n \<in> set (PCRs s)) (map int [0..<24])"

lemma bitmap_roundtrip_eq: "pcrsFromBitmap (bitmap s) = in_window s"
proof -
  have "filter (\<lambda>k. bit (bitmap s ! (k div 8)) (k mod 8)) [0..<24]
      = filter (\<lambda>k. int k \<in> set (PCRs s)) [0..<24]"
  proof (rule filter_cong [OF refl])
    fix k assume "k \<in> set [0..<24]"
    then have "k div 8 < 3" by (simp add: less_mult_imp_div_less)
    then have "bit (bitmap s ! (k div 8)) (k mod 8) \<longleftrightarrow> int (k div 8 * 8 + k mod 8) \<in> set (PCRs s)"
      by (intro bit_bitmap) simp_all
    then show "bit (bitmap s ! (k div 8)) (k mod 8) = (int k \<in> set (PCRs s))" by simp
  qed
  then show ?thesis
    by (simp add: pcrsFromBitmap_def pcrs_from_eq in_window_def filter_map comp_def del: upt_rec_numeral)
qed

text \<open>
  The bitmap of a selection, decoded, is the set of selected PCRs below 24: ascending, without
  repetitions, whatever the order and the repetitions of the selection; indices outside the
  window, negative ones included, are dropped.
\<close>

theorem bitmap_roundtrip:
  "pcrsFromBitmap (bitmap s) = filter (\<lambda>n. n \<in> set (PCRs s)) (map int [0..<24])"
  by (simp only: bitmap_roundtrip_eq in_window_def)

section \<open>The selection list on the wire\<close>

text \<open>One \<open>TPMS_PCR_SELECTION\<close>, and what decoding one gives back.\<close>

definition selection_bytes :: "PCRSelection \<Rightarrow> bytes" where
  "selection_bytes s = be_bytes 2 (unat (Hash s)) @ [3] @ bitmap s"

definition decoded :: "PCRSelection \<Rightarrow> PCRSelection" where
  "decoded s = s\<lparr>PCRs := in_window s\<rparr>"

lemma length_selection_bytes [simp]: "length (selection_bytes s) = 6"
  by (simp add: selection_bytes_def)

text \<open>Any \<open>TPMS_PCR_SELECTION\<close>, with a bitmap of whatever size, and how it is decoded.\<close>

definition raw_selection :: "u16 \<times> bytes \<Rightarrow> bytes" where
  "raw_selection e = be_bytes 2 (unat (fst e)) @ [of_nat (length (snd e))] @ snd e"

definition raw_decoded :: "u16 \<times> bytes \<Rightarrow> PCRSelection" where
  "raw_decoded e = \<lparr>Hash = fst e, PCRs = pcrsFromBitmap (snd e)\<rparr>"

context byte_codec
begin

lemma put_selection_eq: "put_selection C out s = out @ selection_bytes s"
  by (simp add: put_selection_def selection_bytes_def puts pcrSelectSize_def)

lemma foldl_put_selection:
  "foldl (put_selection C) out sel = out @ concat (map selection_bytes sel)"
  by (induction sel arbitrary: out) (simp_all add: put_selection_eq)

lemma marshalPCRSelectionList_eq:
  "marshalPCRSelectionList C sel =
   be_bytes 4 (unat (of_nat (length sel) :: u32)) @ concat (map selection_bytes sel)"
  by (simp add: marshalPCRSelectionList_def foldl_put_selection puts)

lemma length_marshalPCRSelectionList:
  "length (marshalPCRSelectionList C sel) = 4 + 6 * length sel"
  by (simp add: marshalPCRSelectionList_eq length_concat comp_def sum_list_triv)

lemma selection_fields:
  "GetU16 C (pre @ selection_bytes s @ r) (length pre) = Some (Hash s)"
  "GetU8 C (pre @ selection_bytes s @ r) (length pre + 2) = Some 3"
  "slice (pre @ selection_bytes s @ r) (length pre + 3) (length pre + 6) = Inr (bitmap s)"
  by (simp_all add: get_skip selection_bytes_def slice_def)

lemma parse_selections_marshalled:
  "parse_selections C (pre @ concat (map selection_bytes sel) @ rest) (length sel) (length pre) acc
   = Inr (acc @ map decoded sel, length pre + 6 * length sel)"
proof (induction sel arbitrary: pre acc)
  case Nil
  then show ?case by simp
next
  case (Cons s sel)
  let ?r = "concat (map selection_bytes sel) @ rest"
  have "parse_selections C (pre @ selection_bytes s @ ?r) (Suc (length sel)) (length pre) acc
      = parse_selections C (pre @ selection_bytes s @ ?r) (length sel) (length pre + 6) (acc @ [decoded s])"
    using selection_fields [of pre s ?r]
    by (cases s) (simp add: Let_def bitmap_roundtrip_eq decoded_def add.commute [of 6] del: slice_ok)
  also have "\<dots> = Inr (acc @ map decoded (s # sel), length pre + 6 * length (s # sel))"
    using Cons [of "pre @ selection_bytes s" "acc @ [decoded s]"] by simp
  finally show ?case by simp
qed

lemma parse_marshalled:
  assumes "length sel < 4294967296"
  shows "parsePCRSelectionList C (marshalPCRSelectionList C sel @ rest) = Inr (map decoded sel, rest)"
proof -
  let ?n = "of_nat (length sel) :: u32"
  have n: "unat ?n = length sel" using assms by (simp add: unat_of_nat)
  have "parse_selections C (be_bytes 4 (unat ?n) @ concat (map selection_bytes sel) @ rest)
      (length sel) 4 [] = Inr (map decoded sel, 4 + 6 * length sel)"
    using parse_selections_marshalled [of "be_bytes 4 (unat ?n)" sel rest "[]"] by simp
  then show ?thesis
    by (simp add: parsePCRSelectionList_def marshalPCRSelectionList_eq n length_concat comp_def
        sum_list_triv)
qed

text \<open>One round of the loop, on what is left of the buffer.\<close>

lemma parse_selections_Suc:
  assumes "off \<le> length b"
  shows "parse_selections C b (Suc n) off acc = Inr r \<longleftrightarrow>
    (\<exists>e rest. length (snd e) < 256 \<and> drop off b = raw_selection e @ rest \<and>
       parse_selections C b n (off + 3 + length (snd e)) (acc @ [raw_decoded e]) = Inr r)"
    (is "?l \<longleftrightarrow> ?r")
proof
  assume ?l
  then obtain hash size where h: "GetU16 C b off = Some hash" "GetU8 C b (off + 2) = Some size"
    and le: "off + 3 + unat size \<le> length b"
    and go: "parse_selections C b n (off + 3 + unat size)
      (acc @ [\<lparr>Hash = hash, PCRs = pcrsFromBitmap (take (unat size) (drop (off + 3) b))\<rparr>]) = Inr r"
    by (auto simp: res_iff Let_def)
  let ?e = "(hash, take (unat size) (drop (off + 3) b))"
  have len: "length (snd ?e) = unat size" using le by simp
  have "drop off b = take 2 (drop off b) @ drop (off + 2) b"
    by (metis add.commute append_take_drop_id drop_drop)
  also have "drop (off + 2) b = size # drop (off + 3) b"
    using h(2) le by (auto simp: GetU8 Cons_nth_drop_Suc [symmetric] add.commute [of 3] split: if_splits)
  also have "drop (off + 3) b = snd ?e @ drop (off + 3 + unat size) b"
    by (metis add.commute append_take_drop_id drop_drop snd_conv)
  finally have "drop off b = raw_selection ?e @ drop (off + 3 + unat size) b"
    using h(1) len by (simp add: raw_selection_def Get_iff)
  with len go show ?r by (intro exI [of _ ?e]) (auto simp: raw_decoded_def)
next
  assume ?r
  then obtain hash bm rest where e: "length bm < 256" "drop off b = raw_selection (hash, bm) @ rest"
    and go: "parse_selections C b n (off + 3 + length bm) (acc @ [raw_decoded (hash, bm)]) = Inr r" by auto
  have b: "b = take off b @ raw_selection (hash, bm) @ rest" using e(2) by (metis append_take_drop_id)
  have size: "unat (of_nat (length bm) :: u8) = length bm" using e(1) by (simp add: unat_of_nat)
  have "GetU16 C b off = Some hash" "GetU8 C b (off + 2) = Some (of_nat (length bm))"
    "slice b (off + 3) (off + 3 + length bm) = Inr bm"
    using assms by (subst b, simp add: get_skip raw_selection_def slice_def)+
  moreover have "off + 3 + length bm \<le> length b"
    using assms arg_cong [OF e(2), of length] by (simp add: raw_selection_def)
  ultimately show ?l using go size by (simp add: Let_def raw_decoded_def del: slice_ok)
qed

lemma length_raw_selection: "length (raw_selection e) = 3 + length (snd e)"
  by (simp add: raw_selection_def)

lemma parse_selections_Inr_iff:
  assumes "off \<le> length b"
  shows "parse_selections C b n off acc = Inr (sel, off') \<longleftrightarrow>
    (\<exists>es rest. length es = n \<and> (\<forall>e \<in> set es. length (snd e) < 256) \<and>
       drop off b = concat (map raw_selection es) @ rest \<and>
       off' = off + length (concat (map raw_selection es)) \<and> sel = acc @ map raw_decoded es)"
  using assms
proof (induction n arbitrary: off acc)
  case 0
  then show ?case by auto
next
  case (Suc n)
  show ?case (is "?l \<longleftrightarrow> ?r")
  proof
    assume ?l
    then obtain e rest where e: "length (snd e) < 256" "drop off b = raw_selection e @ rest"
      and go: "parse_selections C b n (off + 3 + length (snd e)) (acc @ [raw_decoded e]) = Inr (sel, off')"
      unfolding parse_selections_Suc [OF Suc.prems] by blast
    have le: "off + 3 + length (snd e) \<le> length b"
      using Suc.prems arg_cong [OF e(2), of length] by (simp add: length_raw_selection)
    have drop: "drop (off + 3 + length (snd e)) b = rest"
      using arg_cong [OF e(2), of "drop (3 + length (snd e))"]
      by (simp add: length_raw_selection add.commute add.left_commute)
    from go [unfolded Suc.IH [OF le]] obtain es rest' where es: "length es = n"
      "\<forall>e \<in> set es. length (snd e) < 256" "rest = concat (map raw_selection es) @ rest'"
      "off' = off + 3 + length (snd e) + length (concat (map raw_selection es))"
      "sel = (acc @ [raw_decoded e]) @ map raw_decoded es"
      unfolding drop by blast
    then show ?r using e by (intro exI [of _ "e # es"] exI [of _ rest']) (simp add: length_raw_selection)
  next
    assume ?r
    then obtain e es rest where es: "length es = n" "length (snd e) < 256"
      "\<forall>e \<in> set es. length (snd e) < 256"
      "drop off b = raw_selection e @ concat (map raw_selection es) @ rest"
      "off' = off + 3 + length (snd e) + length (concat (map raw_selection es))"
      "sel = (acc @ [raw_decoded e]) @ map raw_decoded es"
      by (auto simp: length_Suc_conv length_raw_selection)
    have le: "off + 3 + length (snd e) \<le> length b"
      using Suc.prems arg_cong [OF es(4), of length] by (simp add: length_raw_selection)
    have "drop (off + 3 + length (snd e)) b = concat (map raw_selection es) @ rest"
      using arg_cong [OF es(4), of "drop (3 + length (snd e))"]
      by (simp add: length_raw_selection add.commute add.left_commute)
    with es show ?l unfolding parse_selections_Suc [OF Suc.prems] using Suc.IH [OF le] by blast
  qed
qed

lemma parsePCRSelectionList_Inr_iff:
  "parsePCRSelectionList C b = Inr (sel, rest) \<longleftrightarrow>
   (\<exists>es. length es < 4294967296 \<and> (\<forall>e \<in> set es. length (snd e) < 256) \<and>
      b = be_bytes 4 (length es) @ concat (map raw_selection es) @ rest \<and> sel = map raw_decoded es)"
  (is "?l \<longleftrightarrow> ?r")
proof
  assume ?l
  then obtain count off where c: "GetU32 C b 0 = Some count" and
    go: "parse_selections C b (unat count) 4 [] = Inr (sel, off)" and off: "off \<le> length b" "rest = drop off b"
    by (auto simp: parsePCRSelectionList_def res_iff)
  from c have len: "4 \<le> length b" and b: "b = be_bytes 4 (unat count) @ drop 4 b"
    using append_take_drop_id [of 4 b] by (auto simp: Get_iff)
  from go [unfolded parse_selections_Inr_iff [OF len]] obtain es rest' where es: "length es = unat count"
    "\<forall>e \<in> set es. length (snd e) < 256" "drop 4 b = concat (map raw_selection es) @ rest'"
    "off = 4 + length (concat (map raw_selection es))" "sel = map raw_decoded es"
    by auto
  have "rest = rest'"
    using arg_cong [OF es(3), of "drop (length (concat (map raw_selection es)))"] off es(4)
    by (simp add: add.commute)
  with es b show ?r by (intro exI [of _ es]) auto
next
  assume ?r
  then obtain es where es: "length es < 4294967296" "\<forall>e \<in> set es. length (snd e) < 256"
    "b = be_bytes 4 (length es) @ concat (map raw_selection es) @ rest" "sel = map raw_decoded es" by blast
  have n: "unat (of_nat (length es) :: u32) = length es" using es(1) by (simp add: unat_of_nat)
  have "parse_selections C b (length es) 4 [] = Inr (sel, 4 + length (concat (map raw_selection es)))"
    using es by (subst parse_selections_Inr_iff) auto
  with es n show ?l by (simp add: parsePCRSelectionList_def)
qed

lemma parse_selections_fails: "fails_only {ErrShortBuffer} (parse_selections C b n off acc)"
  by (induction n arbitrary: off acc) (auto simp: Let_def guard_Inr_iff intro!: fails_intros)

lemma parsePCRSelectionList_fails [fails_intros]:
  "ErrShortBuffer \<in> E \<Longrightarrow> fails_only E (parsePCRSelectionList C b)"
proof -
  have "fails_only {ErrShortBuffer} (parsePCRSelectionList C b)"
    unfolding parsePCRSelectionList_def
    by (intro fails_intros parse_selections_fails)
      (auto simp: need_Inr_iff parse_selections_Inr_iff dest!: get_Some_length arg_cong [where f = length])
  then show "ErrShortBuffer \<in> E \<Longrightarrow> ?thesis" by (auto simp: fails_only_iff)
qed

end

text \<open>
  C27. A marshalled selection list parses back, from the front of any buffer: the same banks in the
  same order, each with its PCRs in the window, and exactly the bytes after the list as the rest.
\<close>

theorem selection_list_roundtrip:
  assumes "byte_codec C" and "length sel < 4294967296"
  shows "parsePCRSelectionList C (marshalPCRSelectionList C sel @ rest) =
    Inr (map (\<lambda>s. s\<lparr>PCRs := in_window s\<rparr>) sel, rest)"
  using byte_codec.parse_marshalled [OF assms] by (simp add: decoded_def)

theorem selection_list_roundtrip_witness:
  "parsePCRSelectionList be_codec
     (marshalPCRSelectionList be_codec [\<lparr>Hash = 0xB, PCRs = [7, 0, 24, -1, 7]\<rparr>] @ [9]) =
   Inr ([\<lparr>Hash = 0xB, PCRs = [0, 7]\<rparr>], [9])"
  using selection_list_roundtrip [OF be.byte_codec_axioms, of "[\<lparr>Hash = 0xB, PCRs = [7, 0, 24, -1, 7]\<rparr>]" "[9]"]
  by (simp add: in_window_def upt_rec)



end
