(* ===== verification/Tpm.thy ===== *)
theory Tpm
  imports Codec
begin

text \<open>
  \<open>tpm.go\<close>: the handle of the command layer, the typed error of a command that fails, and
  \<open>execute\<close>, the one place where a command is sent: marshal, send, parse, and send again while
  the TPM answers \<open>TPM_RC_RETRY\<close>.

  What a command method does to its surroundings is a state transition on a \<open>world\<close>: the state
  of the device behind the transport, the state of the process-wide random source, and the trace
  of the effects in the order they happen (each \<open>Send\<close> with its bytes, each \<open>time.Sleep\<close> with
  its duration in nanoseconds).
\<close>

section \<open>Handles, errors and the world\<close>

definition TPM_RS_PW :: u32 where
  "TPM_RS_PW = 0x40000009"

definition hex_digit :: "nat \<Rightarrow> char" where
  "hex_digit n = ''0123456789ABCDEF'' ! n"

text \<open>The verb \<open>%08X\<close> on a \<open>uint32\<close>.\<close>

definition hex8 :: "u32 \<Rightarrow> string" where
  "hex8 v = map (\<lambda>i. hex_digit (unat v div 16 ^ i mod 16)) [7, 6, 5, 4, 3, 2, 1, 0]"

definition TPMError_Error :: "u32 \<Rightarrow> u32 \<Rightarrow> string" where
  "TPMError_Error cc rc = ''tpm2: command 0x'' @ hex8 cc @ '' failed: rc 0x'' @ hex8 rc"

text \<open>\<open>common.Transport\<close> has one method, \<open>Send(cmd) (rsp, error)\<close>, over a device state.\<close>

record 's TPM =
  transport :: "'s \<Rightarrow> bytes \<Rightarrow> bytes res \<times> 's"

definition New :: "('s \<Rightarrow> bytes \<Rightarrow> bytes res \<times> 's) \<Rightarrow> 's TPM" where
  "New t = \<lparr>transport = t\<rparr>"

datatype effect = Sent bytes | Slept nat

record ('s, 'r) world =
  dev :: 's
  rand :: 'r
  trace :: "effect list"

type_synonym ('s, 'r, 'a) cmd = "('s, 'r) world \<Rightarrow> 'a res \<times> ('s, 'r) world"

text \<open>Sequencing of command methods: the first error ends the method.\<close>

definition tbind :: "('s, 'r, 'a) cmd \<Rightarrow> ('a \<Rightarrow> ('s, 'r, 'b) cmd) \<Rightarrow> ('s, 'r, 'b) cmd" where
  "tbind m f w = (case m w of (Inl e, w') \<Rightarrow> (Inl e, w') | (Inr a, w') \<Rightarrow> f a w')"

definition lift :: "'a res \<Rightarrow> ('s, 'r, 'a) cmd" where
  "lift r w = (r, w)"

lemma tbind_Inl [simp]: "m w = (Inl e, w') \<Longrightarrow> tbind m f w = (Inl e, w')"
  by (simp add: tbind_def)

lemma tbind_Inr [simp]: "m w = (Inr a, w') \<Longrightarrow> tbind m f w = f a w'"
  by (simp add: tbind_def)

lemma tbind_lift_Inr [simp]: "tbind (lift (Inr a)) f = f a"
  by (simp add: tbind_def lift_def fun_eq_iff)

lemma lift_apply [simp]: "lift r w = (r, w)"
  by (simp add: lift_def)

section \<open>execute\<close>

definition rcRetry :: u32 where
  "rcRetry = 0x922"

definition retryLimit :: nat where
  "retryLimit = 6"

text \<open>Two milliseconds, in the nanoseconds of \<open>time.Duration\<close>.\<close>

definition retryBackoff :: nat where
  "retryBackoff = 2000000"

definition sent :: "bytes \<Rightarrow> 's \<Rightarrow> ('s, 'r) world \<Rightarrow> ('s, 'r) world" where
  "sent c s w = w\<lparr>dev := s, trace := trace w @ [Sent c]\<rparr>"

definition slept :: "nat \<Rightarrow> ('s, 'r) world \<Rightarrow> ('s, 'r) world" where
  "slept d w = w\<lparr>trace := trace w @ [Slept d]\<rparr>"

function execute_loop :: "codec \<Rightarrow> 's TPM \<Rightarrow> u32 \<Rightarrow> bytes \<Rightarrow> nat \<Rightarrow> ('s, 'r, bytes) cmd" where
  "execute_loop C tpm cc cmd attempt w =
     (case transport tpm (dev w) cmd of
        (Inl e, s) \<Rightarrow> (Inl e, sent cmd s w)
      | (Inr rsp, s) \<Rightarrow>
          (case ParseResponse C rsp of
             Inl e \<Rightarrow> (Inl e, sent cmd s w)
           | Inr (tag, rc, rp) \<Rightarrow>
               if rc = RCSuccess C then (Inr rp, sent cmd s w)
               else if rc \<noteq> rcRetry \<or> retryLimit \<le> attempt
               then (Inl (TPMError cc rc), sent cmd s w)
               else execute_loop C tpm cc cmd (attempt + 1)
                      (slept (push_bit attempt retryBackoff) (sent cmd s w))))"
  by pat_completeness auto
termination
  by (relation "measure (\<lambda>(C, tpm, cc, cmd, attempt, w). retryLimit + 1 - attempt)") auto

declare execute_loop.simps [simp del]

definition execute :: "codec \<Rightarrow> 's TPM \<Rightarrow> u16 \<Rightarrow> u32 \<Rightarrow> bytes \<Rightarrow> ('s, 'r, bytes) cmd" where
  "execute C tpm tag cc params = execute_loop C tpm cc (BuildCommand C tag cc params) 0"

section \<open>What execute promises\<close>

text \<open>
  The specification does not follow the loop: it says which reply of the device counts. The
  device is sent the same frame again and again; \<open>reply n\<close> is its answer to the send number
  \<open>n\<close>. The command is decided by the first reply that is not \<open>TPM_RC_RETRY\<close>, or by the reply
  number \<open>retryLimit\<close>, whatever it is.
\<close>

fun dev_after :: "'s TPM \<Rightarrow> bytes \<Rightarrow> 's \<Rightarrow> nat \<Rightarrow> 's" where
  "dev_after tpm c s 0 = s"
| "dev_after tpm c s (Suc n) = dev_after tpm c (snd (transport tpm s c)) n"

definition reply :: "'s TPM \<Rightarrow> bytes \<Rightarrow> 's \<Rightarrow> nat \<Rightarrow> bytes res" where
  "reply tpm c s n = fst (transport tpm (dev_after tpm c s n) c)"

definition busy :: "codec \<Rightarrow> bytes res \<Rightarrow> bool" where
  "busy C r = (case r of Inl e \<Rightarrow> False
     | Inr rsp \<Rightarrow> (case ParseResponse C rsp of Inl e \<Rightarrow> False
         | Inr (tag, rc, rp) \<Rightarrow> rc \<noteq> RCSuccess C \<and> rc = rcRetry))"

definition outcome :: "codec \<Rightarrow> u32 \<Rightarrow> bytes res \<Rightarrow> bytes res" where
  "outcome C cc r = rbind r (\<lambda>rsp. rbind (ParseResponse C rsp) (\<lambda>(tag, rc, rp).
     if rc = RCSuccess C then Inr rp else Inl (TPMError cc rc)))"

definition retries :: "codec \<Rightarrow> 's TPM \<Rightarrow> bytes \<Rightarrow> 's \<Rightarrow> nat" where
  "retries C tpm c s = length (takeWhile (busy C) (map (reply tpm c s) [0..<retryLimit]))"

fun retry_trace :: "bytes \<Rightarrow> nat \<Rightarrow> nat \<Rightarrow> effect list" where
  "retry_trace c attempt 0 = [Sent c]"
| "retry_trace c attempt (Suc k) =
     Sent c # Slept (retryBackoff * 2 ^ attempt) # retry_trace c (Suc attempt) k"

definition after_retries :: "'s TPM \<Rightarrow> bytes \<Rightarrow> nat \<Rightarrow> nat \<Rightarrow> ('s, 'r) world \<Rightarrow> ('s, 'r) world" where
  "after_retries tpm c attempt k w =
     w\<lparr>dev := dev_after tpm c (dev w) (Suc k), trace := trace w @ retry_trace c attempt k\<rparr>"

lemma reply_0: "reply tpm c s 0 = fst (transport tpm s c)"
  by (simp add: reply_def)

lemma reply_Suc: "reply tpm c s (Suc n) = reply tpm c (snd (transport tpm s c)) n"
  by (simp add: reply_def)

text \<open>One round of the loop, in the terms of the specification.\<close>

lemma execute_loop_step:
  "execute_loop C tpm cc c attempt w =
     (let s = snd (transport tpm (dev w) c); r = reply tpm c (dev w) 0
      in if busy C r \<and> attempt < retryLimit
         then execute_loop C tpm cc c (Suc attempt)
                (slept (retryBackoff * 2 ^ attempt) (sent c s w))
         else (outcome C cc r, sent c s w))"
proof (cases "transport tpm (dev w) c")
  case t: (Pair r s)
  show ?thesis
  proof (cases r)
    case (Inl e)
    with t show ?thesis
      by (simp add: execute_loop.simps [of C tpm cc c attempt w] reply_0 busy_def outcome_def)
  next
    case r: (Inr rsp)
    show ?thesis
    proof (cases "ParseResponse C rsp")
      case (Inl e)
      with t r show ?thesis
        by (simp add: execute_loop.simps [of C tpm cc c attempt w] reply_0 busy_def outcome_def)
    next
      case (Inr p)
      with t r show ?thesis
        by (cases p)
          (auto simp: execute_loop.simps [of C tpm cc c attempt w] reply_0 busy_def outcome_def
            push_bit_eq_mult not_less)
    qed
  qed
qed

lemma execute_loop_spec:
  assumes "\<forall>i < k. busy C (reply tpm c (dev w) i)"
    and "attempt + k \<le> retryLimit"
    and "attempt + k = retryLimit \<or> \<not> busy C (reply tpm c (dev w) k)"
  shows "execute_loop C tpm cc c attempt w =
    (outcome C cc (reply tpm c (dev w) k), after_retries tpm c attempt k w)"
  using assms
proof (induction k arbitrary: attempt w)
  case 0
  then show ?case
    by (subst execute_loop_step) (auto simp: Let_def after_retries_def sent_def)
next
  case (Suc k)
  let ?s = "snd (transport tpm (dev w) c)"
  let ?w = "slept (retryBackoff * 2 ^ attempt) (sent c ?s w)"
  have dev: "dev ?w = ?s" by (simp add: slept_def sent_def)
  have "busy C (reply tpm c (dev w) 0)" using Suc.prems(1) by blast
  moreover have "attempt < retryLimit" using Suc.prems(2) by simp
  ultimately have "execute_loop C tpm cc c attempt w = execute_loop C tpm cc c (Suc attempt) ?w"
    by (subst execute_loop_step) (simp add: Let_def)
  also have "\<dots> = (outcome C cc (reply tpm c (dev ?w) k), after_retries tpm c (Suc attempt) k ?w)"
  proof (rule Suc.IH)
    show "\<forall>i < k. busy C (reply tpm c (dev ?w) i)"
      unfolding dev using Suc.prems(1) by (simp flip: reply_Suc)
    show "Suc attempt + k \<le> retryLimit" using Suc.prems(2) by simp
    show "Suc attempt + k = retryLimit \<or> \<not> busy C (reply tpm c (dev ?w) k)"
      unfolding dev using Suc.prems(3) by (simp flip: reply_Suc)
  qed
  also have "after_retries tpm c (Suc attempt) k ?w = after_retries tpm c attempt (Suc k) w"
    by (simp add: after_retries_def slept_def sent_def)
  finally show ?case by (simp add: dev reply_Suc)
qed

lemma retries_spec:
  shows "\<forall>i < retries C tpm c s. busy C (reply tpm c s i)"
    and "retries C tpm c s \<le> retryLimit"
    and "retries C tpm c s = retryLimit \<or> \<not> busy C (reply tpm c s (retries C tpm c s))"
proof -
  let ?rs = "map (reply tpm c s) [0..<retryLimit]"
  have le: "retries C tpm c s \<le> retryLimit"
    unfolding retries_def using length_takeWhile_le [of "busy C" ?rs] by simp
  then show "retries C tpm c s \<le> retryLimit" .
  show "\<forall>i < retries C tpm c s. busy C (reply tpm c s i)"
  proof (intro allI impI)
    fix i assume i: "i < retries C tpm c s"
    then have "busy C (takeWhile (busy C) ?rs ! i)"
      unfolding retries_def by (metis nth_mem set_takeWhileD)
    then show "busy C (reply tpm c s i)"
      using i le by (simp add: takeWhile_nth retries_def)
  qed
  show "retries C tpm c s = retryLimit \<or> \<not> busy C (reply tpm c s (retries C tpm c s))"
  proof (cases "retries C tpm c s = retryLimit")
    case False
    with le have "retries C tpm c s < length ?rs" by simp
    then have "\<not> busy C (?rs ! retries C tpm c s)"
      unfolding retries_def by (rule nth_length_takeWhile)
    with False le show ?thesis by simp
  qed simp
qed

text \<open>
  C6. \<open>execute\<close> is its specification, on every device and from every world: the frame is sent
  once, then again as long as the answer is \<open>TPM_RC_RETRY\<close>, at most \<open>retryLimit\<close> more times; the
  result is decided by the last answer alone (the parameters of a success, the typed error of any
  other code, or the error of the transport or the parser, as they are); and the device and the
  trace are those of exactly these sends with a doubling pause before each of the repeated ones.
\<close>

theorem execute_refines_retry_spec:
  "execute C tpm tag cc params w =
     (let c = BuildCommand C tag cc params;
          k = retries C tpm c (dev w)
      in (outcome C cc (reply tpm c (dev w) k),
          w\<lparr>dev := dev_after tpm c (dev w) (Suc k), trace := trace w @ retry_trace c 0 k\<rparr>))"
  using execute_loop_spec [OF retries_spec(1), where attempt = 0] retries_spec(2,3)
  by (fastforce simp: execute_def after_retries_def Let_def)

lemma execute_eq:
  "execute C tpm tag cc params w =
     (outcome C cc (reply tpm (BuildCommand C tag cc params) (dev w)
        (retries C tpm (BuildCommand C tag cc params) (dev w))),
      after_retries tpm (BuildCommand C tag cc params) 0
        (retries C tpm (BuildCommand C tag cc params) (dev w)) w)"
  using execute_loop_spec [OF retries_spec(1), where attempt = 0] retries_spec(2,3)
  by (fastforce simp: execute_def)

section \<open>Bounds\<close>

fun sends :: "effect list \<Rightarrow> bytes list" where
  "sends [] = []"
| "sends (Sent c # es) = c # sends es"
| "sends (Slept d # es) = sends es"

fun pauses :: "effect list \<Rightarrow> nat list" where
  "pauses [] = []"
| "pauses (Sent c # es) = pauses es"
| "pauses (Slept d # es) = d # pauses es"

lemma sends_append [simp]: "sends (a @ b) = sends a @ sends b"
  by (induction a rule: sends.induct) simp_all

lemma sends_retry_trace: "sends (retry_trace c attempt k) = replicate (Suc k) c"
  by (induction k arbitrary: attempt) simp_all

lemma pauses_retry_trace:
  "sum_list (pauses (retry_trace c attempt k)) + retryBackoff * 2 ^ attempt =
   retryBackoff * 2 ^ (attempt + k)"
proof (induction k arbitrary: attempt)
  case 0
  then show ?case by simp
next
  case (Suc k)
  from Suc [of "Suc attempt"] show ?case by simp
qed

text \<open>
  C25. Whatever the device answers, \<open>execute\<close> returns after at most seven sends of one and the same
  frame and at most 126 milliseconds of sleep in total.
\<close>

theorem execute_bounded:
  "\<exists>es. trace (snd (execute C tpm tag cc params w)) = trace w @ es \<and>
     (\<exists>n. 1 \<le> n \<and> n \<le> retryLimit + 1 \<and> sends es = replicate n (BuildCommand C tag cc params)) \<and>
     sum_list (pauses es) \<le> 126 * 1000000"
proof -
  let ?c = "BuildCommand C tag cc params"
  let ?k = "retries C tpm ?c (dev w)"
  have k: "?k \<le> retryLimit" by (rule retries_spec(2))
  then have "(2::nat) ^ ?k \<le> 2 ^ 6" by (intro power_increasing) (simp_all add: retryLimit_def)
  then have "sum_list (pauses (retry_trace ?c 0 ?k)) \<le> 126 * 1000000"
    using pauses_retry_trace [of ?c 0 ?k] by (simp add: retryBackoff_def)
  moreover have "trace (snd (execute C tpm tag cc params w)) = trace w @ retry_trace ?c 0 ?k"
    by (simp add: execute_eq after_retries_def)
  moreover have "1 \<le> Suc ?k \<and> Suc ?k \<le> retryLimit + 1" using k by simp
  ultimately show ?thesis using sends_retry_trace by blast
qed

section \<open>The retry loop as a state machine\<close>

text \<open>
  The same loop as a step relation: before each send it is \<open>Trying\<close> with the number of the
  attempt; a step sends the frame once and either finishes or sleeps and tries again.
\<close>

datatype ('s, 'r) conf =
    Trying nat "('s, 'r) world"
  | Finished "bytes res" "('s, 'r) world"

inductive try_step :: "codec \<Rightarrow> 's TPM \<Rightarrow> u32 \<Rightarrow> bytes \<Rightarrow> ('s, 'r) conf \<Rightarrow> ('s, 'r) conf \<Rightarrow> bool"
  for C :: codec and tpm :: "'s TPM" and cc :: u32 and c :: bytes where
  send_fails: "transport tpm (dev w) c = (Inl e, s) \<Longrightarrow>
    try_step C tpm cc c (Trying n w) (Finished (Inl e) (sent c s w))"
| parse_fails: "\<lbrakk>transport tpm (dev w) c = (Inr rsp, s); ParseResponse C rsp = Inl e\<rbrakk> \<Longrightarrow>
    try_step C tpm cc c (Trying n w) (Finished (Inl e) (sent c s w))"
| succeeds: "\<lbrakk>transport tpm (dev w) c = (Inr rsp, s); ParseResponse C rsp = Inr (tag, RCSuccess C, rp)\<rbrakk> \<Longrightarrow>
    try_step C tpm cc c (Trying n w) (Finished (Inr rp) (sent c s w))"
| gives_up: "\<lbrakk>transport tpm (dev w) c = (Inr rsp, s); ParseResponse C rsp = Inr (tag, rc, rp);
      rc \<noteq> RCSuccess C; rc \<noteq> rcRetry \<or> retryLimit \<le> n\<rbrakk> \<Longrightarrow>
    try_step C tpm cc c (Trying n w) (Finished (Inl (TPMError cc rc)) (sent c s w))"
| retries_again: "\<lbrakk>transport tpm (dev w) c = (Inr rsp, s); ParseResponse C rsp = Inr (tag, rcRetry, rp);
      rcRetry \<noteq> RCSuccess C; n < retryLimit\<rbrakk> \<Longrightarrow>
    try_step C tpm cc c (Trying n w)
      (Trying (Suc n) (slept (retryBackoff * 2 ^ n) (sent c s w)))"

inductive_simps try_step_Finished [simp]: "try_step C tpm cc c (Finished r w) x"
inductive_cases try_step_TryingE: "try_step C tpm cc c (Trying n w) x"

inductive try_reach :: "codec \<Rightarrow> 's TPM \<Rightarrow> u32 \<Rightarrow> bytes \<Rightarrow> ('s, 'r) world \<Rightarrow> ('s, 'r) conf \<Rightarrow> bool"
  for C :: codec and tpm :: "'s TPM" and cc :: u32 and c :: bytes and w0 :: "('s, 'r) world" where
  reach_start: "try_reach C tpm cc c w0 (Trying 0 w0)"
| reach_step: "\<lbrakk>try_reach C tpm cc c w0 x; try_step C tpm cc c x y\<rbrakk> \<Longrightarrow> try_reach C tpm cc c w0 y"

text \<open>The loop from a configuration: what it returns there.\<close>

fun conf_result :: "codec \<Rightarrow> 's TPM \<Rightarrow> u32 \<Rightarrow> bytes \<Rightarrow> ('s, 'r) conf \<Rightarrow> bytes res \<times> ('s, 'r) world" where
  "conf_result C tpm cc c (Trying n w) = execute_loop C tpm cc c n w"
| "conf_result C tpm cc c (Finished r w) = (r, w)"

lemma try_step_result: "try_step C tpm cc c x y \<Longrightarrow> conf_result C tpm cc c x = conf_result C tpm cc c y"
  by (induction rule: try_step.induct) (auto simp: execute_loop.simps push_bit_eq_mult)

text \<open>Invariant of the reachable configurations, by rule induction.\<close>

lemma try_reach_result:
  "try_reach C tpm cc c w0 x \<Longrightarrow> conf_result C tpm cc c x = execute_loop C tpm cc c 0 w0"
  by (induction rule: try_reach.induct) (simp_all add: try_step_result)

lemma try_progress: "\<exists>y. try_step C tpm cc c (Trying n w) y"
proof (cases "transport tpm (dev w) c")
  case t: (Pair r s)
  show ?thesis
  proof (cases "rbind r (ParseResponse C)")
    case (Inl e)
    with t show ?thesis by (auto simp: res_iff intro: try_step.intros)
  next
    case (Inr p)
    obtain tag rc rp where p: "p = (tag, rc, rp)" by (cases p)
    from Inr obtain rsp where "r = Inr rsp" "ParseResponse C rsp = Inr (tag, rc, rp)"
      by (auto simp: res_iff p)
    with t have ok: "transport tpm (dev w) c = (Inr rsp, s)" by simp
    note parsed = \<open>ParseResponse C rsp = Inr (tag, rc, rp)\<close>
    consider "rc = RCSuccess C" | "rc \<noteq> RCSuccess C" "rc \<noteq> rcRetry \<or> retryLimit \<le> n"
      | "rc \<noteq> RCSuccess C" "rc = rcRetry" "n < retryLimit"
      by fastforce
    then show ?thesis
    proof cases
      case 1
      with parsed have "ParseResponse C rsp = Inr (tag, RCSuccess C, rp)" by simp
      with ok show ?thesis by (blast intro: try_step.succeeds)
    next
      case 2
      with ok parsed show ?thesis by (blast intro: try_step.gives_up)
    next
      case 3
      with ok parsed show ?thesis by (blast intro: try_step.retries_again)
    qed
  qed
qed

text \<open>Every run finishes: the attempts left go down with every step that does not.\<close>

lemma try_finishes:
  "try_reach C tpm cc c w0 (Trying n w) \<Longrightarrow> \<exists>r w'. try_reach C tpm cc c w0 (Finished r w')"
proof (induction "retryLimit + 1 - n" arbitrary: n w rule: less_induct)
  case less
  obtain y where y: "try_step C tpm cc c (Trying n w) y" using try_progress by blast
  with less.prems have reach: "try_reach C tpm cc c w0 y" by (rule try_reach.reach_step)
  show ?case
  proof (cases y)
    case (Finished r w')
    with reach show ?thesis by blast
  next
    case (Trying m w')
    with y have "m = Suc n" and "n < retryLimit" by (auto elim: try_step_TryingE)
    then have "retryLimit + 1 - m < retryLimit + 1 - n" by arith
    moreover have "try_reach C tpm cc c w0 (Trying m w')" using reach Trying by simp
    ultimately show ?thesis by (rule less.hyps)
  qed
qed


section \<open>Commands that are answered at once\<close>

text \<open>
  The device in state \<open>s\<close> answers the frame \<open>c\<close> with success and the parameters \<open>rp\<close>, and moves
  to \<open>s'\<close>; or it fails the frame: no answer, no parsable answer, or an error code other than
  \<open>TPM_RC_RETRY\<close>.
\<close>

definition answers :: "codec \<Rightarrow> 's TPM \<Rightarrow> 's \<Rightarrow> bytes \<Rightarrow> bytes \<Rightarrow> 's \<Rightarrow> bool" where
  "answers C tpm s c rp s' \<longleftrightarrow>
     (case transport tpm s c of
        (Inr rsp, t) \<Rightarrow>
          (case ParseResponse C rsp of Inr (tag, rc, p) \<Rightarrow> rc = RCSuccess C \<and> p = rp \<and> t = s'
           | Inl e \<Rightarrow> False)
      | (Inl e, t) \<Rightarrow> False)"

definition fails_with :: "codec \<Rightarrow> 's TPM \<Rightarrow> u32 \<Rightarrow> 's \<Rightarrow> bytes \<Rightarrow> err \<Rightarrow> 's \<Rightarrow> bool" where
  "fails_with C tpm cc s c e s' \<longleftrightarrow>
     outcome C cc (reply tpm c s 0) = Inl e \<and> \<not> busy C (reply tpm c s 0) \<and>
     s' = snd (transport tpm s c)"

lemma execute_answers:
  "answers C tpm (dev w) (BuildCommand C tag cc params) rp s' \<Longrightarrow>
   execute C tpm tag cc params w = (Inr rp, sent (BuildCommand C tag cc params) s' w)"
  by (auto simp: answers_def execute_def execute_loop.simps [of C tpm cc _ 0] split: prod.splits sum.splits)

lemma execute_fails:
  "fails_with C tpm cc (dev w) (BuildCommand C tag cc params) e s' \<Longrightarrow>
   execute C tpm tag cc params w = (Inl e, sent (BuildCommand C tag cc params) s' w)"
  by (simp add: fails_with_def execute_def execute_loop_step [where attempt = 0])

lemma dev_sent [simp]: "dev (sent c s w) = s"
  by (simp add: sent_def)

lemma trace_sent [simp]: "trace (sent c s w) = trace w @ [Sent c]"
  by (simp add: sent_def)

lemma rand_sent [simp]: "rand (sent c s w) = rand w"
  by (simp add: sent_def)

text \<open>A device that plays back a list of replies, for concrete runs.\<close>

fun playback :: "bytes list \<Rightarrow> bytes \<Rightarrow> bytes res \<times> bytes list" where
  "playback [] c = (Inl (External 0), [])"
| "playback (r # rs) c = (Inr r, rs)"

section \<open>The message of a TPMError\<close>

lemma hex_digit_inject: "m < 16 \<Longrightarrow> n < 16 \<Longrightarrow> hex_digit m = hex_digit n \<longleftrightarrow> m = n"
proof -
  have "distinct ''0123456789ABCDEF''" by code_simp
  then show "m < 16 \<Longrightarrow> n < 16 \<Longrightarrow> hex_digit m = hex_digit n \<longleftrightarrow> m = n"
    by (simp add: hex_digit_def nth_eq_iff_index_eq del: distinct.simps)
qed

lemma nibbles_unique:
  fixes a b :: nat
  assumes "a < 16 ^ n" "b < 16 ^ n" "\<forall>i < n. a div 16 ^ i mod 16 = b div 16 ^ i mod 16"
  shows "a = b"
  using assms
proof (induction n arbitrary: a b)
  case 0
  then show ?case by simp
next
  case (Suc n)
  have low: "a mod 16 = b mod 16" using Suc.prems(3) by (metis div_by_1 power_0 zero_less_Suc)
  have "a div 16 = b div 16"
  proof (rule Suc.IH)
    show "a div 16 < 16 ^ n" "b div 16 < 16 ^ n" using Suc.prems by (simp_all add: less_mult_imp_div_less)
    show "\<forall>i < n. a div 16 div 16 ^ i mod 16 = b div 16 div 16 ^ i mod 16"
    proof (intro allI impI)
      fix i assume "i < n"
      with Suc.prems(3) have "a div 16 ^ Suc i mod 16 = b div 16 ^ Suc i mod 16" by blast
      then show "a div 16 div 16 ^ i mod 16 = b div 16 div 16 ^ i mod 16"
        by (simp add: div_mult2_eq)
    qed
  qed
  with low show ?case by (metis div_mult_mod_eq)
qed

lemma hex8_inject: "hex8 v = hex8 w \<longleftrightarrow> v = w"
proof
  assume "hex8 v = hex8 w"
  then have "\<forall>i \<in> {7, 6, 5, 4, 3, 2, 1, 0}. unat v div 16 ^ i mod 16 = unat w div 16 ^ i mod 16"
    by (simp add: hex8_def hex_digit_inject)
  moreover have "{..<8} = {7, 6, 5, 4, 3, 2, 1, 0 :: nat}" by (auto simp: lessThan_def)
  ultimately have "\<forall>i < 8. unat v div 16 ^ i mod 16 = unat w div 16 ^ i mod 16"
    by (metis lessThan_iff)
  then have "unat v = unat w" by (intro nibbles_unique [where n = 8]) simp_all
  then show "v = w" by (simp add: word_unat_eq_iff)
qed simp

lemma length_hex8 [simp]: "length (hex8 v) = 8"
  by (simp add: hex8_def)

lemma fixed_field_inject:
  "length x = length x' \<Longrightarrow> a @ x @ b @ y = a @ x' @ b @ y' \<longleftrightarrow> x = x' \<and> y = y'"
  by auto

text \<open>
  The message of a \<open>TPMError\<close> identifies the failure: two messages are equal exactly when both
  the command code and the response code are.
\<close>

theorem TPMError_message_identifies:
  "TPMError_Error cc rc = TPMError_Error cc' rc' \<longleftrightarrow> cc = cc' \<and> rc = rc'"
proof -
  have "length (hex8 cc) = length (hex8 cc')" by simp
  then show ?thesis
    unfolding TPMError_Error_def by (rule fixed_field_inject [THEN trans]) (simp add: hex8_inject)
qed

end
