(* ===== verification/Commands.thy ===== *)
theory Commands
  imports Pcr Tpm
begin

text \<open>
  \<open>commands.go\<close>: the starter set of commands. Every method marshals its parameters, runs one
  \<open>execute\<close> and decodes the response parameters; \<open>tpm_call\<close> is that contract, and each method is
  an interpretation of it, as are the single-command methods of the other files.
\<close>

section \<open>Methods that run one command\<close>

text \<open>
  A transport and a parser that return error values instead of panicking: what a method can rely
  on to rule out its own run-time panics.
\<close>

definition calm :: "codec \<Rightarrow> 's TPM \<Rightarrow> bool" where
  "calm C tpm \<longleftrightarrow> (\<forall>s c. fst (transport tpm s c) \<noteq> Inl Panic) \<and> (\<forall>b. ParseResponse C b \<noteq> Inl Panic)"

lemma outcome_calm: "calm C tpm \<Longrightarrow> outcome C cc (reply tpm c s k) \<noteq> Inl Panic"
  by (auto simp: outcome_def calm_def reply_def res_iff split: if_splits)

text \<open>A method run in \<open>w\<close> sent the frame \<open>f\<close>, and nothing else, one to seven times.\<close>

definition sent_only :: "('s, 'r) world \<Rightarrow> bytes \<Rightarrow> 'a res \<times> ('s, 'r) world \<Rightarrow> bool" where
  "sent_only w f out \<longleftrightarrow>
     (\<exists>n \<in> {1..7}. sends (trace (snd out)) = sends (trace w) @ replicate n f)"

locale tpm_call =
  fixes C :: codec and tpm :: "'s TPM" and tag :: u16 and cc :: u32 and params :: bytes
    and response :: "bytes \<Rightarrow> 'a res" and run :: "('s, 'r, 'a) cmd"
  assumes run_eq: "run w = tbind (execute C tpm tag cc params) (\<lambda>rp. lift (response rp)) w"
begin

abbreviation command :: bytes where
  "command \<equiv> BuildCommand C tag cc params"

text \<open>What the method does on every device: the result of the last reply, decoded.\<close>

lemma result:
  "run w =
     (rbind (outcome C cc (reply tpm command (dev w) (retries C tpm command (dev w)))) response,
      after_retries tpm command 0 (retries C tpm command (dev w)) w)"
  by (simp add: run_eq tbind_def execute_eq split: sum.splits)

lemma answered: "answers C tpm (dev w) command rp s' \<Longrightarrow> run w = (response rp, sent command s' w)"
  by (simp add: run_eq execute_answers)

lemma failed: "fails_with C tpm cc (dev w) command e s' \<Longrightarrow> run w = (Inl e, sent command s' w)"
  by (simp add: run_eq execute_fails)

lemma no_panic: "calm C tpm \<Longrightarrow> (\<And>rp. response rp \<noteq> Inl Panic) \<Longrightarrow> fst (run w) \<noteq> Inl Panic"
  by (simp add: result res_iff outcome_calm)

text \<open>A result is the decoded parameters of some success reply of the device.\<close>

lemma returned:
  assumes "fst (run w) = Inr a"
  obtains rp where "outcome C cc (reply tpm command (dev w) (retries C tpm command (dev w))) = Inr rp"
    and "response rp = Inr a"
  using assms by (auto simp: result res_iff)

text \<open>The frames a method puts on the wire: its own command, once or, on retries, up to seven times.\<close>

lemma sends_only: "sent_only w command (run w)"
  using retries_spec(2) [of C tpm command "dev w"]
  by (auto simp: sent_only_def result after_retries_def sends_retry_trace retryLimit_def
      simp del: replicate_Suc intro!: bexI [of _ "Suc (retries C tpm command (dev w))"])

lemma sends_frame: "command = f \<Longrightarrow> sent_only w f (run w)"
  using sends_only by simp

lemma same_rand: "rand (snd (run w)) = rand w"
  by (simp add: result after_retries_def)

end

section \<open>The code\<close>

definition sessionContinue :: u8 where
  "sessionContinue = 0x01"

definition yesNo :: "bool \<Rightarrow> u8" where
  "yesNo b = (if b then 1 else 0)"

definition marshalPasswordAuth :: "codec \<Rightarrow> bytes" where
  "marshalPasswordAuth C =
     (let out = PutU32 C [] TPM_RS_PW;
          out = PutU16 C out 0;
          out = PutU8 C out sessionContinue
      in PutU16 C out 0)"

definition Startup :: "codec \<Rightarrow> 's TPM \<Rightarrow> u16 \<Rightarrow> ('s, 'r, unit) cmd" where
  "Startup C tpm su =
     tbind (execute C tpm (TagNoSessions C) (CCStartup C) (PutU16 C [] su)) (\<lambda>_. lift (Inr ()))"

definition Shutdown :: "codec \<Rightarrow> 's TPM \<Rightarrow> u16 \<Rightarrow> ('s, 'r, unit) cmd" where
  "Shutdown C tpm su =
     tbind (execute C tpm (TagNoSessions C) (CCShutdown C) (PutU16 C [] su)) (\<lambda>_. lift (Inr ()))"

definition SelfTest :: "codec \<Rightarrow> 's TPM \<Rightarrow> bool \<Rightarrow> ('s, 'r, unit) cmd" where
  "SelfTest C tpm full =
     tbind (execute C tpm (TagNoSessions C) (CCSelfTest C) (PutU8 C [] (yesNo full))) (\<lambda>_. lift (Inr ()))"

definition GetRandom_response :: "codec \<Rightarrow> bytes \<Rightarrow> bytes res" where
  "GetRandom_response C rp = rbind (UnmarshalTPM2B C rp) (\<lambda>(val, _). Inr val)"

definition GetRandom :: "codec \<Rightarrow> 's TPM \<Rightarrow> u16 \<Rightarrow> ('s, 'r, bytes) cmd" where
  "GetRandom C tpm n =
     tbind (execute C tpm (TagNoSessions C) (CCGetRandom C) (PutU16 C [] n))
       (\<lambda>rp. lift (GetRandom_response C rp))"

definition GetCapability_params :: "codec \<Rightarrow> u32 \<Rightarrow> u32 \<Rightarrow> u32 \<Rightarrow> bytes" where
  "GetCapability_params C cap property count = PutU32 C (PutU32 C (PutU32 C [] cap) property) count"

definition GetCapability_response :: "codec \<Rightarrow> bytes \<Rightarrow> (bool \<times> bytes) res" where
  "GetCapability_response C rp =
     rbind (need (GetU8 C rp 0)) (\<lambda>flag.
     rbind (slice_from rp 1) (\<lambda>blob. Inr (flag \<noteq> 0, blob)))"

definition GetCapability :: "codec \<Rightarrow> 's TPM \<Rightarrow> u32 \<Rightarrow> u32 \<Rightarrow> u32 \<Rightarrow> ('s, 'r, bool \<times> bytes) cmd" where
  "GetCapability C tpm cap property count =
     tbind (execute C tpm (TagNoSessions C) (CCGetCapability C) (GetCapability_params C cap property count))
       (\<lambda>rp. lift (GetCapability_response C rp))"

fun read_digests :: "codec \<Rightarrow> nat \<Rightarrow> bytes \<Rightarrow> bytes list \<Rightarrow> bytes list res" where
  "read_digests C 0 rest digests = Inr digests"
| "read_digests C (Suc n) rest digests =
     rbind (UnmarshalTPM2B C rest) (\<lambda>(val, after). read_digests C n after (digests @ [val]))"

definition PCRRead_response :: "codec \<Rightarrow> bytes \<Rightarrow> (u32 \<times> bytes list) res" where
  "PCRRead_response C rp =
     rbind (need (GetU32 C rp 0)) (\<lambda>updateCounter.
     rbind (slice_from rp 4) (\<lambda>rp4.
     rbind (parsePCRSelectionList C rp4) (\<lambda>(_, rest).
     rbind (need (GetU32 C rest 0)) (\<lambda>count.
     rbind (slice_from rest 4) (\<lambda>rest.
     rbind (read_digests C (unat count) rest []) (\<lambda>digests. Inr (updateCounter, digests)))))))"

definition PCRRead :: "codec \<Rightarrow> 's TPM \<Rightarrow> PCRSelection list \<Rightarrow> ('s, 'r, u32 \<times> bytes list) cmd" where
  "PCRRead C tpm sel =
     tbind (execute C tpm (TagNoSessions C) (CCPCRRead C) (marshalPCRSelectionList C sel))
       (\<lambda>rp. lift (PCRRead_response C rp))"

text \<open>\<open>uint32(pcr)\<close> keeps the low 32 bits of the \<open>int\<close>.\<close>

definition PCRExtend_body :: "codec \<Rightarrow> int \<Rightarrow> u16 \<Rightarrow> bytes \<Rightarrow> bytes" where
  "PCRExtend_body C pcr hash digest =
     (let body = PutU32 C [] (of_int pcr);
          auth = marshalPasswordAuth C;
          body = PutU32 C body (of_nat (length auth));
          body = body @ auth;
          body = PutU32 C body 1;
          body = PutU16 C body hash
      in body @ digest)"

definition PCRExtend :: "codec \<Rightarrow> 's TPM \<Rightarrow> int \<Rightarrow> u16 \<Rightarrow> bytes \<Rightarrow> ('s, 'r, unit) cmd" where
  "PCRExtend C tpm pcr hash digest =
     tbind (execute C tpm (TagSessions C) (CCPCRExtend C) (PCRExtend_body C pcr hash digest))
       (\<lambda>_. lift (Inr ()))"

section \<open>Each method meets the contract\<close>

interpretation startup: tpm_call C tpm "TagNoSessions C" "CCStartup C" "PutU16 C [] su"
  "\<lambda>_. Inr ()" "Startup C tpm su" for C tpm su
  by unfold_locales (simp add: Startup_def)

interpretation shutdown: tpm_call C tpm "TagNoSessions C" "CCShutdown C" "PutU16 C [] su"
  "\<lambda>_. Inr ()" "Shutdown C tpm su" for C tpm su
  by unfold_locales (simp add: Shutdown_def)

interpretation selftest: tpm_call C tpm "TagNoSessions C" "CCSelfTest C" "PutU8 C [] (yesNo full)"
  "\<lambda>_. Inr ()" "SelfTest C tpm full" for C tpm full
  by unfold_locales (simp add: SelfTest_def)

interpretation getrandom: tpm_call C tpm "TagNoSessions C" "CCGetRandom C" "PutU16 C [] n"
  "GetRandom_response C" "GetRandom C tpm n" for C tpm n
  by unfold_locales (simp add: GetRandom_def)

interpretation getcap: tpm_call C tpm "TagNoSessions C" "CCGetCapability C"
  "GetCapability_params C cap property count" "GetCapability_response C"
  "GetCapability C tpm cap property count" for C tpm cap property count
  by unfold_locales (simp add: GetCapability_def)

interpretation pcrread: tpm_call C tpm "TagNoSessions C" "CCPCRRead C"
  "marshalPCRSelectionList C sel" "PCRRead_response C" "PCRRead C tpm sel" for C tpm sel
  by unfold_locales (simp add: PCRRead_def)

interpretation pcrextend: tpm_call C tpm "TagSessions C" "CCPCRExtend C"
  "PCRExtend_body C pcr hash digest" "\<lambda>_. Inr ()" "PCRExtend C tpm pcr hash digest"
  for C tpm pcr hash digest
  by unfold_locales (simp add: PCRExtend_def)

section \<open>The bytes of the commands and responses\<close>

text \<open>The password session over the empty authValue, as the TPM reads it.\<close>

definition password_auth :: bytes where
  "password_auth = be_bytes 4 0x40000009 @ [0, 0] @ [1] @ [0, 0]"

lemma length_password_auth [simp]: "length password_auth = 9"
  by (simp add: password_auth_def)

definition digest_list :: "bytes list \<Rightarrow> bytes" where
  "digest_list ds = be_bytes 4 (length ds) @ concat (map tpm2b ds)"

context byte_codec
begin

lemma marshalPasswordAuth_eq: "marshalPasswordAuth C = password_auth"
  by (simp add: marshalPasswordAuth_def password_auth_def puts TPM_RS_PW_def sessionContinue_def be_eval)

lemma read_digests_marshalled:
  "\<forall>d \<in> set ds. length d < 65536 \<Longrightarrow>
   read_digests C (length ds) (concat (map tpm2b ds) @ rest) acc = Inr (acc @ ds)"
  by (induction ds arbitrary: acc) (simp_all add: UnmarshalTPM2B)

lemma read_digests_errors: "read_digests C n b acc = Inl e \<Longrightarrow> e = ErrShortBuffer"
  by (induction n arbitrary: b acc) (auto simp: res_iff dest: UnmarshalTPM2B_Inl)

lemma parse_selection_errors: "parsePCRSelectionList C b = Inl e \<Longrightarrow> e = ErrShortBuffer"
  using parsePCRSelectionList_fails [of "{ErrShortBuffer}" b] by (simp add: fails_only_iff)

lemma PCRRead_response_ok:
  assumes "length sel < 4294967296" "length ds < 4294967296" "\<forall>d \<in> set ds. length d < 65536"
  shows "PCRRead_response C
      (be_bytes 4 (unat counter) @ marshalPCRSelectionList C sel @ digest_list ds @ rest)
    = Inr (counter, ds)"
  using assms
  by (simp add: PCRRead_response_def parse_marshalled digest_list_def unat_of_nat
      read_digests_marshalled)

text \<open>On any response: the only error of the decoders is the short buffer.\<close>

lemma response_errors:
  "GetRandom_response C rp = Inl e \<Longrightarrow> e = ErrShortBuffer"
  "GetCapability_response C rp = Inl e \<Longrightarrow> e = ErrShortBuffer"
  "PCRRead_response C rp = Inl e \<Longrightarrow> e = ErrShortBuffer"
  by (auto simp: GetRandom_response_def GetCapability_response_def PCRRead_response_def res_iff
      dest: UnmarshalTPM2B_Inl get_Some_length parse_selection_errors read_digests_errors)

lemma PCRExtend_body_eq:
  "PCRExtend_body C pcr hash digest =
   be_bytes 4 (unat (of_int pcr :: u32)) @ be_bytes 4 9 @ password_auth @ be_bytes 4 1 @
   be_bytes 2 (unat hash) @ digest"
  by (simp add: PCRExtend_body_def puts marshalPasswordAuth_eq)

end

context wire_codec
begin

lemma frames:
  "length params < 4294967286 \<Longrightarrow> BuildCommand C (TagNoSessions C) cc params = frame 0x8001 cc params"
  "length params < 4294967286 \<Longrightarrow> BuildCommand C (TagSessions C) cc params = frame 0x8002 cc params"
  by (simp_all add: BuildCommand TagNoSessions TagSessions)

lemmas to_wire = frames puts command_codes

end

section \<open>Properties\<close>

text \<open>
  C40. The bytes of the starter commands. On every device each method puts exactly one frame on the
  wire, repeated only by the retry loop: the tag, the size, the command code of the specification and
  the big-endian parameters; \<open>PCRExtend\<close> the handle, the nine-byte password session behind its size,
  the count 1, the hash and the digest.
\<close>

theorem starter_command_frames:
  assumes "wire_codec C" and "6 * length sel < 4294967200" and "length digest < 4294967200"
  shows "sent_only w (frame 0x8001 0x144 (be_bytes 2 (unat su))) (Startup C tpm su w) \<and>
    sent_only w (frame 0x8001 0x145 (be_bytes 2 (unat su))) (Shutdown C tpm su w) \<and>
    sent_only w (frame 0x8001 0x143 [if full then 1 else 0]) (SelfTest C tpm full w) \<and>
    sent_only w (frame 0x8001 0x17B (be_bytes 2 (unat n))) (GetRandom C tpm n w) \<and>
    sent_only w (frame 0x8001 0x17A
      (be_bytes 4 (unat cap) @ be_bytes 4 (unat property) @ be_bytes 4 (unat count)))
      (GetCapability C tpm cap property count w) \<and>
    sent_only w (frame 0x8001 0x17E (be_bytes 4 (length sel) @ concat (map selection_bytes sel)))
      (PCRRead C tpm sel w) \<and>
    sent_only w (frame 0x8002 0x182
      (be_bytes 4 (unat (of_int pcr :: u32)) @ be_bytes 4 9 @
       (be_bytes 4 0x40000009 @ [0, 0] @ [1] @ [0, 0]) @
       be_bytes 4 1 @ be_bytes 2 (unat hash) @ digest))
      (PCRExtend C tpm pcr hash digest w)"
proof -
  note wire = wire_codec.to_wire [OF assms(1)]
  note bc = wire_codec.axioms(1) [OF assms(1)]
  have sel: "unat (of_nat (length sel) :: u32) = length sel"
    using assms(2) by (simp add: unat_of_nat)
  show ?thesis
    by (intro conjI; rule startup.sends_frame shutdown.sends_frame selftest.sends_frame
        getrandom.sends_frame getcap.sends_frame pcrread.sends_frame pcrextend.sends_frame)
      (use assms(2,3) in \<open>simp_all add: wire yesNo_def GetCapability_params_def sel
        byte_codec.marshalPCRSelectionList_eq [OF bc] byte_codec.PCRExtend_body_eq [OF bc]
        password_auth_def length_concat comp_def sum_list_triv\<close>)
qed

theorem starter_command_frames_witness:
  "sent_only \<lparr>dev = [], rand = (), trace = []\<rparr>
    (frame 0x8002 0x182 ([0, 0, 0, 7] @ [0, 0, 0, 9] @ [0x40, 0, 0, 9, 0, 0, 1, 0, 0] @ [0, 0, 0, 1] @ [0, 0xB] @ [5]))
    (PCRExtend be_codec (New playback) 7 0xB [5] \<lparr>dev = [], rand = (), trace = []\<rparr>)"
  using starter_command_frames [OF be.wire_codec_axioms, where sel = "[]" and digest = "[5]" and
      w = "\<lparr>dev = [], rand = (), trace = []\<rparr>" and tpm = "New playback" and pcr = 7 and hash = "0xB" and
      su = 0 and full = True and n = 0 and cap = 0 and property = 0 and count = 0]
  by (simp add: be_eval)

text \<open>
  C28. Reading PCRs. When the TPM answers with a counter, a selection list and a digest list,
  \<open>PCRRead\<close> returns the counter and exactly these digests in the order of the response, whatever
  selection is echoed and whatever follows the list; one frame was sent.
\<close>

theorem PCRRead_returns_digests:
  assumes "wire_codec C" and "6 * length sel < 4294967200"
    and "length echoed < 4294967296" "length ds < 4294967296" "\<forall>d \<in> set ds. length d < 65536"
    and "answers C tpm (dev w)
      (frame 0x8001 0x17E (be_bytes 4 (length sel) @ concat (map selection_bytes sel)))
      (be_bytes 4 (unat counter) @ (be_bytes 4 (length echoed) @ concat (map selection_bytes echoed)) @
       (be_bytes 4 (length ds) @ concat (map tpm2b ds)) @ rest) s'"
  shows "PCRRead C tpm sel w =
    (Inr (counter, ds),
     w\<lparr>dev := s', trace := trace w @ [Sent (frame 0x8001 0x17E
        (be_bytes 4 (length sel) @ concat (map selection_bytes sel)))]\<rparr>)"
proof -
  note wire = wire_codec.to_wire [OF assms(1)]
  note bc = wire_codec.axioms(1) [OF assms(1)]
  note marshal = byte_codec.marshalPCRSelectionList_eq [OF bc]
  have "BuildCommand C (TagNoSessions C) (CCPCRRead C) (marshalPCRSelectionList C sel)
      = frame 0x8001 0x17E (be_bytes 4 (length sel) @ concat (map selection_bytes sel))"
    using assms(2) by (simp add: wire marshal unat_of_nat length_concat comp_def sum_list_triv)
  with pcrread.answered [of C tpm w sel] assms(6)
    byte_codec.PCRRead_response_ok [OF bc assms(3,4,5), of counter rest]
  show ?thesis
    using assms(3) by (simp add: marshal digest_list_def sent_def unat_of_nat)
qed

theorem PCRRead_returns_digests_witness:
  "PCRRead be_codec (New playback) [\<lparr>Hash = 0xB, PCRs = [0]\<rparr>]
     \<lparr>dev = [frame 0x8001 0 ([0, 0, 0, 21] @ ([0, 0, 0, 1] @ [0, 0xB, 3, 1, 0, 0]) @
        ([0, 0, 0, 1] @ [0, 2, 0xAA, 0xBB]))], rand = (), trace = []\<rparr> =
   (Inr (21, [[0xAA, 0xBB]]),
    \<lparr>dev = [], rand = (), trace = [Sent (frame 0x8001 0x17E [0, 0, 0, 1, 0, 0xB, 3, 1, 0, 0])]\<rparr>)"
proof -
  have bm: "selection_bytes \<lparr>Hash = 0xB, PCRs = [0]\<rparr> = [0, 0xB, 3, 1, 0, 0]"
    by (simp add: selection_bytes_def bitmap_def set_pcr_def pcrSelectSize_def go_div_def go_mod_def
        be_eval numeral_3_eq_3)
  let ?sel = "[\<lparr>Hash = 0xB, PCRs = [0]\<rparr>]"
  show ?thesis
    by (subst PCRRead_returns_digests [OF be.wire_codec_axioms, where echoed = ?sel and
          ds = "[[0xAA, 0xBB]]" and counter = 21 and rest = "[]" and s' = "[]"])
      (simp_all add: bm answers_def New_def be_eval tpm2b_def be_codec_def be_ParseResponse_def frame_def)
qed

lemma calm_playback: "calm be_codec (New playback)"
proof -
  have "fst (playback s c) \<noteq> Inl Panic" for s c
    by (cases s) simp_all
  then show ?thesis
    by (simp add: calm_def New_def be_codec_def be_ParseResponse_def)
qed

end
