(* ===== verification/Capability.thy ===== *)
theory Capability
  imports Commands
begin

text \<open>
  \<open>capability.go\<close>: the typed decoders over \<open>GetCapability\<close>. The three lists of fixed-width
  entries (tagged properties, algorithms, handles) are one contract, \<open>counted_list\<close>: a loop over
  an announced number of entries, each read at a running offset.
\<close>

section \<open>Lists of fixed-width entries\<close>

locale counted_list =
  fixes read :: "bytes \<Rightarrow> nat \<Rightarrow> nat \<Rightarrow> 'e list \<Rightarrow> 'e list res"
    and enc :: "'e \<Rightarrow> bytes"
    and dec :: "bytes \<Rightarrow> 'e"
    and width :: nat
  assumes read_0: "read b 0 off acc = Inr acc"
    and read_Suc: "read b (Suc n) off acc =
      (if off + width \<le> length b
       then read b n (off + width) (acc @ [dec (take width (drop off b))])
       else Inl ErrShortBuffer)"
    and dec_enc: "dec (enc e) = e"
    and enc_dec: "length b = width \<Longrightarrow> enc (dec b) = b"
    and length_enc: "length (enc e) = width"
begin

text \<open>The encoded entries of a list, side by side.\<close>

abbreviation encs :: "'e list \<Rightarrow> bytes" where
  "encs es \<equiv> concat (map enc es)"

lemma length_encs: "length (encs es) = length es * width"
  by (induction es) (simp_all add: length_enc)

lemma read_encoded: "read (pre @ encs es @ rest) (length es) (length pre) acc = Inr (acc @ es)"
proof (induction es arbitrary: pre acc)
  case Nil
  then show ?case by (simp add: read_0)
next
  case (Cons e es)
  from Cons [of "pre @ enc e" "acc @ [e]"] show ?case
    by (simp add: read_Suc length_enc dec_enc)
qed

lemma read_ok:
  "off + n * width \<le> length b \<Longrightarrow>
   \<exists>es. read b n off acc = Inr (acc @ es) \<and> length es = n \<and> encs es = take (n * width) (drop off b)"
proof (induction n arbitrary: off acc)
  case 0
  then show ?case by (simp add: read_0)
next
  case (Suc n)
  let ?x = "take width (drop off b)"
  have x: "enc (dec ?x) = ?x" using Suc.prems by (intro enc_dec) simp
  have step: "read b (Suc n) off acc = read b n (off + width) (acc @ [dec ?x])"
    using Suc.prems by (simp add: read_Suc)
  obtain es where es: "read b n (off + width) (acc @ [dec ?x]) = Inr ((acc @ [dec ?x]) @ es)"
    "length es = n" "encs es = take (n * width) (drop (off + width) b)"
    using Suc.IH [of "off + width" "acc @ [dec ?x]"] Suc.prems by (auto simp: add.assoc)
  have "encs (dec ?x # es) = take (Suc n * width) (drop off b)"
    using x es(3) by (simp add: take_add add.commute)
  with step es(1,2) show ?case by (intro exI [of _ "dec ?x # es"]) simp
qed

lemma read_short:
  "off \<le> length b \<Longrightarrow> length b < off + n * width \<Longrightarrow> read b n off acc = Inl ErrShortBuffer"
  by (induction n arbitrary: off acc) (simp_all add: read_Suc)

text \<open>
  The loop decided on every buffer: it returns the entries exactly when they all are there, and
  fails with the short-buffer error otherwise.
\<close>

lemma read_Inr_iff:
  assumes "off \<le> length b"
  shows "read b n off acc = Inr r \<longleftrightarrow>
    (\<exists>es rest. r = acc @ es \<and> length es = n \<and> drop off b = encs es @ rest)"
proof
  assume h: "read b n off acc = Inr r"
  with assms have le: "off + n * width \<le> length b" using read_short [of off b n acc] by fastforce
  from read_ok [OF le, of acc] h obtain es
    where "r = acc @ es" "length es = n" "encs es = take (n * width) (drop off b)" by auto
  then show "\<exists>es rest. r = acc @ es \<and> length es = n \<and> drop off b = encs es @ rest"
    by (metis append_take_drop_id)
next
  assume "\<exists>es rest. r = acc @ es \<and> length es = n \<and> drop off b = encs es @ rest"
  then obtain es rest where "r = acc @ es" "length es = n" "drop off b = encs es @ rest" by blast
  moreover have "b = take off b @ drop off b" by simp
  ultimately show "read b n off acc = Inr r"
    using read_encoded [of "take off b" es rest acc] assms by simp
qed

lemma read_Inl: "off \<le> length b \<Longrightarrow> read b n off acc = Inl e \<Longrightarrow> e = ErrShortBuffer"
  using read_ok [of off n b acc] read_short [of off b n acc] by (cases "off + n * width \<le> length b") auto

end

text \<open>The counted list as a field: the number of entries as a UINT32, then the entries.\<close>

locale counted_field = byte_codec C + counted_list read enc dec width
  for C :: codec and read :: "bytes \<Rightarrow> nat \<Rightarrow> nat \<Rightarrow> 'e list \<Rightarrow> 'e list res"
    and enc dec width
begin

abbreviation parse :: "bytes \<Rightarrow> 'e list res" where
  "parse b \<equiv> rbind (need (GetU32 C b 0)) (\<lambda>n. read b (unat n) 4 [])"

lemma parse_Inr_iff:
  "parse b = Inr es \<longleftrightarrow> length es < 4294967296 \<and> (\<exists>rest. b = be_bytes 4 (length es) @ encs es @ rest)"
proof
  assume "parse b = Inr es"
  then obtain n where n: "GetU32 C b 0 = Some n" and r: "read b (unat n) 4 [] = Inr es"
    by (auto simp: res_iff)
  from n have len: "4 \<le> length b" and "n = of_nat (be_nat (take 4 b))"
    by (auto simp: GetU32 split: if_splits)
  then have front: "take 4 b = be_bytes 4 (unat n)"
    using be_nat_less [of "take 4 b"] by (simp add: unat_of_nat)
  from r read_Inr_iff [OF len] obtain rest
    where "length es = unat n" "drop 4 b = encs es @ rest" by auto
  then show "length es < 4294967296 \<and> (\<exists>rest. b = be_bytes 4 (length es) @ encs es @ rest)"
    using front append_take_drop_id [of 4 b] by auto
next
  assume "length es < 4294967296 \<and> (\<exists>rest. b = be_bytes 4 (length es) @ encs es @ rest)"
  then obtain rest where b: "b = be_bytes 4 (length es) @ encs es @ rest"
    and n: "unat (of_nat (length es) :: u32) = length es" by (auto simp: unat_of_nat)
  have "read b (length es) 4 [] = Inr es"
    using read_encoded [of "be_bytes 4 (length es)" es rest "[]"] by (simp add: b)
  then show "parse b = Inr es" by (simp add: b n)
qed

lemma parse_Inl: "parse b = Inl e \<Longrightarrow> e = ErrShortBuffer"
  by (auto simp: res_iff dest: get_Some_length dest!: read_Inl [rotated])

end

section \<open>The code\<close>

definition capAlgs :: u32 where "capAlgs = 0x00000000"
definition capHandles :: u32 where "capHandles = 0x00000001"
definition capPCRs :: u32 where "capPCRs = 0x00000005"
definition capTPMProperties :: u32 where "capTPMProperties = 0x00000006"

definition PTFixed :: u32 where "PTFixed = 0x00000100"
definition PTManufacturer :: u32 where "PTManufacturer = PTFixed + 5"

definition maxPCRBanks :: u32 where "maxPCRBanks = 16"

record TaggedProperty =
  Property :: u32
  Value :: u32

record AlgProperty =
  Alg :: u16
  Attributes :: u32

text \<open>The part of \<open>getCapabilityData\<close> after the command.\<close>

definition check_echoed :: "codec \<Rightarrow> u32 \<Rightarrow> bytes \<Rightarrow> bytes res" where
  "check_echoed C capSel data =
     rbind (need (GetU32 C data 0)) (\<lambda>echoed.
     rbind (guard (echoed = capSel) ErrUnexpectedCapability) (\<lambda>_.
     slice_from data 4))"

definition getCapabilityData :: "codec \<Rightarrow> 's TPM \<Rightarrow> u32 \<Rightarrow> u32 \<Rightarrow> u32 \<Rightarrow> ('s, 'r, bytes) cmd" where
  "getCapabilityData C tpm capSel property count =
     tbind (GetCapability C tpm capSel property count)
       (\<lambda>(_, data). lift (check_echoed C capSel data))"

definition GetPCRBanks :: "codec \<Rightarrow> 's TPM \<Rightarrow> ('s, 'r, PCRSelection list) cmd" where
  "GetPCRBanks C tpm =
     tbind (getCapabilityData C tpm capPCRs 0 maxPCRBanks) (\<lambda>member.
       lift (rbind (parsePCRSelectionList C member) (\<lambda>(sel, _). Inr sel)))"

fun read_properties :: "codec \<Rightarrow> bytes \<Rightarrow> nat \<Rightarrow> nat \<Rightarrow> TaggedProperty list \<Rightarrow> TaggedProperty list res" where
  "read_properties C member 0 off out = Inr out"
| "read_properties C member (Suc n) off out =
     rbind (need (GetU32 C member off)) (\<lambda>property.
     rbind (need (GetU32 C member (off + 4))) (\<lambda>v.
     read_properties C member n (off + 8) (out @ [\<lparr>Property = property, Value = v\<rparr>])))"

definition GetTPMProperties :: "codec \<Rightarrow> 's TPM \<Rightarrow> u32 \<Rightarrow> u32 \<Rightarrow> ('s, 'r, TaggedProperty list) cmd" where
  "GetTPMProperties C tpm firstProp count =
     tbind (getCapabilityData C tpm capTPMProperties firstProp count) (\<lambda>member.
       lift (rbind (need (GetU32 C member 0)) (\<lambda>n. read_properties C member (unat n) 4 [])))"

definition GetManufacturer :: "codec \<Rightarrow> 's TPM \<Rightarrow> ('s, 'r, u32) cmd" where
  "GetManufacturer C tpm =
     tbind (GetTPMProperties C tpm PTManufacturer 1) (\<lambda>props.
       lift (if length props = 0 \<or> Property (props ! 0) \<noteq> PTManufacturer
             then Inl ErrPropertyNotFound else Inr (Value (props ! 0))))"

fun read_algs :: "codec \<Rightarrow> bytes \<Rightarrow> nat \<Rightarrow> nat \<Rightarrow> AlgProperty list \<Rightarrow> AlgProperty list res" where
  "read_algs C member 0 off out = Inr out"
| "read_algs C member (Suc n) off out =
     rbind (need (GetU16 C member off)) (\<lambda>alg.
     rbind (need (GetU32 C member (off + 2))) (\<lambda>attrs.
     read_algs C member n (off + 6) (out @ [\<lparr>Alg = alg, Attributes = attrs\<rparr>])))"

definition GetAlgorithms :: "codec \<Rightarrow> 's TPM \<Rightarrow> u32 \<Rightarrow> u32 \<Rightarrow> ('s, 'r, AlgProperty list) cmd" where
  "GetAlgorithms C tpm firstAlg count =
     tbind (getCapabilityData C tpm capAlgs firstAlg count) (\<lambda>member.
       lift (rbind (need (GetU32 C member 0)) (\<lambda>n. read_algs C member (unat n) 4 [])))"

fun read_handles :: "codec \<Rightarrow> bytes \<Rightarrow> nat \<Rightarrow> nat \<Rightarrow> u32 list \<Rightarrow> u32 list res" where
  "read_handles C member 0 off out = Inr out"
| "read_handles C member (Suc n) off out =
     rbind (need (GetU32 C member off)) (\<lambda>h. read_handles C member n (off + 4) (out @ [h]))"

definition GetHandles :: "codec \<Rightarrow> 's TPM \<Rightarrow> u32 \<Rightarrow> u32 \<Rightarrow> ('s, 'r, u32 list) cmd" where
  "GetHandles C tpm firstHandle count =
     tbind (getCapabilityData C tpm capHandles firstHandle count) (\<lambda>member.
       lift (rbind (need (GetU32 C member 0)) (\<lambda>n. read_handles C member (unat n) 4 [])))"

section \<open>The three lists are counted lists\<close>

definition property_bytes :: "TaggedProperty \<Rightarrow> bytes" where
  "property_bytes p = be_bytes 4 (unat (Property p)) @ be_bytes 4 (unat (Value p))"

definition bytes_property :: "bytes \<Rightarrow> TaggedProperty" where
  "bytes_property b =
     \<lparr>Property = of_nat (be_nat (take 4 b)), Value = of_nat (be_nat (take 4 (drop 4 b)))\<rparr>"

definition alg_bytes :: "AlgProperty \<Rightarrow> bytes" where
  "alg_bytes a = be_bytes 2 (unat (Alg a)) @ be_bytes 4 (unat (Attributes a))"

definition bytes_alg :: "bytes \<Rightarrow> AlgProperty" where
  "bytes_alg b = \<lparr>Alg = of_nat (be_nat (take 2 b)), Attributes = of_nat (be_nat (take 4 (drop 2 b)))\<rparr>"

definition handle_bytes :: "u32 \<Rightarrow> bytes" where
  "handle_bytes h = be_bytes 4 (unat h)"

definition bytes_handle :: "bytes \<Rightarrow> u32" where
  "bytes_handle b = of_nat (be_nat (take 4 b))"

lemma unat_be_nat_4: "length b = 4 \<Longrightarrow> unat (of_nat (be_nat b) :: u32) = be_nat b"
  using be_nat_less [of b] by (simp add: unat_of_nat)

lemma unat_be_nat_2: "length b = 2 \<Longrightarrow> unat (of_nat (be_nat b) :: u16) = be_nat b"
  using be_nat_less [of b] by (simp add: unat_of_nat)

lemma take_drop_whole: "length b = m + n \<Longrightarrow> take m b @ take n (drop m b) = b"
  by (metis append_take_drop_id length_drop add_diff_cancel_left' take_all order_refl)

lemma entry_codings:
  "bytes_property (property_bytes p) = p" "bytes_alg (alg_bytes a) = a" "bytes_handle (handle_bytes h) = h"
  "length b = 8 \<Longrightarrow> property_bytes (bytes_property b) = b"
  "length b = 6 \<Longrightarrow> alg_bytes (bytes_alg b) = b"
  "length b = 4 \<Longrightarrow> handle_bytes (bytes_handle b) = b"
  "length (property_bytes p) = 8" "length (alg_bytes a) = 6" "length (handle_bytes h) = 4"
  by (simp_all add: bytes_property_def property_bytes_def bytes_alg_def alg_bytes_def
      bytes_handle_def handle_bytes_def unat_be_nat_4 unat_be_nat_2
      take_drop_whole [where m = 4 and n = 4] take_drop_whole [where m = 2 and n = 4])

lemma take_take_drop: "m \<le> k \<Longrightarrow> take m (take k xs) = take m xs"
  by (simp add: min_def)

lemma take_drop_take: "m + n \<le> k \<Longrightarrow> take n (drop m (take k xs)) = take n (drop m xs)"
  by (simp add: drop_take min_def)

context byte_codec
begin

lemma read_properties_Suc:
  "read_properties C b (Suc n) off acc =
     (if off + 8 \<le> length b
      then read_properties C b n (off + 8) (acc @ [bytes_property (take 8 (drop off b))])
      else Inl ErrShortBuffer)"
  by (auto simp: GetU32 bytes_property_def take_take_drop drop_take add.commute)

lemma read_algs_Suc:
  "read_algs C b (Suc n) off acc =
     (if off + 6 \<le> length b
      then read_algs C b n (off + 6) (acc @ [bytes_alg (take 6 (drop off b))])
      else Inl ErrShortBuffer)"
  by (auto simp: GetU32 GetU16 bytes_alg_def take_take_drop drop_take add.commute)

lemma read_handles_Suc:
  "read_handles C b (Suc n) off acc =
     (if off + 4 \<le> length b
      then read_handles C b n (off + 4) (acc @ [bytes_handle (take 4 (drop off b))])
      else Inl ErrShortBuffer)"
  by (auto simp: GetU32 bytes_handle_def)

end

sublocale byte_codec \<subseteq> properties: counted_field C "read_properties C" property_bytes bytes_property 8
  by unfold_locales (simp_all only: read_properties_Suc read_properties.simps(1) entry_codings)

sublocale byte_codec \<subseteq> algs: counted_field C "read_algs C" alg_bytes bytes_alg 6
  by unfold_locales (simp_all only: read_algs_Suc read_algs.simps(1) entry_codings)

sublocale byte_codec \<subseteq> handles: counted_field C "read_handles C" handle_bytes bytes_handle 4
  by unfold_locales (simp_all only: read_handles_Suc read_handles.simps(1) entry_codings)

section \<open>The typed methods run one command\<close>

definition typed_response :: "codec \<Rightarrow> u32 \<Rightarrow> (bytes \<Rightarrow> 'a res) \<Rightarrow> bytes \<Rightarrow> 'a res" where
  "typed_response C cap decode rp =
     rbind (GetCapability_response C rp) (\<lambda>(_, data). rbind (check_echoed C cap data) decode)"

lemma tbind_execute_lift:
  "tbind (tbind m (\<lambda>rp. lift (f rp))) (\<lambda>a. lift (g a)) w = tbind m (\<lambda>rp. lift (rbind (f rp) g)) w"
  by (simp add: tbind_def rbind_def split: sum.splits prod.splits)

lemma tbind_lift_pair:
  "tbind (tbind m (\<lambda>rp. lift (f rp))) (\<lambda>(x, a). lift (g x a)) w =
   tbind m (\<lambda>rp. lift (rbind (f rp) (\<lambda>(x, a). g x a))) w"
  by (simp add: tbind_def rbind_def split: sum.splits prod.splits)

definition GetPCRBanks_response :: "codec \<Rightarrow> bytes \<Rightarrow> PCRSelection list res" where
  "GetPCRBanks_response C = typed_response C capPCRs
     (\<lambda>member. rbind (parsePCRSelectionList C member) (\<lambda>(sel, _). Inr sel))"

definition GetTPMProperties_response :: "codec \<Rightarrow> bytes \<Rightarrow> TaggedProperty list res" where
  "GetTPMProperties_response C = typed_response C capTPMProperties
     (\<lambda>member. rbind (need (GetU32 C member 0)) (\<lambda>n. read_properties C member (unat n) 4 []))"

definition GetManufacturer_response :: "codec \<Rightarrow> bytes \<Rightarrow> u32 res" where
  "GetManufacturer_response C rp = rbind (GetTPMProperties_response C rp) (\<lambda>props.
     if length props = 0 \<or> Property (props ! 0) \<noteq> PTManufacturer
     then Inl ErrPropertyNotFound else Inr (Value (props ! 0)))"

definition GetAlgorithms_response :: "codec \<Rightarrow> bytes \<Rightarrow> AlgProperty list res" where
  "GetAlgorithms_response C = typed_response C capAlgs
     (\<lambda>member. rbind (need (GetU32 C member 0)) (\<lambda>n. read_algs C member (unat n) 4 []))"

definition GetHandles_response :: "codec \<Rightarrow> bytes \<Rightarrow> u32 list res" where
  "GetHandles_response C = typed_response C capHandles
     (\<lambda>member. rbind (need (GetU32 C member 0)) (\<lambda>n. read_handles C member (unat n) 4 []))"

lemmas typed_responses = GetPCRBanks_response_def GetTPMProperties_response_def
  GetAlgorithms_response_def GetHandles_response_def

lemma getCapabilityData_eq:
  "tbind (getCapabilityData C tpm cap property count) (\<lambda>member. lift (decode member)) w =
   tbind (execute C tpm (TagNoSessions C) (CCGetCapability C) (GetCapability_params C cap property count))
     (\<lambda>rp. lift (typed_response C cap decode rp)) w"
  by (simp add: getCapabilityData_def GetCapability_def typed_response_def tbind_def rbind_def
      split: sum.splits prod.splits)

interpretation getbanks: tpm_call C tpm "TagNoSessions C" "CCGetCapability C"
  "GetCapability_params C capPCRs 0 maxPCRBanks" "GetPCRBanks_response C" "GetPCRBanks C tpm"
  for C tpm
  by unfold_locales (simp add: GetPCRBanks_def typed_responses getCapabilityData_eq)

interpretation getproperties: tpm_call C tpm "TagNoSessions C" "CCGetCapability C"
  "GetCapability_params C capTPMProperties first count" "GetTPMProperties_response C"
  "GetTPMProperties C tpm first count" for C tpm first count
  by unfold_locales (simp add: GetTPMProperties_def typed_responses getCapabilityData_eq)

lemma GetTPMProperties_eq:
  "GetTPMProperties C tpm first count =
   tbind (execute C tpm (TagNoSessions C) (CCGetCapability C)
     (GetCapability_params C capTPMProperties first count)) (\<lambda>rp. lift (GetTPMProperties_response C rp))"
  by (rule ext) (rule getproperties.run_eq)

interpretation getmanufacturer: tpm_call C tpm "TagNoSessions C" "CCGetCapability C"
  "GetCapability_params C capTPMProperties PTManufacturer 1" "GetManufacturer_response C"
  "GetManufacturer C tpm" for C tpm
  by unfold_locales
    (simp add: GetManufacturer_def GetManufacturer_response_def GetTPMProperties_eq tbind_execute_lift)

interpretation getalgorithms: tpm_call C tpm "TagNoSessions C" "CCGetCapability C"
  "GetCapability_params C capAlgs first count" "GetAlgorithms_response C"
  "GetAlgorithms C tpm first count" for C tpm first count
  by unfold_locales (simp add: GetAlgorithms_def typed_responses getCapabilityData_eq)

interpretation gethandles: tpm_call C tpm "TagNoSessions C" "CCGetCapability C"
  "GetCapability_params C capHandles first count" "GetHandles_response C"
  "GetHandles C tpm first count" for C tpm first count
  by unfold_locales (simp add: GetHandles_def typed_responses getCapabilityData_eq)

section \<open>What the typed methods decode\<close>

text \<open>\<open>moreData\<close>, the capability selector, and the union member.\<close>

definition capability_response :: "u8 \<Rightarrow> u32 \<Rightarrow> bytes \<Rightarrow> bytes" where
  "capability_response flag cap member = [flag] @ be_bytes 4 (unat cap) @ member"

context byte_codec
begin

lemma GetCapability_response_Inr_iff:
  "GetCapability_response C rp = Inr (m, data) \<longleftrightarrow> (\<exists>x. rp = x # data \<and> m = (x \<noteq> 0))"
  by (cases rp) (auto simp: GetCapability_response_def res_iff GetU8)

lemma check_echoed_Inr_iff:
  "check_echoed C cap data = Inr member \<longleftrightarrow> data = be_bytes 4 (unat cap) @ member"
  by (auto simp: check_echoed_def res_iff GetU32_0_iff)

lemma typed_response_Inr_iff:
  "typed_response C cap decode rp = Inr a \<longleftrightarrow>
   (\<exists>flag member. rp = capability_response flag cap member \<and> decode member = Inr a)"
  by (auto simp: typed_response_def res_iff GetCapability_response_Inr_iff check_echoed_Inr_iff
      capability_response_def)

lemma typed_response_Inl:
  assumes "typed_response C cap decode rp = Inl e" and "\<And>b. decode b = Inl e \<Longrightarrow> e \<noteq> Panic"
  shows "e \<noteq> Panic"
  using assms by (auto simp: typed_response_def res_iff check_echoed_def dest: response_errors
      get_Some_length)

end

section \<open>Properties\<close>

context byte_codec
begin

text \<open>The typed responses, decoded: exactly the announced entries, and nothing else.\<close>

lemma typed_lists:
  "GetTPMProperties_response C rp = Inr ps \<longleftrightarrow> length ps < 4294967296 \<and> (\<exists>flag rest.
     rp = capability_response flag 6 (be_bytes 4 (length ps) @ concat (map property_bytes ps) @ rest))"
  "GetAlgorithms_response C rp = Inr as \<longleftrightarrow> length as < 4294967296 \<and> (\<exists>flag rest.
     rp = capability_response flag 0 (be_bytes 4 (length as) @ concat (map alg_bytes as) @ rest))"
  "GetHandles_response C rp = Inr hs \<longleftrightarrow> length hs < 4294967296 \<and> (\<exists>flag rest.
     rp = capability_response flag 1 (be_bytes 4 (length hs) @ concat (map handle_bytes hs) @ rest))"
  unfolding typed_responses typed_response_Inr_iff
    properties.parse_Inr_iff algs.parse_Inr_iff handles.parse_Inr_iff
  by (auto simp: capTPMProperties_def capAlgs_def capHandles_def)

lemma typed_no_panic:
  "GetPCRBanks_response C rp \<noteq> Inl Panic" "GetTPMProperties_response C rp \<noteq> Inl Panic"
  "GetManufacturer_response C rp \<noteq> Inl Panic" "GetAlgorithms_response C rp \<noteq> Inl Panic"
  "GetHandles_response C rp \<noteq> Inl Panic"
proof -
  have decoders: "\<And>b e. rbind (parsePCRSelectionList C b) (\<lambda>(sel, _). Inr sel) = Inl e \<Longrightarrow> e \<noteq> Panic"
    using parse_selection_errors by (fastforce simp: res_iff)
  have lists: "\<And>b e. properties.parse b = Inl e \<Longrightarrow> e \<noteq> Panic"
    "\<And>b e. algs.parse b = Inl e \<Longrightarrow> e \<noteq> Panic" "\<And>b e. handles.parse b = Inl e \<Longrightarrow> e \<noteq> Panic"
    using properties.parse_Inl algs.parse_Inl handles.parse_Inl by blast+
  show "GetPCRBanks_response C rp \<noteq> Inl Panic" "GetTPMProperties_response C rp \<noteq> Inl Panic"
    "GetAlgorithms_response C rp \<noteq> Inl Panic" "GetHandles_response C rp \<noteq> Inl Panic"
    unfolding typed_responses using typed_response_Inl decoders lists by blast+
  then show "GetManufacturer_response C rp \<noteq> Inl Panic"
    by (auto simp: GetManufacturer_response_def res_iff split: if_splits)
qed

end



text \<open>
  \<open>GetManufacturer\<close> returns a value only when the TPM answered with the manufacturer property:
  on a response whose property list starts with another tag, or is empty, it reports
  \<open>ErrPropertyNotFound\<close>, and the value it returns is that of the first property.
\<close>

theorem GetManufacturer_decides:
  assumes "byte_codec C" and "length ps < 4294967296"
    and "answers C tpm (dev w) (BuildCommand C (TagNoSessions C) (CCGetCapability C)
      (GetCapability_params C capTPMProperties PTManufacturer 1))
      (capability_response flag 6 (be_bytes 4 (length ps) @ concat (map property_bytes ps) @ rest)) s'"
  shows "fst (GetManufacturer C tpm w) =
    (case ps of [] \<Rightarrow> Inl ErrPropertyNotFound
     | p # _ \<Rightarrow> if Property p = 0x105 then Inr (Value p) else Inl ErrPropertyNotFound)"
proof -
  have "GetTPMProperties_response C
      (capability_response flag 6 (be_bytes 4 (length ps) @ concat (map property_bytes ps) @ rest)) = Inr ps"
    using assms(2) by (subst byte_codec.typed_lists [OF assms(1)]) blast
  with getmanufacturer.answered [OF assms(3)] show ?thesis
    by (auto simp: GetManufacturer_response_def PTManufacturer_def PTFixed_def split: list.splits)
qed

theorem GetManufacturer_decides_witness:
  "fst (GetManufacturer be_codec (New playback)
     \<lparr>dev = [frame 0x8001 0 ([0] @ [0, 0, 0, 6] @ [0, 0, 0, 1] @ [0, 0, 1, 5, 0x49, 0x42, 0x4D, 0])],
      rand = (), trace = []\<rparr>) = Inr 0x49424D00"
  by (subst GetManufacturer_decides [OF be.byte_codec_axioms, where s' = "[]" and flag = 0 and
        ps = "[\<lparr>Property = 0x105, Value = 0x49424D00\<rparr>]" and rest = "[]"])
    (simp_all add: answers_def New_def be_codec_def be_ParseResponse_def frame_def be_eval
      capability_response_def property_bytes_def)

end
