(* ===== verification/Nv.thy ===== *)
theory Nv
  imports Commands
begin

text \<open>
  \<open>nv.go\<close>: the public area of an NV index and the five NV commands, authorised under the owner
  hierarchy by the empty password session.
\<close>

section \<open>The code\<close>

definition ccNVDefineSpace :: u32 where "ccNVDefineSpace = 0x0000012A"
definition ccNVUndefineSpace :: u32 where "ccNVUndefineSpace = 0x00000122"
definition ccNVWrite :: u32 where "ccNVWrite = 0x00000137"
definition ccNVRead :: u32 where "ccNVRead = 0x0000014E"
definition ccNVReadPublic :: u32 where "ccNVReadPublic = 0x00000169"

definition RHOwner :: u32 where "RHOwner = 0x40000001"

definition NVOwnerWrite :: u32 where "NVOwnerWrite = push_bit 1 1"
definition NVAuthWrite :: u32 where "NVAuthWrite = push_bit 2 1"
definition NVOwnerRead :: u32 where "NVOwnerRead = push_bit 17 1"
definition NVAuthRead :: u32 where "NVAuthRead = push_bit 18 1"

definition nvOrdinaryAttributes :: u32 where
  "nvOrdinaryAttributes = or (or (or NVOwnerWrite NVAuthWrite) NVOwnerRead) NVAuthRead"

record NVPublic =
  Index :: u32
  NameAlg :: u16
  NVAttributes :: u32
  AuthPolicy :: bytes
  DataSize :: u16

definition marshalNVPublic :: "codec \<Rightarrow> NVPublic \<Rightarrow> bytes" where
  "marshalNVPublic C p =
     (let inner = PutU32 C [] (Index p);
          inner = PutU16 C inner (NameAlg p);
          inner = PutU32 C inner (NVAttributes p);
          inner = inner @ MarshalTPM2B C (AuthPolicy p);
          inner = PutU16 C inner (DataSize p)
      in MarshalTPM2B C inner)"

definition parseNVPublic :: "codec \<Rightarrow> bytes \<Rightarrow> (NVPublic \<times> bytes) res" where
  "parseNVPublic C b =
     rbind (need (GetU32 C b 0)) (\<lambda>index.
     rbind (need (GetU16 C b 4)) (\<lambda>nameAlg.
     rbind (need (GetU32 C b 6)) (\<lambda>attrs.
     rbind (slice_from b 10) (\<lambda>b10.
     rbind (UnmarshalTPM2B C b10) (\<lambda>(policy, rest).
     rbind (need (GetU16 C rest 0)) (\<lambda>dataSize.
     rbind (slice_from rest 2) (\<lambda>rest2.
     Inr (\<lparr>Index = index, NameAlg = nameAlg, NVAttributes = attrs, AuthPolicy = policy,
            DataSize = dataSize\<rparr>, rest2))))))))"

definition NVDefineSpace_body :: "codec \<Rightarrow> NVPublic \<Rightarrow> bytes" where
  "NVDefineSpace_body C pub =
     (let body = PutU32 C [] RHOwner;
          auth = marshalPasswordAuth C;
          body = PutU32 C body (of_nat (length auth));
          body = body @ auth;
          body = PutU16 C body 0
      in body @ marshalNVPublic C pub)"

definition NVDefineSpace :: "codec \<Rightarrow> 's TPM \<Rightarrow> NVPublic \<Rightarrow> ('s, 'r, unit) cmd" where
  "NVDefineSpace C tpm pub =
     tbind (execute C tpm (TagSessions C) ccNVDefineSpace (NVDefineSpace_body C pub)) (\<lambda>_. lift (Inr ()))"

definition NVUndefineSpace_body :: "codec \<Rightarrow> u32 \<Rightarrow> bytes" where
  "NVUndefineSpace_body C nvIndex =
     (let body = PutU32 C [] RHOwner;
          body = PutU32 C body nvIndex;
          auth = marshalPasswordAuth C;
          body = PutU32 C body (of_nat (length auth))
      in body @ auth)"

definition NVUndefineSpace :: "codec \<Rightarrow> 's TPM \<Rightarrow> u32 \<Rightarrow> ('s, 'r, unit) cmd" where
  "NVUndefineSpace C tpm nvIndex =
     tbind (execute C tpm (TagSessions C) ccNVUndefineSpace (NVUndefineSpace_body C nvIndex))
       (\<lambda>_. lift (Inr ()))"

definition NVWrite_body :: "codec \<Rightarrow> u32 \<Rightarrow> bytes \<Rightarrow> u16 \<Rightarrow> bytes" where
  "NVWrite_body C nvIndex data offset =
     (let body = PutU32 C [] RHOwner;
          body = PutU32 C body nvIndex;
          auth = marshalPasswordAuth C;
          body = PutU32 C body (of_nat (length auth));
          body = body @ auth;
          body = body @ MarshalTPM2B C data
      in PutU16 C body offset)"

definition NVWrite :: "codec \<Rightarrow> 's TPM \<Rightarrow> u32 \<Rightarrow> bytes \<Rightarrow> u16 \<Rightarrow> ('s, 'r, unit) cmd" where
  "NVWrite C tpm nvIndex data offset =
     tbind (execute C tpm (TagSessions C) ccNVWrite (NVWrite_body C nvIndex data offset))
       (\<lambda>_. lift (Inr ()))"

definition NVRead_body :: "codec \<Rightarrow> u32 \<Rightarrow> u16 \<Rightarrow> u16 \<Rightarrow> bytes" where
  "NVRead_body C nvIndex sz offset =
     (let body = PutU32 C [] RHOwner;
          body = PutU32 C body nvIndex;
          auth = marshalPasswordAuth C;
          body = PutU32 C body (of_nat (length auth));
          body = body @ auth;
          body = PutU16 C body sz
      in PutU16 C body offset)"

definition NVRead_response :: "codec \<Rightarrow> bytes \<Rightarrow> bytes res" where
  "NVRead_response C rp =
     rbind (need (GetU32 C rp 0)) (\<lambda>_.
     rbind (slice_from rp 4) (\<lambda>rp4.
     rbind (UnmarshalTPM2B C rp4) (\<lambda>(d, _). Inr d)))"

definition NVRead :: "codec \<Rightarrow> 's TPM \<Rightarrow> u32 \<Rightarrow> u16 \<Rightarrow> u16 \<Rightarrow> ('s, 'r, bytes) cmd" where
  "NVRead C tpm nvIndex sz offset =
     tbind (execute C tpm (TagSessions C) ccNVRead (NVRead_body C nvIndex sz offset))
       (\<lambda>rp. lift (NVRead_response C rp))"

definition NVReadPublic_response :: "codec \<Rightarrow> bytes \<Rightarrow> (NVPublic \<times> bytes) res" where
  "NVReadPublic_response C rp =
     rbind (UnmarshalTPM2B C rp) (\<lambda>(pubBytes, rest).
     rbind (parseNVPublic C pubBytes) (\<lambda>(pub, _).
     rbind (UnmarshalTPM2B C rest) (\<lambda>(name, _). Inr (pub, name))))"

definition NVReadPublic :: "codec \<Rightarrow> 's TPM \<Rightarrow> u32 \<Rightarrow> ('s, 'r, NVPublic \<times> bytes) cmd" where
  "NVReadPublic C tpm nvIndex =
     tbind (execute C tpm (TagNoSessions C) ccNVReadPublic (PutU32 C [] nvIndex))
       (\<lambda>rp. lift (NVReadPublic_response C rp))"

section \<open>Each method runs one command\<close>

interpretation nvdefine: tpm_call C tpm "TagSessions C" ccNVDefineSpace "NVDefineSpace_body C pub"
  "\<lambda>_. Inr ()" "NVDefineSpace C tpm pub" for C tpm pub
  by unfold_locales (simp add: NVDefineSpace_def)

interpretation nvundefine: tpm_call C tpm "TagSessions C" ccNVUndefineSpace
  "NVUndefineSpace_body C nvIndex" "\<lambda>_. Inr ()" "NVUndefineSpace C tpm nvIndex" for C tpm nvIndex
  by unfold_locales (simp add: NVUndefineSpace_def)

interpretation nvwrite: tpm_call C tpm "TagSessions C" ccNVWrite "NVWrite_body C nvIndex data offset"
  "\<lambda>_. Inr ()" "NVWrite C tpm nvIndex data offset" for C tpm nvIndex data offset
  by unfold_locales (simp add: NVWrite_def)

interpretation nvread: tpm_call C tpm "TagSessions C" ccNVRead "NVRead_body C nvIndex sz offset"
  "NVRead_response C" "NVRead C tpm nvIndex sz offset" for C tpm nvIndex sz offset
  by unfold_locales (simp add: NVRead_def)

interpretation nvreadpublic: tpm_call C tpm "TagNoSessions C" ccNVReadPublic "PutU32 C [] nvIndex"
  "NVReadPublic_response C" "NVReadPublic C tpm nvIndex" for C tpm nvIndex
  by unfold_locales (simp add: NVReadPublic_def)

section \<open>The public area on the wire\<close>

definition nv_public_bytes :: "NVPublic \<Rightarrow> bytes" where
  "nv_public_bytes p = be_bytes 4 (unat (Index p)) @ be_bytes 2 (unat (NameAlg p)) @
     be_bytes 4 (unat (NVAttributes p)) @ tpm2b (AuthPolicy p) @ be_bytes 2 (unat (DataSize p))"

lemma length_nv_public_bytes [simp]: "length (nv_public_bytes p) = length (AuthPolicy p) + 14"
  by (simp add: nv_public_bytes_def)

definition owner_auth :: bytes where
  "owner_auth = be_bytes 4 9 @ password_auth"

lemma length_owner_auth [simp]: "length owner_auth = 13"
  by (simp add: owner_auth_def)

context byte_codec
begin

lemma marshalNVPublic_eq:
  "length (AuthPolicy p) < 65522 \<Longrightarrow> marshalNVPublic C p = tpm2b (nv_public_bytes p)"
  by (simp add: marshalNVPublic_def puts nv_public_bytes_def)

lemma parseNVPublic_marshalled:
  "length (AuthPolicy p) < 65536 \<Longrightarrow> parseNVPublic C (nv_public_bytes p @ rest) = Inr (p, rest)"
  by (simp add: parseNVPublic_def nv_public_bytes_def get_skip UnmarshalTPM2B)

lemma split_fields: "10 \<le> length b \<Longrightarrow> b = take 4 b @ take 2 (drop 4 b) @ take 4 (drop 6 b) @ drop 10 b"
proof -
  have "b = take 4 b @ drop 4 b" by simp
  also have "drop 4 b = take 2 (drop 4 b) @ drop 6 b"
    using append_take_drop_id [of 2 "drop 4 b"] by simp
  also have "drop 6 b = take 4 (drop 6 b) @ drop 10 b"
    using append_take_drop_id [of 4 "drop 6 b"] by simp
  finally show ?thesis by simp
qed

text \<open>Parsing is exact: it accepts the encoding of a public area, and nothing else.\<close>

lemma parseNVPublic_Inr_iff:
  "parseNVPublic C b = Inr (p, rest) \<longleftrightarrow> length (AuthPolicy p) < 65536 \<and> b = nv_public_bytes p @ rest"
proof
  assume "parseNVPublic C b = Inr (p, rest)"
  then obtain rest' where f: "take 4 b = be_bytes 4 (unat (Index p))"
    "take 2 (drop 4 b) = be_bytes 2 (unat (NameAlg p))"
    "take 4 (drop 6 b) = be_bytes 4 (unat (NVAttributes p))"
    and len: "10 \<le> length b" and policy: "length (AuthPolicy p) < 65536" "drop 10 b = tpm2b (AuthPolicy p) @ rest'"
    and size: "take 2 rest' = be_bytes 2 (unat (DataSize p))" "rest = drop 2 rest'"
    by (auto simp: parseNVPublic_def res_iff Get_iff UnmarshalTPM2B_Inr_iff simp del: length_greater_0_conv)
  have "b = take 4 b @ take 2 (drop 4 b) @ take 4 (drop 6 b) @ drop 10 b" by (rule split_fields [OF len])
  also have "drop 10 b = tpm2b (AuthPolicy p) @ take 2 rest' @ drop 2 rest'"
    by (simp add: policy(2))
  finally show "length (AuthPolicy p) < 65536 \<and> b = nv_public_bytes p @ rest"
    using policy(1) by (simp add: f size nv_public_bytes_def)
qed (simp add: parseNVPublic_marshalled)

lemma parseNVPublic_Inl: "parseNVPublic C b = Inl e \<Longrightarrow> e = ErrShortBuffer"
  by (auto simp: parseNVPublic_def res_iff dest: UnmarshalTPM2B_Inl get_Some_length)

lemma nv_bodies:
  "NVDefineSpace_body C pub = be_bytes 4 0x40000001 @ owner_auth @ [0, 0] @ marshalNVPublic C pub"
  "NVUndefineSpace_body C nvIndex = be_bytes 4 0x40000001 @ be_bytes 4 (unat nvIndex) @ owner_auth"
  "length data < 65536 \<Longrightarrow> NVWrite_body C nvIndex data offset =
     be_bytes 4 0x40000001 @ be_bytes 4 (unat nvIndex) @ owner_auth @ tpm2b data @ be_bytes 2 (unat offset)"
  "NVRead_body C nvIndex sz offset =
     be_bytes 4 0x40000001 @ be_bytes 4 (unat nvIndex) @ owner_auth @ be_bytes 2 (unat sz) @
     be_bytes 2 (unat offset)"
  by (simp_all add: NVDefineSpace_body_def NVUndefineSpace_body_def NVWrite_body_def NVRead_body_def
      puts marshalPasswordAuth_eq owner_auth_def RHOwner_def be_eval)

lemma NVRead_response_Inr_iff:
  "NVRead_response C rp = Inr d \<longleftrightarrow>
   length d < 65536 \<and> (\<exists>parameterSize rest. rp = be_bytes 4 (unat (parameterSize :: u32)) @ tpm2b d @ rest)"
proof -
  have "NVRead_response C rp = Inr d \<longleftrightarrow> (\<exists>v b. GetU32 C rp 0 = Some v \<and> b = drop 4 rp \<and>
      length d < 65536 \<and> (\<exists>rest. b = tpm2b d @ rest))"
    by (auto simp: NVRead_response_def res_iff UnmarshalTPM2B_Inr_iff dest: get_Some_length)
  also have "\<dots> \<longleftrightarrow> length d < 65536 \<and>
      (\<exists>parameterSize rest. rp = be_bytes 4 (unat (parameterSize :: u32)) @ tpm2b d @ rest)"
    by (auto simp: GetU32_0_iff)
  finally show ?thesis .
qed

lemma NVReadPublic_response_Inr_iff:
  "NVReadPublic_response C rp = Inr (pub, name) \<longleftrightarrow>
   (\<exists>extra rest. length (AuthPolicy pub) + length extra < 65522 \<and> length name < 65536 \<and>
      rp = tpm2b (nv_public_bytes pub @ extra) @ tpm2b name @ rest)" (is "?l \<longleftrightarrow> ?r")
proof
  assume ?l
  then show ?r
    by (auto simp: NVReadPublic_response_def res_iff UnmarshalTPM2B_Inr_iff parseNVPublic_Inr_iff)
next
  assume ?r
  then show ?l
    by (auto simp: NVReadPublic_response_def UnmarshalTPM2B parseNVPublic_marshalled)
qed

lemma nv_responses_no_panic:
  "NVRead_response C rp \<noteq> Inl Panic" "NVReadPublic_response C rp \<noteq> Inl Panic"
  by (auto simp: NVRead_response_def NVReadPublic_response_def res_iff
      dest: UnmarshalTPM2B_Inl parseNVPublic_Inl get_Some_length)

end

section \<open>Properties\<close>

text \<open>
  C32. The public area of an NV index has one encoding. A marshalled public area is a TPM2B whose
  contents parse back to it; and, on any buffer, the parser returns a public area and a rest if and
  only if the buffer is the encoding of that public area followed by that rest.
\<close>

theorem nv_public_exact:
  assumes "byte_codec C" and "length (AuthPolicy p) < 65522"
  shows "UnmarshalTPM2B C (marshalNVPublic C p @ rest) = Inr (nv_public_bytes p, rest) \<and>
    (parseNVPublic C b = Inr (p, rest) \<longleftrightarrow> b = nv_public_bytes p @ rest)"
proof
  show "UnmarshalTPM2B C (marshalNVPublic C p @ rest) = Inr (nv_public_bytes p, rest)"
    using assms(2) by (simp add: byte_codec.marshalNVPublic_eq [OF assms(1)] byte_codec.UnmarshalTPM2B [OF assms(1)])
  show "parseNVPublic C b = Inr (p, rest) \<longleftrightarrow> b = nv_public_bytes p @ rest"
    using assms(2) by (simp add: byte_codec.parseNVPublic_Inr_iff [OF assms(1)])
qed

theorem nv_public_exact_witness:
  "parseNVPublic be_codec [1, 0x80, 0, 1, 0, 0xB, 0, 6, 0, 6, 0, 1, 0xAA, 0, 32, 9] =
   Inr (\<lparr>Index = 0x01800001, NameAlg = 0xB, NVAttributes = nvOrdinaryAttributes,
          AuthPolicy = [0xAA], DataSize = 32\<rparr>, [9])"
  using nv_public_exact [OF be.byte_codec_axioms, of "\<lparr>Index = 0x01800001, NameAlg = 0xB,
      NVAttributes = nvOrdinaryAttributes, AuthPolicy = [0xAA], DataSize = 32\<rparr>" "[9]"
      "[1, 0x80, 0, 1, 0, 0xB, 0, 6, 0, 6, 0, 1, 0xAA, 0, 32, 9]"]
  by (simp add: nv_public_bytes_def be_eval tpm2b_def nvOrdinaryAttributes_def NVOwnerWrite_def
      NVAuthWrite_def NVOwnerRead_def NVAuthRead_def)

text \<open>
  C39. The bytes of the NV commands. Each method puts exactly one frame on the wire: the owner
  hierarchy (and the index), the password session behind its size, and the parameters: an empty
  authValue and the public area, the data and the offset, or the size and the offset. \<open>NVReadPublic\<close>
  carries the index alone, without a session.
\<close>

theorem nv_command_frames:
  assumes "wire_codec C" and "length (AuthPolicy pub) < 65522" and "length data < 65536"
  shows "sent_only w (frame 0x8002 0x12A (be_bytes 4 0x40000001 @ owner_auth @ [0, 0] @
      tpm2b (nv_public_bytes pub))) (NVDefineSpace C tpm pub w) \<and>
    sent_only w (frame 0x8002 0x122 (be_bytes 4 0x40000001 @ be_bytes 4 (unat nvIndex) @ owner_auth))
      (NVUndefineSpace C tpm nvIndex w) \<and>
    sent_only w (frame 0x8002 0x137 (be_bytes 4 0x40000001 @ be_bytes 4 (unat nvIndex) @ owner_auth @
      tpm2b data @ be_bytes 2 (unat offset))) (NVWrite C tpm nvIndex data offset w) \<and>
    sent_only w (frame 0x8002 0x14E (be_bytes 4 0x40000001 @ be_bytes 4 (unat nvIndex) @ owner_auth @
      be_bytes 2 (unat sz) @ be_bytes 2 (unat offset))) (NVRead C tpm nvIndex sz offset w) \<and>
    sent_only w (frame 0x8001 0x169 (be_bytes 4 (unat nvIndex))) (NVReadPublic C tpm nvIndex w)"
proof -
  note wire = wire_codec.to_wire [OF assms(1)]
  note bc = wire_codec.axioms(1) [OF assms(1)]
  show ?thesis
    by (intro conjI; rule nvdefine.sends_frame nvundefine.sends_frame nvwrite.sends_frame
        nvread.sends_frame nvreadpublic.sends_frame)
      (use assms(2,3) in \<open>simp_all add: wire byte_codec.nv_bodies [OF bc]
        byte_codec.marshalNVPublic_eq [OF bc] ccNVDefineSpace_def ccNVUndefineSpace_def
        ccNVWrite_def ccNVRead_def ccNVReadPublic_def\<close>)
qed

theorem nv_command_frames_witness:
  "sent_only \<lparr>dev = [], rand = (), trace = []\<rparr>
    (frame 0x8002 0x137 ([0x40, 0, 0, 1] @ [1, 0x80, 0, 1] @ [0, 0, 0, 9] @
       [0x40, 0, 0, 9, 0, 0, 1, 0, 0] @ [0, 2, 0xDE, 0xAD] @ [0, 4]))
    (NVWrite be_codec (New playback) 0x01800001 [0xDE, 0xAD] 4 \<lparr>dev = [], rand = (), trace = []\<rparr>)"
  using nv_command_frames [OF be.wire_codec_axioms, where data = "[0xDE, 0xAD]" and offset = 4 and
      pub = "\<lparr>Index = 0, NameAlg = 0, NVAttributes = 0, AuthPolicy = [], DataSize = 0\<rparr>" and
      w = "\<lparr>dev = [], rand = (), trace = []\<rparr>" and tpm = "New playback" and
      nvIndex = "0x01800001" and sz = 0]
  by (simp add: be_eval owner_auth_def password_auth_def tpm2b_def)

text \<open>
  C31. The NV read methods decode exactly. When the TPM answers, \<open>NVRead\<close> returns data if and only if
  the response is a parameter size and that data as a TPM2B; \<open>NVReadPublic\<close> returns a public area and
  a Name if and only if the response is a TPM2B that starts with the encoding of that public area,
  followed by that Name as a TPM2B.
\<close>

theorem nv_reads_exact:
  assumes "byte_codec C"
  shows "(answers C tpm (dev w) (BuildCommand C (TagSessions C) ccNVRead (NVRead_body C nvIndex sz offset)) rp s' \<longrightarrow>
      fst (NVRead C tpm nvIndex sz offset w) = Inr d \<longleftrightarrow>
        length d < 65536 \<and> (\<exists>parameterSize :: u32. \<exists>rest. rp = be_bytes 4 (unat parameterSize) @ tpm2b d @ rest)) \<and>
    (answers C tpm (dev w) (BuildCommand C (TagNoSessions C) ccNVReadPublic (PutU32 C [] nvIndex)) rp s' \<longrightarrow>
      fst (NVReadPublic C tpm nvIndex w) = Inr (pub, name) \<longleftrightarrow>
        (\<exists>extra rest. length (AuthPolicy pub) + length extra < 65522 \<and> length name < 65536 \<and>
          rp = tpm2b (nv_public_bytes pub @ extra) @ tpm2b name @ rest))"
  by (intro conjI impI)
    (simp_all add: nvread.answered nvreadpublic.answered byte_codec.NVRead_response_Inr_iff [OF assms]
      byte_codec.NVReadPublic_response_Inr_iff [OF assms])

theorem nv_reads_exact_witness:
  "fst (NVRead be_codec (New playback) 0x01800001 2 0
     \<lparr>dev = [frame 0x8002 0 ([0, 0, 0, 4] @ [0, 2, 0xDE, 0xAD] @ [0, 0, 1, 0, 0])], rand = (), trace = []\<rparr>)
   = Inr [0xDE, 0xAD]"
proof -
  let ?w = "\<lparr>dev = [frame 0x8002 0 ([0, 0, 0, 4] @ [0, 2, 0xDE, 0xAD] @ [0, 0, 1, 0, 0])], rand = (), trace = []\<rparr>"
  have "be_bytes 4 (unat (4 :: u32)) @ tpm2b [0xDE, 0xAD] @ [0, 0, 1, 0, 0]
      = [0, 0, 0, 4] @ [0, 2, 0xDE, 0xAD] @ [0, 0, 1, 0, 0]"
    by (simp add: be_eval tpm2b_def)
  then have "\<exists>parameterSize :: u32. \<exists>rest. [0, 0, 0, 4] @ [0, 2, 0xDE, 0xAD] @ [0, 0, 1, 0, 0]
      = be_bytes 4 (unat parameterSize) @ tpm2b [0xDE, 0xAD] @ rest"
    by metis
  then show ?thesis
    using nv_reads_exact [OF be.byte_codec_axioms, where tpm = "New playback" and w = ?w and
        nvIndex = "0x01800001" and sz = 2 and offset = 0 and s' = "[]" and
        rp = "[0, 0, 0, 4] @ [0, 2, 0xDE, 0xAD] @ [0, 0, 1, 0, 0]" and d = "[0xDE, 0xAD]"]
    by (simp add: answers_def New_def be_codec_def be_ParseResponse_def frame_def be_eval)
qed

end
