(* ===== verification/Attest.thy ===== *)
theory Attest
  imports Commands
begin

text \<open>
  \<open>attest_const.go\<close> and \<open>attest.go\<close>: the Attestation Key template, \<open>CreatePrimary\<close> with its two
  results, the walk through a \<open>TPMT_PUBLIC\<close> to the public point, and \<open>Quote\<close> with its response.
\<close>

section \<open>Constants\<close>

definition AlgRSA :: u16 where "AlgRSA = 0x0001"
definition AlgECDSA :: u16 where "AlgECDSA = 0x0018"
definition AlgECC :: u16 where "AlgECC = 0x0023"
definition algSHA256 :: u16 where "algSHA256 = 0x000B"
definition algNull :: u16 where "algNull = 0x0010"
definition ECCNistP256 :: u16 where "ECCNistP256 = 0x0003"

definition objFixedTPM :: u32 where "objFixedTPM = push_bit 1 1"
definition objFixedParent :: u32 where "objFixedParent = push_bit 4 1"
definition objSensitiveDataOrigin :: u32 where "objSensitiveDataOrigin = push_bit 5 1"
definition objUserWithAuth :: u32 where "objUserWithAuth = push_bit 6 1"
definition objRestricted :: u32 where "objRestricted = push_bit 16 1"
definition objSign :: u32 where "objSign = push_bit 18 1"

definition akObjectAttributes :: u32 where
  "akObjectAttributes = or (or (or (or (or objFixedTPM objFixedParent) objSensitiveDataOrigin)
     objUserWithAuth) objRestricted) objSign"

definition attestMagic :: u32 where "attestMagic = 0xFF544347"
definition stAttestQuote :: u16 where "stAttestQuote = 0x8018"

lemmas attest_constants = AlgRSA_def AlgECDSA_def AlgECC_def algSHA256_def algNull_def
  ECCNistP256_def attestMagic_def stAttestQuote_def

section \<open>Templates\<close>

record AKPublic =
  ak_X :: bytes
  ak_Y :: bytes

record ECDSASignature =
  sig_R :: bytes
  sig_S :: bytes

definition marshalEmptySensitiveCreate :: "codec \<Rightarrow> bytes" where
  "marshalEmptySensitiveCreate C =
     (let inner = PutU16 C [] 0;
          inner = PutU16 C inner 0
      in MarshalTPM2B C inner)"

definition marshalECCAKPublic :: "codec \<Rightarrow> bytes" where
  "marshalECCAKPublic C =
     (let p = PutU16 C [] AlgECC;
          p = PutU16 C p algSHA256;
          p = PutU32 C p akObjectAttributes;
          p = PutU16 C p 0;
          p = PutU16 C p algNull;
          p = PutU16 C p AlgECDSA;
          p = PutU16 C p algSHA256;
          p = PutU16 C p ECCNistP256;
          p = PutU16 C p algNull;
          p = PutU16 C p 0;
          p = PutU16 C p 0
      in MarshalTPM2B C p)"

section \<open>The public point\<close>

definition parseTPMTPublicECCPoint :: "codec \<Rightarrow> bytes \<Rightarrow> AKPublic res" where
  "parseTPMTPublicECCPoint C b =
     rbind (need (GetU16 C b 0)) (\<lambda>_.
     rbind (need (GetU16 C b 2)) (\<lambda>_.
     rbind (need (GetU32 C b 4)) (\<lambda>_.
     rbind (slice_from b 8) (\<lambda>b8.
     rbind (UnmarshalTPM2B C b8) (\<lambda>(_, p).
     rbind (need (GetU16 C p 0)) (\<lambda>sym.
     rbind (if sym \<noteq> algNull
            then rbind (need (GetU16 C p 2)) (\<lambda>_. rbind (need (GetU16 C p 4)) (\<lambda>_. Inr 6))
            else Inr 2) (\<lambda>po.
     rbind (need (GetU16 C p po)) (\<lambda>scheme.
     rbind (if scheme \<noteq> algNull
            then rbind (need (GetU16 C p (po + 2))) (\<lambda>_. Inr (po + 2 + 2))
            else Inr (po + 2)) (\<lambda>po.
     rbind (need (GetU16 C p po)) (\<lambda>_.
     rbind (need (GetU16 C p (po + 2))) (\<lambda>kdf.
     rbind (if kdf \<noteq> algNull
            then rbind (need (GetU16 C p (po + 2 + 2))) (\<lambda>_. Inr (po + 2 + 2 + 2))
            else Inr (po + 2 + 2)) (\<lambda>po.
     rbind (slice_from p po) (\<lambda>ppo.
     rbind (UnmarshalTPM2B C ppo) (\<lambda>(x, rest2).
     rbind (UnmarshalTPM2B C rest2) (\<lambda>(y, _).
     Inr \<lparr>ak_X = x, ak_Y = y\<rparr>)))))))))))))))"

section \<open>CreatePrimary\<close>

definition parseCreatePrimaryResponse :: "codec \<Rightarrow> bytes \<Rightarrow> (u32 \<times> AKPublic) res" where
  "parseCreatePrimaryResponse C rp =
     rbind (need (GetU32 C rp 0)) (\<lambda>handle.
     rbind (need (GetU32 C rp 4)) (\<lambda>_.
     rbind (slice_from rp 8) (\<lambda>rest.
     rbind (UnmarshalTPM2B C rest) (\<lambda>(pubBytes, _).
     rbind (parseTPMTPublicECCPoint C pubBytes) (\<lambda>pub. Inr (handle, pub))))))"

definition CreatePrimary_body :: "codec \<Rightarrow> bytes" where
  "CreatePrimary_body C =
     (let body = PutU32 C [] (CommonRHOwner C);
          auth = marshalPasswordAuth C;
          body = PutU32 C body (of_nat (length auth));
          body = body @ auth;
          body = body @ marshalEmptySensitiveCreate C;
          body = body @ marshalECCAKPublic C;
          body = PutU16 C body 0
      in PutU32 C body 0)"

definition CreatePrimary :: "codec \<Rightarrow> 's TPM \<Rightarrow> ('s, 'r, u32 \<times> AKPublic) cmd" where
  "CreatePrimary C tpm =
     tbind (execute C tpm (TagSessions C) (CCCreatePrimary C) (CreatePrimary_body C))
       (\<lambda>rp. lift (parseCreatePrimaryResponse C rp))"

text \<open>\<open>CreatePrimaryPublic\<close> builds the same body again.\<close>

definition CreatePrimaryPublic_body :: "codec \<Rightarrow> bytes" where
  "CreatePrimaryPublic_body C =
     (let body = PutU32 C [] (CommonRHOwner C);
          auth = marshalPasswordAuth C;
          body = PutU32 C body (of_nat (length auth));
          body = body @ auth;
          body = body @ marshalEmptySensitiveCreate C;
          body = body @ marshalECCAKPublic C;
          body = PutU16 C body 0
      in PutU32 C body 0)"

definition CreatePrimaryPublic_response :: "codec \<Rightarrow> bytes \<Rightarrow> (u32 \<times> bytes) res" where
  "CreatePrimaryPublic_response C rp =
     rbind (need (GetU32 C rp 0)) (\<lambda>handle.
     rbind (need (GetU32 C rp 4)) (\<lambda>_.
     rbind (slice_from rp 8) (\<lambda>rp8.
     rbind (UnmarshalTPM2B C rp8) (\<lambda>(pubBytes, _). Inr (handle, pubBytes)))))"

definition CreatePrimaryPublic :: "codec \<Rightarrow> 's TPM \<Rightarrow> ('s, 'r, u32 \<times> bytes) cmd" where
  "CreatePrimaryPublic C tpm =
     tbind (execute C tpm (TagSessions C) (CCCreatePrimary C) (CreatePrimaryPublic_body C))
       (\<lambda>rp. lift (CreatePrimaryPublic_response C rp))"

section \<open>Quote\<close>

definition parseQuoteResponse :: "codec \<Rightarrow> bytes \<Rightarrow> (bytes \<times> ECDSASignature) res" where
  "parseQuoteResponse C rp =
     rbind (need (GetU32 C rp 0)) (\<lambda>_.
     rbind (slice_from rp 4) (\<lambda>rest.
     rbind (UnmarshalTPM2B C rest) (\<lambda>(quoted, rest).
     rbind (need (GetU16 C rest 0)) (\<lambda>sigAlg.
     rbind (guard (sigAlg = AlgECDSA) ErrUnexpectedSigAlg) (\<lambda>_.
     rbind (need (GetU16 C rest 2)) (\<lambda>_.
     rbind (slice_from rest 4) (\<lambda>rest4.
     rbind (UnmarshalTPM2B C rest4) (\<lambda>(r, rest2).
     rbind (UnmarshalTPM2B C rest2) (\<lambda>(s, _).
     Inr (quoted, \<lparr>sig_R = r, sig_S = s\<rparr>))))))))))"

definition Quote_body :: "codec \<Rightarrow> u32 \<Rightarrow> bytes \<Rightarrow> PCRSelection list \<Rightarrow> bytes" where
  "Quote_body C keyHandle qualifyingData sel =
     (let body = PutU32 C [] keyHandle;
          auth = marshalPasswordAuth C;
          body = PutU32 C body (of_nat (length auth));
          body = body @ auth;
          body = body @ MarshalTPM2B C qualifyingData;
          body = PutU16 C body algNull
      in body @ marshalPCRSelectionList C sel)"

definition Quote ::
  "codec \<Rightarrow> 's TPM \<Rightarrow> u32 \<Rightarrow> bytes \<Rightarrow> PCRSelection list \<Rightarrow> ('s, 'r, bytes \<times> ECDSASignature) cmd" where
  "Quote C tpm keyHandle qualifyingData sel =
     tbind (execute C tpm (TagSessions C) (CCQuote C) (Quote_body C keyHandle qualifyingData sel))
       (\<lambda>rp. lift (parseQuoteResponse C rp))"

section \<open>Each method runs one command\<close>

interpretation createprimary: tpm_call C tpm "TagSessions C" "CCCreatePrimary C"
  "CreatePrimary_body C" "parseCreatePrimaryResponse C" "CreatePrimary C tpm" for C tpm
  by unfold_locales (simp add: CreatePrimary_def)

interpretation createprimarypublic: tpm_call C tpm "TagSessions C" "CCCreatePrimary C"
  "CreatePrimaryPublic_body C" "CreatePrimaryPublic_response C" "CreatePrimaryPublic C tpm" for C tpm
  by unfold_locales (simp add: CreatePrimaryPublic_def)

interpretation quote: tpm_call C tpm "TagSessions C" "CCQuote C" "Quote_body C key data sel"
  "parseQuoteResponse C" "Quote C tpm key data sel" for C tpm key data sel
  by unfold_locales (simp add: Quote_def)

section \<open>The structures on the wire\<close>

text \<open>
  A \<open>TPMT_PUBLIC\<close> of an ECC key: an algorithm selector that is not \<open>TPM_ALG_NULL\<close> is followed by
  its details, two 16-bit fields for the symmetric algorithm and one for the scheme and the kdf.
\<close>

definition alg_field :: "u16 \<Rightarrow> bytes \<Rightarrow> bytes" where
  "alg_field alg details = be_bytes 2 (unat alg) @ (if alg = 0x10 then [] else details)"

definition is_alg :: "nat \<Rightarrow> bytes \<Rightarrow> bool" where
  "is_alg n b \<longleftrightarrow> (\<exists>alg details. length details = n \<and> b = alg_field alg details)"

definition parms_bytes :: "bytes \<Rightarrow> bytes \<Rightarrow> u16 \<Rightarrow> bytes \<Rightarrow> AKPublic \<Rightarrow> bytes" where
  "parms_bytes s sc cu k pt =
     s @ sc @ be_bytes 2 (unat cu) @ k @ tpm2b (ak_X pt) @ tpm2b (ak_Y pt)"

definition ecc_public_bytes :: "u16 \<Rightarrow> u16 \<Rightarrow> u32 \<Rightarrow> bytes \<Rightarrow> bytes \<Rightarrow> bytes" where
  "ecc_public_bytes ty nameAlg attrs policy parms =
     be_bytes 2 (unat ty) @ be_bytes 2 (unat nameAlg) @ be_bytes 4 (unat attrs) @ tpm2b policy @ parms"

text \<open>The encodings of an ECC public area with the point \<open>pt\<close>.\<close>

definition is_ecc_public :: "AKPublic \<Rightarrow> bytes \<Rightarrow> bool" where
  "is_ecc_public pt b \<longleftrightarrow> (\<exists>ty nameAlg attrs policy symAlg scheme curve kdf.
     length policy < 65536 \<and> length (ak_X pt) < 65536 \<and> length (ak_Y pt) < 65536 \<and>
     is_alg 4 symAlg \<and> is_alg 2 scheme \<and> is_alg 2 kdf \<and>
     b = ecc_public_bytes ty nameAlg attrs policy (parms_bytes symAlg scheme curve kdf pt))"

context byte_codec
begin

lemma marshalEmptySensitiveCreate_eq: "marshalEmptySensitiveCreate C = tpm2b (be_bytes 2 0 @ be_bytes 2 0)"
  by (simp add: marshalEmptySensitiveCreate_def puts)

lemma marshalECCAKPublic_eq:
  "marshalECCAKPublic C = tpm2b (be_bytes 2 0x23 @ be_bytes 2 0xB @ be_bytes 4 0x50072 @ tpm2b [] @
     alg_field 0x10 [] @ alg_field 0x18 (be_bytes 2 0xB) @ be_bytes 2 3 @ alg_field 0x10 [] @
     tpm2b [] @ tpm2b [])"
  by (simp add: marshalECCAKPublic_def puts attest_constants akObjectAttributes_def objFixedTPM_def
      objFixedParent_def objSensitiveDataOrigin_def objUserWithAuth_def objRestricted_def objSign_def
      alg_field_def tpm2b_def be_eval)

text \<open>The step over an algorithm selector with its details, as the parser takes it.\<close>

abbreviation alg_step :: "bytes \<Rightarrow> nat \<Rightarrow> (u16 \<Rightarrow> nat res) \<Rightarrow> (nat \<Rightarrow> 'a res) \<Rightarrow> 'a res" where
  "alg_step p po details F \<equiv> rbind (need (GetU16 C p po)) (\<lambda>alg. rbind (details alg) F)"

abbreviation details_2 :: "bytes \<Rightarrow> nat \<Rightarrow> u16 \<Rightarrow> nat res" where
  "details_2 p po \<equiv> \<lambda>alg. if alg \<noteq> algNull
     then rbind (need (GetU16 C p (po + 2))) (\<lambda>_. Inr (po + 2 + 2)) else Inr (po + 2)"

abbreviation details_4 :: "bytes \<Rightarrow> u16 \<Rightarrow> nat res" where
  "details_4 p \<equiv> \<lambda>alg. if alg \<noteq> algNull
     then rbind (need (GetU16 C p 2)) (\<lambda>_. rbind (need (GetU16 C p 4)) (\<lambda>_. Inr 6)) else Inr 2"

lemma take_drop_split: "off + m \<le> length b \<Longrightarrow> drop off b = take m (drop off b) @ drop (off + m) b"
  by (metis add.commute append_take_drop_id drop_drop)

lemma details_2_Some:
  assumes "GetU16 C p po = Some alg" and "details_2 p po alg = Inr po'"
  shows "\<exists>f. is_alg 2 f \<and> drop po p = f @ drop po' p \<and> po' = po + length f \<and> po' \<le> length p"
proof (cases "alg = algNull")
  case True
  with assms have "drop po p = alg_field alg [0, 0] @ drop po' p" "po' = po + 2" "po' \<le> length p"
    using take_drop_split [of po 2 p] by (auto simp: Get_iff alg_field_def algNull_def)
  moreover have "is_alg 2 (alg_field alg [0, 0])" unfolding is_alg_def by (intro exI conjI) auto
  moreover have "length (alg_field alg [0, 0]) = 2" by (simp add: alg_field_def True algNull_def)
  ultimately show ?thesis by metis
next
  case False
  with assms obtain d where d: "GetU16 C p (po + 2) = Some d" "po' = po + 4" by (auto simp: res_iff)
  then have len: "po' \<le> length p" by (auto dest: get_Some_length)
  then have "drop po p = take 2 (drop po p) @ drop (po + 2) p"
    "drop (po + 2) p = take 2 (drop (po + 2) p) @ drop po' p"
    using take_drop_split [of po 2 p] take_drop_split [of "po + 2" 2 p] d(2) by (simp_all add: add.assoc)
  then have "drop po p = alg_field alg (be_bytes 2 (unat d)) @ drop po' p"
    using assms(1) d(1) False by (simp add: Get_iff alg_field_def algNull_def)
  moreover have "is_alg 2 (alg_field alg (be_bytes 2 (unat d)))"
    unfolding is_alg_def by (intro exI conjI) auto
  moreover have "length (alg_field alg (be_bytes 2 (unat d))) = 4"
    using False by (simp add: alg_field_def algNull_def)
  ultimately show ?thesis using d(2) len by metis
qed

lemma details_4_Some:
  assumes "GetU16 C p 0 = Some alg" and "details_4 p alg = Inr po"
  shows "\<exists>f. is_alg 4 f \<and> p = f @ drop po p \<and> po = length f \<and> po \<le> length p"
proof (cases "alg = algNull")
  case True
  with assms have "p = alg_field alg [0, 0, 0, 0] @ drop po p" "po = 2" "po \<le> length p"
    using append_take_drop_id [of 2 p]
    by (auto simp: Get_iff alg_field_def algNull_def simp del: append_take_drop_id)
  moreover have "is_alg 4 (alg_field alg [0, 0, 0, 0])" unfolding is_alg_def by (intro exI conjI) auto
  moreover have "length (alg_field alg [0, 0, 0, 0]) = 2" by (simp add: alg_field_def True algNull_def)
  ultimately show ?thesis by metis
next
  case False
  with assms obtain d e where d: "GetU16 C p 2 = Some d" "GetU16 C p 4 = Some e" "po = 6"
    by (auto simp: res_iff)
  then have len: "po \<le> length p" by (auto dest: get_Some_length)
  have "p = take 2 p @ drop 2 p" by simp
  also have "drop 2 p = take 2 (drop 2 p) @ drop 4 p"
    using take_drop_split [of 2 2 p] d(3) len by simp
  also have "drop 4 p = take 2 (drop 4 p) @ drop po p"
    using take_drop_split [of 4 2 p] d(3) len by simp
  finally have "p = alg_field alg (be_bytes 2 (unat d) @ be_bytes 2 (unat e)) @ drop po p"
    using assms(1) d False by (simp add: Get_iff alg_field_def algNull_def)
  moreover have "is_alg 4 (alg_field alg (be_bytes 2 (unat d) @ be_bytes 2 (unat e)))"
    unfolding is_alg_def by (intro exI conjI) auto
  moreover have "length (alg_field alg (be_bytes 2 (unat d) @ be_bytes 2 (unat e))) = 6"
    using False by (simp add: alg_field_def algNull_def)
  ultimately show ?thesis using d(3) len by metis
qed

lemma alg_step_2:
  assumes "is_alg 2 f" and "length pre = po"
  shows "alg_step (pre @ f @ r) po (details_2 (pre @ f @ r) po) F = F (po + length f)"
proof -
  from assms(1) obtain alg details where f: "length details = 2" "f = alg_field alg details"
    by (auto simp: is_alg_def)
  show ?thesis
    using assms(2) by (cases "alg = 0x10") (simp_all add: f alg_field_def get_skip algNull_def GetU16 add.commute [of 4 po])
qed

lemma alg_step_4:
  assumes "is_alg 4 f"
  shows "alg_step (f @ r) 0 (details_4 (f @ r)) F = F (length f)"
proof -
  from assms(1) obtain alg details where f: "length details = 4" "f = alg_field alg details"
    by (auto simp: is_alg_def)
  show ?thesis
    by (cases "alg = 0x10") (simp_all add: f alg_field_def get_skip algNull_def GetU16)
qed

lemma head_split:
  assumes "GetU16 C b 0 = Some v" and "GetU16 C b 2 = Some w" and "GetU32 C b 4 = Some a"
  shows "b = be_bytes 2 (unat v) @ be_bytes 2 (unat w) @ be_bytes 4 (unat a) @ drop 8 b"
proof -
  have "b = take 2 b @ drop 2 b" by simp
  also have "drop 2 b = take 2 (drop 2 b) @ drop 4 b"
    using take_drop_split [of 2 2 b] assms by (simp add: Get_iff)
  also have "drop 4 b = take 4 (drop 4 b) @ drop 8 b"
    using take_drop_split [of 4 4 b] assms by (simp add: Get_iff)
  finally show ?thesis using assms by (simp add: Get_iff)
qed

text \<open>The walk after the policy, on the bytes it is handed.\<close>

definition walk_parms :: "bytes \<Rightarrow> AKPublic res" where
  "walk_parms p =
     alg_step p 0 (details_4 p) (\<lambda>po.
     alg_step p po (details_2 p po) (\<lambda>po.
     rbind (need (GetU16 C p po)) (\<lambda>_.
     alg_step p (po + 2) (details_2 p (po + 2)) (\<lambda>po.
     rbind (slice_from p po) (\<lambda>ppo.
     rbind (UnmarshalTPM2B C ppo) (\<lambda>(x, rest2).
     rbind (UnmarshalTPM2B C rest2) (\<lambda>(y, _).
     Inr \<lparr>ak_X = x, ak_Y = y\<rparr>)))))))"

lemma parse_walk:
  "parseTPMTPublicECCPoint C b =
     rbind (need (GetU16 C b 0)) (\<lambda>_.
     rbind (need (GetU16 C b 2)) (\<lambda>_.
     rbind (need (GetU32 C b 4)) (\<lambda>_.
     rbind (slice_from b 8) (\<lambda>b8.
     rbind (UnmarshalTPM2B C b8) (\<lambda>(_, p). walk_parms p)))))"
  by (simp only: parseTPMTPublicECCPoint_def walk_parms_def add_0)

lemma walk_parms_bytes:
  assumes "is_alg 4 s" "is_alg 2 sc" "is_alg 2 k" "length (ak_X pt) < 65536" "length (ak_Y pt) < 65536"
  shows "walk_parms (parms_bytes s sc cu k pt @ rest) = Inr pt"
proof -
  define xy where "xy = tpm2b (ak_X pt) @ tpm2b (ak_Y pt) @ rest"
  define b where "b = parms_bytes s sc cu k pt @ rest"
  have b1: "b = s @ (sc @ be_bytes 2 (unat cu) @ k @ xy)"
    and b2: "b = s @ sc @ (be_bytes 2 (unat cu) @ k @ xy)"
    and b3: "b = (s @ sc @ be_bytes 2 (unat cu)) @ k @ xy"
    by (simp_all add: b_def parms_bytes_def xy_def)
  have s1: "alg_step b 0 (details_4 b) F = F (length s)" for F :: "nat \<Rightarrow> AKPublic res"
    unfolding b1 by (rule alg_step_4 [OF assms(1)])
  have s2: "alg_step b (length s) (details_2 b (length s)) F = F (length s + length sc)"
    for F :: "nat \<Rightarrow> AKPublic res"
    unfolding b2 by (rule alg_step_2 [OF assms(2) refl])
  have s3: "alg_step b (length s + length sc + 2) (details_2 b (length s + length sc + 2)) F
      = F (length s + length sc + 2 + length k)" for F :: "nat \<Rightarrow> AKPublic res"
    unfolding b3 by (rule alg_step_2 [OF assms(3)]) simp
  have cu: "need (GetU16 C b (length s + length sc)) = Inr cu"
    by (simp add: b3 get_skip)
  have rest: "slice_from b (length s + length sc + 2 + length k) = Inr xy"
    by (simp add: b3)
  show ?thesis
    unfolding b_def [symmetric] walk_parms_def s1 s2 cu rbind_simps s3 rest
    using assms(4,5) by (simp add: xy_def UnmarshalTPM2B)
qed

lemma walk_parms_Inr:
  assumes "walk_parms p = Inr pt"
  shows "\<exists>s sc cu k rest. is_alg 4 s \<and> is_alg 2 sc \<and> is_alg 2 k \<and>
    length (ak_X pt) < 65536 \<and> length (ak_Y pt) < 65536 \<and> p = parms_bytes s sc cu k pt @ rest"
proof -
  from assms obtain a1 po1 a2 po2 cu a3 po3 x rest2 y rest3 where
    s: "GetU16 C p 0 = Some a1" "details_4 p a1 = Inr po1" and
    sc: "GetU16 C p po1 = Some a2" "details_2 p po1 a2 = Inr po2" and
    cu: "GetU16 C p po2 = Some cu" and
    k: "GetU16 C p (po2 + 2) = Some a3" "details_2 p (po2 + 2) a3 = Inr po3" and
    x: "UnmarshalTPM2B C (drop po3 p) = Inr (x, rest2)" and
    y: "UnmarshalTPM2B C rest2 = Inr (y, rest3)" and pt: "pt = \<lparr>ak_X = x, ak_Y = y\<rparr>"
    unfolding walk_parms_def rbind_Inr_iff need_Inr_iff slice_from_Inr_iff split_paired_Ex prod.case
    by blast
  from details_4_Some [OF s] obtain f1 where f1: "is_alg 4 f1" "p = f1 @ drop po1 p" by blast
  from details_2_Some [OF sc] obtain f2 where f2: "is_alg 2 f2" "drop po1 p = f2 @ drop po2 p" by blast
  from cu have mid: "drop po2 p = be_bytes 2 (unat cu) @ drop (po2 + 2) p"
    using take_drop_split [of po2 2 p] by (simp add: Get_iff)
  from details_2_Some [OF k] obtain f3 where f3: "is_alg 2 f3" "drop (po2 + 2) p = f3 @ drop po3 p" by blast
  from x y have xy: "drop po3 p = tpm2b x @ tpm2b y @ rest3" "length x < 65536" "length y < 65536"
    by (simp_all add: UnmarshalTPM2B_Inr_iff)
  note f1(2) also note f2(2) also note mid also note f3(2) also note xy(1)
  finally have "p = parms_bytes f1 f2 cu f3 pt @ rest3" by (simp add: pt parms_bytes_def)
  with f1(1) f2(1) f3(1) xy(2,3) show ?thesis
    by (intro exI [of _ f1] exI [of _ f2] exI [of _ cu] exI [of _ f3] exI [of _ rest3]) (simp add: pt)
qed

lemma parseTPMTPublicECCPoint_Inr_iff:
  "parseTPMTPublicECCPoint C b = Inr pt \<longleftrightarrow> (\<exists>e rest. is_ecc_public pt e \<and> b = e @ rest)"
proof
  assume "parseTPMTPublicECCPoint C b = Inr pt"
  then obtain v w a policy p where h: "GetU16 C b 0 = Some v" "GetU16 C b 2 = Some w" "GetU32 C b 4 = Some a"
    and policy: "UnmarshalTPM2B C (drop 8 b) = Inr (policy, p)" and walk: "walk_parms p = Inr pt"
    unfolding parse_walk rbind_Inr_iff need_Inr_iff slice_from_Inr_iff split_paired_Ex prod.case by blast
  from walk_parms_Inr [OF walk] obtain s sc cu k rest where f:
    "is_alg 4 s" "is_alg 2 sc" "is_alg 2 k" "length (ak_X pt) < 65536" "length (ak_Y pt) < 65536"
    "p = parms_bytes s sc cu k pt @ rest" by blast
  from policy have d: "length policy < 65536" "drop 8 b = tpm2b policy @ p"
    by (simp_all add: UnmarshalTPM2B_Inr_iff)
  note head_split [OF h] also note d(2) also note f(6)
  finally have "b = ecc_public_bytes v w a policy (parms_bytes s sc cu k pt) @ rest"
    by (simp add: ecc_public_bytes_def)
  moreover have "is_ecc_public pt (ecc_public_bytes v w a policy (parms_bytes s sc cu k pt))"
    using d(1) f(1-5) unfolding is_ecc_public_def by blast
  ultimately show "\<exists>e rest. is_ecc_public pt e \<and> b = e @ rest" by blast
next
  assume "\<exists>e rest. is_ecc_public pt e \<and> b = e @ rest"
  then obtain ty na at policy s sc cu k rest where
    f: "length policy < 65536" "is_alg 4 s" "is_alg 2 sc" "is_alg 2 k"
      "length (ak_X pt) < 65536" "length (ak_Y pt) < 65536" and
    b: "b = ecc_public_bytes ty na at policy (parms_bytes s sc cu k pt) @ rest"
    unfolding is_ecc_public_def by blast
  have "parseTPMTPublicECCPoint C b = walk_parms (parms_bytes s sc cu k pt @ rest)"
    using f(1) by (simp add: parse_walk b ecc_public_bytes_def get_skip UnmarshalTPM2B)
  then show "parseTPMTPublicECCPoint C b = Inr pt" using walk_parms_bytes [OF f(2-6)] by simp
qed

lemma fails_details [fails_intros]:
  "ErrShortBuffer \<in> E \<Longrightarrow> fails_only E (details_2 p po alg)"
  "ErrShortBuffer \<in> E \<Longrightarrow> fails_only E (details_4 p alg)"
  by (auto intro!: fails_intros)

lemma walk_parms_fails: "fails_only {ErrShortBuffer} (walk_parms p)"
  unfolding walk_parms_def
  by (intro fails_intros) (auto simp only: need_Inr_iff insert_iff dest: details_2_Some)

lemma parseTPMTPublicECCPoint_fails [fails_intros]:
  "ErrShortBuffer \<in> E \<Longrightarrow> fails_only E (parseTPMTPublicECCPoint C b)"
proof -
  have "fails_only {ErrShortBuffer} (parseTPMTPublicECCPoint C b)"
    unfolding parse_walk
    by (intro fails_intros walk_parms_fails) (auto simp: need_Inr_iff dest: get_Some_length)
  then show "ErrShortBuffer \<in> E \<Longrightarrow> ?thesis" by (auto simp: fails_only_iff)
qed

lemma CreatePrimaryPublic_response_Inr_iff:
  "CreatePrimaryPublic_response C rp = Inr (handle, pub) \<longleftrightarrow> length pub < 65536 \<and>
     (\<exists>(parameterSize :: u32) rest. rp = be_bytes 4 (unat handle) @ be_bytes 4 (unat parameterSize) @ tpm2b pub @ rest)"
  (is "?l \<longleftrightarrow> ?r")
proof
  assume ?l
  then obtain n rest where h: "GetU32 C rp 0 = Some handle" "GetU32 C rp 4 = Some n"
    "length pub < 65536" "drop 8 rp = tpm2b pub @ rest"
    by (auto simp: CreatePrimaryPublic_response_def res_iff UnmarshalTPM2B_Inr_iff)
  have "rp = take 4 rp @ drop 4 rp" by simp
  also have "drop 4 rp = take 4 (drop 4 rp) @ drop 8 rp"
    using take_drop_split [of 4 4 rp] h(2) by (simp add: Get_iff)
  finally show ?r using h by (auto simp: Get_iff)
qed (auto simp: CreatePrimaryPublic_response_def get_skip UnmarshalTPM2B)

lemma CreatePrimary_response_via:
  "parseCreatePrimaryResponse C rp =
     rbind (CreatePrimaryPublic_response C rp) (\<lambda>(handle, pub).
     rbind (parseTPMTPublicECCPoint C pub) (\<lambda>pt. Inr (handle, pt)))"
  by (simp add: parseCreatePrimaryResponse_def CreatePrimaryPublic_response_def rbind_assoc split_def)

lemma parseQuoteResponse_Inr_iff:
  "parseQuoteResponse C rp = Inr (quoted, sig) \<longleftrightarrow>
   length quoted < 65536 \<and> length (sig_R sig) < 65536 \<and> length (sig_S sig) < 65536 \<and>
   (\<exists>(parameterSize :: u32) (hash :: u16) rest. rp = be_bytes 4 (unat parameterSize) @ tpm2b quoted @
      be_bytes 2 0x18 @ be_bytes 2 (unat hash) @ tpm2b (sig_R sig) @ tpm2b (sig_S sig) @ rest)"
  (is "?l \<longleftrightarrow> ?r")
proof
  assume ?l
  then obtain n rest h rest2 rest3 where
    f: "GetU32 C rp 0 = Some n" "drop 4 rp = tpm2b quoted @ rest" "length quoted < 65536"
      "GetU16 C rest 0 = Some AlgECDSA" "GetU16 C rest 2 = Some h"
      "drop 4 rest = tpm2b (sig_R sig) @ rest2" "rest2 = tpm2b (sig_S sig) @ rest3"
      "length (sig_R sig) < 65536" "length (sig_S sig) < 65536"
    unfolding parseQuoteResponse_def
    by (auto simp: res_iff UnmarshalTPM2B_Inr_iff)
  have rp: "rp = be_bytes 4 (unat n) @ drop 4 rp"
    using f(1) append_take_drop_id [of 4 rp] by (simp add: Get_iff)
  have "rest = take 2 rest @ drop 2 rest" by simp
  also have "drop 2 rest = take 2 (drop 2 rest) @ drop 4 rest"
    using take_drop_split [of 2 2 rest] f(5) by (simp add: Get_iff)
  finally have rest: "rest = be_bytes 2 0x18 @ be_bytes 2 (unat h) @ tpm2b (sig_R sig) @ tpm2b (sig_S sig) @ rest3"
    using f(4-7) by (simp add: Get_iff AlgECDSA_def)
  show ?r using rp f(3,8,9) unfolding f(2) rest by blast
next
  assume ?r
  then show ?l
    by (auto simp: parseQuoteResponse_def get_skip UnmarshalTPM2B AlgECDSA_def)
qed

lemma attest_fails:
  "fails_only {ErrShortBuffer} (parseCreatePrimaryResponse C rp)"
  "fails_only {ErrShortBuffer} (CreatePrimaryPublic_response C rp)"
  "fails_only {ErrShortBuffer, ErrUnexpectedSigAlg} (parseQuoteResponse C rp)"
  unfolding parseCreatePrimaryResponse_def CreatePrimaryPublic_response_def parseQuoteResponse_def
  by (intro fails_intros; auto simp: need_Inr_iff dest: get_Some_length)+

lemma Quote_body_eq:
  "length data < 65536 \<Longrightarrow> Quote_body C key data sel =
     be_bytes 4 (unat key) @ be_bytes 4 9 @ password_auth @ tpm2b data @ be_bytes 2 0x10 @
     marshalPCRSelectionList C sel"
  by (simp add: Quote_body_def puts marshalPasswordAuth_eq algNull_def)

lemma CreatePrimary_bodies:
  "CreatePrimary_body C = be_bytes 4 (unat (CommonRHOwner C)) @ be_bytes 4 9 @ password_auth @
     marshalEmptySensitiveCreate C @ marshalECCAKPublic C @ be_bytes 2 0 @ be_bytes 4 0"
  "CreatePrimaryPublic_body C = CreatePrimary_body C"
  by (simp_all add: CreatePrimary_body_def CreatePrimaryPublic_body_def puts marshalPasswordAuth_eq)

end

section \<open>Properties\<close>


text \<open>The bytes of a small ECC public area, with a policy and an ECDSA scheme.\<close>

definition sample_public :: bytes where
  "sample_public = [0, 0x23, 0, 0xB, 0, 5, 0, 0x72, 0, 1, 0xAA, 0, 0x10, 0, 0x18, 0, 0xB, 0, 3, 0, 0x10,
     0, 2, 0x12, 0x34, 0, 1, 0x56]"

lemma sample_public_encodes: "is_ecc_public \<lparr>ak_X = [0x12, 0x34], ak_Y = [0x56]\<rparr> sample_public"
proof -
  have "sample_public = ecc_public_bytes 0x23 0xB 0x50072 [0xAA] (parms_bytes (alg_field 0x10 [0, 0, 0, 0])
      (alg_field 0x18 [0, 0xB]) 3 (alg_field 0x10 [0, 0]) \<lparr>ak_X = [0x12, 0x34], ak_Y = [0x56]\<rparr>)"
    by (simp add: sample_public_def ecc_public_bytes_def parms_bytes_def alg_field_def be_eval tpm2b_def)
  moreover have "is_alg 4 (alg_field 0x10 [0, 0, 0, 0])" "is_alg 2 (alg_field 0x18 [0, 0xB])"
    "is_alg 2 (alg_field 0x10 [0, 0])"
    unfolding is_alg_def by (intro exI conjI refl; simp)+
  ultimately show ?thesis unfolding is_ecc_public_def by force
qed


text \<open>
  C38. The bytes of the attestation commands. Both creation methods put the same single frame on the
  wire: the owner hierarchy, the password session, an empty sensitive area, the template of a
  restricted ECDSA signing key on P-256, no outside info and no creation PCRs. \<open>Quote\<close> sends the key,
  the session, the nonce, the null scheme and the PCR selection.
\<close>

theorem attest_command_frames:
  assumes "wire_codec C" and "length nonce < 65536" and "length sel < 0x10000000"
  shows "(let create = frame 0x8002 0x131 ([0x40, 0, 0, 1] @ [0, 0, 0, 9] @ password_auth @
        tpm2b [0, 0, 0, 0] @
        tpm2b [0, 0x23, 0, 0xB, 0, 5, 0, 0x72, 0, 0, 0, 0x10, 0, 0x18, 0, 0xB, 0, 3, 0, 0x10, 0, 0, 0, 0] @
        [0, 0] @ [0, 0, 0, 0])
      in sent_only w create (CreatePrimary C tpm w) \<and> sent_only w create (CreatePrimaryPublic C tpm w)) \<and>
    sent_only w (frame 0x8002 0x158 (be_bytes 4 (unat key) @ [0, 0, 0, 9] @ password_auth @
      tpm2b nonce @ [0, 0x10] @ be_bytes 4 (length sel) @ concat (map selection_bytes sel)))
      (Quote C tpm key nonce sel w)"
proof -
  note wire = wire_codec.to_wire [OF assms(1)] wire_codec.CommonRHOwner [OF assms(1)]
  note bc = wire_codec.axioms(1) [OF assms(1)]
  have sel: "unat (of_nat (length sel) :: u32) = length sel" using assms(3) by (simp add: unat_of_nat)
  have t: "CreatePrimary_body C = [0x40, 0, 0, 1] @ [0, 0, 0, 9] @ password_auth @ tpm2b [0, 0, 0, 0] @
        tpm2b [0, 0x23, 0, 0xB, 0, 5, 0, 0x72, 0, 0, 0, 0x10, 0, 0x18, 0, 0xB, 0, 3, 0, 0x10, 0, 0, 0, 0] @
        [0, 0] @ [0, 0, 0, 0]"
    by (simp add: byte_codec.CreatePrimary_bodies [OF bc] wire byte_codec.marshalEmptySensitiveCreate_eq [OF bc]
        byte_codec.marshalECCAKPublic_eq [OF bc] alg_field_def tpm2b_def be_eval)
  have create: "BuildCommand C (TagSessions C) (CCCreatePrimary C) (CreatePrimary_body C) =
      frame 0x8002 0x131 (CreatePrimary_body C)"
    unfolding t by (simp add: wire)
  have quote: "BuildCommand C (TagSessions C) (CCQuote C) (Quote_body C key nonce sel) =
      frame 0x8002 0x158 (be_bytes 4 (unat key) @ [0, 0, 0, 9] @ password_auth @
        tpm2b nonce @ [0, 0x10] @ be_bytes 4 (length sel) @ concat (map selection_bytes sel))"
    using assms(2,3) by (simp add: byte_codec.Quote_body_eq [OF bc] wire sel
        byte_codec.marshalPCRSelectionList_eq [OF bc] length_concat comp_def sum_list_triv be_eval)
  show ?thesis
    unfolding Let_def t [symmetric]
    by (intro conjI createprimary.sends_frame createprimarypublic.sends_frame quote.sends_frame)
      (simp_all only: create quote byte_codec.CreatePrimary_bodies(2) [OF bc])
qed

theorem attest_command_frames_witness:
  "sent_only \<lparr>dev = [], rand = (), trace = []\<rparr>
    (frame 0x8002 0x158 ([0x80, 0, 0, 1] @ [0, 0, 0, 9] @ password_auth @ [0, 2, 7, 7] @ [0, 0x10] @ [0, 0, 0, 0]))
    (Quote be_codec (New playback) 0x80000001 [7, 7] [] \<lparr>dev = [], rand = (), trace = []\<rparr>)"
  using attest_command_frames [OF be.wire_codec_axioms, where nonce = "[7, 7]" and sel = "[]" and
      w = "\<lparr>dev = [], rand = (), trace = []\<rparr>" and tpm = "New playback" and key = "0x80000001"]
  by (simp add: be_eval tpm2b_def Let_def)

text \<open>
  \<open>CreatePrimary\<close> is \<open>CreatePrimaryPublic\<close> followed by the walk to the public point: from every
  world, on every device, the two leave the same world, fail alike, and agree on the handle and
  the public area.
\<close>

theorem CreatePrimary_via_public:
  assumes "byte_codec C"
  shows "CreatePrimary C tpm w =
    (let (r, w') = CreatePrimaryPublic C tpm w
     in (rbind r (\<lambda>(handle, pub). rbind (parseTPMTPublicECCPoint C pub) (\<lambda>pt. Inr (handle, pt))), w'))"
  by (simp add: createprimary.result createprimarypublic.result byte_codec.CreatePrimary_bodies(2) [OF assms]
      byte_codec.CreatePrimary_response_via [OF assms, abs_def] rbind_assoc)

theorem CreatePrimary_via_public_witness:
  "CreatePrimary be_codec (New playback) \<lparr>dev = [], rand = (), trace = []\<rparr> =
    (let (r, w') = CreatePrimaryPublic be_codec (New playback) \<lparr>dev = [], rand = (), trace = []\<rparr>
     in (rbind r (\<lambda>(handle, pub). rbind (parseTPMTPublicECCPoint be_codec pub) (\<lambda>pt. Inr (handle, pt))), w'))"
  by (rule CreatePrimary_via_public [OF be.byte_codec_axioms])

text \<open>
  C30. The quote is decoded exactly. When the TPM answers, \<open>Quote\<close> returns the attestation bytes and a
  signature if and only if the response is a parameter size, these bytes as a TPM2B, and an ECDSA
  signature with this pair; a signature of another algorithm is reported as such.
\<close>

theorem Quote_exact:
  assumes "byte_codec C"
    and "answers C tpm (dev w) (BuildCommand C (TagSessions C) (CCQuote C) (Quote_body C key nonce sel)) rp s'"
  shows "(fst (Quote C tpm key nonce sel w) = Inr (quoted, sig) \<longleftrightarrow>
      length quoted < 65536 \<and> length (sig_R sig) < 65536 \<and> length (sig_S sig) < 65536 \<and>
      (\<exists>(parameterSize :: u32) (hash :: u16) rest. rp = be_bytes 4 (unat parameterSize) @ tpm2b quoted @
         be_bytes 2 0x18 @ be_bytes 2 (unat hash) @ tpm2b (sig_R sig) @ tpm2b (sig_S sig) @ rest)) \<and>
    (\<forall>(parameterSize :: u32) (alg :: u16) rest. length quoted < 65536 \<and> alg \<noteq> 0x18 \<and>
      rp = be_bytes 4 (unat parameterSize) @ tpm2b quoted @ be_bytes 2 (unat alg) @ rest \<longrightarrow>
      fst (Quote C tpm key nonce sel w) = Inl ErrUnexpectedSigAlg)"
proof -
  have q: "fst (Quote C tpm key nonce sel w) = parseQuoteResponse C rp"
    using quote.answered [OF assms(2)] by simp
  have "parseQuoteResponse C (be_bytes 4 (unat (n :: u32)) @ tpm2b quoted @ be_bytes 2 (unat alg) @ rest)
      = Inl ErrUnexpectedSigAlg" if "length quoted < 65536" "alg \<noteq> 0x18" for n and alg :: u16 and rest
    using that byte_codec.GetU16_front [OF assms(1)] byte_codec.GetU32_front [OF assms(1)]
      byte_codec.UnmarshalTPM2B [OF assms(1)]
    by (simp add: parseQuoteResponse_def AlgECDSA_def ucast_id)
  then show ?thesis
    unfolding q byte_codec.parseQuoteResponse_Inr_iff [OF assms(1)] by blast
qed

theorem Quote_exact_witness:
  "fst (Quote be_codec (New playback) 0x80000001 [7, 7] []
     \<lparr>dev = [frame 0x8002 0 ([0, 0, 0, 14] @ [0, 1, 0xFF] @ [0, 0x18] @ [0, 0xB] @ [0, 1, 5] @ [0, 1, 6])],
      rand = (), trace = []\<rparr>) = Inr ([0xFF], \<lparr>sig_R = [5], sig_S = [6]\<rparr>)"
proof -
  let ?rp = "[0, 0, 0, 14] @ [0, 1, 0xFF] @ [0, 0x18] @ [0, 0xB] @ [0, 1, 5] @ [0, 1, 6]"
  have a: "answers be_codec (New playback)
      (dev \<lparr>dev = [frame 0x8002 0 ?rp], rand = (), trace = []\<rparr>)
      (BuildCommand be_codec (TagSessions be_codec) (CCQuote be_codec) (Quote_body be_codec 0x80000001 [7, 7] []))
      ?rp []"
    by (simp add: answers_def New_def be_codec_def be_ParseResponse_def frame_def be_eval)
  have "?rp = be_bytes 4 (unat (14 :: u32)) @ tpm2b [0xFF] @ be_bytes 2 0x18 @ be_bytes 2 (unat (0xB :: u16)) @
      tpm2b (sig_R \<lparr>sig_R = [5], sig_S = [6]\<rparr>) @ tpm2b (sig_S \<lparr>sig_R = [5], sig_S = [6]\<rparr>) @ []"
    by (simp add: be_eval tpm2b_def)
  then have "\<exists>(parameterSize :: u32) (hash :: u16) rest. ?rp = be_bytes 4 (unat parameterSize) @ tpm2b [0xFF] @
      be_bytes 2 0x18 @ be_bytes 2 (unat hash) @ tpm2b (sig_R \<lparr>sig_R = [5], sig_S = [6]\<rparr>) @
      tpm2b (sig_S \<lparr>sig_R = [5], sig_S = [6]\<rparr>) @ rest" by blast
  then show ?thesis
    by (intro iffD2 [OF conjunct1 [OF Quote_exact [OF be.byte_codec_axioms a]]] conjI) simp_all
qed

end
