(* ===== verification/Sha256.thy ===== *)
theory Sha256
  imports Prelude
begin

text \<open>
  What the package uses of \<open>crypto/sha256\<close> and \<open>crypto/hmac\<close> of Go's standard
  library: \<open>sha256.Sum256\<close> (FIPS 180-4) and \<open>hmac.New(sha256.New, key)\<close> (FIPS 198-1).
  A hash that the code feeds with several \<open>Write\<close> calls before \<open>Sum\<close> is the hash of
  the concatenation of what was written.
\<close>

unbundle bit_operations_syntax

section \<open>SHA-256\<close>

type_synonym sha_state = "u32 \<times> u32 \<times> u32 \<times> u32 \<times> u32 \<times> u32 \<times> u32 \<times> u32"

text \<open>The round constants, in decimal: the fractional parts of the cube roots of the first 64 primes.\<close>

definition sha_k :: "u32 list" where
  "sha_k =
    [1116352408, 1899447441, 3049323471, 3921009573, 961987163, 1508970993,
     2453635748, 2870763221, 3624381080, 310598401, 607225278, 1426881987,
     1925078388, 2162078206, 2614888103, 3248222580, 3835390401, 4022224774,
     264347078, 604807628, 770255983, 1249150122, 1555081692, 1996064986,
     2554220882, 2821834349, 2952996808, 3210313671, 3336571891, 3584528711,
     113926993, 338241895, 666307205, 773529912, 1294757372, 1396182291,
     1695183700, 1986661051, 2177026350, 2456956037, 2730485921, 2820302411,
     3259730800, 3345764771, 3516065817, 3600352804, 4094571909, 275423344,
     430227734, 506948616, 659060556, 883997877, 958139571, 1322822218,
     1537002063, 1747873779, 1955562222, 2024104815, 2227730452, 2361852424,
     2428436474, 2756734187, 3204031479, 3329325298]"

definition sha_init :: sha_state where
  "sha_init =
    (0x6a09e667, 0xbb67ae85, 0x3c6ef372, 0xa54ff53a, 0x510e527f, 0x9b05688c, 0x1f83d9ab, 0x5be0cd19)"

definition sha_ch :: "u32 \<Rightarrow> u32 \<Rightarrow> u32 \<Rightarrow> u32" where
  "sha_ch x y z = (x AND y) XOR (NOT x AND z)"

definition sha_maj :: "u32 \<Rightarrow> u32 \<Rightarrow> u32 \<Rightarrow> u32" where
  "sha_maj x y z = (x AND y) XOR (x AND z) XOR (y AND z)"

definition rotr :: "nat \<Rightarrow> u32 \<Rightarrow> u32" where
  "rotr n x = drop_bit n x OR push_bit (32 - n) x"

definition sha_bsig0 :: "u32 \<Rightarrow> u32" where
  "sha_bsig0 x = rotr 2 x XOR rotr 13 x XOR rotr 22 x"

definition sha_bsig1 :: "u32 \<Rightarrow> u32" where
  "sha_bsig1 x = rotr 6 x XOR rotr 11 x XOR rotr 25 x"

definition sha_ssig0 :: "u32 \<Rightarrow> u32" where
  "sha_ssig0 x = rotr 7 x XOR rotr 18 x XOR drop_bit 3 x"

definition sha_ssig1 :: "u32 \<Rightarrow> u32" where
  "sha_ssig1 x = rotr 17 x XOR rotr 19 x XOR drop_bit 10 x"

text \<open>The message schedule, most recent word first while it grows.\<close>

fun sha_expand :: "nat \<Rightarrow> u32 list \<Rightarrow> u32 list" where
  "sha_expand 0 ws = ws"
| "sha_expand (Suc n) ws =
     sha_expand n ((sha_ssig1 (ws ! 1) + ws ! 6 + sha_ssig0 (ws ! 14) + ws ! 15) # ws)"

fun sha_words :: "bytes \<Rightarrow> u32 list" where
  "sha_words (a # b # c # d # r) = of_nat (be_nat [a, b, c, d]) # sha_words r"
| "sha_words _ = []"

fun sha_round :: "sha_state \<Rightarrow> u32 \<times> u32 \<Rightarrow> sha_state" where
  "sha_round (a, b, c, d, e, f, g, h) (k, w) =
     (let t1 = h + sha_bsig1 e + sha_ch e f g + k + w;
          t2 = sha_bsig0 a + sha_maj a b c
      in (t1 + t2, a, b, c, d + t1, e, f, g))"

fun sha_add :: "sha_state \<Rightarrow> sha_state \<Rightarrow> sha_state" where
  "sha_add (a, b, c, d, e, f, g, h) (a', b', c', d', e', f', g', h') =
     (a + a', b + b', c + c', d + d', e + e', f + f', g + g', h + h')"

definition sha_block :: "sha_state \<Rightarrow> bytes \<Rightarrow> sha_state" where
  "sha_block s blk =
     sha_add s (foldl sha_round s (zip sha_k (rev (sha_expand 48 (rev (sha_words blk))))))"

function sha_blocks :: "sha_state \<Rightarrow> bytes \<Rightarrow> sha_state" where
  "sha_blocks s m = (if m = [] then s else sha_blocks (sha_block s (take 64 m)) (drop 64 m))"
  by pat_completeness auto
termination
  by (relation "measure (\<lambda>(s, m). length m)") auto

declare sha_blocks.simps [simp del]

definition sha_pad :: "bytes \<Rightarrow> bytes" where
  "sha_pad m =
     m @ [0x80] @ replicate ((119 - length m mod 64) mod 64) 0 @ be_bytes 8 (8 * length m)"

fun sha_digest :: "sha_state \<Rightarrow> bytes" where
  "sha_digest (a, b, c, d, e, f, g, h) =
     concat (map (\<lambda>w. be_bytes 4 (unat w)) [a, b, c, d, e, f, g, h])"

definition sha256 :: "bytes \<Rightarrow> bytes" where
  "sha256 m = sha_digest (sha_blocks sha_init (sha_pad m))"

lemma length_sha_digest: "length (sha_digest s) = 32"
  by (cases s) (auto simp: split_paired_all)

lemma length_sha256 [simp]: "length (sha256 m) = 32"
  by (simp add: sha256_def length_sha_digest)

lemma sha256_not_nil [simp]: "sha256 m \<noteq> []"
  by (metis length_sha256 list.size(3) zero_neq_numeral)

lemma sha_pad_arith: "(n + (9 + (119 - n mod 64) mod 64)) mod 64 = (0::nat)"
proof -
  have "n mod 64 < 64" by simp
  moreover have "\<forall>r \<in> set [0..<64]. (r + (9 + (119 - r) mod 64)) mod 64 = (0::nat)" by code_simp
  ultimately have "(n mod 64 + (9 + (119 - n mod 64) mod 64)) mod 64 = 0" by (metis atLeastLessThan_iff set_upt zero_le)
  then show ?thesis by (metis mod_add_left_eq)
qed

lemma sha_pad_blocks: "length (sha_pad m) mod 64 = 0"
  using sha_pad_arith [of "length m"] by (simp add: sha_pad_def ac_simps)

section \<open>HMAC-SHA-256\<close>

definition hmac_key :: "bytes \<Rightarrow> bytes" where
  "hmac_key k = (let k' = (if length k > 64 then sha256 k else k) in k' @ replicate (64 - length k') 0)"

definition hmac :: "bytes \<Rightarrow> bytes \<Rightarrow> bytes" where
  "hmac k m =
     sha256 (map (\<lambda>b. b XOR 0x5c) (hmac_key k) @ sha256 (map (\<lambda>b. b XOR 0x36) (hmac_key k) @ m))"

lemma length_hmac [simp]: "length (hmac k m) = 32"
  by (simp add: hmac_def)

lemma length_hmac_key: "length (hmac_key k) = 64"
  by (simp add: hmac_key_def Let_def)

section \<open>Evaluation\<close>

text \<open>
  The simplifier does not reduce the numeral of a word by its width, so these equations do it
  once per round; with them a digest of a ground message is computed in the kernel.
\<close>

named_theorems sha_eval \<open>evaluating SHA-256 on ground messages\<close>

lemma take_bit_u32: "take_bit 32 (w :: u32) = w"
  by (simp add: take_bit_word_eq_self)

lemma sha_round_eval [sha_eval]:
  "sha_round (a, b, c, d, e, f, g, h) (k, w) =
    (take_bit 32 (h + sha_bsig1 e + sha_ch e f g + k + w + (sha_bsig0 a + sha_maj a b c)), a, b, c,
     take_bit 32 (d + (h + sha_bsig1 e + sha_ch e f g + k + w)), e, f, g)"
  by (simp only: sha_round.simps Let_def take_bit_u32)

lemma sha_expand_0 [sha_eval]: "sha_expand 0 ws = ws"
  by simp

lemma sha_expand_Suc [sha_eval]:
  "sha_expand (Suc n) ws =
     sha_expand n (take_bit 32 (sha_ssig1 (ws ! 1) + ws ! 6 + sha_ssig0 (ws ! 14) + ws ! 15) # ws)"
  by (simp only: sha_expand.simps take_bit_u32)

lemma sha_expand_numeral [sha_eval]:
  "sha_expand (numeral n) ws =
     sha_expand (pred_numeral n)
       (take_bit 32 (sha_ssig1 (ws ! 1) + ws ! 6 + sha_ssig0 (ws ! 14) + ws ! 15) # ws)"
  by (subst numeral_eq_Suc) (rule sha_expand_Suc)

lemma sha_add_eval [sha_eval]:
  "sha_add (a, b, c, d, e, f, g, h) (a', b', c', d', e', f', g', h') =
     (take_bit 32 (a + a'), take_bit 32 (b + b'), take_bit 32 (c + c'), take_bit 32 (d + d'),
      take_bit 32 (e + e'), take_bit 32 (f + f'), take_bit 32 (g + g'), take_bit 32 (h + h'))"
  by (simp only: sha_add.simps take_bit_u32)

lemma sha_blocks_eval [sha_eval]:
  "sha_blocks s [] = s"
  "sha_blocks s (x # m) = sha_blocks (sha_block s (take 64 (x # m))) (drop 64 (x # m))"
  by (simp_all add: sha_blocks.simps)

lemma replicate_numeral [sha_eval]: "replicate (numeral k) x = x # replicate (pred_numeral k) x"
  by (subst numeral_eq_Suc) simp

lemmas [sha_eval] = sha256_def sha_block_def sha_pad_def sha_k_def sha_init_def sha_bsig0_def
  sha_bsig1_def sha_ssig0_def sha_ssig1_def rotr_def sha_ch_def sha_maj_def be_bytes_numeral

declare sha_round.simps [simp del] sha_expand.simps [simp del] sha_add.simps [simp del]

end
