(* ===== verification/P256.thy ===== *)
theory P256
  imports Prelude
begin

text \<open>
  What the package uses of \<open>math/big\<close>, \<open>crypto/elliptic\<close> and \<open>crypto/ecdsa\<close> of Go's
  standard library: the bytes of a non-negative \<open>big.Int\<close>, the curve NIST P-256 with
  \<open>IsOnCurve\<close> and \<open>ScalarMult\<close>, and \<open>ecdsa.Verify\<close>. Points are pairs of coordinates,
  and \<open>(0, 0)\<close> stands for the point at infinity, as in \<open>crypto/elliptic\<close>.
\<close>

section \<open>big.Int and its bytes\<close>

text \<open>\<open>x.Bytes()\<close>: the shortest big-endian bytes. (\<open>new(big.Int).SetBytes\<close> is \<open>be_nat\<close>.)\<close>

fun big_Bytes :: "nat \<Rightarrow> bytes" where
  "big_Bytes n = (if n = 0 then [] else big_Bytes (n div 256) @ [of_nat n])"

declare big_Bytes.simps [simp del]

lemma big_Bytes_0 [simp]: "big_Bytes 0 = []"
  by (simp add: big_Bytes.simps)

lemma be_nat_big_Bytes [simp]: "be_nat (big_Bytes n) = n"
proof (induction n rule: big_Bytes.induct)
  case (1 n)
  show ?case
  proof (cases "n = 0")
    case False
    with 1 show ?thesis
      by (subst big_Bytes.simps) (simp add: be_nat_append unat_of_nat div_mult_mod_eq)
  qed simp
qed

lemma length_big_Bytes: "n < 256 ^ k \<Longrightarrow> length (big_Bytes n) \<le> k"
proof (induction k arbitrary: n)
  case 0
  then show ?case by simp
next
  case (Suc k)
  then have "n div 256 < 256 ^ k" by (simp add: less_mult_imp_div_less mult.commute)
  then have "length (big_Bytes (n div 256)) \<le> k" by (rule Suc.IH)
  then show ?case by (cases "n = 0") (simp_all add: big_Bytes.simps [of n])
qed

section \<open>Modular arithmetic\<close>

text \<open>The extended Euclidean algorithm, keeping only the coefficient of the second argument.\<close>

function inv_loop :: "nat \<Rightarrow> nat \<Rightarrow> int \<Rightarrow> int \<Rightarrow> int" where
  "inv_loop r0 r1 s0 s1 =
     (if r1 = 0 then s0 else inv_loop r1 (r0 mod r1) s1 (s0 - int (r0 div r1) * s1))"
  by pat_completeness auto
termination
  by (relation "measure (\<lambda>(r0, r1, s0, s1). r1)") auto

declare inv_loop.simps [simp del]

definition inv_mod :: "nat \<Rightarrow> nat \<Rightarrow> nat" where
  "inv_mod a m = nat (inv_loop m (a mod m) 0 1 mod int m)"

lemma inv_loop_correct:
  "\<lbrakk>m dvd s0 * a - int r0; m dvd s1 * a - int r1\<rbrakk> \<Longrightarrow>
   m dvd inv_loop r0 r1 s0 s1 * a - int (gcd r0 r1)"
proof (induction r0 r1 s0 s1 rule: inv_loop.induct)
  case (1 r0 r1 s0 s1)
  show ?case
  proof (cases "r1 = 0")
    case True
    with 1 show ?thesis by (simp add: inv_loop.simps)
  next
    case False
    have "int r0 - int (r0 div r1) * int r1 = int (r0 mod r1)"
      by (metis add_diff_cancel_left' div_mult_mod_eq of_nat_add of_nat_mult)
    then have "(s0 - int (r0 div r1) * s1) * a - int (r0 mod r1)
        = (s0 * a - int r0) - int (r0 div r1) * (s1 * a - int r1)"
      by (simp add: algebra_simps)
    then have "m dvd (s0 - int (r0 div r1) * s1) * a - int (r0 mod r1)"
      using 1(2,3) by (simp add: dvd_diff)
    then have "m dvd inv_loop r1 (r0 mod r1) s1 (s0 - int (r0 div r1) * s1) * a
        - int (gcd r1 (r0 mod r1))"
      using 1 False by blast
    with False show ?thesis by (simp add: inv_loop.simps [of r0] gcd_red_nat [of r0 r1])
  qed
qed

text \<open>\<open>inv_mod a m\<close> is the inverse of \<open>a\<close> modulo \<open>m\<close> whenever there is one.\<close>

lemma inv_mod_correct:
  assumes "1 < m" and "coprime a m"
  shows "(inv_mod a m * a) mod m = 1"
proof -
  let ?l = "inv_loop m (a mod m) 0 1"
  have "int m dvd 1 * int a - int (a mod m)"
    by (metis dvd_minus_mod mult_1 of_nat_dvd_iff of_nat_diff mod_less_eq_dividend)
  then have "int m dvd ?l * int a - int (gcd m (a mod m))"
    by (intro inv_loop_correct) simp_all
  moreover have "gcd m (a mod m) = 1"
    using assms(2) by (metis coprime_iff_gcd_eq_1 gcd.commute gcd_red_nat)
  ultimately have "(?l * int a) mod int m = 1 mod int m"
    by (simp add: mod_eq_dvd_iff)
  then have "int ((inv_mod a m * a) mod m) = 1"
    using assms(1) by (simp add: inv_mod_def of_nat_mod mod_mult_left_eq)
  then show ?thesis by simp
qed

section \<open>NIST P-256\<close>

definition p256_p :: nat where
  "p256_p = 0xffffffff00000001000000000000000000000000ffffffffffffffffffffffff"

definition p256_n :: nat where
  "p256_n = 0xffffffff00000000ffffffffffffffffbce6faada7179e84f3b9cac2fc632551"

definition p256_b :: nat where
  "p256_b = 0x5ac635d8aa3a93e7b3ebbd55769886bc651d06b0cc53b0f63bce3c3e27d2604b"

type_synonym point = "nat \<times> nat"

definition p256_G :: point where
  "p256_G =
     (0x6b17d1f2e12c4247f8bce6e563a440f277037d812deb33a0f4a13945d898c296,
      0x4fe342e2fe1a7f9b8ee7eb4a7c0f9e162bce33576b315ececbb6406837bf51f5)"

text \<open>
  \<open>IsOnCurve\<close>: the coordinates are reduced and satisfy \<open>y\<^sup>2 = x\<^sup>3 - 3x + b\<close>. It refuses
  \<open>(0, 0)\<close>, which does not satisfy the equation.
\<close>

definition IsOnCurve :: "nat \<Rightarrow> nat \<Rightarrow> bool" where
  "IsOnCurve x y \<longleftrightarrow>
     x < p256_p \<and> y < p256_p \<and>
     (y * y + 3 * x) mod p256_p = (x * x * x + p256_b) mod p256_p"

text \<open>Subtraction modulo \<open>p\<close> of reduced values.\<close>

definition sub_mod :: "nat \<Rightarrow> nat \<Rightarrow> nat" where
  "sub_mod a b = (a + p256_p - b mod p256_p) mod p256_p"

text \<open>The third intersection of the line of slope \<open>s\<close>, reflected.\<close>

definition chord :: "nat \<Rightarrow> point \<Rightarrow> point \<Rightarrow> point" where
  "chord s P Q =
     (let x = sub_mod (sub_mod (s * s mod p256_p) (fst P)) (fst Q)
      in (x, sub_mod (s * sub_mod (fst P) x mod p256_p) (snd P)))"

definition point_double :: "point \<Rightarrow> point" where
  "point_double P =
     (if P = (0, 0) \<or> snd P = 0 then (0, 0)
      else chord (sub_mod (3 * fst P * fst P mod p256_p) 3 * inv_mod (2 * snd P) p256_p mod p256_p) P P)"

definition point_add :: "point \<Rightarrow> point \<Rightarrow> point" where
  "point_add P Q =
     (if P = (0, 0) then Q else if Q = (0, 0) then P
      else if fst P = fst Q then (if snd P = snd Q then point_double P else (0, 0))
      else chord (sub_mod (snd Q) (snd P) * inv_mod (sub_mod (fst Q) (fst P)) p256_p mod p256_p) P Q)"

fun smult :: "nat \<Rightarrow> point \<Rightarrow> point" where
  "smult k P =
     (if k = 0 then (0, 0)
      else if even k then smult (k div 2) (point_double P)
      else point_add P (smult (k div 2) (point_double P)))"

declare smult.simps [simp del]

lemma smult_1 [simp]: "smult 1 P = (if P = (0, 0) then (0, 0) else P)"
  by (cases P) (simp add: smult.simps [of "Suc 0"] smult.simps [of 0] point_add_def)

text \<open>
  \<open>curve.ScalarMult(x, y, k)\<close>: the scalar is a big-endian byte string, taken modulo the order
  of the group; an argument that is not on the curve panics.
\<close>

definition ScalarMult :: "nat \<Rightarrow> nat \<Rightarrow> bytes \<Rightarrow> point res" where
  "ScalarMult x y k =
     (if (x, y) = (0, 0) \<or> IsOnCurve x y then Inr (smult (be_nat k mod p256_n) (x, y)) else Inl Panic)"

text \<open>
  \<open>ecdsa.Verify\<close> on P-256 for a digest: the hash is the leftmost 256 bits of the digest, the
  key must be a point of the curve, and both components lie in \<open>1..n-1\<close>.
\<close>

definition hash_to_nat :: "bytes \<Rightarrow> nat" where
  "hash_to_nat h = be_nat (take 32 h)"

definition ecdsa_Verify :: "point \<Rightarrow> bytes \<Rightarrow> nat \<Rightarrow> nat \<Rightarrow> bool" where
  "ecdsa_Verify Q h r s \<longleftrightarrow>
     IsOnCurve (fst Q) (snd Q) \<and> 0 < r \<and> r < p256_n \<and> 0 < s \<and> s < p256_n \<and>
     (let w = inv_mod s p256_n;
          u1 = hash_to_nat h * w mod p256_n;
          u2 = r * w mod p256_n;
          R = point_add (smult u1 p256_G) (smult u2 Q)
      in R \<noteq> (0, 0) \<and> fst R mod p256_n = r)"

text \<open>
  The base point is on the curve. The two sides of the equation differ by a multiple of the
  modulus, whose factor is given: checking it is a product and a sum.
\<close>

lemma mod_witness: "r = l + q * p \<Longrightarrow> (l :: nat) mod p = r mod p"
  by simp

lemma G_on_curve: "IsOnCurve (fst p256_G) (snd p256_G)"
proof -
  have "(snd p256_G * snd p256_G + 3 * fst p256_G) mod p256_p
      = (fst p256_G * fst p256_G * fst p256_G + p256_b) mod p256_p"
    by (rule mod_witness [where q = "0x12bdd1ad23dfc833dccf5f6141d6bb4a1f365dc1430b0e600b52dd851938d2d6933106a72efbf035fdaf43963b37fd5456e90c6581a8fb7a0d8a46a3629f0458"])
      (simp add: p256_G_def p256_p_def p256_b_def)
  moreover have "fst p256_G < p256_p" and "snd p256_G < p256_p"
    by (simp_all add: p256_G_def p256_p_def)
  ultimately show ?thesis by (simp only: IsOnCurve_def simp_thms)
qed

lemma p256_p_bound: "p256_p < 256 ^ 32"
  by (simp add: p256_p_def)

lemma p256_n_gt_1: "1 < p256_n"
  by (simp add: p256_n_def)

end
