(* ===== verification/Known_Answers.thy ===== *)
theory Known_Answers
  imports Sha256
begin

text \<open>
  SHA-256 digests evaluated in the kernel: a published test vector, and the digests of the concrete
  runs of the development, each block once.
\<close>

text \<open>The one-block example of FIPS 180-4.\<close>

lemma sha256_abc:
  "sha256 [0x61, 0x62, 0x63] =
    [0xba, 0x78, 0x16, 0xbf, 0x8f, 0x01, 0xcf, 0xea, 0x41, 0x41, 0x40, 0xde, 0x5d, 0xae, 0x22, 0x23,
     0xb0, 0x03, 0x61, 0xa3, 0x96, 0x17, 0x7a, 0x9c, 0xb4, 0x10, 0xff, 0x61, 0xf2, 0x00, 0x15, 0xad]"
  by (simp add: sha_eval)

text \<open>
  The two digests of the policy of the Endorsement Key: the empty policy extended by the code of
  \<open>PolicySecret\<close> and the handle of the endorsement hierarchy, then by an empty reference.
\<close>

lemma sha256_ek_policy:
  "sha256 (replicate 32 0 @ [0, 0, 1, 0x51, 0x40, 0, 0, 0x0B]) =
    [0xb6, 0x27, 0xb0, 0x43, 0xd3, 0x29, 0xfb, 0xeb, 0x7d, 0xfe, 0xfb, 0xdd, 0xee, 0x7d, 0x3d, 0x1f,
     0x43, 0x91, 0xc9, 0xf6, 0xcb, 0xbd, 0x96, 0xa1, 0xba, 0xc6, 0xa9, 0x9a, 0xe1, 0x77, 0x5a, 0x3a]" (is ?inner)
  "sha256 [0xb6, 0x27, 0xb0, 0x43, 0xd3, 0x29, 0xfb, 0xeb, 0x7d, 0xfe, 0xfb, 0xdd, 0xee, 0x7d, 0x3d, 0x1f,
            0x43, 0x91, 0xc9, 0xf6, 0xcb, 0xbd, 0x96, 0xa1, 0xba, 0xc6, 0xa9, 0x9a, 0xe1, 0x77, 0x5a, 0x3a] =
    [0x83, 0x71, 0x97, 0x67, 0x44, 0x84, 0xb3, 0xf8, 0x1a, 0x90, 0xcc, 0x8d, 0x46, 0xa5, 0xd7, 0x24,
     0xfd, 0x52, 0xd7, 0x6e, 0x06, 0x52, 0x0b, 0x64, 0xf2, 0xa1, 0xda, 0x1b, 0x33, 0x14, 0x69, 0xaa]" (is ?outer)
proof -
  show ?inner by (simp add: sha_eval)
  show ?outer by (simp add: sha_eval)
qed

text \<open>The digest of a quote attestation of two blocks, block by block.\<close>

lemma sha_block_quote:
  "sha_block sha_init
    [0xff, 0x54, 0x43, 0x47, 0x80, 0x18, 0x00, 0x02, 0x00, 0x0b, 0x00, 0x02, 0x07, 0x01, 0x00, 0x00,
    0x00, 0x00, 0x00, 0x00, 0x00, 0x00, 0x00, 0x00, 0x00, 0x00, 0x00, 0x00, 0x00, 0x00, 0x00, 0x00,
    0x00, 0x00, 0x00, 0x00, 0x00, 0x00, 0x00, 0x00, 0x00, 0x00, 0x01, 0x00, 0x0b, 0x03, 0x01, 0x00,
    0x00, 0x00, 0x20, 0xba, 0x78, 0x16, 0xbf, 0x8f, 0x01, 0xcf, 0xea, 0x41, 0x41, 0x40, 0xde, 0x5d] =
    (0xf6d79797, 0x8bd0cb6c, 0x53f97cdb, 0xe14d2267, 0x562eb8f2, 0xd43211cd, 0x74720e19, 0x57e9d862)" (is ?first)
  "sha_block (0xf6d79797, 0x8bd0cb6c, 0x53f97cdb, 0xe14d2267, 0x562eb8f2, 0xd43211cd, 0x74720e19, 0x57e9d862)
    [0xae, 0x22, 0x23, 0xb0, 0x03, 0x61, 0xa3, 0x96, 0x17, 0x7a, 0x9c, 0xb4, 0x10, 0xff, 0x61, 0xf2,
    0x00, 0x15, 0xad, 0x80, 0x00, 0x00, 0x00, 0x00, 0x00, 0x00, 0x00, 0x00, 0x00, 0x00, 0x00, 0x00,
    0x00, 0x00, 0x00, 0x00, 0x00, 0x00, 0x00, 0x00, 0x00, 0x00, 0x00, 0x00, 0x00, 0x00, 0x00, 0x00,
    0x00, 0x00, 0x00, 0x00, 0x00, 0x00, 0x00, 0x00, 0x00, 0x00, 0x00, 0x00, 0x00, 0x00, 0x02, 0x98] =
    (0xce2cdd23, 0x7d64dd36, 0x3314ddba, 0x0ff39508, 0x2a7be938, 0xd2ebbfb8, 0x123dfaa6, 0xf41da4c8)" (is ?second)
proof -
  show ?first by (simp add: sha_eval)
  show ?second by (simp add: sha_eval)
qed

lemma sha256_quote:
  "sha256 [0xff, 0x54, 0x43, 0x47, 0x80, 0x18, 0x00, 0x02, 0x00, 0x0b, 0x00, 0x02, 0x07, 0x01, 0x00, 0x00,
            0x00, 0x00, 0x00, 0x00, 0x00, 0x00, 0x00, 0x00, 0x00, 0x00, 0x00, 0x00, 0x00, 0x00, 0x00, 0x00,
            0x00, 0x00, 0x00, 0x00, 0x00, 0x00, 0x00, 0x00, 0x00, 0x00, 0x01, 0x00, 0x0b, 0x03, 0x01, 0x00,
            0x00, 0x00, 0x20, 0xba, 0x78, 0x16, 0xbf, 0x8f, 0x01, 0xcf, 0xea, 0x41, 0x41, 0x40, 0xde, 0x5d,
            0xae, 0x22, 0x23, 0xb0, 0x03, 0x61, 0xa3, 0x96, 0x17, 0x7a, 0x9c, 0xb4, 0x10, 0xff, 0x61, 0xf2,
            0x00, 0x15, 0xad] =
    [0xce, 0x2c, 0xdd, 0x23, 0x7d, 0x64, 0xdd, 0x36, 0x33, 0x14, 0xdd, 0xba, 0x0f, 0xf3, 0x95, 0x08,
     0x2a, 0x7b, 0xe9, 0x38, 0xd2, 0xeb, 0xbf, 0xb8, 0x12, 0x3d, 0xfa, 0xa6, 0xf4, 0x1d, 0xa4, 0xc8]"
proof -
  have last: "(664 :: u8) = 0x98" by simp
  show ?thesis
    by (simp add: sha256_def sha_pad_def sha_blocks_eval replicate_numeral be_bytes_numeral last
        sha_block_quote [simplified])
qed

end
