(* ===== verification/Verify.thy ===== *)
theory Verify
  imports Attest Sha256 P256 Known_Answers
begin

text \<open>
  \<open>verify.go\<close>: the decoding of a quote attestation and the verifier's check of a quote: structure,
  signature, PCR digest.
\<close>

section \<open>The code\<close>

record QuoteInfo =
  PCRSelect :: "PCRSelection list"
  PCRDigest :: bytes

record AttestInfo =
  ExtraData :: bytes
  Quoted :: QuoteInfo

definition ParseAttest :: "codec \<Rightarrow> bytes \<Rightarrow> AttestInfo res" where
  "ParseAttest C data =
     rbind (need (GetU32 C data 0)) (\<lambda>magic.
     rbind (guard (magic = attestMagic) ErrBadMagic) (\<lambda>_.
     rbind (need (GetU16 C data 4)) (\<lambda>typ.
     rbind (guard (typ = stAttestQuote) ErrNotQuote) (\<lambda>_.
     rbind (slice_from data 6) (\<lambda>data6.
     rbind (UnmarshalTPM2B C data6) (\<lambda>(_, after).
     rbind (UnmarshalTPM2B C after) (\<lambda>(extra, after).
     rbind (guard (\<not> length after < 25) ErrShortBuffer) (\<lambda>_.
     rbind (slice_from after 25) (\<lambda>after.
     rbind (parsePCRSelectionList C after) (\<lambda>(sel, after).
     rbind (UnmarshalTPM2B C after) (\<lambda>(digest, _).
     Inr \<lparr>ExtraData = extra, Quoted = \<lparr>PCRSelect = sel, PCRDigest = digest\<rparr>\<rparr>)))))))))))"

fun equal_from :: "bytes \<Rightarrow> bytes \<Rightarrow> bool" where
  "equal_from (x # a) (y # b) = (if x \<noteq> y then False else equal_from a b)"
| "equal_from a b = True"

definition bytesEqual :: "bytes \<Rightarrow> bytes \<Rightarrow> bool" where
  "bytesEqual a b = (if length a \<noteq> length b then False else equal_from a b)"

definition VerifyQuote :: "codec \<Rightarrow> AKPublic \<Rightarrow> bytes \<Rightarrow> ECDSASignature \<Rightarrow> bytes list \<Rightarrow> AttestInfo res" where
  "VerifyQuote C akPub quoted sig expectedPCRs =
     rbind (ParseAttest C quoted) (\<lambda>info.
       let pub = (be_nat (ak_X akPub), be_nat (ak_Y akPub));
           digest = sha256 quoted;
           r = be_nat (sig_R sig);
           s = be_nat (sig_S sig)
       in rbind (guard (ecdsa_Verify pub digest r s) ErrSigInvalid) (\<lambda>_.
          let recomputed = sha256 (concat expectedPCRs)
          in rbind (guard (bytesEqual recomputed (PCRDigest (Quoted info))) ErrPCRDigestMismatch) (\<lambda>_.
             Inr info)))"

section \<open>The attestation on the wire\<close>

text \<open>
  A quote attestation that carries the nonce, the selections (as their raw bitmaps) and the digest,
  under any signer name, clock information and firmware version, with anything after it.
\<close>

definition quote_attest ::
  "bytes \<Rightarrow> bytes \<Rightarrow> bytes \<Rightarrow> (u16 \<times> bytes) list \<Rightarrow> bytes \<Rightarrow> bytes \<Rightarrow> bytes" where
  "quote_attest signer extra clock es digest rest =
     [0xFF, 0x54, 0x43, 0x47] @ [0x80, 0x18] @ tpm2b signer @ tpm2b extra @ clock @
     be_bytes 4 (length es) @ concat (map raw_selection es) @ tpm2b digest @ rest"

definition is_quote_attest :: "AttestInfo \<Rightarrow> bytes \<Rightarrow> bool" where
  "is_quote_attest info b \<longleftrightarrow> (\<exists>signer clock es rest.
     length signer < 65536 \<and> length (ExtraData info) < 65536 \<and> length clock = 25 \<and>
     length es < 4294967296 \<and> (\<forall>e \<in> set es. length (snd e) < 256) \<and>
     length (PCRDigest (Quoted info)) < 65536 \<and> PCRSelect (Quoted info) = map raw_decoded es \<and>
     b = quote_attest signer (ExtraData info) clock es (PCRDigest (Quoted info)) rest)"

lemma equal_from_iff: "length a = length b \<Longrightarrow> equal_from a b \<longleftrightarrow> a = b"
  by (induction a b rule: equal_from.induct) auto

lemma bytesEqual_iff [simp]: "bytesEqual a b \<longleftrightarrow> a = b"
  by (auto simp: bytesEqual_def equal_from_iff)

context byte_codec
begin

lemma front_split:
  assumes "GetU32 C b 0 = Some m" and "GetU16 C b 4 = Some t"
  shows "b = be_bytes 4 (unat m) @ be_bytes 2 (unat t) @ drop 6 b"
proof -
  have "b = take 4 b @ drop 4 b" by simp
  also have "drop 4 b = take 2 (drop 4 b) @ drop 6 b"
    using append_take_drop_id [of 2 "drop 4 b"] by (simp del: append_take_drop_id)
  finally show ?thesis using assms by (simp add: Get_iff)
qed

lemma ParseAttest_Inr_iff: "ParseAttest C b = Inr info \<longleftrightarrow> is_quote_attest info b"
proof
  assume "ParseAttest C b = Inr info"
  then obtain signer after extra after2 sel after3 digest rest where
    h: "GetU32 C b 0 = Some attestMagic" "GetU16 C b 4 = Some stAttestQuote"
      "drop 6 b = tpm2b signer @ after" "length signer < 65536"
      "after = tpm2b extra @ after2" "length extra < 65536" "25 \<le> length after2"
    and sel: "parsePCRSelectionList C (drop 25 after2) = Inr (sel, after3)"
    and digest: "after3 = tpm2b digest @ rest" "length digest < 65536"
    and info: "info = \<lparr>ExtraData = extra, Quoted = \<lparr>PCRSelect = sel, PCRDigest = digest\<rparr>\<rparr>"
    by (auto simp: ParseAttest_def res_iff UnmarshalTPM2B_Inr_iff not_less)
  from sel [unfolded parsePCRSelectionList_Inr_iff] obtain es where es: "length es < 4294967296"
    "\<forall>e \<in> set es. length (snd e) < 256"
    "drop 25 after2 = be_bytes 4 (length es) @ concat (map raw_selection es) @ after3"
    "sel = map raw_decoded es" by blast
  have "after2 = take 25 after2 @ drop 25 after2" by simp
  then have "b = quote_attest signer extra (take 25 after2) es digest rest"
    using front_split [OF h(1,2)] h(3,5) es(3) digest(1)
    by (simp add: quote_attest_def attestMagic_def stAttestQuote_def be_eval)
  with h es digest show "is_quote_attest info b"
    unfolding is_quote_attest_def info
    by (intro exI [of _ signer] exI [of _ "take 25 after2"] exI [of _ es] exI [of _ rest]) simp
next
  assume "is_quote_attest info b"
  then obtain signer clock es rest where
    l: "length signer < 65536" "length (ExtraData info) < 65536" "length clock = 25"
      "length (PCRDigest (Quoted info)) < 65536" and
    es: "length es < 4294967296" "\<forall>e \<in> set es. length (snd e) < 256"
      "PCRSelect (Quoted info) = map raw_decoded es" and
    b: "b = quote_attest signer (ExtraData info) clock es (PCRDigest (Quoted info)) rest"
    unfolding is_quote_attest_def by blast
  have b': "b = be_bytes 4 (unat attestMagic) @ be_bytes 2 (unat stAttestQuote) @ tpm2b signer @
      tpm2b (ExtraData info) @ clock @ be_bytes 4 (length es) @ concat (map raw_selection es) @
      tpm2b (PCRDigest (Quoted info)) @ rest"
    by (simp add: b quote_attest_def attestMagic_def stAttestQuote_def be_eval)
  have sel: "parsePCRSelectionList C (be_bytes 4 (length es) @ concat (map raw_selection es) @
      tpm2b (PCRDigest (Quoted info)) @ rest)
    = Inr (PCRSelect (Quoted info), tpm2b (PCRDigest (Quoted info)) @ rest)"
    using es by (subst parsePCRSelectionList_Inr_iff) blast
  show "ParseAttest C b = Inr info"
    using l sel unfolding b'
    by (simp add: ParseAttest_def get_skip UnmarshalTPM2B)
qed

lemma ParseAttest_fails: "fails_only {ErrShortBuffer, ErrBadMagic, ErrNotQuote} (ParseAttest C b)"
  unfolding ParseAttest_def
  by (intro fails_intros) (auto simp: res_iff dest: get_Some_length)

end

section \<open>Properties\<close>

text \<open>
  C14. A quote attestation is decoded exactly. On every byte string, \<open>ParseAttest\<close> returns the nonce,
  the selections and the digest if and only if the string is a quote attestation that carries them:
  the magic, the quote tag, a signer name, the nonce, 25 bytes of clock and firmware, the selection
  list, the digest. Its errors are the short buffer, the bad magic and the wrong tag.
\<close>

theorem ParseAttest_exact:
  assumes "byte_codec C"
  shows "(ParseAttest C b = Inr info \<longleftrightarrow> is_quote_attest info b) \<and>
    fails_only {ErrShortBuffer, ErrBadMagic, ErrNotQuote} (ParseAttest C b)"
  by (intro conjI byte_codec.ParseAttest_Inr_iff [OF assms] byte_codec.ParseAttest_fails [OF assms])

definition sample_attest :: bytes where
  "sample_attest = quote_attest [0, 0xB] [7, 7] (replicate 25 0) [(0xB, [1, 0, 0])] [0xDD] []"

lemma sample_attest_is:
  "is_quote_attest \<lparr>ExtraData = [7, 7], Quoted = \<lparr>PCRSelect = [\<lparr>Hash = 0xB, PCRs = [0]\<rparr>], PCRDigest = [0xDD]\<rparr>\<rparr>
     sample_attest"
  unfolding is_quote_attest_def sample_attest_def
  by (intro exI [of _ "[0, 0xB]"] exI [of _ "replicate 25 0"] exI [of _ "[(0xB, [1, 0, 0])]"] exI [of _ "[]"])
    (simp add: raw_decoded_def pcrsFromBitmap_def upt_rec)

theorem ParseAttest_exact_witness:
  "ParseAttest be_codec sample_attest = Inr \<lparr>ExtraData = [7, 7],
     Quoted = \<lparr>PCRSelect = [\<lparr>Hash = 0xB, PCRs = [0]\<rparr>], PCRDigest = [0xDD]\<rparr>\<rparr>"
  using ParseAttest_exact [OF be.byte_codec_axioms] sample_attest_is by blast

text \<open>
  C5. The verdict of \<open>VerifyQuote\<close>, in the order of its checks. A quote is accepted, and its
  attestation returned, exactly when the bytes are a quote attestation, the signature over their
  SHA-256 digest verifies under the key on P-256, and the digest in the attestation is that of the
  concatenated expected values; a quote attestation with a bad signature is \<open>ErrSigInvalid\<close>, one
  with a good signature and another digest is \<open>ErrPCRDigestMismatch\<close>, and no input makes it panic.
\<close>

theorem VerifyQuote_verdict:
  assumes "byte_codec C"
  shows "let valid = ecdsa_Verify (be_nat (ak_X ak), be_nat (ak_Y ak)) (sha256 quoted)
      (be_nat (sig_R sig)) (be_nat (sig_S sig)) in
    (VerifyQuote C ak quoted sig pcrs = Inr info \<longleftrightarrow>
      is_quote_attest info quoted \<and> valid \<and> PCRDigest (Quoted info) = sha256 (concat pcrs)) \<and>
    (VerifyQuote C ak quoted sig pcrs = Inl ErrSigInvalid \<longleftrightarrow>
      (\<exists>info. is_quote_attest info quoted) \<and> \<not> valid) \<and>
    (VerifyQuote C ak quoted sig pcrs = Inl ErrPCRDigestMismatch \<longleftrightarrow>
      (\<exists>info. is_quote_attest info quoted \<and> PCRDigest (Quoted info) \<noteq> sha256 (concat pcrs)) \<and> valid) \<and>
    fails_only {ErrShortBuffer, ErrBadMagic, ErrNotQuote, ErrSigInvalid, ErrPCRDigestMismatch}
      (VerifyQuote C ak quoted sig pcrs)"
proof (cases "ParseAttest C quoted")
  case (Inl e)
  then have none: "\<not> is_quote_attest info quoted" for info
    using byte_codec.ParseAttest_Inr_iff [OF assms(1), of quoted info] by simp
  from Inl have "e \<in> {ErrShortBuffer, ErrBadMagic, ErrNotQuote}"
    using byte_codec.ParseAttest_fails [OF assms(1), of quoted] by simp
  then show ?thesis using Inl none by (auto simp: VerifyQuote_def Let_def)
next
  case (Inr a)
  then have only: "is_quote_attest info quoted \<longleftrightarrow> info = a" for info
    using byte_codec.ParseAttest_Inr_iff [OF assms(1), of quoted info] by auto
  show ?thesis
    by (auto simp: VerifyQuote_def Inr only guard_def Let_def)
qed

text \<open>
  A quote that is accepted. Its signature has both components equal to the hash of the attestation,
  so that both scalars of the check are 1, and its key is the difference of a point with that
  abscissa and the base point.
\<close>

definition good_attest :: bytes where
  "good_attest = quote_attest [0, 0xB] [7, 1] (replicate 25 0) [(0xB, [1, 0, 0])] (sha256 [0x61, 0x62, 0x63]) []"

definition good_hash :: nat where
  "good_hash = 0xce2cdd237d64dd363314ddba0ff395082a7be938d2ebbfb8123dfaa6f41da4c8"

definition good_point :: point where
  "good_point =
     (0xdc3e70336b7f3d31ce351f1e9e7ffcdf13d4c089cf5172314db1e79bcd3ef067,
      0xff91430460bc374750ae021f674b86fb94e8e57123709d91ab6e3504cdb3bc65)"

lemma good_attest_is:
  "is_quote_attest \<lparr>ExtraData = [7, 1],
     Quoted = \<lparr>PCRSelect = [\<lparr>Hash = 0xB, PCRs = [0]\<rparr>], PCRDigest = sha256 [0x61, 0x62, 0x63]\<rparr>\<rparr> good_attest"
  unfolding is_quote_attest_def good_attest_def
  by (intro exI [of _ "[0, 0xB]"] exI [of _ "replicate 25 0"] exI [of _ "[(0xB, [1, 0, 0])]"] exI [of _ "[]"])
    (simp add: raw_decoded_def pcrsFromBitmap_def upt_rec)

lemma good_attest_hash: "hash_to_nat (sha256 good_attest) = good_hash"
proof -
  have bytes: "good_attest =
    [0xff, 0x54, 0x43, 0x47, 0x80, 0x18, 0x00, 0x02, 0x00, 0x0b, 0x00, 0x02, 0x07, 0x01, 0x00, 0x00,
     0x00, 0x00, 0x00, 0x00, 0x00, 0x00, 0x00, 0x00, 0x00, 0x00, 0x00, 0x00, 0x00, 0x00, 0x00, 0x00,
     0x00, 0x00, 0x00, 0x00, 0x00, 0x00, 0x00, 0x00, 0x00, 0x00, 0x01, 0x00, 0x0b, 0x03, 0x01, 0x00,
     0x00, 0x00, 0x20, 0xba, 0x78, 0x16, 0xbf, 0x8f, 0x01, 0xcf, 0xea, 0x41, 0x41, 0x40, 0xde, 0x5d,
     0xae, 0x22, 0x23, 0xb0, 0x03, 0x61, 0xa3, 0x96, 0x17, 0x7a, 0x9c, 0xb4, 0x10, 0xff, 0x61, 0xf2,
     0x00, 0x15, 0xad]"
    unfolding good_attest_def sha256_abc
    by (simp add: quote_attest_def raw_selection_def tpm2b_def be_eval replicate_numeral)
  show ?thesis
    unfolding bytes sha256_quote by (simp add: hash_to_nat_def good_hash_def)
qed

lemma mod_eqI: "x = r + q * m \<Longrightarrow> r < m \<Longrightarrow> x mod m = (r :: nat)"
  by simp

lemma sub_mod_ge: "b \<le> a \<Longrightarrow> a < p256_p \<Longrightarrow> sub_mod a b = a - b"
proof -
  assume "b \<le> a" and "a < p256_p"
  then have "b mod p256_p = b" and "a + p256_p - b = a - b + p256_p" by simp_all
  then have "sub_mod a b = (a - b) mod p256_p" by (simp only: sub_mod_def mod_add_self2)
  with \<open>a < p256_p\<close> show ?thesis by simp
qed

lemma sub_mod_less: "a < b \<Longrightarrow> b < p256_p \<Longrightarrow> sub_mod a b = a + p256_p - b"
  by (simp add: sub_mod_def)

lemma coprimeI_mod: "(a * b) mod m = 1 \<Longrightarrow> coprime a (m :: nat)"
  by (metis coprime_1_left coprime_mod_left_iff coprime_mult_left_iff mod_0 mod_by_0 mult_is_0 zero_neq_one)

lemma slope_eq:
  assumes "s < m" and "(s * a) mod m = dy mod m" and "coprime a m" and "1 < m"
  shows "dy * inv_mod a m mod m = s"
proof -
  have "dy * inv_mod a m mod m = (s * (inv_mod a m * a mod m)) mod m"
    using assms(2) by (metis mod_mult_left_eq mod_mult_right_eq mult.assoc mult.commute)
  then show ?thesis using inv_mod_correct [OF assms(4,3)] assms(1) by simp
qed

lemma good_point_on_curve: "IsOnCurve (fst good_point) (snd good_point)"
proof -
  have "(snd good_point * snd good_point + 3 * fst good_point) mod p256_p
      = (fst good_point * fst good_point * fst good_point + p256_b) mod p256_p"
    by (rule mod_witness [where q = "0xa3043d7e3297b98b453c10223ca252fa2763ddea09674d09deb9edeb90f58ac8c0948dc322528cce494792f86d22afd52b9243689b68444fc436f0b52514744c"])
      (simp add: good_point_def p256_p_def p256_b_def)
  moreover have "fst good_point < p256_p" and "snd good_point < p256_p"
    by (simp_all add: good_point_def p256_p_def)
  ultimately show ?thesis by (simp only: IsOnCurve_def simp_thms)
qed

lemma good_sum:
  "fst (point_add p256_G good_point) = good_hash" "point_add p256_G good_point \<noteq> (0, 0)"
proof -
  let ?s = "0xbb187d2f35219e4d983a98afcc68cf9a36f63f4fce5b0b94efd4849821cd6e30 :: nat"
  let ?a = "0x71269e408a52fae9d57838393adbbbec9cd14308a1663e905910ae55f4a62dd1 :: nat"
  let ?dy = "0xafae002162a1b7abc1c616d4eb3be8e5691ab219b83f3ec2dfb7f49c95f46a70 :: nat"
  let ?ss = "0x15831f4bca105cadfa06e3be1217d2d9b5542741d028658a54911b8899f557c7 :: nat"
  let ?t = "0xaa6b4d57e8e41a670149fcd8ae7391e73e50a9c1a23d31e95fefe242c15c9530 :: nat"
  have a: "sub_mod (fst good_point) (fst p256_G) = ?a" and dy: "sub_mod (snd good_point) (snd p256_G) = ?dy"
    by (simp_all add: sub_mod_ge good_point_def p256_G_def p256_p_def)
  have "?a * 0x42d32f655ba71868b0fd3a8430f22bc5ba66f2079294b7d15cde8eeb4f328c19 mod p256_p = 1"
    by (rule mod_eqI [where q = "0x1d894c94143191c0ef40ae8af7180fcdeff9593444660254018aea5cc8e53a98"])
      (simp_all add: p256_p_def)
  then have prime: "coprime ?a p256_p" by (rule coprimeI_mod)
  have prod: "?s * ?a mod p256_p = ?dy"
    by (rule mod_eqI [where q = "0x52b2088d06a209b6d712594b29f10281007d5d98ab67f9314ff1084cadbf0540"])
      (simp_all add: p256_p_def)
  have less: "?dy < p256_p" "?s < p256_p" "1 < p256_p" by (simp_all add: p256_p_def)
  have slope: "?dy * inv_mod ?a p256_p mod p256_p = ?s"
    by (rule slope_eq [OF less(2) _ prime less(3)]) (simp only: prod mod_less [OF less(1)])
  have "fst p256_G \<noteq> fst good_point" "p256_G \<noteq> (0, 0)" "good_point \<noteq> (0, 0)"
    by (simp_all add: good_point_def p256_G_def)
  then have sum: "point_add p256_G good_point = chord ?s p256_G good_point"
    by (simp only: point_add_def a dy slope if_False)
  have ss: "?s * ?s mod p256_p = ?ss"
    by (rule mod_eqI [where q = "0x88bcc93b366cff651a993354cb50c6cebd5b0c388d4610ca3306274691a80ec7"])
      (simp_all add: p256_p_def)
  have t: "sub_mod ?ss (fst p256_G) = ?t"
    by (subst sub_mod_less) (simp_all add: p256_G_def p256_p_def)
  have "sub_mod ?t (fst good_point) = good_hash"
    by (subst sub_mod_less) (simp_all add: good_point_def p256_p_def good_hash_def)
  then show x: "fst (point_add p256_G good_point) = good_hash"
    unfolding sum chord_def Let_def ss t by simp
  have "good_hash \<noteq> 0" by (simp add: good_hash_def)
  with x show "point_add p256_G good_point \<noteq> (0, 0)" by (metis fst_conv)
qed

lemma good_signature: "ecdsa_Verify good_point (sha256 good_attest) good_hash good_hash"
proof -
  have bounds: "0 < good_hash" "good_hash < p256_n" by (simp_all add: good_hash_def p256_n_def)
  have "coprime good_hash p256_n"
    by (rule coprimeI_mod [where b = "0x283017b4ffa4d4c38852853c8a7b0b80a9bbded1f016fbf2398efacbef5ffb1f"],
        rule mod_eqI [where q = "0x205dbe0eefea211fa2389050a1d14b8a4ad9313a9e96b6e81341177911b2d707"])
      (simp_all add: good_hash_def p256_n_def)
  then have one: "good_hash * inv_mod good_hash p256_n mod p256_n = 1"
    using inv_mod_correct [OF p256_n_gt_1] by (simp add: mult.commute)
  have points: "p256_G \<noteq> (0, 0)" "good_point \<noteq> (0, 0)" by (simp_all add: good_point_def p256_G_def)
  show ?thesis
    unfolding ecdsa_Verify_def Let_def good_attest_hash one smult_1 if_not_P [OF points(1)] if_not_P [OF points(2)]
    using good_point_on_curve bounds good_sum by simp
qed

theorem VerifyQuote_verdict_witness:
  "VerifyQuote be_codec \<lparr>ak_X = be_bytes 32 (fst good_point), ak_Y = be_bytes 32 (snd good_point)\<rparr> good_attest
     \<lparr>sig_R = be_bytes 32 good_hash, sig_S = be_bytes 32 good_hash\<rparr> [[0x61], [0x62, 0x63]] =
   Inr \<lparr>ExtraData = [7, 1],
     Quoted = \<lparr>PCRSelect = [\<lparr>Hash = 0xB, PCRs = [0]\<rparr>], PCRDigest = sha256 [0x61, 0x62, 0x63]\<rparr>\<rparr>"
proof -
  have fit: "fst good_point < 256 ^ 32" "snd good_point < 256 ^ 32" "good_hash < 256 ^ 32"
    by (simp_all add: good_point_def good_hash_def)
  note nums = be_nat_be_bytes_id [OF fit(1)] be_nat_be_bytes_id [OF fit(2)] be_nat_be_bytes_id [OF fit(3)]
  note verdict = VerifyQuote_verdict [OF be.byte_codec_axioms,
    where ak = "\<lparr>ak_X = be_bytes 32 (fst good_point), ak_Y = be_bytes 32 (snd good_point)\<rparr>" and quoted = good_attest
      and sig = "\<lparr>sig_R = be_bytes 32 good_hash, sig_S = be_bytes 32 good_hash\<rparr>" and pcrs = "[[0x61], [0x62, 0x63]]",
    unfolded Let_def AKPublic.select_convs ECDSASignature.select_convs nums prod.collapse]
  show ?thesis
    by (intro verdict [THEN conjunct1, THEN iffD2] conjI good_attest_is good_signature) simp
qed

end
