(* ===== verification/Kdf.thy ===== *)
theory Kdf
  imports Codec Sha256
begin

text \<open>
  \<open>kdf.go\<close>: the two counter-mode key-derivation functions of Credential Protection. \<open>KDFa\<close> hashes
  with HMAC-SHA-256, \<open>KDFe\<close> with SHA-256; both produce blocks under a running 32-bit counter, cut
  the result to the requested length and mask the excess bits of the last byte. \<open>counter_kdf\<close> is
  what the two loops share.
\<close>

unbundle bit_operations_syntax

section \<open>The code\<close>

text \<open>\<open>[]byte(label)\<close>\<close>

definition go_bytes :: "string \<Rightarrow> bytes" where
  "go_bytes s = map of_char s"

definition labelBytes :: "string \<Rightarrow> bytes" where
  "labelBytes label =
     (let b = go_bytes label
      in if length b = 0 \<or> b ! (length b - 1) \<noteq> 0x00 then b @ [0x00] else b)"

text \<open>
  \<open>out[len(out)-1] &= byte(0xFF << uint(8-rem))\<close>: an index out of range on an empty slice panics.
\<close>

definition mask_last :: "bytes \<Rightarrow> int \<Rightarrow> bytes res" where
  "mask_last out rem =
     (if out = [] then Inl Panic
      else Inr (out[length out - 1 := (out ! (length out - 1)) AND push_bit (nat (8 - rem)) 0xFF]))"

function KDFa_loop ::
  "codec \<Rightarrow> bytes \<Rightarrow> bytes \<Rightarrow> bytes \<Rightarrow> bytes \<Rightarrow> bytes \<Rightarrow> int \<Rightarrow> u32 \<Rightarrow> bytes \<Rightarrow> bytes" where
  "KDFa_loop C key lab contextU contextV bitsBE outLen ctr out =
     (if int (length out) < outLen
      then KDFa_loop C key lab contextU contextV bitsBE outLen (ctr + 1)
        (out @ hmac key (PutU32 C [] ctr @ lab @ contextU @ contextV @ bitsBE))
      else out)"
  by pat_completeness auto
termination
  by (relation "measure (\<lambda>(C, key, lab, u, v, bitsBE, outLen, ctr, out). nat (outLen - int (length out)))")
    auto

definition KDFa :: "codec \<Rightarrow> bytes \<Rightarrow> string \<Rightarrow> bytes \<Rightarrow> bytes \<Rightarrow> int \<Rightarrow> bytes res" where
  "KDFa C key label contextU contextV bits =
     (let lab = labelBytes label;
          bitsBE = PutU32 C [] (of_int bits);
          outLen = go_div (bits + 7) 8;
          out = KDFa_loop C key lab contextU contextV bitsBE outLen 1 []
      in rbind (slice_to out outLen) (\<lambda>out.
           let rem = go_mod bits 8 in if rem \<noteq> 0 then mask_last out rem else Inr out))"

function KDFe_loop :: "codec \<Rightarrow> bytes \<Rightarrow> bytes \<Rightarrow> bytes \<Rightarrow> bytes \<Rightarrow> int \<Rightarrow> u32 \<Rightarrow> bytes \<Rightarrow> bytes" where
  "KDFe_loop C z lab partyU partyV outLen ctr out =
     (if int (length out) < outLen
      then KDFe_loop C z lab partyU partyV outLen (ctr + 1)
        (out @ sha256 (PutU32 C [] ctr @ z @ lab @ partyU @ partyV))
      else out)"
  by pat_completeness auto
termination
  by (relation "measure (\<lambda>(C, z, lab, u, v, outLen, ctr, out). nat (outLen - int (length out)))") auto

definition KDFe :: "codec \<Rightarrow> bytes \<Rightarrow> string \<Rightarrow> bytes \<Rightarrow> bytes \<Rightarrow> int \<Rightarrow> bytes res" where
  "KDFe C z label partyU partyV bits =
     (let lab = labelBytes label;
          outLen = go_div (bits + 7) 8;
          out = KDFe_loop C z lab partyU partyV outLen 1 []
      in rbind (slice_to out outLen) (\<lambda>out.
           let rem = go_mod bits 8 in if rem \<noteq> 0 then mask_last out rem else Inr out))"

declare KDFa_loop.simps [simp del] KDFe_loop.simps [simp del]

section \<open>The specification\<close>

text \<open>
  \<open>kdf_bytes\<close>: the first bytes of the blocks 1, 2, \<dots>, as many blocks as the bytes need;
  \<open>keep_bits\<close>: the last byte cleared below the bits that were asked for.
\<close>

definition kdf_blocks :: "(u32 \<Rightarrow> bytes) \<Rightarrow> nat \<Rightarrow> bytes" where
  "kdf_blocks block n = concat (map (\<lambda>i. block (of_nat i)) [1..<Suc n])"

definition kdf_bytes :: "(u32 \<Rightarrow> bytes) \<Rightarrow> nat \<Rightarrow> bytes" where
  "kdf_bytes block n = take n (kdf_blocks block ((n + 31) div 32))"

definition keep_bits :: "nat \<Rightarrow> bytes \<Rightarrow> bytes" where
  "keep_bits bits b =
     (if bits mod 8 = 0 then b else butlast b @ [last b AND push_bit (8 - bits mod 8) 0xFF])"

definition kdf_spec :: "(u32 \<Rightarrow> bytes) \<Rightarrow> nat \<Rightarrow> bytes" where
  "kdf_spec block bits = keep_bits bits (kdf_bytes block ((bits + 7) div 8))"

section \<open>The loops\<close>

lemma update_last: "b \<noteq> [] \<Longrightarrow> b[length b - Suc 0 := x] = butlast b @ [x]"
  by (cases b rule: rev_cases) auto

lemma go_div_neg: "a < 0 \<Longrightarrow> 0 < b \<Longrightarrow> go_div a b = - (- a div b)"
  by (simp add: go_div_def)

locale counter_kdf =
  fixes loop :: "int \<Rightarrow> u32 \<Rightarrow> bytes \<Rightarrow> bytes" and block :: "u32 \<Rightarrow> bytes"
  assumes loop: "loop n ctr out = (if int (length out) < n then loop n (ctr + 1) (out @ block ctr) else out)"
    and length_block: "length (block ctr) = 32"
begin

lemma length_blocks: "length (kdf_blocks block k) = 32 * k"
  by (induction k) (simp_all add: kdf_blocks_def length_block)

lemma blocks_Suc: "kdf_blocks block (Suc k) = kdf_blocks block k @ block (of_nat (Suc k))"
  by (simp add: kdf_blocks_def)

text \<open>The invariant: before block \<open>k + 1\<close> the output is the first \<open>k\<close> blocks.\<close>

lemma loop_from:
  "k \<le> (n + 31) div 32 \<Longrightarrow>
   loop (int n) (of_nat (Suc k)) (kdf_blocks block k) = kdf_blocks block ((n + 31) div 32)"
proof (induction "(n + 31) div 32 - k" arbitrary: k)
  case 0
  then have k: "k = (n + 31) div 32" by simp
  then have "n \<le> 32 * k" by simp
  then have "loop (int n) (of_nat (Suc k)) (kdf_blocks block k) = kdf_blocks block k"
    by (subst loop) (simp add: length_blocks)
  then show ?case by (simp add: k)
next
  case (Suc d)
  then have "32 * k < n" by simp
  then have "loop (int n) (of_nat (Suc k)) (kdf_blocks block k)
      = loop (int n) (of_nat (Suc k) + 1) (kdf_blocks block (Suc k))"
    by (subst loop) (simp add: length_blocks blocks_Suc)
  also have "(of_nat (Suc k) + 1 :: u32) = of_nat (Suc (Suc k))" by simp
  also have "loop (int n) (of_nat (Suc (Suc k))) (kdf_blocks block (Suc k))
      = kdf_blocks block ((n + 31) div 32)"
    using Suc by (intro Suc.hyps(1)) simp_all
  finally show ?case .
qed

lemma loop_blocks: "loop (int n) 1 [] = kdf_blocks block ((n + 31) div 32)"
  using loop_from [of 0 n] by (simp add: kdf_blocks_def)

lemma length_kdf_bytes: "length (kdf_bytes block n) = n"
  by (simp add: kdf_bytes_def length_blocks)

lemma mask_last_eq:
  assumes "length b = (bits + 7) div 8" and "bits mod 8 \<noteq> 0"
  shows "mask_last b (int bits mod 8) = Inr (keep_bits bits b)"
proof -
  have ne: "b \<noteq> []" using assms by auto
  have "nat (int bits mod 8) = bits mod 8" by (simp add: nat_mod_distrib)
  then have "nat (8 - int bits mod 8) = 8 - bits mod 8" by (simp add: nat_diff_distrib')
  with assms(2) ne show ?thesis by (simp add: mask_last_def keep_bits_def update_last last_conv_nth)
qed

text \<open>The tail the two functions share: cut, then mask.\<close>

abbreviation finish :: "int \<Rightarrow> bytes res" where
  "finish bits \<equiv> rbind (slice_to (loop (go_div (bits + 7) 8) 1 []) (go_div (bits + 7) 8))
     (\<lambda>out. if go_mod bits 8 \<noteq> 0 then mask_last out (go_mod bits 8) else Inr out)"

lemma finish_nonneg: "finish (int bits) = Inr (kdf_spec block bits)"
proof -
  let ?n = "(bits + 7) div 8"
  have n: "go_div (int bits + 7) 8 = int ?n" by (simp add: go_div_nonneg zdiv_int)
  have m: "go_mod (int bits) 8 = int bits mod 8" by (simp add: go_mod_nonneg)
  have cut: "slice_to (loop (int ?n) 1 []) (int ?n) = Inr (kdf_bytes block ?n)"
    by (simp add: loop_blocks length_blocks kdf_bytes_def)
  show ?thesis
  proof (cases "bits mod 8 = 0")
    case True
    then show ?thesis unfolding n m cut
      by (simp add: kdf_spec_def keep_bits_def flip: zmod_int) presburger
  next
    case False
    then have "int bits mod 8 \<noteq> 0" by presburger
    with False show ?thesis unfolding n m cut
      by (simp add: mask_last_eq [OF length_kdf_bytes] kdf_spec_def)
  qed
qed

lemma loop_done: "n \<le> 0 \<Longrightarrow> loop n 1 [] = []"
  by (subst loop) simp

lemma finish_negative: "bits < 0 \<Longrightarrow> finish bits = (if bits = -8 then Inr [] else Inl Panic)"
proof -
  assume neg: "bits < 0"
  consider "bits \<le> -15" | "-15 < bits" "bits < -8" | "bits = -8" | "-8 < bits" by linarith
  then show ?thesis
  proof cases
    case 1
    then have "1 \<le> - (bits + 7) div 8" by linarith
    with 1 have "go_div (bits + 7) 8 < 0" by (subst go_div_neg) linarith+
    with 1 show ?thesis by (simp add: slice_to_def)
  next
    case 2
    then have "- (bits + 7) div 8 = 0" "- bits div 8 = 1" by linarith+
    with 2 have "go_div (bits + 7) 8 = 0" "go_mod bits 8 \<noteq> 0"
      by (simp_all add: go_div_neg go_mod_def)
    with 2 show ?thesis by (simp add: slice_to_def loop_done mask_last_def)
  next
    case 3
    then show ?thesis by (simp add: go_div_def go_mod_def slice_to_def loop_done)
  next
    case 4
    with neg have "go_div bits 8 = 0" by (subst go_div_neg) linarith+
    moreover have "go_div (bits + 7) 8 = 0" using 4 neg by (simp add: go_div_nonneg)
    ultimately show ?thesis using neg 4 by (simp add: go_mod_def slice_to_def loop_done mask_last_def)
  qed
qed

end

definition KDFa_block :: "bytes \<Rightarrow> string \<Rightarrow> bytes \<Rightarrow> bytes \<Rightarrow> u32 \<Rightarrow> u32 \<Rightarrow> bytes" where
  "KDFa_block key label u v bits ctr =
     hmac key (be_bytes 4 (unat ctr) @ labelBytes label @ u @ v @ be_bytes 4 (unat bits))"

definition KDFe_block :: "bytes \<Rightarrow> string \<Rightarrow> bytes \<Rightarrow> bytes \<Rightarrow> u32 \<Rightarrow> bytes" where
  "KDFe_block z label u v ctr = sha256 (be_bytes 4 (unat ctr) @ z @ labelBytes label @ u @ v)"

interpretation kdfa: counter_kdf "KDFa_loop C key lab u v bitsBE"
  "\<lambda>ctr. hmac key (PutU32 C [] ctr @ lab @ u @ v @ bitsBE)" for C key lab u v bitsBE
  by unfold_locales (subst KDFa_loop.simps, simp_all)

interpretation kdfe: counter_kdf "KDFe_loop C z lab u v"
  "\<lambda>ctr. sha256 (PutU32 C [] ctr @ z @ lab @ u @ v)" for C z lab u v
  by unfold_locales (subst KDFe_loop.simps, simp_all)

lemma KDF_finish:
  "KDFa C key label u v bits = kdfa.finish C key (labelBytes label) u v (PutU32 C [] (of_int bits)) bits"
  "KDFe C z label u v bits = kdfe.finish C z (labelBytes label) u v bits"
  by (simp_all add: KDFa_def KDFe_def Let_def)

lemma int_nonneg_cases: "(\<And>n. i = int n \<Longrightarrow> P) \<Longrightarrow> (i < 0 \<Longrightarrow> P) \<Longrightarrow> P"
  by (meson linorder_not_le nonneg_int_cases)

context byte_codec
begin

lemma KDFa_eq: "KDFa C key label u v (int bits) = Inr (kdf_spec (KDFa_block key label u v (of_nat bits)) bits)"
  by (simp add: KDF_finish kdfa.finish_nonneg puts KDFa_block_def [abs_def])

lemma KDFe_eq: "KDFe C z label u v (int bits) = Inr (kdf_spec (KDFe_block z label u v) bits)"
  by (simp add: KDF_finish kdfe.finish_nonneg puts KDFe_block_def [abs_def])

end

lemma kdf_spec_one_block:
  "length (block 1) = 32 \<Longrightarrow> kdf_spec block 256 = block 1"
  "length (block 1) = 32 \<Longrightarrow> kdf_spec block 128 = take 16 (block 1)"
  by (simp_all add: kdf_spec_def keep_bits_def kdf_bytes_def kdf_blocks_def)

context byte_codec
begin

text \<open>The three instances Credential Protection uses: one block each.\<close>

lemma KDFa_256: "KDFa C key label u v 256 = Inr (KDFa_block key label u v 256 1)"
  using KDFa_eq [of key label u v 256] by (simp add: kdf_spec_one_block KDFa_block_def)

lemma KDFa_128: "KDFa C key label u v 128 = Inr (take 16 (KDFa_block key label u v 128 1))"
  using KDFa_eq [of key label u v 128] by (simp add: kdf_spec_one_block KDFa_block_def)

lemma KDFe_256: "KDFe C z label u v 256 = Inr (KDFe_block z label u v 1)"
  using KDFe_eq [of z label u v 256] by (simp add: kdf_spec_one_block KDFe_block_def)

end

section \<open>Properties\<close>





text \<open>
  C34. When the key-derivation functions return. Both return on every non-negative bit length, with
  exactly the bytes that hold it, and on -8, with no bytes; on every other negative length they
  panic.
\<close>

lemma length_keep_bits: "b \<noteq> [] \<or> bits mod 8 = 0 \<Longrightarrow> length (keep_bits bits b) = length b"
  by (auto simp: keep_bits_def Suc_le_eq)

lemma length_kdf_spec:
  "(\<And>i. length (block i) = 32) \<Longrightarrow> length (kdf_spec block bits) = (bits + 7) div 8"
proof -
  assume "\<And>i. length (block i) = 32"
  then have "length (kdf_blocks block k) = 32 * k" for k
    by (induction k) (simp_all add: kdf_blocks_def)
  then have len: "length (kdf_bytes block n) = n" for n by (simp add: kdf_bytes_def)
  have "kdf_bytes block ((bits + 7) div 8) \<noteq> [] \<or> bits mod 8 = 0"
    using len [of "(bits + 7) div 8"] by (cases "bits mod 8 = 0") auto
  then show ?thesis by (simp add: kdf_spec_def length_keep_bits len)
qed


text \<open>
  The excess bits of a derived key are zero: when the bit length is not a whole number of bytes,
  no bit of the last byte below the requested ones is set.
\<close>

lemma kdf_excess_zero:
  assumes "length (kdf_spec block bits) = (bits + 7) div 8" and "bits mod 8 \<noteq> 0" and "k < 8 - bits mod 8"
  shows "\<not> bit (last (kdf_spec block bits)) k"
  using assms by (auto simp: kdf_spec_def keep_bits_def bit_and_iff bit_push_bit_iff)

lemma KDF_excess_bits_zero:
  assumes "byte_codec C" and "bits mod 8 \<noteq> 0" and "k < 8 - bits mod 8"
    and "KDFa C key label u v (int bits) = Inr a" and "KDFe C z label u v (int bits) = Inr e"
  shows "\<not> bit (last a) k \<and> \<not> bit (last e) k"
  using assms(4,5) kdf_excess_zero [OF length_kdf_spec assms(2,3)]
  by (auto simp: byte_codec.KDFa_eq [OF assms(1)] byte_codec.KDFe_eq [OF assms(1)]
      KDFa_block_def KDFe_block_def)

text \<open>
  The label is framed by its terminator: what follows two labels without null characters can
  only be the same bytes if the labels are the same, so the label of a derivation cannot run into
  its context.
\<close>

lemma of_char_u8_inject [simp]: "(of_char c :: u8) = of_char d \<longleftrightarrow> c = d"
proof
  assume "(of_char c :: u8) = of_char d"
  then have "(of_nat (of_char c) :: u8) = of_nat (of_char d)" by (simp only: of_nat_of_char)
  then have "(of_char c :: nat) mod 256 = of_char d mod 256"
    by (simp add: word_unat_eq_iff unat_of_nat del: of_nat_of_char of_char_mod_256)
  then show "c = d" by simp
qed simp

lemma go_bytes_inject: "go_bytes a = go_bytes b \<longleftrightarrow> a = b"
  unfolding go_bytes_def by (rule inj_map_eq_map) (simp add: inj_def)

lemma of_char_null: "of_char (CHR 0x00) = (0 :: u8)"
  by code_simp

lemma null_in_go_bytes: "0 \<in> set (go_bytes a) \<longleftrightarrow> CHR 0x00 \<in> set a"
  unfolding go_bytes_def set_map by (metis imageE image_eqI of_char_null of_char_u8_inject)

lemma labelBytes_plain:
  assumes "CHR 0x00 \<notin> set label"
  shows "labelBytes label = go_bytes label @ [0]"
proof -
  have "go_bytes label ! (length (go_bytes label) - 1) \<noteq> 0" if "length (go_bytes label) \<noteq> 0"
    using assms null_in_go_bytes [of label] that nth_mem [of "length (go_bytes label) - 1" "go_bytes label"]
    by fastforce
  then show ?thesis by (auto simp: labelBytes_def Let_def)
qed

lemma split_at_first:
  "z \<notin> set a \<Longrightarrow> z \<notin> set b \<Longrightarrow> a @ z # x = b @ z # y \<longleftrightarrow> a = b \<and> x = y"
proof (induction a arbitrary: b)
  case Nil
  then show ?case by (cases b) auto
next
  case (Cons c a)
  then show ?case by (cases b) auto
qed

theorem label_framing:
  assumes "CHR 0x00 \<notin> set label" and "CHR 0x00 \<notin> set label'"
  shows "labelBytes label @ x = labelBytes label' @ y \<longleftrightarrow> label = label' \<and> x = y"
  using assms by (simp add: labelBytes_plain split_at_first null_in_go_bytes go_bytes_inject)

theorem label_framing_witness:
  "labelBytes ''STORAGE'' @ [1] \<noteq> labelBytes ''STORAG'' @ [0x45, 0, 1]"
  using label_framing [of "''STORAGE''" "''STORAG''" "[1]" "[0x45, 0, 1]"] by simp

end
