(* ===== verification/Aes.thy ===== *)
theory Aes
  imports Prelude
begin

text \<open>
  What the package uses of \<open>crypto/aes\<close> and \<open>crypto/cipher\<close> of Go's standard library:
  the AES block encryption of FIPS 197 behind \<open>aes.NewCipher\<close>, and the CFB mode of
  \<open>cipher.NewCFBEncrypter\<close> with full-block feedback. CFB never runs the inverse cipher, so
  the decrypter of a peer is the same mode fed with the ciphertext.
\<close>

unbundle bit_operations_syntax

section \<open>The block cipher\<close>

definition aes_sbox :: "u8 list" where
  "aes_sbox =
    [0x63, 0x7c, 0x77, 0x7b, 0xf2, 0x6b, 0x6f, 0xc5, 0x30, 0x01, 0x67, 0x2b, 0xfe, 0xd7, 0xab, 0x76,
     0xca, 0x82, 0xc9, 0x7d, 0xfa, 0x59, 0x47, 0xf0, 0xad, 0xd4, 0xa2, 0xaf, 0x9c, 0xa4, 0x72, 0xc0,
     0xb7, 0xfd, 0x93, 0x26, 0x36, 0x3f, 0xf7, 0xcc, 0x34, 0xa5, 0xe5, 0xf1, 0x71, 0xd8, 0x31, 0x15,
     0x04, 0xc7, 0x23, 0xc3, 0x18, 0x96, 0x05, 0x9a, 0x07, 0x12, 0x80, 0xe2, 0xeb, 0x27, 0xb2, 0x75,
     0x09, 0x83, 0x2c, 0x1a, 0x1b, 0x6e, 0x5a, 0xa0, 0x52, 0x3b, 0xd6, 0xb3, 0x29, 0xe3, 0x2f, 0x84,
     0x53, 0xd1, 0x00, 0xed, 0x20, 0xfc, 0xb1, 0x5b, 0x6a, 0xcb, 0xbe, 0x39, 0x4a, 0x4c, 0x58, 0xcf,
     0xd0, 0xef, 0xaa, 0xfb, 0x43, 0x4d, 0x33, 0x85, 0x45, 0xf9, 0x02, 0x7f, 0x50, 0x3c, 0x9f, 0xa8,
     0x51, 0xa3, 0x40, 0x8f, 0x92, 0x9d, 0x38, 0xf5, 0xbc, 0xb6, 0xda, 0x21, 0x10, 0xff, 0xf3, 0xd2,
     0xcd, 0x0c, 0x13, 0xec, 0x5f, 0x97, 0x44, 0x17, 0xc4, 0xa7, 0x7e, 0x3d, 0x64, 0x5d, 0x19, 0x73,
     0x60, 0x81, 0x4f, 0xdc, 0x22, 0x2a, 0x90, 0x88, 0x46, 0xee, 0xb8, 0x14, 0xde, 0x5e, 0x0b, 0xdb,
     0xe0, 0x32, 0x3a, 0x0a, 0x49, 0x06, 0x24, 0x5c, 0xc2, 0xd3, 0xac, 0x62, 0x91, 0x95, 0xe4, 0x79,
     0xe7, 0xc8, 0x37, 0x6d, 0x8d, 0xd5, 0x4e, 0xa9, 0x6c, 0x56, 0xf4, 0xea, 0x65, 0x7a, 0xae, 0x08,
     0xba, 0x78, 0x25, 0x2e, 0x1c, 0xa6, 0xb4, 0xc6, 0xe8, 0xdd, 0x74, 0x1f, 0x4b, 0xbd, 0x8b, 0x8a,
     0x70, 0x3e, 0xb5, 0x66, 0x48, 0x03, 0xf6, 0x0e, 0x61, 0x35, 0x57, 0xb9, 0x86, 0xc1, 0x1d, 0x9e,
     0xe1, 0xf8, 0x98, 0x11, 0x69, 0xd9, 0x8e, 0x94, 0x9b, 0x1e, 0x87, 0xe9, 0xce, 0x55, 0x28, 0xdf,
     0x8c, 0xa1, 0x89, 0x0d, 0xbf, 0xe6, 0x42, 0x68, 0x41, 0x99, 0x2d, 0x0f, 0xb0, 0x54, 0xbb, 0x16]"

definition xtime :: "u8 \<Rightarrow> u8" where
  "xtime b = push_bit 1 b XOR (if bit b 7 then 0x1b else 0)"

definition sub_byte :: "u8 \<Rightarrow> u8" where
  "sub_byte b = aes_sbox ! unat b"

definition xor_bytes :: "bytes \<Rightarrow> bytes \<Rightarrow> bytes" where
  "xor_bytes a b = map2 (XOR) a b"

text \<open>
  The key schedule, four bytes a word, most recent word first while it grows. \<open>nk\<close> is the
  length of the key in words, \<open>i\<close> the index of the next word.
\<close>

fun aes_rcon :: "nat \<Rightarrow> u8" where
  "aes_rcon 0 = 0"
| "aes_rcon (Suc 0) = 1"
| "aes_rcon (Suc n) = xtime (aes_rcon n)"

definition aes_next_word :: "nat \<Rightarrow> nat \<Rightarrow> bytes list \<Rightarrow> bytes" where
  "aes_next_word nk i ws =
     (let t = ws ! 0;
          t' = (if i mod nk = 0
                then xor_bytes (map sub_byte (rotate1 t)) [aes_rcon (i div nk), 0, 0, 0]
                else if nk > 6 \<and> i mod nk = 4 then map sub_byte t
                else t)
      in xor_bytes (ws ! (nk - 1)) t')"

fun aes_expand :: "nat \<Rightarrow> nat \<Rightarrow> nat \<Rightarrow> bytes list \<Rightarrow> bytes list" where
  "aes_expand nk i 0 ws = ws"
| "aes_expand nk i (Suc n) ws = aes_expand nk (Suc i) n (aes_next_word nk i ws # ws)"

fun key_words :: "bytes \<Rightarrow> bytes list" where
  "key_words (a # b # c # d # r) = [a, b, c, d] # key_words r"
| "key_words _ = []"

definition aes_schedule :: "bytes \<Rightarrow> bytes" where
  "aes_schedule key =
     (let nk = length key div 4
      in concat (rev (aes_expand nk nk (4 * (nk + 7) - nk) (rev (key_words key)))))"

text \<open>The state is the 16 bytes of the block, column by column.\<close>

definition shift_rows :: "bytes \<Rightarrow> bytes" where
  "shift_rows s = map (\<lambda>i. s ! i) [0, 5, 10, 15, 4, 9, 14, 3, 8, 13, 2, 7, 12, 1, 6, 11]"

fun mix_columns :: "bytes \<Rightarrow> bytes" where
  "mix_columns (a # b # c # d # r) =
     (xtime a XOR (xtime b XOR b) XOR c XOR d) # (a XOR xtime b XOR (xtime c XOR c) XOR d)
     # (a XOR b XOR xtime c XOR (xtime d XOR d)) # ((xtime a XOR a) XOR b XOR c XOR xtime d)
     # mix_columns r"
| "mix_columns _ = []"

text \<open>\<open>aes_rounds n s k\<close> runs the last \<open>n\<close> rounds on the remaining round keys \<open>k\<close>.\<close>

fun aes_rounds :: "nat \<Rightarrow> bytes \<Rightarrow> bytes \<Rightarrow> bytes" where
  "aes_rounds 0 s k = s"
| "aes_rounds (Suc 0) s k = xor_bytes (shift_rows (map sub_byte s)) (take 16 k)"
| "aes_rounds (Suc n) s k =
     aes_rounds n (xor_bytes (mix_columns (shift_rows (map sub_byte s))) (take 16 k)) (drop 16 k)"

definition aes_encrypt :: "bytes \<Rightarrow> bytes \<Rightarrow> bytes" where
  "aes_encrypt key blk =
     (let ks = aes_schedule key
      in aes_rounds (length key div 4 + 6) (xor_bytes blk (take 16 ks)) (drop 16 ks))"

section \<open>CFB mode\<close>

text \<open>
  \<open>XORKeyStream\<close> of the encrypter: each block of the input is masked with the encryption of
  the ciphertext block before it (the IV at first); the last block may be short.
\<close>

function cfb_encrypt :: "(bytes \<Rightarrow> bytes) \<Rightarrow> bytes \<Rightarrow> bytes \<Rightarrow> bytes" where
  "cfb_encrypt E iv p =
     (if p = [] then []
      else let c = xor_bytes (take 16 p) (E iv) in c @ cfb_encrypt E c (drop 16 p))"
  by pat_completeness auto
termination
  by (relation "measure (\<lambda>(E, iv, p). length p)") auto

function cfb_decrypt :: "(bytes \<Rightarrow> bytes) \<Rightarrow> bytes \<Rightarrow> bytes \<Rightarrow> bytes" where
  "cfb_decrypt E iv c =
     (if c = [] then []
      else xor_bytes (take 16 c) (E iv) @ cfb_decrypt E (take 16 c) (drop 16 c))"
  by pat_completeness auto
termination
  by (relation "measure (\<lambda>(E, iv, c). length c)") auto

declare cfb_encrypt.simps [simp del] cfb_decrypt.simps [simp del]

lemma length_xor_bytes [simp]: "length (xor_bytes a b) = min (length a) (length b)"
  by (simp add: xor_bytes_def)

lemma xor_bytes_Cons [simp]: "xor_bytes (x # a) (y # b) = (x XOR y) # xor_bytes a b"
  by (simp add: xor_bytes_def)

lemma xor_bytes_Nil [simp]: "xor_bytes [] b = []" "xor_bytes a [] = []"
  by (simp_all add: xor_bytes_def)

lemma xor_bytes_twice: "length a \<le> length k \<Longrightarrow> xor_bytes (xor_bytes a k) k = a"
proof (induction a arbitrary: k)
  case Nil
  then show ?case by simp
next
  case (Cons x a)
  then obtain y k' where "k = y # k'" by (cases k) auto
  with Cons show ?case by (simp add: xor.assoc)
qed

text \<open>The interface of a block cipher of 16-byte blocks: CFB asks nothing else of it.\<close>

locale block_cipher =
  fixes E :: "bytes \<Rightarrow> bytes"
  assumes block_length: "length b = 16 \<Longrightarrow> length (E b) = 16"
begin

lemma cfb_encrypt_step:
  assumes "p \<noteq> []" and "c = xor_bytes (take 16 p) (E iv)"
  shows "cfb_encrypt E iv p = c @ (if length p \<le> 16 then [] else cfb_encrypt E c (drop 16 p))"
  using assms by (simp add: cfb_encrypt.simps [of E iv p] cfb_encrypt.simps [of E _ "[]"] Let_def)

lemma cfb_decrypt_short:
  "c \<noteq> [] \<Longrightarrow> length c \<le> 16 \<Longrightarrow> cfb_decrypt E iv c = xor_bytes c (E iv)"
  by (simp add: cfb_decrypt.simps [of E iv c] cfb_decrypt.simps [of E _ "[]"])

lemma length_cfb_encrypt: "length iv = 16 \<Longrightarrow> length (cfb_encrypt E iv p) = length p"
proof (induction p arbitrary: iv rule: length_induct)
  case (1 p)
  show ?case
  proof (cases "p = []")
    case True
    then show ?thesis by (simp add: cfb_encrypt.simps)
  next
    case False
    let ?c = "xor_bytes (take 16 p) (E iv)"
    have c: "length ?c = min (length p) 16" using 1 by (simp add: block_length)
    have "length (cfb_encrypt E ?c (drop 16 p)) = length p - 16" if "16 < length p"
      using "1.IH" False c that by simp
    then show ?thesis using c by (simp add: cfb_encrypt_step [OF False refl])
  qed
qed

theorem cfb_roundtrip: "length iv = 16 \<Longrightarrow> cfb_decrypt E iv (cfb_encrypt E iv p) = p"
proof (induction p arbitrary: iv rule: length_induct)
  case (1 p)
  show ?case
  proof (cases "p = []")
    case True
    then show ?thesis by (simp add: cfb_encrypt.simps cfb_decrypt.simps)
  next
    case False
    let ?c = "xor_bytes (take 16 p) (E iv)"
    have c: "length ?c = min (length p) 16" using 1 by (simp add: block_length)
    have ne: "?c \<noteq> []" using c False by (metis length_0_conv min_def zero_neq_numeral)
    have unmask: "xor_bytes ?c (E iv) = take 16 p" using 1 by (simp add: xor_bytes_twice block_length)
    have rest: "cfb_decrypt E ?c (cfb_encrypt E ?c (drop 16 p)) = drop 16 p" if "16 < length p"
      using "1.IH" False c that by simp
    show ?thesis
    proof (cases "length p \<le> 16")
      case True
      then have "cfb_encrypt E iv p = ?c" by (simp add: cfb_encrypt_step [OF False refl])
      moreover have "length ?c \<le> 16" using c by simp
      ultimately show ?thesis using True ne unmask by (simp add: cfb_decrypt_short del: length_xor_bytes)
    next
      case long: False
      then have "cfb_encrypt E iv p = ?c @ cfb_encrypt E ?c (drop 16 p)"
        by (simp add: cfb_encrypt_step [OF False refl])
      with long c ne unmask rest show ?thesis
        by (simp add: cfb_decrypt.simps [of E iv "?c @ cfb_encrypt E ?c (drop 16 p)"])
    qed
  qed
qed

end

section \<open>AES is such a cipher\<close>

lemma length_shift_rows [simp]: "length (shift_rows s) = 16"
  by (simp add: shift_rows_def)

lemma length_mix_columns: "4 dvd length s \<Longrightarrow> length (mix_columns s) = length s"
proof (induction s rule: mix_columns.induct)
  case (1 a b c d r)
  then have "4 dvd length r" by (simp add: dvd_def) presburger
  with 1 show ?case by simp
qed (auto dest: dvd_imp_le)

lemma length_aes_next_word:
  "\<lbrakk>nk \<le> length ws; 0 < nk; \<forall>w \<in> set ws. length w = 4\<rbrakk> \<Longrightarrow> length (aes_next_word nk i ws) = 4"
proof -
  assume h: "nk \<le> length ws" "0 < nk" "\<forall>w \<in> set ws. length w = 4"
  then have "0 < length ws" and "nk - 1 < length ws" by linarith+
  with h(3) have "length (ws ! 0) = 4" and "length (ws ! (nk - 1)) = 4" by simp_all
  then show ?thesis by (simp add: aes_next_word_def Let_def)
qed

lemma aes_expand_words:
  "\<lbrakk>nk \<le> length ws; 0 < nk; \<forall>w \<in> set ws. length w = 4\<rbrakk> \<Longrightarrow>
   length (aes_expand nk i n ws) = length ws + n \<and> (\<forall>w \<in> set (aes_expand nk i n ws). length w = 4)"
  by (induction nk i n ws rule: aes_expand.induct) (simp_all add: length_aes_next_word)

lemma key_words_length:
  "length (key_words k) = length k div 4 \<and> (\<forall>w \<in> set (key_words k). length w = 4)"
  by (induction k rule: key_words.induct) auto

lemma length_concat_words: "\<forall>w \<in> set ws. length w = 4 \<Longrightarrow> length (concat ws) = 4 * length ws"
  by (induction ws) auto

lemma length_aes_schedule:
  assumes "4 \<le> length key"
  shows "length (aes_schedule key) = 16 * (length key div 4 + 7)"
proof -
  define nk where "nk = length key div 4"
  define ws where "ws = rev (key_words key)"
  define ex where "ex = aes_expand nk nk (4 * (nk + 7) - nk) ws"
  have pos: "0 < nk" using assms by (simp add: nk_def)
  have ws: "length ws = nk" "\<forall>w \<in> set ws. length w = 4"
    using key_words_length [of key] by (auto simp: ws_def nk_def)
  have "length ex = nk + (4 * (nk + 7) - nk)" and w: "\<forall>w \<in> set (rev ex). length w = 4"
    using aes_expand_words [of nk ws nk "4 * (nk + 7) - nk"] ws pos by (auto simp: ex_def)
  then have "4 * length (rev ex) = 16 * (nk + 7)" by simp
  then have "length (concat (rev ex)) = 16 * (nk + 7)" by (simp only: length_concat_words [OF w])
  then show ?thesis by (simp only: aes_schedule_def Let_def nk_def ws_def ex_def)
qed

lemma length_aes_rounds: "\<lbrakk>16 * n \<le> length k; length s = 16\<rbrakk> \<Longrightarrow> length (aes_rounds n s k) = 16"
  by (induction n s k rule: aes_rounds.induct) (simp_all add: length_mix_columns)

lemma length_aes_encrypt:
  assumes "4 \<le> length key" and "length blk = 16"
  shows "length (aes_encrypt key blk) = 16"
  using assms by (simp add: aes_encrypt_def Let_def length_aes_rounds length_aes_schedule)

text \<open>
  \<open>aes.NewCipher\<close> accepts keys of 16, 24 and 32 bytes and refuses every other with an error.
  \<open>aes_cipher\<close> is the cipher of a key; for a key that is refused it is the identity, a value
  no caller sees.
\<close>

definition valid_aes_key :: "bytes \<Rightarrow> bool" where
  "valid_aes_key key \<longleftrightarrow> length key = 16 \<or> length key = 24 \<or> length key = 32"

definition aes_cipher :: "bytes \<Rightarrow> bytes \<Rightarrow> bytes" where
  "aes_cipher key blk = (if valid_aes_key key then aes_encrypt key blk else blk)"

definition NewCipher :: "bytes \<Rightarrow> (bytes \<Rightarrow> bytes) option" where
  "NewCipher key = (if valid_aes_key key then Some (aes_cipher key) else None)"

interpretation aes: block_cipher "aes_cipher key" for key
  by unfold_locales (auto simp: aes_cipher_def valid_aes_key_def length_aes_encrypt)

end
