(* ===== verification/Outer_Wrap.thy ===== *)
theory Outer_Wrap
  imports Kdf Aes
begin

text \<open>
  The outer wrap of Protected Storage, as the TPM reads it: an encrypted payload behind an HMAC that
  covers it and the Name of an object, under two keys derived from one seed. It is the abstract
  specification of what \<open>makecred.go\<close> and \<open>import.go\<close> build: \<open>wrap\<close> is the blob, \<open>unwrap\<close> what a TPM
  that knows the seed recovers from a blob.
\<close>

section \<open>Wrapping\<close>

definition storage_key :: "bytes \<Rightarrow> bytes \<Rightarrow> bytes" where
  "storage_key seed name = take 16 (KDFa_block seed ''STORAGE'' name [] 128 1)"

definition integrity_key :: "bytes \<Rightarrow> bytes" where
  "integrity_key seed = KDFa_block seed ''INTEGRITY'' [] [] 256 1"

definition encrypted :: "bytes \<Rightarrow> bytes \<Rightarrow> bytes \<Rightarrow> bytes" where
  "encrypted seed name plain = cfb_encrypt (aes_cipher (storage_key seed name)) (replicate 16 0) plain"

definition wrap :: "bytes \<Rightarrow> bytes \<Rightarrow> bytes \<Rightarrow> bytes" where
  "wrap seed name plain =
     tpm2b (hmac (integrity_key seed) (encrypted seed name plain @ name)) @ encrypted seed name plain"

section \<open>Unwrapping\<close>

text \<open>The TPM checks the HMAC before it decrypts.\<close>

definition unwrap :: "bytes \<Rightarrow> bytes \<Rightarrow> bytes \<Rightarrow> bytes option" where
  "unwrap seed name blob =
     (if take 34 blob = tpm2b (hmac (integrity_key seed) (drop 34 blob @ name))
      then Some (cfb_decrypt (aes_cipher (storage_key seed name)) (replicate 16 0) (drop 34 blob))
      else None)"

lemma length_storage_key [simp]: "length (storage_key seed name) = 16"
  by (simp add: storage_key_def KDFa_block_def)

lemma length_integrity_key [simp]: "length (integrity_key seed) = 32"
  by (simp add: integrity_key_def KDFa_block_def)

lemma length_encrypted [simp]: "length (encrypted seed name plain) = length plain"
  by (simp add: encrypted_def aes.length_cfb_encrypt)

lemma length_wrap [simp]: "length (wrap seed name plain) = length plain + 34"
  by (simp add: wrap_def)

lemma wrap_parts:
  "take 34 (wrap seed name plain) = tpm2b (hmac (integrity_key seed) (encrypted seed name plain @ name))"
  "drop 34 (wrap seed name plain) = encrypted seed name plain"
  by (simp_all add: wrap_def)

lemma unwrap_wrap: "unwrap seed name (wrap seed name plain) = Some plain"
  by (simp add: unwrap_def wrap_parts) (simp add: encrypted_def aes.cfb_roundtrip)

text \<open>
  A blob opened under another Name has an HMAC that covers both Names over the same ciphertext.
\<close>

definition hmac_clash :: "bytes \<Rightarrow> bytes \<Rightarrow> bytes \<Rightarrow> bool" where
  "hmac_clash k x y \<longleftrightarrow> x \<noteq> y \<and> hmac k x = hmac k y"

lemma tpm2b_inject: "length v = length w \<Longrightarrow> tpm2b v = tpm2b w \<longleftrightarrow> v = w"
  by (simp add: tpm2b_def)

lemma unwrap_other_name:
  assumes "unwrap seed name' (wrap seed name plain) = Some x"
  shows "name' = name \<or> hmac_clash (integrity_key seed) (encrypted seed name plain @ name)
    (encrypted seed name plain @ name')"
proof -
  from assms have "hmac (integrity_key seed) (encrypted seed name plain @ name)
      = hmac (integrity_key seed) (encrypted seed name plain @ name')"
    by (simp add: unwrap_def wrap_parts tpm2b_inject split: if_splits)
  then show ?thesis by (auto simp: hmac_clash_def)
qed

section \<open>Shared points\<close>

text \<open>A \<open>TPM2B\<close> at the front of a buffer, as the TPM reads it.\<close>

definition split_tpm2b :: "bytes \<Rightarrow> (bytes \<times> bytes) option" where
  "split_tpm2b b =
     (let n = be_nat (take 2 b)
      in if 2 + n \<le> length b then Some (take n (drop 2 b), drop (2 + n) b) else None)"

lemma split_tpm2b_append [simp]: "length v < 65536 \<Longrightarrow> split_tpm2b (tpm2b v @ r) = Some (v, r)"
  by (simp add: split_tpm2b_def tpm2b_def)

lemma split_tpm2b_alone [simp]: "length v < 65536 \<Longrightarrow> split_tpm2b (tpm2b v) = Some (v, [])"
  using split_tpm2b_append [of v "[]"] by simp

text \<open>The encrypted secret: the ephemeral point as two fixed-width coordinates.\<close>

definition point_bytes :: "nat \<times> nat \<Rightarrow> bytes" where
  "point_bytes Q = tpm2b (be_bytes 32 (fst Q)) @ tpm2b (be_bytes 32 (snd Q))"

definition read_point :: "bytes \<Rightarrow> (nat \<times> nat) option" where
  "read_point b =
     Option.bind (split_tpm2b b) (\<lambda>(x, r). map_option (\<lambda>(y, _). (be_nat x, be_nat y)) (split_tpm2b r))"

lemma length_point_bytes [simp]: "length (point_bytes Q) = 68"
  by (simp add: point_bytes_def)

lemma read_point_bytes: "fst Q < 256 ^ 32 \<Longrightarrow> snd Q < 256 ^ 32 \<Longrightarrow> read_point (point_bytes Q) = Some Q"
  by (simp add: read_point_def point_bytes_def be_nat_be_bytes_id del: be_nat_be_bytes power_numeral)

end
