(* ===== verification/Seal.thy ===== *)
theory Seal
  imports Attest Sha256
begin

text \<open>
  \<open>seal.go\<close>: sealing a secret to PCR vals and unsealing it through a policy session: the offline
  policy digest, the storage parent, the sealed object's templates, the seven commands of the flow
  and the two helpers that compose them.
\<close>

section \<open>Constants\<close>

definition ccStartAuthSession :: u32 where "ccStartAuthSession = 0x00000176"
definition ccPolicyPCR :: u32 where "ccPolicyPCR = 0x0000017F"
definition ccUnseal :: u32 where "ccUnseal = 0x0000015E"
definition ccPolicyGetDigest :: u32 where "ccPolicyGetDigest = 0x00000189"

definition rhNull :: u32 where "rhNull = 0x40000007"
definition sePolicy :: u8 where "sePolicy = 0x01"

definition algKeyedHash :: u16 where "algKeyedHash = 0x0008"
definition algAES :: u16 where "algAES = 0x0006"
definition algCFB :: u16 where "algCFB = 0x0043"

definition objDecrypt :: u32 where "objDecrypt = push_bit 17 1"

definition storageObjectAttributes :: u32 where
  "storageObjectAttributes = or (or (or (or (or objFixedTPM objFixedParent) objSensitiveDataOrigin)
     objUserWithAuth) objRestricted) objDecrypt"

definition sealObjectAttributes :: u32 where
  "sealObjectAttributes = or objFixedTPM objFixedParent"

lemmas seal_constants = ccStartAuthSession_def ccPolicyPCR_def ccUnseal_def ccPolicyGetDigest_def
  rhNull_def sePolicy_def algKeyedHash_def algAES_def algCFB_def

section \<open>The policy digest\<close>

definition ccBytes :: "codec \<Rightarrow> u32 \<Rightarrow> bytes" where
  "ccBytes C cc = PutU32 C [] cc"

definition PolicyPCRDigest :: "codec \<Rightarrow> PCRSelection list \<Rightarrow> bytes list \<Rightarrow> bytes" where
  "PolicyPCRDigest C sel pcrValues =
     (let pcrDigest = sha256 (concat pcrValues)
      in sha256 (replicate 32 0 @ ccBytes C ccPolicyPCR @ marshalPCRSelectionList C sel @ pcrDigest))"

section \<open>The storage parent\<close>

record ECCPublic =
  ecc_X :: bytes
  ecc_Y :: bytes

definition marshalECCStoragePublic :: "codec \<Rightarrow> bytes" where
  "marshalECCStoragePublic C =
     (let p = PutU16 C [] AlgECC;
          p = PutU16 C p algSHA256;
          p = PutU32 C p storageObjectAttributes;
          p = PutU16 C p 0;
          p = PutU16 C p algAES;
          p = PutU16 C p 128;
          p = PutU16 C p algCFB;
          p = PutU16 C p algNull;
          p = PutU16 C p ECCNistP256;
          p = PutU16 C p algNull;
          p = PutU16 C p 0;
          p = PutU16 C p 0
      in MarshalTPM2B C p)"

definition CreateStoragePrimary_body :: "codec \<Rightarrow> bytes" where
  "CreateStoragePrimary_body C =
     (let body = PutU32 C [] (CommonRHOwner C);
          auth = marshalPasswordAuth C;
          body = PutU32 C body (of_nat (length auth));
          body = body @ auth;
          body = body @ marshalEmptySensitiveCreate C;
          body = body @ marshalECCStoragePublic C;
          body = PutU16 C body 0
      in PutU32 C body 0)"

definition CreateStoragePrimary_response :: "codec \<Rightarrow> bytes \<Rightarrow> (u32 \<times> ECCPublic) res" where
  "CreateStoragePrimary_response C rp =
     rbind (parseCreatePrimaryResponse C rp) (\<lambda>(h, ak).
       Inr (h, \<lparr>ecc_X = ak_X ak, ecc_Y = ak_Y ak\<rparr>))"

definition CreateStoragePrimaryPub :: "codec \<Rightarrow> 's TPM \<Rightarrow> ('s, 'r, u32 \<times> ECCPublic) cmd" where
  "CreateStoragePrimaryPub C tpm =
     tbind (execute C tpm (TagSessions C) (CCCreatePrimary C) (CreateStoragePrimary_body C))
       (\<lambda>rp. lift (CreateStoragePrimary_response C rp))"

definition CreateStoragePrimary :: "codec \<Rightarrow> 's TPM \<Rightarrow> ('s, 'r, u32) cmd" where
  "CreateStoragePrimary C tpm = tbind (CreateStoragePrimaryPub C tpm) (\<lambda>(h, _). lift (Inr h))"

section \<open>The sealed object\<close>

definition marshalSealSensitiveCreate :: "codec \<Rightarrow> bytes \<Rightarrow> bytes" where
  "marshalSealSensitiveCreate C secret =
     (let inner = PutU16 C [] 0;
          inner = inner @ MarshalTPM2B C secret
      in MarshalTPM2B C inner)"

definition marshalSealPublic :: "codec \<Rightarrow> bytes \<Rightarrow> bytes" where
  "marshalSealPublic C policyDigest =
     (let p = PutU16 C [] algKeyedHash;
          p = PutU16 C p algSHA256;
          p = PutU32 C p sealObjectAttributes;
          p = p @ MarshalTPM2B C policyDigest;
          p = PutU16 C p algNull;
          p = PutU16 C p 0
      in MarshalTPM2B C p)"

definition Create_body :: "codec \<Rightarrow> u32 \<Rightarrow> bytes \<Rightarrow> bytes \<Rightarrow> bytes" where
  "Create_body C parent secret policyDigest =
     (let body = PutU32 C [] parent;
          auth = marshalPasswordAuth C;
          body = PutU32 C body (of_nat (length auth));
          body = body @ auth;
          body = body @ marshalSealSensitiveCreate C secret;
          body = body @ marshalSealPublic C policyDigest;
          body = PutU16 C body 0
      in PutU32 C body 0)"

definition Create_response :: "codec \<Rightarrow> bytes \<Rightarrow> (bytes \<times> bytes) res" where
  "Create_response C rp =
     rbind (need (GetU32 C rp 0)) (\<lambda>_.
     rbind (slice_from rp 4) (\<lambda>rest.
     rbind (UnmarshalTPM2B C rest) (\<lambda>(priv, rest).
     rbind (UnmarshalTPM2B C rest) (\<lambda>(pub, _). Inr (priv, pub)))))"

definition Create :: "codec \<Rightarrow> 's TPM \<Rightarrow> u32 \<Rightarrow> bytes \<Rightarrow> bytes \<Rightarrow> ('s, 'r, bytes \<times> bytes) cmd" where
  "Create C tpm parent secret policyDigest =
     tbind (execute C tpm (TagSessions C) (CCCreate C) (Create_body C parent secret policyDigest))
       (\<lambda>rp. lift (Create_response C rp))"

definition Load_body :: "codec \<Rightarrow> u32 \<Rightarrow> bytes \<Rightarrow> bytes \<Rightarrow> bytes" where
  "Load_body C parent priv pub =
     (let body = PutU32 C [] parent;
          auth = marshalPasswordAuth C;
          body = PutU32 C body (of_nat (length auth));
          body = body @ auth;
          body = body @ MarshalTPM2B C priv
      in body @ MarshalTPM2B C pub)"

definition Load_response :: "codec \<Rightarrow> bytes \<Rightarrow> u32 res" where
  "Load_response C rp = need (GetU32 C rp 0)"

definition Load :: "codec \<Rightarrow> 's TPM \<Rightarrow> u32 \<Rightarrow> bytes \<Rightarrow> bytes \<Rightarrow> ('s, 'r, u32) cmd" where
  "Load C tpm parent priv pub =
     tbind (execute C tpm (TagSessions C) (CCLoad C) (Load_body C parent priv pub))
       (\<lambda>rp. lift (Load_response C rp))"

section \<open>Policy sessions\<close>

definition StartAuthSession_body :: "codec \<Rightarrow> bytes \<Rightarrow> bytes" where
  "StartAuthSession_body C nonceCaller =
     (let body = PutU32 C [] rhNull;
          body = PutU32 C body rhNull;
          body = body @ MarshalTPM2B C nonceCaller;
          body = PutU16 C body 0;
          body = PutU8 C body sePolicy;
          body = PutU16 C body algNull
      in PutU16 C body algSHA256)"

definition StartAuthSession_response :: "codec \<Rightarrow> bytes \<Rightarrow> (u32 \<times> bytes) res" where
  "StartAuthSession_response C rp =
     rbind (need (GetU32 C rp 0)) (\<lambda>h.
     rbind (slice_from rp 4) (\<lambda>rp4.
     rbind (UnmarshalTPM2B C rp4) (\<lambda>(nt, _). Inr (h, nt))))"

definition StartAuthSession :: "codec \<Rightarrow> 's TPM \<Rightarrow> bytes \<Rightarrow> ('s, 'r, u32 \<times> bytes) cmd" where
  "StartAuthSession C tpm nonceCaller =
     tbind (execute C tpm (TagNoSessions C) ccStartAuthSession (StartAuthSession_body C nonceCaller))
       (\<lambda>rp. lift (StartAuthSession_response C rp))"

definition PolicyPCR_body :: "codec \<Rightarrow> u32 \<Rightarrow> PCRSelection list \<Rightarrow> bytes" where
  "PolicyPCR_body C session sel =
     (let body = PutU32 C [] session;
          body = PutU16 C body 0
      in body @ marshalPCRSelectionList C sel)"

definition PolicyPCR :: "codec \<Rightarrow> 's TPM \<Rightarrow> u32 \<Rightarrow> PCRSelection list \<Rightarrow> ('s, 'r, unit) cmd" where
  "PolicyPCR C tpm session sel =
     tbind (execute C tpm (TagNoSessions C) ccPolicyPCR (PolicyPCR_body C session sel)) (\<lambda>_. lift (Inr ()))"

definition PolicyGetDigest_response :: "codec \<Rightarrow> bytes \<Rightarrow> bytes res" where
  "PolicyGetDigest_response C rp = rbind (UnmarshalTPM2B C rp) (\<lambda>(d, _). Inr d)"

definition PolicyGetDigest :: "codec \<Rightarrow> 's TPM \<Rightarrow> u32 \<Rightarrow> ('s, 'r, bytes) cmd" where
  "PolicyGetDigest C tpm session =
     tbind (execute C tpm (TagNoSessions C) ccPolicyGetDigest (PutU32 C [] session))
       (\<lambda>rp. lift (PolicyGetDigest_response C rp))"

definition marshalPolicyAuth :: "codec \<Rightarrow> u32 \<Rightarrow> bytes" where
  "marshalPolicyAuth C session =
     (let out = PutU32 C [] session;
          out = PutU16 C out 0;
          out = PutU8 C out sessionContinue
      in PutU16 C out 0)"

definition Unseal_body :: "codec \<Rightarrow> u32 \<Rightarrow> u32 \<Rightarrow> bytes" where
  "Unseal_body C item session =
     (let body = PutU32 C [] item;
          auth = marshalPolicyAuth C session;
          body = PutU32 C body (of_nat (length auth))
      in body @ auth)"

definition Unseal_response :: "codec \<Rightarrow> bytes \<Rightarrow> bytes res" where
  "Unseal_response C rp =
     rbind (need (GetU32 C rp 0)) (\<lambda>_.
     rbind (slice_from rp 4) (\<lambda>rp4.
     rbind (UnmarshalTPM2B C rp4) (\<lambda>(d, _). Inr d)))"

definition Unseal :: "codec \<Rightarrow> 's TPM \<Rightarrow> u32 \<Rightarrow> u32 \<Rightarrow> ('s, 'r, bytes) cmd" where
  "Unseal C tpm item session =
     tbind (execute C tpm (TagSessions C) ccUnseal (Unseal_body C item session))
       (\<lambda>rp. lift (Unseal_response C rp))"

section \<open>The two helpers\<close>

definition SealToPCR ::
  "codec \<Rightarrow> 's TPM \<Rightarrow> u32 \<Rightarrow> bytes \<Rightarrow> PCRSelection list \<Rightarrow> bytes list \<Rightarrow> ('s, 'r, bytes \<times> bytes \<times> bytes) cmd" where
  "SealToPCR C tpm parent secret sel pcrValues =
     (let policyDigest = PolicyPCRDigest C sel pcrValues
      in tbind (Create C tpm parent secret policyDigest) (\<lambda>(priv, pub).
           lift (Inr (priv, pub, policyDigest))))"

definition UnsealWithPCR ::
  "codec \<Rightarrow> 's TPM \<Rightarrow> u32 \<Rightarrow> bytes \<Rightarrow> bytes \<Rightarrow> PCRSelection list \<Rightarrow> bytes \<Rightarrow> ('s, 'r, bytes) cmd" where
  "UnsealWithPCR C tpm parent priv pub sel nonceCaller =
     tbind (Load C tpm parent priv pub) (\<lambda>item.
     tbind (StartAuthSession C tpm nonceCaller) (\<lambda>(session, _).
     tbind (PolicyPCR C tpm session sel) (\<lambda>_.
     Unseal C tpm item session)))"

section \<open>Each method runs one command\<close>

interpretation createstorage: tpm_call C tpm "TagSessions C" "CCCreatePrimary C"
  "CreateStoragePrimary_body C" "CreateStoragePrimary_response C" "CreateStoragePrimaryPub C tpm" for C tpm
  by unfold_locales (simp add: CreateStoragePrimaryPub_def)

interpretation create: tpm_call C tpm "TagSessions C" "CCCreate C" "Create_body C parent secret policy"
  "Create_response C" "Create C tpm parent secret policy" for C tpm parent secret policy
  by unfold_locales (simp add: Create_def)

interpretation load: tpm_call C tpm "TagSessions C" "CCLoad C" "Load_body C parent priv pub"
  "Load_response C" "Load C tpm parent priv pub" for C tpm parent priv pub
  by unfold_locales (simp add: Load_def)

interpretation startsession: tpm_call C tpm "TagNoSessions C" ccStartAuthSession
  "StartAuthSession_body C nonce" "StartAuthSession_response C" "StartAuthSession C tpm nonce" for C tpm nonce
  by unfold_locales (simp add: StartAuthSession_def)

interpretation policypcr: tpm_call C tpm "TagNoSessions C" ccPolicyPCR "PolicyPCR_body C session sel"
  "\<lambda>_. Inr ()" "PolicyPCR C tpm session sel" for C tpm session sel
  by unfold_locales (simp add: PolicyPCR_def)

interpretation policydigest: tpm_call C tpm "TagNoSessions C" ccPolicyGetDigest "PutU32 C [] session"
  "PolicyGetDigest_response C" "PolicyGetDigest C tpm session" for C tpm session
  by unfold_locales (simp add: PolicyGetDigest_def)

interpretation unseal: tpm_call C tpm "TagSessions C" ccUnseal "Unseal_body C item session"
  "Unseal_response C" "Unseal C tpm item session" for C tpm item session
  by unfold_locales (simp add: Unseal_def)

section \<open>The bytes of the flow\<close>

text \<open>The session area: the handle, an empty nonce, \<open>continueSession\<close>, an empty HMAC.\<close>

definition session_auth :: "u32 \<Rightarrow> bytes" where
  "session_auth h = be_bytes 4 (unat h) @ [0, 0] @ [1] @ [0, 0]"

lemma length_session_auth [simp]: "length (session_auth h) = 9"
  by (simp add: session_auth_def)

lemma session_auth_password: "session_auth 0x40000009 = password_auth"
  by (simp add: session_auth_def password_auth_def)

definition seal_public_bytes :: "bytes \<Rightarrow> bytes" where
  "seal_public_bytes policy =
     [0x00, 0x08] @ [0x00, 0x0B] @ [0x00, 0x00, 0x00, 0x12] @ tpm2b policy @ [0x00, 0x10] @ [0x00, 0x00]"

definition storage_public_bytes :: bytes where
  "storage_public_bytes = [0x00, 0x23] @ [0x00, 0x0B] @ [0x00, 0x03, 0x00, 0x72] @ [0x00, 0x00] @
     [0x00, 0x06] @ [0x00, 0x80] @ [0x00, 0x43] @ [0x00, 0x10] @ [0x00, 0x03] @ [0x00, 0x10] @
     [0x00, 0x00] @ [0x00, 0x00]"

context byte_codec
begin

lemma marshalPolicyAuth_eq: "marshalPolicyAuth C h = session_auth h"
  by (simp add: marshalPolicyAuth_def session_auth_def puts sessionContinue_def be_eval)

lemma marshalECCStoragePublic_eq: "marshalECCStoragePublic C = tpm2b storage_public_bytes"
  by (simp add: marshalECCStoragePublic_def puts attest_constants seal_constants storageObjectAttributes_def
      objFixedTPM_def objFixedParent_def objSensitiveDataOrigin_def objUserWithAuth_def objRestricted_def
      objDecrypt_def storage_public_bytes_def be_eval)

lemma marshalSealPublic_eq:
  "length policy < 65500 \<Longrightarrow> marshalSealPublic C policy = tpm2b (seal_public_bytes policy)"
  by (simp add: marshalSealPublic_def puts attest_constants seal_constants sealObjectAttributes_def
      objFixedTPM_def objFixedParent_def seal_public_bytes_def be_eval)

lemma marshalSealSensitiveCreate_eq:
  "length secret < 65500 \<Longrightarrow> marshalSealSensitiveCreate C secret = tpm2b ([0, 0] @ tpm2b secret)"
  by (simp add: marshalSealSensitiveCreate_def puts be_eval)

lemma seal_bodies:
  "CreateStoragePrimary_body C = be_bytes 4 (unat (CommonRHOwner C)) @ [0, 0, 0, 9] @ password_auth @
     tpm2b [0, 0, 0, 0] @ tpm2b storage_public_bytes @ [0, 0] @ [0, 0, 0, 0]"
  "length secret < 65500 \<Longrightarrow> length policy < 65500 \<Longrightarrow> Create_body C parent secret policy =
     be_bytes 4 (unat parent) @ [0, 0, 0, 9] @ password_auth @ tpm2b ([0, 0] @ tpm2b secret) @
     tpm2b (seal_public_bytes policy) @ [0, 0] @ [0, 0, 0, 0]"
  "length priv < 65536 \<Longrightarrow> length pub < 65536 \<Longrightarrow> Load_body C parent priv pub =
     be_bytes 4 (unat parent) @ [0, 0, 0, 9] @ password_auth @ tpm2b priv @ tpm2b pub"
  "length nonce < 65536 \<Longrightarrow> StartAuthSession_body C nonce =
     [0x40, 0, 0, 7] @ [0x40, 0, 0, 7] @ tpm2b nonce @ [0, 0] @ [1] @ [0, 0x10] @ [0, 0xB]"
  "PolicyPCR_body C session sel = be_bytes 4 (unat session) @ [0, 0] @ marshalPCRSelectionList C sel"
  "Unseal_body C item session = be_bytes 4 (unat item) @ [0, 0, 0, 9] @ session_auth session"
  by (simp_all add: CreateStoragePrimary_body_def Create_body_def Load_body_def StartAuthSession_body_def
      PolicyPCR_body_def Unseal_body_def puts marshalPasswordAuth_eq marshalPolicyAuth_eq
      marshalEmptySensitiveCreate_eq marshalECCStoragePublic_eq marshalSealPublic_eq
      marshalSealSensitiveCreate_eq attest_constants seal_constants be_eval)

lemma Create_response_ok:
  "length priv < 65536 \<Longrightarrow> length pub < 65536 \<Longrightarrow>
   Create_response C (be_bytes 4 n @ tpm2b priv @ tpm2b pub @ rest) = Inr (priv, pub)"
  by (simp add: Create_response_def UnmarshalTPM2B)

lemma Load_response_ok: "Load_response C (be_bytes 4 (unat h) @ rest) = Inr h"
  by (simp add: Load_response_def)

lemma StartAuthSession_response_ok:
  "length nt < 65536 \<Longrightarrow> StartAuthSession_response C (be_bytes 4 (unat h) @ tpm2b nt @ rest) = Inr (h, nt)"
  by (simp add: StartAuthSession_response_def UnmarshalTPM2B)

lemma Unseal_response_ok:
  "length d < 65536 \<Longrightarrow> Unseal_response C (be_bytes 4 n @ tpm2b d @ rest) = Inr d"
  by (simp add: Unseal_response_def UnmarshalTPM2B)

lemma seal_fails:
  "fails_only {ErrShortBuffer} (CreateStoragePrimary_response C rp)"
  "fails_only {ErrShortBuffer} (Create_response C rp)"
  "fails_only {ErrShortBuffer} (Load_response C rp)"
  "fails_only {ErrShortBuffer} (StartAuthSession_response C rp)"
  "fails_only {ErrShortBuffer} (PolicyGetDigest_response C rp)"
  "fails_only {ErrShortBuffer} (Unseal_response C rp)"
  unfolding CreateStoragePrimary_response_def Create_response_def Load_response_def
    StartAuthSession_response_def PolicyGetDigest_response_def Unseal_response_def
  by (intro fails_intros attest_fails(1); auto simp: need_Inr_iff dest: get_Some_length)+

end

section \<open>The preimage of a policy digest\<close>

definition selection_list_bytes :: "PCRSelection list \<Rightarrow> bytes" where
  "selection_list_bytes sel = be_bytes 4 (length sel) @ concat (map selection_bytes sel)"

definition policy_preimage :: "PCRSelection list \<Rightarrow> bytes \<Rightarrow> bytes" where
  "policy_preimage sel pcrDigest =
     replicate 32 0 @ [0x00, 0x00, 0x01, 0x7F] @ selection_list_bytes sel @ pcrDigest"

text \<open>What a selection means: its bank and the selected PCRs of the window.\<close>

definition meaning :: "PCRSelection \<Rightarrow> u16 \<times> int list" where
  "meaning s = (Hash s, in_window s)"

lemma bitmap_inject: "bitmap s = bitmap s' \<longleftrightarrow> in_window s = in_window s'"
proof
  assume "bitmap s = bitmap s'"
  then show "in_window s = in_window s'" by (metis bitmap_roundtrip_eq)
next
  assume w: "in_window s = in_window s'"
  have member: "int k \<in> set (PCRs t) \<longleftrightarrow> int k \<in> set (in_window t)" if "k < 24" for k t
    using that by (auto simp: in_window_def)
  show "bitmap s = bitmap s'"
  proof (rule nth_equalityI)
    fix i assume "i < length (bitmap s)"
    then have i: "i < 3" by simp
    show "bitmap s ! i = bitmap s' ! i"
    proof (rule bit_eqI)
      fix n assume "possible_bit TYPE(8 word) n"
      then have n: "n < 8" by simp
      then have "i * 8 + n < 24" using i by simp
      then show "bit (bitmap s ! i) n \<longleftrightarrow> bit (bitmap s' ! i) n"
        unfolding bit_bitmap [OF i n] using member w by metis
    qed
  qed simp
qed

lemma selection_bytes_inject: "selection_bytes s = selection_bytes s' \<longleftrightarrow> meaning s = meaning s'"
  by (simp add: selection_bytes_def meaning_def bitmap_inject)

lemma concat_selections_inject:
  "length sel = length sel' \<Longrightarrow>
   concat (map selection_bytes sel) = concat (map selection_bytes sel') \<longleftrightarrow> map meaning sel = map meaning sel'"
  by (induction sel sel' rule: list_induct2) (simp_all add: selection_bytes_inject)

lemma selection_list_bytes_inject:
  assumes "length sel < 4294967296" and "length sel' < 4294967296"
  shows "selection_list_bytes sel @ x = selection_list_bytes sel' @ y \<longleftrightarrow>
    map meaning sel = map meaning sel' \<and> x = y"
proof (cases "length sel = length sel'")
  case True
  then have "length (concat (map selection_bytes sel)) = length (concat (map selection_bytes sel'))"
    by (simp add: length_concat comp_def sum_list_triv)
  with True show ?thesis by (simp add: selection_list_bytes_def concat_selections_inject)
next
  case False
  then have "be_bytes 4 (length sel) \<noteq> be_bytes 4 (length sel')"
    using assms by (simp add: be_bytes_inject)
  moreover have "map meaning sel \<noteq> map meaning sel'" using False by (metis length_map)
  ultimately show ?thesis by (simp add: selection_list_bytes_def)
qed

context byte_codec
begin

lemma marshal_selection_list:
  "length sel < 4294967296 \<Longrightarrow> marshalPCRSelectionList C sel = selection_list_bytes sel"
  by (simp add: marshalPCRSelectionList_eq selection_list_bytes_def unat_of_nat)

lemma PolicyPCRDigest_eq:
  "length sel < 4294967296 \<Longrightarrow>
   PolicyPCRDigest C sel vals = sha256 (policy_preimage sel (sha256 (concat vals)))"
  by (simp add: PolicyPCRDigest_def policy_preimage_def ccBytes_def puts seal_constants be_eval
      marshal_selection_list)

end

section \<open>Properties\<close>

text \<open>
  C20. The policy digest is that of the policy update rule, and its preimage determines the policy:
  the zero digest, the command code, the selection list, the hash of the concatenated PCR values.
  Two preimages are equal exactly when they name the same banks with the same PCRs of the window, in
  the same order of banks, and the same digest of the values; the order of the PCRs within a bank,
  repetitions, and indices outside the window do not change the policy.
\<close>

theorem policy_digest_binds_selection:
  assumes "byte_codec C" and "length sel < 4294967296" and "length sel' < 4294967296"
  shows "PolicyPCRDigest C sel vals = sha256 (policy_preimage sel (sha256 (concat vals))) \<and>
    (policy_preimage sel d = policy_preimage sel' d' \<longleftrightarrow>
      map (\<lambda>s. (Hash s, in_window s)) sel = map (\<lambda>s. (Hash s, in_window s)) sel' \<and> d = d')"
  using byte_codec.PolicyPCRDigest_eq [OF assms(1,2), of vals]
    selection_list_bytes_inject [OF assms(2,3), of d d']
  by (simp add: policy_preimage_def meaning_def [abs_def])

theorem policy_digest_binds_selection_witness:
  "policy_preimage [\<lparr>Hash = 0xB, PCRs = [7, 0, 0, 99]\<rparr>] [1] = policy_preimage [\<lparr>Hash = 0xB, PCRs = [0, 7]\<rparr>] [1] \<and>
   policy_preimage [\<lparr>Hash = 0xB, PCRs = [0]\<rparr>] [1] \<noteq> policy_preimage [\<lparr>Hash = 0xB, PCRs = [1]\<rparr>] [1]"
  using policy_digest_binds_selection [OF be.byte_codec_axioms, of "[\<lparr>Hash = 0xB, PCRs = [7, 0, 0, 99]\<rparr>]"
      "[\<lparr>Hash = 0xB, PCRs = [0, 7]\<rparr>]" "[]" "[1]" "[1]"]
    policy_digest_binds_selection [OF be.byte_codec_axioms, of "[\<lparr>Hash = 0xB, PCRs = [0]\<rparr>]"
      "[\<lparr>Hash = 0xB, PCRs = [1]\<rparr>]" "[]" "[1]" "[1]"]
  by (simp add: in_window_def upt_rec)

text \<open>
  C35. The bytes of the sealing flow, command by command. The storage parent's template is a
  restricted decryption key with AES-128-CFB; the sealed object is a keyed-hash object with
  fixedTPM and fixedParent only (no authorisation by the user value) under the policy; the policy
  session is unsalted and unbound; \<open>Unseal\<close> is authorised by that session and nothing else.
\<close>

theorem seal_command_frames:
  assumes "wire_codec C" and "length secret < 65500" and "length policy < 65500"
    and "length priv < 65536" and "length pub < 65536" and "length nonce < 65536"
    and "length sel < 0x10000000"
  shows "sent_only w (frame 0x8002 0x131 ([0x40, 0, 0, 1] @ [0, 0, 0, 9] @ password_auth @
      tpm2b [0, 0, 0, 0] @ tpm2b storage_public_bytes @ [0, 0] @ [0, 0, 0, 0])) (CreateStoragePrimaryPub C tpm w) \<and>
    sent_only w (frame 0x8002 0x153 (be_bytes 4 (unat parent) @ [0, 0, 0, 9] @ password_auth @
      tpm2b ([0, 0] @ tpm2b secret) @ tpm2b (seal_public_bytes policy) @ [0, 0] @ [0, 0, 0, 0]))
      (Create C tpm parent secret policy w) \<and>
    sent_only w (frame 0x8002 0x157 (be_bytes 4 (unat parent) @ [0, 0, 0, 9] @ password_auth @
      tpm2b priv @ tpm2b pub)) (Load C tpm parent priv pub w) \<and>
    sent_only w (frame 0x8001 0x176 ([0x40, 0, 0, 7] @ [0x40, 0, 0, 7] @ tpm2b nonce @ [0, 0] @ [1] @
      [0, 0x10] @ [0, 0xB])) (StartAuthSession C tpm nonce w) \<and>
    sent_only w (frame 0x8001 0x17F (be_bytes 4 (unat session) @ [0, 0] @ selection_list_bytes sel))
      (PolicyPCR C tpm session sel w) \<and>
    sent_only w (frame 0x8001 0x189 (be_bytes 4 (unat session))) (PolicyGetDigest C tpm session w) \<and>
    sent_only w (frame 0x8002 0x15E (be_bytes 4 (unat item) @ [0, 0, 0, 9] @ session_auth session))
      (Unseal C tpm item session w)"
proof -
  note wire = wire_codec.to_wire [OF assms(1)] wire_codec.CommonRHOwner [OF assms(1)]
  note bc = wire_codec.axioms(1) [OF assms(1)]
  have sel: "length (selection_list_bytes sel) < 2000000000"
    using assms(7) by (simp add: selection_list_bytes_def length_concat comp_def sum_list_triv)
  have storage: "length storage_public_bytes = 26" by (simp add: storage_public_bytes_def)
  have policy': "length (seal_public_bytes policy) = length policy + 14"
    by (simp add: seal_public_bytes_def)
  show ?thesis
    by (intro conjI; rule createstorage.sends_frame create.sends_frame load.sends_frame
        startsession.sends_frame policypcr.sends_frame policydigest.sends_frame unseal.sends_frame)
      (use assms(2-7) sel in \<open>simp_all add: wire byte_codec.seal_bodies [OF bc] storage policy'
        byte_codec.marshal_selection_list [OF bc] seal_constants be_bytes_4 [of 1073741825]\<close>)
qed

theorem seal_command_frames_witness:
  "sent_only \<lparr>dev = [], rand = (), trace = []\<rparr>
    (frame 0x8002 0x15E ([0x80, 0, 0, 2] @ [0, 0, 0, 9] @ [3, 0, 0, 0, 0, 0, 1, 0, 0]))
    (Unseal be_codec (New playback) 0x80000002 0x03000000 \<lparr>dev = [], rand = (), trace = []\<rparr>)"
  using seal_command_frames [OF be.wire_codec_axioms, where secret = "[]" and policy = "[]" and priv = "[]" and
      pub = "[]" and nonce = "[]" and sel = "[]" and w = "\<lparr>dev = [], rand = (), trace = []\<rparr>" and
      tpm = "New playback" and parent = 0 and session = "0x03000000" and item = "0x80000002"]
  by (simp add: be_eval session_auth_def)

text \<open>
  A TPM that runs the unsealing flow: it loads the object, opens a policy session, extends the
  session by its current PCR values over the selection, and answers \<open>Unseal\<close> by the policy rule: the
  secret when the session's digest is the object's policy, \<open>TPM_RC_POLICY_FAIL\<close> when it is not.
\<close>

definition unseal_flow ::
  "codec \<Rightarrow> 's TPM \<Rightarrow> 's \<Rightarrow> u32 \<Rightarrow> bytes \<Rightarrow> bytes \<Rightarrow> PCRSelection list \<Rightarrow> bytes \<Rightarrow> bytes list \<Rightarrow> bytes \<Rightarrow>
   bytes \<Rightarrow> u32 \<Rightarrow> u32 \<Rightarrow> 's \<Rightarrow> bool" where
  "unseal_flow C tpm s0 parent priv pub sel nonce vals policy secret item session s4 \<longleftrightarrow>
     (\<exists>s1 s2 s3 nt rest1 rest2 rp3 n rest4. length nt < 65536 \<and>
        answers C tpm s0 (BuildCommand C (TagSessions C) (CCLoad C) (Load_body C parent priv pub))
          (be_bytes 4 (unat item) @ rest1) s1 \<and>
        answers C tpm s1 (BuildCommand C (TagNoSessions C) ccStartAuthSession (StartAuthSession_body C nonce))
          (be_bytes 4 (unat session) @ tpm2b nt @ rest2) s2 \<and>
        answers C tpm s2 (BuildCommand C (TagNoSessions C) ccPolicyPCR (PolicyPCR_body C session sel)) rp3 s3 \<and>
        (if sha256 (policy_preimage sel (sha256 (concat vals))) = policy
         then answers C tpm s3 (BuildCommand C (TagSessions C) ccUnseal (Unseal_body C item session))
                (be_bytes 4 n @ tpm2b secret @ rest4) s4
         else fails_with C tpm ccUnseal s3 (BuildCommand C (TagSessions C) ccUnseal (Unseal_body C item session))
                (TPMError ccUnseal 0x99D) s4))"

lemma UnsealWithPCR_run:
  assumes "byte_codec C" and "length sel < 4294967296" and "length secret < 65536"
    and "unseal_flow C tpm (dev w) parent priv pub sel nonce vals policy secret item session s4"
  shows "UnsealWithPCR C tpm parent priv pub sel nonce w =
    (if PolicyPCRDigest C sel vals = policy then Inr secret else Inl (TPMError 0x15E 0x99D),
     w\<lparr>dev := s4, trace := trace w @
       [Sent (BuildCommand C (TagSessions C) (CCLoad C) (Load_body C parent priv pub)),
        Sent (BuildCommand C (TagNoSessions C) ccStartAuthSession (StartAuthSession_body C nonce)),
        Sent (BuildCommand C (TagNoSessions C) ccPolicyPCR (PolicyPCR_body C session sel)),
        Sent (BuildCommand C (TagSessions C) ccUnseal (Unseal_body C item session))]\<rparr>)"
proof -
  from assms(4) obtain s1 s2 s3 nt rest1 rest2 rp3 n rest4 where nt: "length nt < 65536" and
    a1: "answers C tpm (dev w) (BuildCommand C (TagSessions C) (CCLoad C) (Load_body C parent priv pub))
      (be_bytes 4 (unat item) @ rest1) s1" and
    a2: "answers C tpm s1 (BuildCommand C (TagNoSessions C) ccStartAuthSession (StartAuthSession_body C nonce))
      (be_bytes 4 (unat session) @ tpm2b nt @ rest2) s2" and
    a3: "answers C tpm s2 (BuildCommand C (TagNoSessions C) ccPolicyPCR (PolicyPCR_body C session sel)) rp3 s3" and
    a4: "if sha256 (policy_preimage sel (sha256 (concat vals))) = policy
      then answers C tpm s3 (BuildCommand C (TagSessions C) ccUnseal (Unseal_body C item session))
        (be_bytes 4 n @ tpm2b secret @ rest4) s4
      else fails_with C tpm ccUnseal s3 (BuildCommand C (TagSessions C) ccUnseal (Unseal_body C item session))
        (TPMError ccUnseal 0x99D) s4"
    unfolding unseal_flow_def by blast
  let ?w1 = "sent (BuildCommand C (TagSessions C) (CCLoad C) (Load_body C parent priv pub)) s1 w"
  let ?w2 = "sent (BuildCommand C (TagNoSessions C) ccStartAuthSession (StartAuthSession_body C nonce)) s2 ?w1"
  let ?w3 = "sent (BuildCommand C (TagNoSessions C) ccPolicyPCR (PolicyPCR_body C session sel)) s3 ?w2"
  have l: "Load C tpm parent priv pub w = (Inr item, ?w1)"
    using load.answered [OF a1] byte_codec.Load_response_ok [OF assms(1)] by simp
  have st: "StartAuthSession C tpm nonce ?w1 = (Inr (session, nt), ?w2)"
    using startsession.answered [of C tpm ?w1 nonce] a2 byte_codec.StartAuthSession_response_ok [OF assms(1) nt]
    by simp
  have pp: "PolicyPCR C tpm session sel ?w2 = (Inr (), ?w3)"
    using policypcr.answered [of C tpm ?w2 session sel] a3 by simp
  have un: "Unseal C tpm item session ?w3 =
      (if PolicyPCRDigest C sel vals = policy then Inr secret else Inl (TPMError 0x15E 0x99D),
       sent (BuildCommand C (TagSessions C) ccUnseal (Unseal_body C item session)) s4 ?w3)"
    using unseal.answered [of C tpm ?w3 item session] unseal.failed [of C tpm ?w3 item session] a4
      byte_codec.Unseal_response_ok [OF assms(1,3)] byte_codec.PolicyPCRDigest_eq [OF assms(1,2)]
    by (simp add: ccUnseal_def split: if_splits)
  show ?thesis
    by (simp add: UnsealWithPCR_def l st pp un)
qed


text \<open>A device with the replies of one unsealing, and of the sealing before it.\<close>

definition unseal_replies :: "bytes list" where
  "unseal_replies = [frame 0x8002 0 [0x80, 0, 0, 2], frame 0x8001 0 [3, 0, 0, 0, 0, 1, 9],
     frame 0x8001 0 [], frame 0x8002 0 [0, 0, 0, 4, 0, 2, 0x5E, 0xC7]]"

lemma playback_answers:
  "length rp < 4294967286 \<Longrightarrow>
   answers be_codec (New playback) (frame tag 0 rp # replies) c rp replies"
  using be.ParseResponse [of rp tag 0] by (simp add: answers_def New_def be.RCSuccess)

lemma unseal_replies_flow:
  assumes "length sel < 4294967296"
  shows "unseal_flow be_codec (New playback) unseal_replies parent priv pub sel [] vals
     (PolicyPCRDigest be_codec sel vals) [0x5E, 0xC7] 0x80000002 0x03000000 []"
proof -
  have r: "be_bytes 4 (unat (0x80000002 :: u32)) @ [] = [0x80, 0, 0, 2]"
    "be_bytes 4 (unat (0x03000000 :: u32)) @ tpm2b [9] @ [] = [3, 0, 0, 0, 0, 1, 9]"
    "be_bytes 4 4 @ tpm2b [0x5E, 0xC7] @ [] = [0, 0, 0, 4, 0, 2, 0x5E, 0xC7]"
    by (simp_all add: be_eval tpm2b_def)
  let ?answers = "\<lambda>k c rp. answers be_codec (New playback) (drop k unseal_replies) c rp (drop (Suc k) unseal_replies)"
  have a: "?answers 0 c (be_bytes 4 (unat (0x80000002 :: u32)) @ [])"
    "?answers 1 c (be_bytes 4 (unat (0x03000000 :: u32)) @ tpm2b [9] @ [])" "?answers 2 c []"
    "?answers 3 c (be_bytes 4 4 @ tpm2b [0x5E, 0xC7] @ [])" for c
    unfolding r by (simp_all add: unseal_replies_def playback_answers)
  have ends: "drop 0 unseal_replies = unseal_replies" "Suc 0 = 1" "Suc 1 = 2" "Suc 2 = 3"
    "drop (Suc 3) unseal_replies = []"
    by (simp_all add: unseal_replies_def)
  note a = a [unfolded ends]
  have nonce: "length [9 :: u8] < 65536" by simp
  show ?thesis
    unfolding unseal_flow_def be.PolicyPCRDigest_eq [OF assms] if_P [OF refl]
    using nonce a by blast
qed


end
