(* ===== verification/Ek.thy ===== *)
theory Ek
  imports Seal
begin

text \<open>\<open>ek.go\<close>: the Endorsement Key template and the command that creates the key.\<close>

definition RHEndorsement :: u32 where "RHEndorsement = 0x4000000B"

definition objAdminWithPolicy :: u32 where "objAdminWithPolicy = push_bit 7 1"

definition ekObjectAttributes :: u32 where
  "ekObjectAttributes = or (or (or (or (or objFixedTPM objFixedParent) objSensitiveDataOrigin)
     objAdminWithPolicy) objRestricted) objDecrypt"

definition ekAuthPolicy :: bytes where
  "ekAuthPolicy = [
     0x83, 0x71, 0x97, 0x67, 0x44, 0x84, 0xb3, 0xf8,
     0x1a, 0x90, 0xcc, 0x8d, 0x46, 0xa5, 0xd7, 0x24,
     0xfd, 0x52, 0xd7, 0x6e, 0x06, 0x52, 0x0b, 0x64,
     0xf2, 0xa1, 0xda, 0x1b, 0x33, 0x14, 0x69, 0xaa]"

record EKPublic =
  ek_X :: bytes
  ek_Y :: bytes

definition marshalEKPublic :: "codec \<Rightarrow> bytes" where
  "marshalEKPublic C =
     (let p = PutU16 C [] AlgECC;
          p = PutU16 C p algSHA256;
          p = PutU32 C p ekObjectAttributes;
          p = p @ MarshalTPM2B C ekAuthPolicy;
          p = PutU16 C p algAES;
          p = PutU16 C p 128;
          p = PutU16 C p algCFB;
          p = PutU16 C p algNull;
          p = PutU16 C p ECCNistP256;
          p = PutU16 C p algNull;
          p = PutU16 C p 0;
          p = PutU16 C p 0
      in MarshalTPM2B C p)"

definition CreateEK_body :: "codec \<Rightarrow> bytes" where
  "CreateEK_body C =
     (let body = PutU32 C [] RHEndorsement;
          auth = marshalPasswordAuth C;
          body = PutU32 C body (of_nat (length auth));
          body = body @ auth;
          body = body @ marshalEmptySensitiveCreate C;
          body = body @ marshalEKPublic C;
          body = PutU16 C body 0
      in PutU32 C body 0)"

definition CreateEK_response :: "codec \<Rightarrow> bytes \<Rightarrow> (u32 \<times> EKPublic) res" where
  "CreateEK_response C rp =
     rbind (parseCreatePrimaryResponse C rp) (\<lambda>(handle, ak).
       Inr (handle, \<lparr>ek_X = ak_X ak, ek_Y = ak_Y ak\<rparr>))"

definition CreateEK :: "codec \<Rightarrow> 's TPM \<Rightarrow> ('s, 'r, u32 \<times> EKPublic) cmd" where
  "CreateEK C tpm =
     tbind (execute C tpm (TagSessions C) (CCCreatePrimary C) (CreateEK_body C))
       (\<lambda>rp. lift (CreateEK_response C rp))"

interpretation createek: tpm_call C tpm "TagSessions C" "CCCreatePrimary C" "CreateEK_body C"
  "CreateEK_response C" "CreateEK C tpm" for C tpm
  by unfold_locales (simp add: CreateEK_def)

definition ek_public_bytes :: bytes where
  "ek_public_bytes = [0x00, 0x23] @ [0x00, 0x0B] @ [0x00, 0x03, 0x00, 0xB2] @ tpm2b ekAuthPolicy @
     [0x00, 0x06] @ [0x00, 0x80] @ [0x00, 0x43] @ [0x00, 0x10] @ [0x00, 0x03] @ [0x00, 0x10] @
     [0x00, 0x00] @ [0x00, 0x00]"

lemma length_ekAuthPolicy [simp]: "length ekAuthPolicy = 32"
  by (simp add: ekAuthPolicy_def)

context byte_codec
begin

lemma marshalEKPublic_eq: "marshalEKPublic C = tpm2b ek_public_bytes"
  by (simp add: marshalEKPublic_def puts attest_constants seal_constants ekObjectAttributes_def
      objFixedTPM_def objFixedParent_def objSensitiveDataOrigin_def objAdminWithPolicy_def objRestricted_def
      objDecrypt_def ek_public_bytes_def be_eval)

lemma CreateEK_body_eq:
  "CreateEK_body C = [0x40, 0, 0, 0x0B] @ [0, 0, 0, 9] @ password_auth @ tpm2b [0, 0, 0, 0] @
     tpm2b ek_public_bytes @ [0, 0] @ [0, 0, 0, 0]"
  by (simp add: CreateEK_body_def puts RHEndorsement_def marshalPasswordAuth_eq
      marshalEmptySensitiveCreate_eq marshalEKPublic_eq be_eval)

lemma CreateEK_fails: "fails_only {ErrShortBuffer} (CreateEK_response C rp)"
  unfolding CreateEK_response_def by (intro fails_intros attest_fails(1))

text \<open>The template is itself an ECC public area, with an empty point.\<close>

lemma ek_template_is_ecc_public: "is_ecc_public \<lparr>ak_X = [], ak_Y = []\<rparr> ek_public_bytes"
proof -
  have "ek_public_bytes = ecc_public_bytes 0x23 0xB 0x300B2 ekAuthPolicy (parms_bytes
      (alg_field 0x06 [0x00, 0x80, 0x00, 0x43]) (alg_field 0x10 [0, 0]) 3 (alg_field 0x10 [0, 0])
      \<lparr>ak_X = [], ak_Y = []\<rparr>)"
    by (simp add: ek_public_bytes_def ecc_public_bytes_def parms_bytes_def alg_field_def be_eval tpm2b_def)
  moreover have "is_alg 4 (alg_field 0x06 [0x00, 0x80, 0x00, 0x43])" "is_alg 2 (alg_field 0x10 [0, 0])"
    unfolding is_alg_def by (intro exI conjI refl; simp)+
  ultimately show ?thesis unfolding is_ecc_public_def by force
qed

end

text \<open>
  C37. Creating the Endorsement Key. \<open>CreateEK\<close> puts exactly one frame on the wire: the endorsement
  hierarchy, the password session, and the L-2 template (restricted decryption, no authorisation by
  the user value, the well-known policy, AES-128-CFB, P-256), which the package's own walk accepts as
  an ECC public area; and when the TPM answers with a key, it returns that key's handle and point.
\<close>

theorem CreateEK_sends_template:
  assumes "wire_codec C"
  shows "sent_only w (frame 0x8002 0x131 ([0x40, 0, 0, 0x0B] @ [0, 0, 0, 9] @ password_auth @
      tpm2b [0, 0, 0, 0] @ tpm2b ek_public_bytes @ [0, 0] @ [0, 0, 0, 0])) (CreateEK C tpm w) \<and>
    parseTPMTPublicECCPoint C ek_public_bytes = Inr \<lparr>ak_X = [], ak_Y = []\<rparr> \<and>
    (\<forall>rp s' (h :: u32) (n :: u32) e pt rest. is_ecc_public pt e \<and> length e < 65536 \<and>
      rp = be_bytes 4 (unat h) @ be_bytes 4 (unat n) @ tpm2b e @ rest \<and>
      answers C tpm (dev w) (BuildCommand C (TagSessions C) (CCCreatePrimary C) (CreateEK_body C)) rp s' \<longrightarrow>
      fst (CreateEK C tpm w) = Inr (h, \<lparr>ek_X = ak_X pt, ek_Y = ak_Y pt\<rparr>))"
proof (intro conjI allI impI)
  note wire = wire_codec.to_wire [OF assms]
  note bc = wire_codec.axioms(1) [OF assms]
  have len: "length ek_public_bytes = 58" by (simp add: ek_public_bytes_def)
  show "sent_only w (frame 0x8002 0x131 ([0x40, 0, 0, 0x0B] @ [0, 0, 0, 9] @ password_auth @
      tpm2b [0, 0, 0, 0] @ tpm2b ek_public_bytes @ [0, 0] @ [0, 0, 0, 0])) (CreateEK C tpm w)"
    by (rule createek.sends_frame) (simp add: wire byte_codec.CreateEK_body_eq [OF bc] len)
  show "parseTPMTPublicECCPoint C ek_public_bytes = Inr \<lparr>ak_X = [], ak_Y = []\<rparr>"
    using byte_codec.parseTPMTPublicECCPoint_Inr_iff [OF bc]
      byte_codec.ek_template_is_ecc_public [OF bc] by (metis append_Nil2)
next
  fix rp s' h n e pt rest
  note bc = wire_codec.axioms(1) [OF assms]
  assume a: "is_ecc_public pt e \<and> length e < 65536 \<and>
      rp = be_bytes 4 (unat (h :: u32)) @ be_bytes 4 (unat (n :: u32)) @ tpm2b e @ rest \<and>
      answers C tpm (dev w) (BuildCommand C (TagSessions C) (CCCreatePrimary C) (CreateEK_body C)) rp s'"
  have "parseTPMTPublicECCPoint C e = Inr pt"
    using byte_codec.parseTPMTPublicECCPoint_Inr_iff [OF bc] a by (metis append_Nil2)
  moreover have "CreatePrimaryPublic_response C rp = Inr (h, e)"
    using a by (subst byte_codec.CreatePrimaryPublic_response_Inr_iff [OF bc]) blast
  ultimately have "CreateEK_response C rp = Inr (h, \<lparr>ek_X = ak_X pt, ek_Y = ak_Y pt\<rparr>)"
    by (simp add: CreateEK_response_def byte_codec.CreatePrimary_response_via [OF bc])
  then show "fst (CreateEK C tpm w) = Inr (h, \<lparr>ek_X = ak_X pt, ek_Y = ak_Y pt\<rparr>)"
    using a by (auto dest!: createek.answered)
qed

theorem CreateEK_sends_template_witness:
  "fst (CreateEK be_codec (New playback)
     \<lparr>dev = [frame 0x8002 0 ([0x80, 0, 0, 1] @ [0, 0, 0, 99] @ tpm2b sample_public @ [7])], rand = (), trace = []\<rparr>)
   = Inr (0x80000001, \<lparr>ek_X = [0x12, 0x34], ek_Y = [0x56]\<rparr>)"
proof -
  let ?w = "\<lparr>dev = [frame 0x8002 0 ([0x80, 0, 0, 1] @ [0, 0, 0, 99] @ tpm2b sample_public @ [7])], rand = (), trace = []\<rparr>"
  let ?rp = "be_bytes 4 (unat (0x80000001 :: u32)) @ be_bytes 4 (unat (99 :: u32)) @ tpm2b sample_public @ [7]"
  have len: "length sample_public = 28" by (simp add: sample_public_def)
  have rp: "?rp = [0x80, 0, 0, 1] @ [0, 0, 0, 99] @ tpm2b sample_public @ [7]" by (simp add: be_eval)
  have "answers be_codec (New playback) (dev ?w) (BuildCommand be_codec (TagSessions be_codec)
      (CCCreatePrimary be_codec) (CreateEK_body be_codec)) ?rp []"
    unfolding rp by (simp add: playback_answers len)
  with sample_public_encodes len have
    "is_ecc_public \<lparr>ak_X = [0x12, 0x34], ak_Y = [0x56]\<rparr> sample_public \<and> length sample_public < 65536 \<and> ?rp = ?rp \<and>
     answers be_codec (New playback) (dev ?w) (BuildCommand be_codec (TagSessions be_codec)
      (CCCreatePrimary be_codec) (CreateEK_body be_codec)) ?rp []" by simp
  note CreateEK_sends_template [OF be.wire_codec_axioms, THEN conjunct2, THEN conjunct2, rule_format, OF this]
  then show ?thesis by simp
qed

end
