(* ===== verification/Object_Name.thy ===== *)
theory Object_Name
  imports Attest Sha256
begin

text \<open>\<open>name.go\<close>: the Name of an object, computed from its public area.\<close>

definition ObjectName :: "codec \<Rightarrow> bytes \<Rightarrow> bytes res" where
  "ObjectName C publicArea =
     rbind (need (GetU16 C publicArea 2)) (\<lambda>nameAlg.
     rbind (guard (nameAlg = algSHA256) ErrUnsupportedNameAlg) (\<lambda>_.
     let digest = sha256 publicArea;
         name = PutU16 C [] nameAlg
     in Inr (name @ digest)))"

text \<open>The Name of a SHA-256 object: the algorithm, then the hash of the public area.\<close>

definition sha256_name :: "bytes \<Rightarrow> bytes" where
  "sha256_name publicArea = [0x00, 0x0B] @ sha256 publicArea"

lemma length_sha256_name [simp]: "length (sha256_name p) = 34"
  by (simp add: sha256_name_def)

context byte_codec
begin

lemma ObjectName_cases:
  "ObjectName C p =
     (if length p < 4 then Inl ErrShortBuffer
      else if take 2 (drop 2 p) = [0x00, 0x0B] then Inr (sha256_name p)
      else Inl ErrUnsupportedNameAlg)"
proof (cases "GetU16 C p 2")
  case None
  moreover from this have "length p < 4" by (simp add: get_None_iff)
  ultimately show ?thesis by (simp add: ObjectName_def)
next
  case (Some v)
  then have "4 \<le> length p" and f: "take 2 (drop 2 p) = be_bytes 2 (unat v)" by (simp_all add: Get_iff)
  moreover have "be_bytes 2 (unat v) = [0x00, 0x0B] \<longleftrightarrow> v = algSHA256"
    using be_u16_inject [of v algSHA256] by (simp add: algSHA256_def be_eval)
  ultimately show ?thesis
    by (auto simp: ObjectName_def Some sha256_name_def puts algSHA256_def be_eval)
qed

end

text \<open>
  When an object has a Name. \<open>ObjectName\<close> decides every byte string: too short for a name
  algorithm, a name algorithm other than SHA-256, or a SHA-256 object, whose Name is the algorithm
  identifier followed by the hash of the whole public area (34 bytes).
\<close>

theorem ObjectName_decides:
  assumes "byte_codec C"
  shows "ObjectName C p =
     (if length p < 4 then Inl ErrShortBuffer
      else if take 2 (drop 2 p) = [0x00, 0x0B] then Inr ([0x00, 0x0B] @ sha256 p)
      else Inl ErrUnsupportedNameAlg)"
  using byte_codec.ObjectName_cases [OF assms] by (simp add: sha256_name_def)

theorem ObjectName_decides_witness:
  "ObjectName be_codec [0, 0x23, 0, 0xB] = Inr ([0x00, 0x0B] @ sha256 [0, 0x23, 0, 0xB]) \<and>
   ObjectName be_codec [0, 0x23, 0, 0xC] = Inl ErrUnsupportedNameAlg"
  by (simp add: ObjectName_decides [OF be.byte_codec_axioms])

end
