(* ===== verification/Make_Cred.thy ===== *)
theory Make_Cred
  imports Outer_Wrap P256 Ek Object_Name
begin

text \<open>
  \<open>makecred.go\<close>: the verifier's side of Credential Protection. \<open>MakeCredential\<close> draws an ephemeral key,
  agrees on a secret with the Endorsement Key, and wraps the credential under the Name of the
  Attestation Key. The random reader and the key generator (\<open>generateEphemeralKey\<close>, a variable of the
  package) are parameters: a generator maps a state of the reader to a key pair or an error and the
  next state.
\<close>

section \<open>The code\<close>

definition labelIdentity :: string where "labelIdentity = ''IDENTITY''"
definition labelStorage :: string where "labelStorage = ''STORAGE''"
definition labelIntegrity :: string where "labelIntegrity = ''INTEGRITY''"

definition p256FieldBytes :: nat where "p256FieldBytes = 32"

record MakeCredentialResult =
  CredentialBlob :: bytes
  Secret :: bytes

definition leftPad :: "bytes \<Rightarrow> nat \<Rightarrow> bytes" where
  "leftPad b n = (if length b \<ge> n then drop (length b - n) b else replicate (n - length b) 0 @ b)"

text \<open>A key \<open>aes.NewCipher\<close> refuses leaves a nil block, whose first use panics.\<close>

definition aesCFBZeroIV :: "bytes \<Rightarrow> bytes \<Rightarrow> bytes res" where
  "aesCFBZeroIV key plaintext =
     (case NewCipher key of
        None \<Rightarrow> Inl Panic
      | Some block \<Rightarrow> Inr (cfb_encrypt block (replicate 16 0) plaintext))"

text \<open>A P-256 private scalar and its public point.\<close>

type_synonym keypair = "nat \<times> point"
type_synonym 'r keygen = "'r \<Rightarrow> keypair res \<times> 'r"

definition MakeCredential ::
  "codec \<Rightarrow> 'r keygen \<Rightarrow> EKPublic \<Rightarrow> bytes \<Rightarrow> bytes \<Rightarrow> 'r \<Rightarrow> MakeCredentialResult res \<times> 'r" where
  "MakeCredential C gen ekPublic akName credential rng =
     (let ekX' = be_nat (ek_X ekPublic);
          ekY' = be_nat (ek_Y ekPublic)
      in if \<not> IsOnCurve ekX' ekY' then (Inl ErrEKPointNotOnCurve, rng)
      else case gen rng of
        (Inl e, rng') \<Rightarrow> (Inl e, rng')
      | (Inr eph, rng') \<Rightarrow>
        (rbind (ScalarMult ekX' ekY' (big_Bytes (fst eph))) (\<lambda>Z.
           let z = leftPad (big_Bytes (fst Z)) p256FieldBytes;
               qeX = leftPad (big_Bytes (fst (snd eph))) p256FieldBytes;
               qeY = leftPad (big_Bytes (snd (snd eph))) p256FieldBytes;
               ekXfix = leftPad (ek_X ekPublic) p256FieldBytes
           in rbind (KDFe C z labelIdentity qeX ekXfix 256) (\<lambda>seed.
              rbind (KDFa C seed labelStorage akName [] 128) (\<lambda>symKey.
              let plain = MarshalTPM2B C credential
              in rbind (aesCFBZeroIV symKey plain) (\<lambda>encIdentity.
                 rbind (KDFa C seed labelIntegrity [] [] 256) (\<lambda>hmacKey.
                 let outerHMAC = hmac hmacKey (encIdentity @ akName);
                     idObject = MarshalTPM2B C outerHMAC;
                     idObject = idObject @ encIdentity;
                     credentialBlob = MarshalTPM2B C idObject;
                     point = MarshalTPM2B C qeX;
                     point = point @ MarshalTPM2B C qeY;
                     secret = MarshalTPM2B C point
                 in Inr \<lparr>CredentialBlob = credentialBlob, Secret = secret\<rparr>))))), rng'))"

section \<open>leftPad and the cipher\<close>

lemma length_leftPad [simp]: "length (leftPad b n) = n"
  by (simp add: leftPad_def)

lemma be_nat_replicate_append [simp]: "be_nat (replicate k 0 @ b) = be_nat b"
  by (simp add: be_nat_append)

lemma leftPad_eq: "leftPad b n = be_bytes n (be_nat b)"
proof (cases "length b \<ge> n")
  case True
  have "be_nat b = be_nat (take (length b - n) b @ drop (length b - n) b)" by simp
  also have "\<dots> = be_nat (take (length b - n) b) * 256 ^ n + be_nat (drop (length b - n) b)"
    using True by (simp only: be_nat_append) simp
  finally show ?thesis using True by (simp add: leftPad_def be_bytes_add_high)
next
  case False
  then have "be_bytes n (be_nat (replicate (n - length b) 0 @ b)) = replicate (n - length b) 0 @ b"
    by (intro be_bytes_be_nat) simp
  with False show ?thesis by (simp add: leftPad_def)
qed

lemma aesCFBZeroIV_16:
  "length key = 16 \<Longrightarrow> aesCFBZeroIV key p = Inr (cfb_encrypt (aes_cipher key) (replicate 16 0) p)"
  by (simp add: aesCFBZeroIV_def NewCipher_def valid_aes_key_def)

section \<open>The result is an outer wrap\<close>

text \<open>The seed two parties derive from the shared secret of an agreement.\<close>

definition shared_seed :: "string \<Rightarrow> nat \<Rightarrow> nat \<Rightarrow> nat \<Rightarrow> bytes" where
  "shared_seed label z qeX parentX =
     KDFe_block (be_bytes 32 z) label (be_bytes 32 qeX) (be_bytes 32 parentX) 1"

context byte_codec
begin

lemma length_KDFa_block [simp]: "length (KDFa_block key label u v bits i) = 32"
  by (simp add: KDFa_block_def)

lemmas protection = KDFa_128 KDFa_256 KDFe_256 labelStorage_def labelIntegrity_def aesCFBZeroIV_16
  wrap_def encrypted_def storage_key_def integrity_key_def leftPad_eq p256FieldBytes_def
  ScalarMult_def shared_seed_def point_bytes_def

lemma MakeCredential_eq:
  assumes "length credential < 65000"
  shows "MakeCredential C gen ek akName credential rng =
    (let E = (be_nat (ek_X ek), be_nat (ek_Y ek))
     in if \<not> IsOnCurve (fst E) (snd E) then (Inl ErrEKPointNotOnCurve, rng)
     else case gen rng of
       (Inl e, rng') \<Rightarrow> (Inl e, rng')
     | (Inr (d, Q), rng') \<Rightarrow>
       (let seed = shared_seed ''IDENTITY'' (fst (smult (d mod p256_n) E)) (fst Q) (fst E)
        in Inr \<lparr>CredentialBlob = tpm2b (wrap seed akName (tpm2b credential)),
                Secret = tpm2b (point_bytes Q)\<rparr>, rng'))"
  using assms
  by (simp add: MakeCredential_def Let_def protection labelIdentity_def puts aes.length_cfb_encrypt
      split: prod.splits sum.splits)

end

section \<open>The TPM's side\<close>

text \<open>
  What a TPM with the private scalar \<open>d\<close> of the parent key recovers from a blob and an encrypted
  secret: the point of the secret, the seed of the agreement with it, and the payload of the outer
  wrap under the Name, if the HMAC holds. \<open>tpm_activate\<close> is \<open>TPM2_ActivateCredential\<close>: the payload is the
  credential as a TPM2B.
\<close>

definition tpm_open :: "string \<Rightarrow> nat \<Rightarrow> nat \<Rightarrow> bytes \<Rightarrow> bytes \<Rightarrow> bytes \<Rightarrow> bytes option" where
  "tpm_open label d parentX name blob secret =
     Option.bind (split_tpm2b secret) (\<lambda>(point, _).
     Option.bind (read_point point) (\<lambda>Q.
     Option.bind (split_tpm2b blob) (\<lambda>(inner, _).
     unwrap (shared_seed label (fst (smult d Q)) (fst Q) parentX) name inner)))"

definition tpm_activate :: "nat \<Rightarrow> nat \<Rightarrow> bytes \<Rightarrow> bytes \<Rightarrow> bytes \<Rightarrow> bytes option" where
  "tpm_activate d ekX name blob secret =
     Option.bind (tpm_open ''IDENTITY'' d ekX name blob secret) (\<lambda>plain. map_option fst (split_tpm2b plain))"

text \<open>Coordinates of a public point fit their fixed width.\<close>

definition fits :: "point \<Rightarrow> bool" where
  "fits Q \<longleftrightarrow> fst Q < 256 ^ 32 \<and> snd Q < 256 ^ 32"

lemma tpm_open_wrapped:
  assumes "fits Q" and "length plain < 65502"
  shows "tpm_open label d parentX name (tpm2b (wrap seed name0 plain)) (tpm2b (point_bytes Q)) =
    unwrap (shared_seed label (fst (smult d Q)) (fst Q) parentX) name (wrap seed name0 plain)"
  using assms read_point_bytes [of Q] by (simp add: tpm_open_def fits_def)

text \<open>What a verifier makes for a key that agrees with the TPM's scalar, and what the TPM recovers from it.\<close>

lemma credential_made:
  assumes "byte_codec C" and "length credential < 65000"
    and "IsOnCurve (be_nat (ek_X ek)) (be_nat (ek_Y ek))"
    and "gen rng = (Inr (k, Q), rng')" and "fits Q"
    and agree: "fst (smult d Q) = fst (smult (k mod p256_n) (be_nat (ek_X ek), be_nat (ek_Y ek)))"
    and seed: "seed = shared_seed ''IDENTITY'' (fst (smult d Q)) (fst Q) (be_nat (ek_X ek))"
  shows "MakeCredential C gen ek akName credential rng =
      (Inr \<lparr>CredentialBlob = tpm2b (wrap seed akName (tpm2b credential)), Secret = tpm2b (point_bytes Q)\<rparr>, rng')"
    and "tpm_activate d (be_nat (ek_X ek)) akName (tpm2b (wrap seed akName (tpm2b credential)))
      (tpm2b (point_bytes Q)) = Some credential"
    and "tpm_activate d (be_nat (ek_X ek)) name (tpm2b (wrap seed akName (tpm2b credential)))
      (tpm2b (point_bytes Q)) \<noteq> None \<Longrightarrow> name = akName \<or> hmac_clash (integrity_key seed)
        (encrypted seed akName (tpm2b credential) @ akName) (encrypted seed akName (tpm2b credential) @ name)"
proof -
  show "MakeCredential C gen ek akName credential rng =
      (Inr \<lparr>CredentialBlob = tpm2b (wrap seed akName (tpm2b credential)), Secret = tpm2b (point_bytes Q)\<rparr>, rng')"
    using assms(2-4) by (simp add: byte_codec.MakeCredential_eq [OF assms(1)] agree seed)
  have act: "tpm_activate d (be_nat (ek_X ek)) name (tpm2b (wrap seed akName (tpm2b credential))) (tpm2b (point_bytes Q)) =
      Option.bind (unwrap seed name (wrap seed akName (tpm2b credential)))
        (\<lambda>plain. map_option fst (split_tpm2b plain))" for name
    using assms(2,5) by (simp add: tpm_activate_def tpm_open_wrapped seed)
  show "tpm_activate d (be_nat (ek_X ek)) akName (tpm2b (wrap seed akName (tpm2b credential)))
      (tpm2b (point_bytes Q)) = Some credential"
    using assms(2) unfolding act by (simp add: unwrap_wrap)
  show "tpm_activate d (be_nat (ek_X ek)) name (tpm2b (wrap seed akName (tpm2b credential)))
      (tpm2b (point_bytes Q)) \<noteq> None \<Longrightarrow> name = akName \<or> hmac_clash (integrity_key seed)
        (encrypted seed akName (tpm2b credential) @ akName) (encrypted seed akName (tpm2b credential) @ name)"
    unfolding act by (auto dest: unwrap_other_name simp: bind_eq_None_conv)
qed

section \<open>Properties\<close>

text \<open>
  \<open>leftPad\<close> is the fixed-width big-endian encoding: for every byte string and width, the result
  is the low \<open>n\<close> bytes of the number the bytes denote, so padding never changes a coordinate that
  fits, and two encodings of one coordinate pad to the same bytes.
\<close>

lemma leftPad_is_fixed_width:
  "leftPad b n = be_bytes n (be_nat b) \<and> length (leftPad b n) = n"
  by (simp add: leftPad_eq)

text \<open>
  C23. \<open>MakeCredential\<close> is the outer wrap of its specification. A key off the curve is refused before
  any randomness is drawn, an error of the generator is passed on, and otherwise the call succeeds:
  the blob is the wrap, under the Name of the Attestation Key, of the credential as a TPM2B, with the
  \<open>IDENTITY\<close> seed of the agreement; the secret is the ephemeral point in fixed width.
\<close>

theorem MakeCredential_is_outer_wrap:
  assumes "byte_codec C" and "length credential < 65000"
  shows "MakeCredential C gen ek akName credential rng =
    (let E = (be_nat (ek_X ek), be_nat (ek_Y ek))
     in if \<not> IsOnCurve (fst E) (snd E) then (Inl ErrEKPointNotOnCurve, rng)
     else case gen rng of
       (Inl e, rng') \<Rightarrow> (Inl e, rng')
     | (Inr (k, Q), rng') \<Rightarrow>
       (let seed = shared_seed ''IDENTITY'' (fst (smult (k mod p256_n) E)) (fst Q) (fst E)
        in Inr \<lparr>CredentialBlob = tpm2b (wrap seed akName (tpm2b credential)),
                Secret = tpm2b (point_bytes Q)\<rparr>, rng'))"
  using assms(2) by (rule byte_codec.MakeCredential_eq [OF assms(1)])

text \<open>
  C10. A credential comes back, and only under its Name. When the generator returns a key pair on
  whose point the TPM's private scalar agrees with the verifier's (Diffie-Hellman), \<open>MakeCredential\<close>
  succeeds, and activation on that TPM recovers exactly the credential under the Name that was bound;
  under any other Name it recovers nothing, unless the two Names collide in the HMAC over the same
  ciphertext.
\<close>

theorem credential_recovered:
  assumes "byte_codec C" and "length credential < 65000"
    and "IsOnCurve (be_nat (ek_X ek)) (be_nat (ek_Y ek))"
    and "gen rng = (Inr (k, Q), rng')" and "fits Q"
    and agree: "fst (smult d Q) = fst (smult (k mod p256_n) (be_nat (ek_X ek), be_nat (ek_Y ek)))"
    and seed: "seed = shared_seed ''IDENTITY'' (fst (smult d Q)) (fst Q) (be_nat (ek_X ek))"
  shows "\<exists>mc. MakeCredential C gen ek akName credential rng = (Inr mc, rng') \<and>
    tpm_activate d (be_nat (ek_X ek)) akName (CredentialBlob mc) (Secret mc) = Some credential \<and>
    (\<forall>name. tpm_activate d (be_nat (ek_X ek)) name (CredentialBlob mc) (Secret mc) \<noteq> None \<longrightarrow>
      name = akName \<or> hmac_clash (integrity_key seed)
        (encrypted seed akName (tpm2b credential) @ akName) (encrypted seed akName (tpm2b credential) @ name))"
  by (intro exI [of _ "\<lparr>CredentialBlob = tpm2b (wrap seed akName (tpm2b credential)), Secret = tpm2b (point_bytes Q)\<rparr>"])
    (use credential_made [where gen = gen, OF assms] in \<open>simp only: MakeCredentialResult.select_convs; blast\<close>)

text \<open>A generator that returns the base point with the scalar 1, and the key whose point is the base point.\<close>

definition base_key :: EKPublic where
  "base_key = \<lparr>ek_X = be_bytes 32 (fst p256_G), ek_Y = be_bytes 32 (snd p256_G)\<rparr>"

lemma fits_G: "fits p256_G"
  by (simp add: fits_def p256_G_def)

lemma base_key_point: "be_nat (ek_X base_key) = fst p256_G" "be_nat (ek_Y base_key) = snd p256_G"
  using fits_G by (simp_all only: base_key_def EKPublic.select_convs fits_def be_nat_be_bytes_id)

theorem MakeCredential_is_outer_wrap_witness:
  "MakeCredential be_codec (\<lambda>r. (Inr (1, p256_G), r + (1 :: nat))) \<lparr>ek_X = [0], ek_Y = [1]\<rparr> [5] [6] 0
     = (Inl ErrEKPointNotOnCurve, 0) \<and>
   (\<exists>seed. MakeCredential be_codec (\<lambda>r. (Inr (1, p256_G), r + (1 :: nat))) base_key [5] [6] 0
     = (Inr \<lparr>CredentialBlob = tpm2b (wrap seed [5] (tpm2b [6])), Secret = tpm2b (point_bytes p256_G)\<rparr>, 1))"
proof -
  have off: "\<not> IsOnCurve 0 1" by (simp add: IsOnCurve_def p256_p_def p256_b_def)
  have on: "IsOnCurve (be_nat (ek_X base_key)) (be_nat (ek_Y base_key))"
    unfolding base_key_point by (rule G_on_curve)
  have small: "length [6 :: u8] < 65000" by simp
  note wrapped = MakeCredential_is_outer_wrap [OF be.byte_codec_axioms small]
  show ?thesis
  proof
    show "MakeCredential be_codec (\<lambda>r. (Inr (1, p256_G), r + (1 :: nat))) \<lparr>ek_X = [0], ek_Y = [1]\<rparr> [5] [6] 0
        = (Inl ErrEKPointNotOnCurve, 0)"
      using off by (simp add: wrapped)
    show "\<exists>seed. MakeCredential be_codec (\<lambda>r. (Inr (1, p256_G), r + (1 :: nat))) base_key [5] [6] 0
        = (Inr \<lparr>CredentialBlob = tpm2b (wrap seed [5] (tpm2b [6])), Secret = tpm2b (point_bytes p256_G)\<rparr>, 1)"
      unfolding wrapped Let_def fst_conv snd_conv using on by auto
  qed
qed

theorem credential_recovered_witness:
  "\<exists>mc. MakeCredential be_codec (\<lambda>r. (Inr (1, p256_G), r)) base_key [0, 0xB, 7] [1, 2, 3] () = (Inr mc, ()) \<and>
     tpm_activate 1 (fst p256_G) [0, 0xB, 7] (CredentialBlob mc) (Secret mc) = Some [1, 2, 3]"
proof -
  have on: "IsOnCurve (be_nat (ek_X base_key)) (be_nat (ek_Y base_key))"
    unfolding base_key_point by (rule G_on_curve)
  have one: "1 mod p256_n = 1" by (simp add: p256_n_def)
  have agree: "fst (smult 1 p256_G) = fst (smult (1 mod p256_n) (be_nat (ek_X base_key), be_nat (ek_Y base_key)))"
    unfolding base_key_point one by simp
  show ?thesis
    using credential_recovered [OF be.byte_codec_axioms _ on _ fits_G agree refl, of "[1, 2, 3]"
        "\<lambda>r. (Inr (1, p256_G), r)" "()" "()" "[0, 0xB, 7]"]
    unfolding base_key_point by auto
qed

end
