(* ===== verification/Activate.thy ===== *)
theory Activate
  imports Make_Cred Known_Answers
begin

text \<open>
  \<open>activate.go\<close>: the platform's side of Credential Protection. \<open>PolicySecret\<close>, the authorisation area
  with several sessions, \<open>ActivateCredential\<close>, and the flow that ties the two sides together.
\<close>

section \<open>The code\<close>

definition ccActivateCredential :: u32 where "ccActivateCredential = 0x00000147"
definition ccPolicySecret :: u32 where "ccPolicySecret = 0x00000151"

definition PolicySecret_body :: "codec \<Rightarrow> u32 \<Rightarrow> u32 \<Rightarrow> bytes" where
  "PolicySecret_body C authHandle policySession =
     (let body = PutU32 C [] authHandle;
          body = PutU32 C body policySession;
          auth = marshalPasswordAuth C;
          body = PutU32 C body (of_nat (length auth));
          body = body @ auth;
          body = PutU16 C body 0;
          body = PutU16 C body 0;
          body = PutU16 C body 0
      in PutU32 C body 0)"

definition PolicySecret :: "codec \<Rightarrow> 's TPM \<Rightarrow> u32 \<Rightarrow> u32 \<Rightarrow> ('s, 'r, unit) cmd" where
  "PolicySecret C tpm authHandle policySession =
     tbind (execute C tpm (TagSessions C) ccPolicySecret (PolicySecret_body C authHandle policySession))
       (\<lambda>_. lift (Inr ()))"

definition marshalAuthArea :: "codec \<Rightarrow> bytes list \<Rightarrow> bytes" where
  "marshalAuthArea C sessions =
     (let joined = foldl (@) [] sessions;
          out = PutU32 C [] (of_nat (length joined))
      in out @ joined)"

definition ActivateCredential_body :: "codec \<Rightarrow> u32 \<Rightarrow> u32 \<Rightarrow> u32 \<Rightarrow> bytes \<Rightarrow> bytes \<Rightarrow> bytes" where
  "ActivateCredential_body C activateHandle keyHandle policySession credentialBlob secret =
     (let body = PutU32 C [] activateHandle;
          body = PutU32 C body keyHandle;
          akAuth = marshalPasswordAuth C;
          ekAuth = marshalPolicyAuth C policySession;
          body = body @ marshalAuthArea C [akAuth, ekAuth];
          body = body @ credentialBlob
      in body @ secret)"

definition ActivateCredential_response :: "codec \<Rightarrow> bytes \<Rightarrow> bytes res" where
  "ActivateCredential_response C rp =
     rbind (need (GetU32 C rp 0)) (\<lambda>_.
     rbind (slice_from rp 4) (\<lambda>rp4.
     rbind (UnmarshalTPM2B C rp4) (\<lambda>(certInfo, _). Inr certInfo)))"

definition ActivateCredential ::
  "codec \<Rightarrow> 's TPM \<Rightarrow> u32 \<Rightarrow> u32 \<Rightarrow> u32 \<Rightarrow> bytes \<Rightarrow> bytes \<Rightarrow> ('s, 'r, bytes) cmd" where
  "ActivateCredential C tpm activateHandle keyHandle policySession credentialBlob secret =
     tbind (execute C tpm (TagSessions C) ccActivateCredential
         (ActivateCredential_body C activateHandle keyHandle policySession credentialBlob secret))
       (\<lambda>rp. lift (ActivateCredential_response C rp))"

text \<open>
  The random source is the process-wide one (\<open>MakeCredential\<close> is called with a nil reader): the
  reader state of the world.
\<close>

definition make_credential_cmd ::
  "codec \<Rightarrow> 'r keygen \<Rightarrow> EKPublic \<Rightarrow> bytes \<Rightarrow> bytes \<Rightarrow> ('s, 'r, MakeCredentialResult) cmd" where
  "make_credential_cmd C gen ekPublic akName credential w =
     (let (r, rng) = MakeCredential C gen ekPublic akName credential (rand w) in (r, w\<lparr>rand := rng\<rparr>))"

definition ActivateAKWithEK ::
  "codec \<Rightarrow> 'r keygen \<Rightarrow> 's TPM \<Rightarrow> u32 \<Rightarrow> u32 \<Rightarrow> bytes \<Rightarrow> bytes \<Rightarrow> bytes \<Rightarrow> bytes \<Rightarrow> ('s, 'r, bytes) cmd" where
  "ActivateAKWithEK C gen tpm ak ek akPublic ekPublic credential nonceCaller =
     tbind (lift (ObjectName C akPublic)) (\<lambda>akName.
     tbind (lift (parseTPMTPublicECCPoint C ekPublic)) (\<lambda>ekPoint.
     tbind (make_credential_cmd C gen \<lparr>ek_X = ak_X ekPoint, ek_Y = ak_Y ekPoint\<rparr> akName credential) (\<lambda>mc.
     tbind (StartAuthSession C tpm nonceCaller) (\<lambda>(session, _).
     tbind (PolicySecret C tpm RHEndorsement session) (\<lambda>_.
     ActivateCredential C tpm ak ek session (CredentialBlob mc) (Secret mc))))))"

interpretation policysecret: tpm_call C tpm "TagSessions C" ccPolicySecret
  "PolicySecret_body C handle session" "\<lambda>_. Inr ()" "PolicySecret C tpm handle session" for C tpm handle session
  by unfold_locales (simp add: PolicySecret_def)

interpretation activate: tpm_call C tpm "TagSessions C" ccActivateCredential
  "ActivateCredential_body C ak ek session blob secret" "ActivateCredential_response C"
  "ActivateCredential C tpm ak ek session blob secret" for C tpm ak ek session blob secret
  by unfold_locales (simp add: ActivateCredential_def)

section \<open>The bytes of the commands\<close>

lemma foldl_append: "foldl (@) a bs = a @ concat bs"
  by (induction bs arbitrary: a) simp_all

context byte_codec
begin

lemma marshalAuthArea_eq:
  "marshalAuthArea C sessions = be_bytes 4 (unat (of_nat (length (concat sessions)) :: u32)) @ concat sessions"
  by (simp add: marshalAuthArea_def foldl_append puts Let_def)

lemma activate_bodies:
  "PolicySecret_body C handle session = be_bytes 4 (unat handle) @ be_bytes 4 (unat session) @
     [0, 0, 0, 9] @ password_auth @ [0, 0] @ [0, 0] @ [0, 0] @ [0, 0, 0, 0]"
  "ActivateCredential_body C ak ek s blob secret = be_bytes 4 (unat ak) @ be_bytes 4 (unat ek) @
     [0, 0, 0, 18] @ password_auth @ session_auth s @ blob @ secret"
  by (simp_all add: PolicySecret_body_def ActivateCredential_body_def puts marshalPasswordAuth_eq
      marshalPolicyAuth_eq marshalAuthArea_eq be_eval)

lemma ActivateCredential_response_ok:
  "length d < 65536 \<Longrightarrow> ActivateCredential_response C (be_bytes 4 n @ tpm2b d @ rest) = Inr d"
  by (simp add: ActivateCredential_response_def UnmarshalTPM2B)

lemma ActivateCredential_fails: "fails_only {ErrShortBuffer} (ActivateCredential_response C rp)"
  unfolding ActivateCredential_response_def
  by (intro fails_intros; auto simp: need_Inr_iff dest: get_Some_length)

end

section \<open>Properties\<close>

text \<open>
  The bytes of the activation commands. \<open>PolicySecret\<close> carries its two handles, one password
  session for the first, and four empty parameters. \<open>ActivateCredential\<close> carries the two handles, an
  authorisation area of 18 bytes with the password session of the first handle and the policy session
  of the second, in that order, then the blob and the secret as they are.
\<close>

theorem activation_frames:
  assumes "wire_codec C" and "length blob + length secret < 4294967000"
  shows "sent_only w (frame 0x8002 0x151 (be_bytes 4 (unat handle) @ be_bytes 4 (unat session) @
      [0, 0, 0, 9] @ password_auth @ [0, 0] @ [0, 0] @ [0, 0] @ [0, 0, 0, 0]))
      (PolicySecret C tpm handle session w) \<and>
    sent_only w (frame 0x8002 0x147 (be_bytes 4 (unat ak) @ be_bytes 4 (unat ek) @
      [0, 0, 0, 18] @ (password_auth @ session_auth session) @ blob @ secret))
      (ActivateCredential C tpm ak ek session blob secret w)"
proof -
  note wire = wire_codec.to_wire [OF assms(1)]
  note bc = wire_codec.axioms(1) [OF assms(1)]
  show ?thesis
    by (intro conjI; rule policysecret.sends_frame activate.sends_frame)
      (use assms(2) in \<open>simp_all add: wire byte_codec.activate_bodies [OF bc] ccPolicySecret_def
        ccActivateCredential_def\<close>)
qed

theorem activation_frames_witness:
  "sent_only \<lparr>dev = [], rand = (), trace = []\<rparr>
    (frame 0x8002 0x147 ([0x80, 0, 0, 1] @ [0x80, 0, 0, 2] @ [0, 0, 0, 18] @
      ([0x40, 0, 0, 9, 0, 0, 1, 0, 0] @ [3, 0, 0, 0, 0, 0, 1, 0, 0]) @ [0, 1, 7] @ [0, 1, 8]))
    (ActivateCredential be_codec (New playback) 0x80000001 0x80000002 0x03000000 [0, 1, 7] [0, 1, 8]
      \<lparr>dev = [], rand = (), trace = []\<rparr>)"
  using activation_frames [OF be.wire_codec_axioms, where blob = "[0, 1, 7]" and secret = "[0, 1, 8]" and
      w = "\<lparr>dev = [], rand = (), trace = []\<rparr>" and tpm = "New playback" and handle = 0 and
      session = "0x03000000" and ak = "0x80000001" and ek = "0x80000002"]
  by (simp add: be_eval session_auth_def password_auth_def)

text \<open>
  A TPM that runs the activation flow for an object with a Name and an Endorsement Key with the
  private scalar \<open>d\<close>: it opens the session, accepts the secret, and answers \<open>ActivateCredential\<close> with
  what it recovers from the blob and the encrypted secret it is sent.
\<close>

definition activation_flow ::
  "codec \<Rightarrow> 's TPM \<Rightarrow> 's \<Rightarrow> nat \<Rightarrow> nat \<Rightarrow> bytes \<Rightarrow> u32 \<Rightarrow> u32 \<Rightarrow> bytes \<Rightarrow> u32 \<Rightarrow> 's \<Rightarrow> bool" where
  "activation_flow C tpm s0 d ekX name ak ek nonce session s3 \<longleftrightarrow>
     (\<exists>s1 s2 nt rest1 rp2. length nt < 65536 \<and>
        answers C tpm s0 (BuildCommand C (TagNoSessions C) ccStartAuthSession (StartAuthSession_body C nonce))
          (be_bytes 4 (unat session) @ tpm2b nt @ rest1) s1 \<and>
        answers C tpm s1 (BuildCommand C (TagSessions C) ccPolicySecret (PolicySecret_body C RHEndorsement session)) rp2 s2 \<and>
        (\<forall>inner point c. length inner < 65536 \<and> length point < 65536 \<and> length c < 65000 \<and>
           tpm_activate d ekX name (tpm2b inner) (tpm2b point) = Some c \<longrightarrow>
           (\<exists>n rest3. answers C tpm s2 (BuildCommand C (TagSessions C) ccActivateCredential
               (ActivateCredential_body C ak ek session (tpm2b inner) (tpm2b point)))
             (be_bytes 4 n @ tpm2b c @ rest3) s3)))"

lemma credential_parts:
  assumes "byte_codec C" and "length credential < 65000"
    and "IsOnCurve (be_nat (ek_X ek)) (be_nat (ek_Y ek))" and "gen rng = (Inr (k, Q), rng')" and "fits Q"
    and agree: "fst (smult d Q) = fst (smult (k mod p256_n) (be_nat (ek_X ek), be_nat (ek_Y ek)))"
  shows "\<exists>inner point. length inner < 65536 \<and> length point < 65536 \<and>
    MakeCredential C gen ek name credential rng = (Inr \<lparr>CredentialBlob = tpm2b inner, Secret = tpm2b point\<rparr>, rng') \<and>
    tpm_activate d (be_nat (ek_X ek)) name (tpm2b inner) (tpm2b point) = Some credential"
  using credential_made [where gen = gen, OF assms(1-6) refl, of name] assms(2) length_point_bytes [of Q]
  by (intro exI [of _ "wrap (shared_seed ''IDENTITY'' (fst (smult d Q)) (fst Q) (be_nat (ek_X ek))) name (tpm2b credential)"]
      exI [of _ "point_bytes Q"]) simp

lemma ActivateAKWithEK_run:
  assumes "byte_codec C" and "length credential < 65000"
    and ak: "4 \<le> length akPublic" "take 2 (drop 2 akPublic) = [0x00, 0x0B]"
    and ek: "is_ecc_public pt ekPublic" "IsOnCurve (be_nat (ak_X pt)) (be_nat (ak_Y pt))"
    and key: "gen (rand w) = (Inr (k, Q), rng')" "fits Q"
      "fst (smult d Q) = fst (smult (k mod p256_n) (be_nat (ak_X pt), be_nat (ak_Y pt)))"
    and flow: "activation_flow C tpm (dev w) d (be_nat (ak_X pt)) ([0x00, 0x0B] @ sha256 akPublic)
      akHandle ekHandle nonce session s3"
  shows "fst (ActivateAKWithEK C gen tpm akHandle ekHandle akPublic ekPublic credential nonce w) = Inr credential \<and>
    (\<exists>blob secret. snd (ActivateAKWithEK C gen tpm akHandle ekHandle akPublic ekPublic credential nonce w) =
      w\<lparr>rand := rng', dev := s3, trace := trace w @
        [Sent (BuildCommand C (TagNoSessions C) ccStartAuthSession (StartAuthSession_body C nonce)),
         Sent (BuildCommand C (TagSessions C) ccPolicySecret (PolicySecret_body C RHEndorsement session)),
         Sent (BuildCommand C (TagSessions C) ccActivateCredential
           (ActivateCredential_body C akHandle ekHandle session blob secret))]\<rparr>)"
proof -
  let ?name = "[0x00, 0x0B] @ sha256 akPublic"
  let ?ek = "\<lparr>ek_X = ak_X pt, ek_Y = ak_Y pt\<rparr>"
  have name: "ObjectName C akPublic = Inr ?name"
    using ak by (simp add: byte_codec.ObjectName_cases [OF assms(1)] sha256_name_def)
  have point: "parseTPMTPublicECCPoint C ekPublic = Inr pt"
    using byte_codec.parseTPMTPublicECCPoint_Inr_iff [OF assms(1)] ek(1) by (metis append_Nil2)
  obtain inner point where len: "length inner < 65536" "length point < 65536"
    and mc: "MakeCredential C gen ?ek ?name credential (rand w)
      = (Inr \<lparr>CredentialBlob = tpm2b inner, Secret = tpm2b point\<rparr>, rng')"
    and act: "tpm_activate d (be_nat (ak_X pt)) ?name (tpm2b inner) (tpm2b point) = Some credential"
    using credential_parts [OF assms(1,2), of ?ek gen "rand w" k Q rng' d ?name] ek(2) key by auto
  from flow obtain s1 s2 nt rest1 rp2 where nt: "length nt < 65536"
    and a1: "answers C tpm (dev w) (BuildCommand C (TagNoSessions C) ccStartAuthSession (StartAuthSession_body C nonce))
      (be_bytes 4 (unat session) @ tpm2b nt @ rest1) s1"
    and a2: "answers C tpm s1 (BuildCommand C (TagSessions C) ccPolicySecret (PolicySecret_body C RHEndorsement session)) rp2 s2"
    and a3: "\<forall>inner point c. length inner < 65536 \<and> length point < 65536 \<and> length c < 65000 \<and>
      tpm_activate d (be_nat (ak_X pt)) ?name (tpm2b inner) (tpm2b point) = Some c \<longrightarrow>
      (\<exists>n rest3. answers C tpm s2 (BuildCommand C (TagSessions C) ccActivateCredential
        (ActivateCredential_body C akHandle ekHandle session (tpm2b inner) (tpm2b point)))
        (be_bytes 4 n @ tpm2b c @ rest3) s3)"
    unfolding activation_flow_def by blast
  from a3 len act assms(2) obtain n rest3 where a3: "answers C tpm s2 (BuildCommand C (TagSessions C)
      ccActivateCredential (ActivateCredential_body C akHandle ekHandle session (tpm2b inner) (tpm2b point)))
      (be_bytes 4 n @ tpm2b credential @ rest3) s3" by blast
  let ?w1 = "w\<lparr>rand := rng'\<rparr>"
  let ?w2 = "sent (BuildCommand C (TagNoSessions C) ccStartAuthSession (StartAuthSession_body C nonce)) s1 ?w1"
  let ?w3 = "sent (BuildCommand C (TagSessions C) ccPolicySecret (PolicySecret_body C RHEndorsement session)) s2 ?w2"
  have gen: "make_credential_cmd C gen ?ek ?name credential w
      = (Inr \<lparr>CredentialBlob = tpm2b inner, Secret = tpm2b point\<rparr>, ?w1)"
    by (simp only: make_credential_cmd_def mc Let_def prod.case)
  have start: "StartAuthSession C tpm nonce ?w1 = (Inr (session, nt), ?w2)"
    using startsession.answered [of C tpm ?w1 nonce] a1 byte_codec.StartAuthSession_response_ok [OF assms(1) nt]
    by simp
  have secret: "PolicySecret C tpm RHEndorsement session ?w2 = (Inr (), ?w3)"
    using policysecret.answered [of C tpm ?w2 RHEndorsement session] a2 by simp
  have final: "ActivateCredential C tpm akHandle ekHandle session (tpm2b inner) (tpm2b point) ?w3 =
      (Inr credential, sent (BuildCommand C (TagSessions C) ccActivateCredential
        (ActivateCredential_body C akHandle ekHandle session (tpm2b inner) (tpm2b point))) s3 ?w3)"
    using activate.answered [of C tpm ?w3 akHandle ekHandle session "tpm2b inner" "tpm2b point"] a3 assms(2)
      byte_codec.ActivateCredential_response_ok [OF assms(1), of credential] by simp
  have "ActivateAKWithEK C gen tpm akHandle ekHandle akPublic ekPublic credential nonce w =
      (Inr credential, sent (BuildCommand C (TagSessions C) ccActivateCredential
        (ActivateCredential_body C akHandle ekHandle session (tpm2b inner) (tpm2b point))) s3 ?w3)"
    unfolding ActivateAKWithEK_def name point tbind_lift_Inr
    using gen start secret final by simp
  then show ?thesis by (auto simp: sent_def)
qed

text \<open>
  Activation is complete: the identity step succeeds on the right TPM. When the Attestation Key
  is a SHA-256 object, the Endorsement Key's public area holds a point of the curve, the generator
  returns a key pair that agrees with the TPM's private scalar, and the TPM that holds both keys runs
  the flow, \<open>ActivateAKWithEK\<close> returns exactly the challenge, and has sent three commands: start the
  session, satisfy the endorsement policy in it, activate.
\<close>

theorem activation_returns_challenge:
  assumes "byte_codec C" and "length credential < 65000"
    and ak: "4 \<le> length akPublic" "take 2 (drop 2 akPublic) = [0x00, 0x0B]"
    and ek: "is_ecc_public pt ekPublic" "IsOnCurve (be_nat (ak_X pt)) (be_nat (ak_Y pt))"
    and key: "gen (rand w) = (Inr (k, Q), rng')" "fits Q"
      "fst (smult d Q) = fst (smult (k mod p256_n) (be_nat (ak_X pt), be_nat (ak_Y pt)))"
    and flow: "activation_flow C tpm (dev w) d (be_nat (ak_X pt)) ([0x00, 0x0B] @ sha256 akPublic)
      akHandle ekHandle nonce session s3"
  shows "fst (ActivateAKWithEK C gen tpm akHandle ekHandle akPublic ekPublic credential nonce w) = Inr credential \<and>
    (\<exists>blob secret. snd (ActivateAKWithEK C gen tpm akHandle ekHandle akPublic ekPublic credential nonce w) =
      w\<lparr>rand := rng', dev := s3, trace := trace w @
        [Sent (BuildCommand C (TagNoSessions C) ccStartAuthSession (StartAuthSession_body C nonce)),
         Sent (BuildCommand C (TagSessions C) ccPolicySecret (PolicySecret_body C RHEndorsement session)),
         Sent (BuildCommand C (TagSessions C) ccActivateCredential
           (ActivateCredential_body C akHandle ekHandle session blob secret))]\<rparr>)"
  using assms by (rule ActivateAKWithEK_run)

text \<open>A TPM with the endorsement scalar \<open>d\<close> that runs the flow in three steps.\<close>

definition activating_tpm :: "nat \<Rightarrow> nat \<Rightarrow> bytes \<Rightarrow> nat \<Rightarrow> bytes \<Rightarrow> bytes res \<times> nat" where
  "activating_tpm d ekX name n c =
     (if n = 0 then (Inr (frame 0x8001 0 [3, 0, 0, 0, 0, 1, 9]), 1)
      else if n = 1 then (Inr (frame 0x8002 0 []), 2)
      else (case split_tpm2b (drop 40 c) of
          None \<Rightarrow> (Inr (frame 0x8001 0x1DF []), 3)
        | Some (inner, secret) \<Rightarrow>
            (case tpm_activate d ekX name (tpm2b inner) secret of
               None \<Rightarrow> (Inr (frame 0x8001 0x1DF []), 3)
             | Some x \<Rightarrow> (Inr (frame 0x8002 0 (be_bytes 4 (length x + 2) @ tpm2b x)), 3))))"

lemma frame_answers:
  "transport tpm s c = (Inr (frame tag 0 rp), s') \<Longrightarrow> length rp < 4294967286 \<Longrightarrow> answers be_codec tpm s c rp s'"
  using be.ParseResponse [of rp tag 0] by (simp add: answers_def be.RCSuccess)

lemma activating_tpm_flow:
  "activation_flow be_codec (New (activating_tpm d ekX name)) 0 d ekX name ak ek nonce 0x03000000 3"
proof -
  have r: "[3, 0, 0, 0, 0, 1, 9] = be_bytes 4 (unat (0x03000000 :: u32)) @ tpm2b [9] @ []"
    by (simp add: be_eval tpm2b_def)
  have a1: "answers be_codec (New (activating_tpm d ekX name)) 0 c (be_bytes 4 (unat (0x03000000 :: u32)) @ tpm2b [9] @ []) 1" for c
    unfolding r [symmetric] by (rule frame_answers) (simp_all add: New_def activating_tpm_def)
  have a2: "answers be_codec (New (activating_tpm d ekX name)) 1 c [] 2" for c
    by (rule frame_answers) (simp_all add: New_def activating_tpm_def)
  have a3: "answers be_codec (New (activating_tpm d ekX name)) 2
      (BuildCommand be_codec (TagSessions be_codec) ccActivateCredential
        (ActivateCredential_body be_codec ak ek 0x03000000 (tpm2b inner) (tpm2b point)))
      (be_bytes 4 (length x + 2) @ tpm2b x @ []) 3"
    if h: "length inner < 65536" "length point < 65536" "length x < 65000"
      "tpm_activate d ekX name (tpm2b inner) (tpm2b point) = Some x" for inner point x
  proof (rule frame_answers)
    have "drop 40 (BuildCommand be_codec (TagSessions be_codec) ccActivateCredential
        (ActivateCredential_body be_codec ak ek 0x03000000 (tpm2b inner) (tpm2b point))) = tpm2b inner @ tpm2b point"
      using h(1,2) by (simp add: be.to_wire be.activate_bodies frame_def)
    then show "transport (New (activating_tpm d ekX name)) 2
        (BuildCommand be_codec (TagSessions be_codec) ccActivateCredential
          (ActivateCredential_body be_codec ak ek 0x03000000 (tpm2b inner) (tpm2b point)))
        = (Inr (frame 0x8002 0 (be_bytes 4 (length x + 2) @ tpm2b x @ [])), 3)"
      using h by (simp add: New_def activating_tpm_def)
  qed (use h(3) in simp)
  have nonce: "length [9 :: u8] < 65536" by simp
  show ?thesis
    unfolding activation_flow_def
    by (rule exI [of _ 1], rule exI [of _ 2], rule exI [of _ "[9]"], rule exI [of _ "[]"], rule exI [of _ "[]"])
      (use nonce a1 a2 a3 in blast)
qed

text \<open>The public area of an Endorsement Key whose point is the base point.\<close>

definition base_public :: bytes where
  "base_public = ecc_public_bytes 0x23 0xB 0x300B2 [] (parms_bytes (alg_field 0x10 [0, 0, 0, 0])
     (alg_field 0x10 [0, 0]) 3 (alg_field 0x10 [0, 0]) \<lparr>ak_X = ek_X base_key, ak_Y = ek_Y base_key\<rparr>)"

lemma base_public_is: "is_ecc_public \<lparr>ak_X = ek_X base_key, ak_Y = ek_Y base_key\<rparr> base_public"
proof -
  have "length (ek_X base_key) < 65536" "length (ek_Y base_key) < 65536" by (simp_all add: base_key_def)
  moreover have "is_alg 4 (alg_field 0x10 [0, 0, 0, 0])" "is_alg 2 (alg_field 0x10 [0, 0])"
    unfolding is_alg_def by (intro exI conjI refl; simp)+
  ultimately show ?thesis unfolding is_ecc_public_def base_public_def
    by (intro exI [of _ "0x23"] exI [of _ "0xB"] exI [of _ "0x300B2"] exI [of _ "[]"] exI [of _ 3]
        exI [of _ "alg_field 0x10 [0, 0, 0, 0]"] exI [of _ "alg_field 0x10 [0, 0]"]) simp
qed

theorem activation_returns_challenge_witness:
  "fst (ActivateAKWithEK be_codec (\<lambda>r. (Inr (1, p256_G), r))
     (New (activating_tpm 1 (fst p256_G) ([0x00, 0x0B] @ sha256 [0, 0x23, 0, 0xB])))
     0x80000001 0x80000002 [0, 0x23, 0, 0xB] base_public [1, 2, 3] [] \<lparr>dev = 0, rand = (), trace = []\<rparr>)
   = Inr [1, 2, 3]"
proof -
  let ?pt = "\<lparr>ak_X = ek_X base_key, ak_Y = ek_Y base_key\<rparr>"
  have on: "IsOnCurve (be_nat (ak_X ?pt)) (be_nat (ak_Y ?pt))"
    using G_on_curve by (simp add: base_key_point)
  have agree: "fst (smult 1 p256_G) = fst (smult (1 mod p256_n) (be_nat (ak_X ?pt), be_nat (ak_Y ?pt)))"
  proof -
    have "1 mod p256_n = 1" by (simp add: p256_n_def)
    then show ?thesis by (simp only: AKPublic.select_convs base_key_point prod.collapse)
  qed
  have flow: "activation_flow be_codec (New (activating_tpm 1 (fst p256_G) ([0x00, 0x0B] @ sha256 [0, 0x23, 0, 0xB])))
      (dev \<lparr>dev = 0, rand = (), trace = []\<rparr>) 1 (be_nat (ak_X ?pt)) ([0x00, 0x0B] @ sha256 [0, 0x23, 0, 0xB])
      0x80000001 0x80000002 [] 0x03000000 3"
    using activating_tpm_flow by (simp add: base_key_point)
  show ?thesis
    by (rule activation_returns_challenge [OF be.byte_codec_axioms _ _ _ base_public_is on _ fits_G agree flow,
          THEN conjunct1]) simp_all
qed

text \<open>
  The policy digest of \<open>PolicySecret\<close> for an entity, from the empty digest: extended by the command code
  and the Name of the entity, then by the reference.
\<close>

definition secret_policy :: "u32 \<Rightarrow> bytes \<Rightarrow> bytes" where
  "secret_policy handle policyRef =
     sha256 (sha256 (replicate 32 0 @ be_bytes 4 (unat ccPolicySecret) @ be_bytes 4 (unat handle)) @ policyRef)"


text \<open>
  C33. A local failure keeps the TPM out of it. When the Attestation Key's public area has no Name,
  the Endorsement Key's public area does not parse, its point is off the curve, or the generator
  fails, \<open>ActivateAKWithEK\<close> fails with that very error, in this order of precedence, and no byte is
  sent: the device and the trace are those before the call.
\<close>

theorem activation_local_failures:
  fixes gen :: "'r keygen" and tpm :: "'s TPM" and w :: "('s, 'r) world"
  assumes "byte_codec C" and "length credential < 65000"
  shows "(\<forall>e. ObjectName C akPublic = Inl e \<longrightarrow>
      ActivateAKWithEK C gen tpm ak ek akPublic ekPublic credential nonce w = (Inl e, w)) \<and>
    (\<forall>name e. ObjectName C akPublic = Inr name \<and> parseTPMTPublicECCPoint C ekPublic = Inl e \<longrightarrow>
      ActivateAKWithEK C gen tpm ak ek akPublic ekPublic credential nonce w = (Inl e, w)) \<and>
    (\<forall>name pt. ObjectName C akPublic = Inr name \<and> parseTPMTPublicECCPoint C ekPublic = Inr pt \<and>
      \<not> IsOnCurve (be_nat (ak_X pt)) (be_nat (ak_Y pt)) \<longrightarrow>
      ActivateAKWithEK C gen tpm ak ek akPublic ekPublic credential nonce w = (Inl ErrEKPointNotOnCurve, w)) \<and>
    (\<forall>name pt e rng'. ObjectName C akPublic = Inr name \<and> parseTPMTPublicECCPoint C ekPublic = Inr pt \<and>
      IsOnCurve (be_nat (ak_X pt)) (be_nat (ak_Y pt)) \<and> gen (rand w) = (Inl e, rng') \<longrightarrow>
      ActivateAKWithEK C gen tpm ak ek akPublic ekPublic credential nonce w = (Inl e, w\<lparr>rand := rng'\<rparr>))"
proof -
  have local: "tbind (lift r) f w = (case r of Inl e \<Rightarrow> (Inl e, w) | Inr a \<Rightarrow> f a w)"
    for r :: "'x res" and f :: "'x \<Rightarrow> ('s, 'r, bytes) cmd" and w
    by (simp add: tbind_def split: sum.splits)
  have make: "tbind (make_credential_cmd C gen k name credential) f w = (Inl e, w\<lparr>rand := rng'\<rparr>)"
    if "MakeCredential C gen k name credential (rand w) = (Inl e, rng')"
    for k name e rng' and f :: "MakeCredentialResult \<Rightarrow> ('s, 'r, bytes) cmd"
    using that by (simp add: tbind_def make_credential_cmd_def)
  show ?thesis
    by (auto simp: ActivateAKWithEK_def local intro!: make [THEN trans]
        simp: byte_codec.MakeCredential_eq [OF assms])
qed

theorem activation_local_failures_witness:
  "ActivateAKWithEK be_codec (\<lambda>r. (Inr (1, p256_G), r)) (New playback) 1 2 [0, 0x23, 0, 0xC] [] [7] []
     \<lparr>dev = [], rand = (), trace = []\<rparr> = (Inl ErrUnsupportedNameAlg, \<lparr>dev = [], rand = (), trace = []\<rparr>)"
  using activation_local_failures [OF be.byte_codec_axioms, where credential = "[7]" and akPublic = "[0, 0x23, 0, 0xC]"]
  by (simp add: be.ObjectName_cases)

end
