(* ===== verification/Duplication.thy ===== *)
theory Duplication
  imports Make_Cred
begin

text \<open>
  \<open>import.go\<close>: wrapping a secret offline for a remote TPM, under a PCR policy, and the node's side that
  imports and unseals it. The random reader is a parameter in two forms: \<open>io.ReadFull\<close> of a number of
  bytes from a state of the reader, and the key generator.
\<close>

section \<open>The code\<close>

definition labelDuplicate :: string where "labelDuplicate = ''DUPLICATE''"
definition ccImport :: u32 where "ccImport = 0x00000156"
definition importSealAttributes :: u32 where "importSealAttributes = 0"

record WrapToPCRResult =
  ObjectPublic :: bytes
  Duplicate :: bytes
  InSymSeed :: bytes

definition marshalImportSealPublic :: "codec \<Rightarrow> bytes \<Rightarrow> bytes \<Rightarrow> bytes" where
  "marshalImportSealPublic C policyDigest unique =
     (let p = PutU16 C [] algKeyedHash;
          p = PutU16 C p algSHA256;
          p = PutU32 C p importSealAttributes;
          p = p @ MarshalTPM2B C policyDigest;
          p = PutU16 C p algNull
      in p @ MarshalTPM2B C unique)"

definition importObjectName :: "codec \<Rightarrow> bytes \<Rightarrow> bytes" where
  "importObjectName C publicArea =
     (let digest = sha256 publicArea;
          name = PutU16 C [] algSHA256
      in name @ digest)"

definition marshalSealSensitive :: "codec \<Rightarrow> bytes \<Rightarrow> bytes \<Rightarrow> bytes" where
  "marshalSealSensitive C seedValue secret =
     (let s = PutU16 C [] algKeyedHash;
          s = PutU16 C s 0;
          s = s @ MarshalTPM2B C seedValue
      in s @ MarshalTPM2B C secret)"

type_synonym 'r reader = "nat \<Rightarrow> 'r \<Rightarrow> bytes res \<times> 'r"

definition WrapToPCR ::
  "codec \<Rightarrow> 'r reader \<Rightarrow> 'r keygen \<Rightarrow> ECCPublic \<Rightarrow> bytes \<Rightarrow> PCRSelection list \<Rightarrow> bytes list \<Rightarrow> 'r \<Rightarrow>
   WrapToPCRResult res \<times> 'r" where
  "WrapToPCR C readFull gen srkPub secret sel pcrValues rng =
     (let srkX = be_nat (ecc_X srkPub);
          srkY = be_nat (ecc_Y srkPub)
      in if \<not> IsOnCurve srkX srkY then (Inl ErrSRKPointNotOnCurve, rng)
      else case readFull 32 rng of
        (Inl e, rng') \<Rightarrow> (Inl e, rng')
      | (Inr obfuscate, rng') \<Rightarrow>
        (let unique = sha256 (obfuscate @ secret);
             policyDigest = PolicyPCRDigest C sel pcrValues;
             objectPublic = marshalImportSealPublic C policyDigest unique;
             objectName = importObjectName C objectPublic;
             sensitive = marshalSealSensitive C obfuscate secret
         in case gen rng' of
           (Inl e, rng'') \<Rightarrow> (Inl e, rng'')
         | (Inr eph, rng'') \<Rightarrow>
           (rbind (ScalarMult srkX srkY (big_Bytes (fst eph))) (\<lambda>Z.
              let z = leftPad (big_Bytes (fst Z)) p256FieldBytes;
                  qeX = leftPad (big_Bytes (fst (snd eph))) p256FieldBytes;
                  qeY = leftPad (big_Bytes (snd (snd eph))) p256FieldBytes;
                  srkXfix = leftPad (ecc_X srkPub) p256FieldBytes
              in rbind (KDFe C z labelDuplicate qeX srkXfix 256) (\<lambda>seed.
                 rbind (KDFa C seed labelStorage objectName [] 128) (\<lambda>symKey.
                 let plain = MarshalTPM2B C sensitive
                 in rbind (aesCFBZeroIV symKey plain) (\<lambda>encSensitive.
                    rbind (KDFa C seed labelIntegrity [] [] 256) (\<lambda>hmacKey.
                    let outerHMAC = hmac hmacKey (encSensitive @ objectName);
                        dup = MarshalTPM2B C outerHMAC;
                        dup = dup @ encSensitive;
                        duplicate = MarshalTPM2B C dup;
                        point = MarshalTPM2B C qeX;
                        point = point @ MarshalTPM2B C qeY;
                        inSymSeed = MarshalTPM2B C point
                    in Inr \<lparr>ObjectPublic = objectPublic, Duplicate = duplicate,
                            InSymSeed = inSymSeed\<rparr>))))), rng'')))"

definition marshalSymDefObjectNull :: "codec \<Rightarrow> bytes" where
  "marshalSymDefObjectNull C = PutU16 C [] algNull"

definition Import_body :: "codec \<Rightarrow> u32 \<Rightarrow> bytes \<Rightarrow> bytes \<Rightarrow> bytes \<Rightarrow> bytes" where
  "Import_body C parent objectPublic duplicate inSymSeed =
     (let body = PutU32 C [] parent;
          auth = marshalPasswordAuth C;
          body = PutU32 C body (of_nat (length auth));
          body = body @ auth;
          body = PutU16 C body 0;
          body = body @ MarshalTPM2B C objectPublic;
          body = body @ duplicate;
          body = body @ inSymSeed
      in body @ marshalSymDefObjectNull C)"

definition Import_response :: "codec \<Rightarrow> bytes \<Rightarrow> bytes res" where
  "Import_response C rp =
     rbind (need (GetU32 C rp 0)) (\<lambda>_.
     rbind (slice_from rp 4) (\<lambda>rp4.
     rbind (UnmarshalTPM2B C rp4) (\<lambda>(priv, _). Inr priv)))"

definition Import :: "codec \<Rightarrow> 's TPM \<Rightarrow> u32 \<Rightarrow> bytes \<Rightarrow> bytes \<Rightarrow> bytes \<Rightarrow> ('s, 'r, bytes) cmd" where
  "Import C tpm parent objectPublic duplicate inSymSeed =
     tbind (execute C tpm (TagSessions C) ccImport (Import_body C parent objectPublic duplicate inSymSeed))
       (\<lambda>rp. lift (Import_response C rp))"

definition ImportAndUnseal ::
  "codec \<Rightarrow> 's TPM \<Rightarrow> u32 \<Rightarrow> bytes \<Rightarrow> bytes \<Rightarrow> bytes \<Rightarrow> PCRSelection list \<Rightarrow> bytes \<Rightarrow> ('s, 'r, bytes) cmd" where
  "ImportAndUnseal C tpm parent objectPublic duplicate inSymSeed sel nonceCaller =
     tbind (Import C tpm parent objectPublic duplicate inSymSeed) (\<lambda>outPrivate.
     tbind (Load C tpm parent outPrivate objectPublic) (\<lambda>item.
     tbind (StartAuthSession C tpm nonceCaller) (\<lambda>(session, _).
     tbind (PolicyPCR C tpm session sel) (\<lambda>_.
     Unseal C tpm item session))))"

interpretation importcall: tpm_call C tpm "TagSessions C" ccImport "Import_body C parent public dup seed"
  "Import_response C" "Import C tpm parent public dup seed" for C tpm parent public dup seed
  by unfold_locales (simp add: Import_def)

section \<open>The object on the wire\<close>

definition import_public_bytes :: "bytes \<Rightarrow> bytes \<Rightarrow> bytes" where
  "import_public_bytes policy unique =
     [0x00, 0x08] @ [0x00, 0x0B] @ [0x00, 0x00, 0x00, 0x00] @ tpm2b policy @ [0x00, 0x10] @ tpm2b unique"

definition sensitive_bytes :: "bytes \<Rightarrow> bytes \<Rightarrow> bytes" where
  "sensitive_bytes obf secret = [0x00, 0x08] @ [0x00, 0x00] @ tpm2b obf @ tpm2b secret"

lemma length_import_public_bytes [simp]:
  "length (import_public_bytes policy unique) = length policy + length unique + 14"
  by (simp add: import_public_bytes_def)

lemma length_sensitive_bytes [simp]: "length (sensitive_bytes obf secret) = length obf + length secret + 8"
  by (simp add: sensitive_bytes_def)

context byte_codec
begin

lemma marshalImportSealPublic_eq:
  "length policy < 65536 \<Longrightarrow> length unique < 65536 \<Longrightarrow>
   marshalImportSealPublic C policy unique = import_public_bytes policy unique"
  by (simp add: marshalImportSealPublic_def puts import_public_bytes_def seal_constants attest_constants
      importSealAttributes_def be_eval)

lemma importObjectName_eq: "importObjectName C p = sha256_name p"
  by (simp add: importObjectName_def puts sha256_name_def attest_constants be_eval)

lemma marshalSealSensitive_eq:
  "length obf < 65536 \<Longrightarrow> length secret < 65536 \<Longrightarrow> marshalSealSensitive C obf secret = sensitive_bytes obf secret"
  by (simp add: marshalSealSensitive_def puts sensitive_bytes_def seal_constants be_eval)

lemma length_PolicyPCRDigest [simp]: "length (PolicyPCRDigest C sel vals) = 32"
  by (simp add: PolicyPCRDigest_def Let_def)

lemma Import_body_eq:
  "length public < 65536 \<Longrightarrow> Import_body C parent public dup seed =
     be_bytes 4 (unat parent) @ [0, 0, 0, 9] @ password_auth @ [0, 0] @ tpm2b public @ dup @ seed @ [0, 0x10]"
  by (simp add: Import_body_def marshalSymDefObjectNull_def puts marshalPasswordAuth_eq attest_constants be_eval)

lemma Import_response_ok:
  "length d < 65536 \<Longrightarrow> Import_response C (be_bytes 4 n @ tpm2b d @ rest) = Inr d"
  by (simp add: Import_response_def UnmarshalTPM2B)

lemma Import_fails: "fails_only {ErrShortBuffer} (Import_response C rp)"
  unfolding Import_response_def by (intro fails_intros; auto simp: need_Inr_iff dest: get_Some_length)

text \<open>\<open>WrapToPCR\<close> in the terms of the outer wrap.\<close>

lemma WrapToPCR_eq:
  assumes "length secret < 65000" and read: "\<And>r b r'. readFull 32 r = (Inr b, r') \<Longrightarrow> length b = 32"
  shows "WrapToPCR C readFull gen srk secret sel vals rng =
    (let S = (be_nat (ecc_X srk), be_nat (ecc_Y srk))
     in if \<not> IsOnCurve (fst S) (snd S) then (Inl ErrSRKPointNotOnCurve, rng)
     else case readFull 32 rng of
       (Inl e, rng') \<Rightarrow> (Inl e, rng')
     | (Inr obf, rng') \<Rightarrow>
       (case gen rng' of
          (Inl e, rng'') \<Rightarrow> (Inl e, rng'')
        | (Inr (k, Q), rng'') \<Rightarrow>
          (let public = import_public_bytes (PolicyPCRDigest C sel vals) (sha256 (obf @ secret));
               seed = shared_seed ''DUPLICATE'' (fst (smult (k mod p256_n) S)) (fst Q) (fst S)
           in Inr \<lparr>ObjectPublic = public,
                Duplicate = tpm2b (wrap seed (sha256_name public) (tpm2b (sensitive_bytes obf secret))),
                InSymSeed = tpm2b (point_bytes Q)\<rparr>, rng'')))"
  using assms(1)
  by (auto simp add: WrapToPCR_def Let_def protection labelDuplicate_def puts aes.length_cfb_encrypt
      marshalImportSealPublic_eq importObjectName_eq marshalSealSensitive_eq dest!: read
      split: prod.splits sum.splits)

end

section \<open>The TPM's side\<close>

text \<open>
  What a TPM with the storage key's private scalar \<open>d\<close> imports: the payload of the outer wrap under the
  Name of the public area, read as a sensitive area whose obfuscation value has the digest's size and
  is bound to the \<open>unique\<close> field of the public area. The result is the policy of the object and the
  secret it holds.
\<close>

definition tpm_import :: "nat \<Rightarrow> nat \<Rightarrow> bytes \<Rightarrow> bytes \<Rightarrow> bytes \<Rightarrow> (bytes \<times> bytes) option" where
  "tpm_import d srkX public dup seed =
     Option.bind (tpm_open ''DUPLICATE'' d srkX (sha256_name public) dup seed) (\<lambda>plain.
     Option.bind (split_tpm2b plain) (\<lambda>(sens, _).
     Option.bind (split_tpm2b (drop 4 sens)) (\<lambda>(obf, r).
     Option.bind (split_tpm2b r) (\<lambda>(secret, _).
     Option.bind (split_tpm2b (drop 8 public)) (\<lambda>(policy, q).
     Option.bind (split_tpm2b (drop 2 q)) (\<lambda>(unique, _).
     if take 4 sens = [0x00, 0x08, 0x00, 0x00] \<and> length obf = 32 \<and> unique = sha256 (obf @ secret)
     then Some (policy, secret) else None))))))"

lemma drop_sensitive: "drop 4 (sensitive_bytes obf secret) = tpm2b obf @ tpm2b secret"
  by (simp add: sensitive_bytes_def)

lemma take_sensitive: "take 4 (sensitive_bytes obf secret) = [0x00, 0x08, 0x00, 0x00]"
  by (simp add: sensitive_bytes_def)

lemma drop_import_public:
  "drop 8 (import_public_bytes policy unique) = tpm2b policy @ [0x00, 0x10] @ tpm2b unique"
  by (simp add: import_public_bytes_def)

lemma tpm_import_wrapped:
  assumes "fits Q" and "length obf = 32" and "length secret < 65000" and "length policy = 32"
    and seed: "seed = shared_seed ''DUPLICATE'' (fst (smult d Q)) (fst Q) srkX"
    and public: "public = import_public_bytes policy (sha256 (obf @ secret))"
  shows "tpm_import d srkX public (tpm2b (wrap seed (sha256_name public) (tpm2b (sensitive_bytes obf secret))))
    (tpm2b (point_bytes Q)) = Some (policy, secret)"
proof -
  have "tpm_open ''DUPLICATE'' d srkX (sha256_name public)
      (tpm2b (wrap seed (sha256_name public) (tpm2b (sensitive_bytes obf secret)))) (tpm2b (point_bytes Q))
      = Some (tpm2b (sensitive_bytes obf secret))"
    using assms(1-3) by (simp add: tpm_open_wrapped seed unwrap_wrap)
  then show ?thesis
    unfolding tpm_import_def public using assms(2-4)
    by (simp add: drop_sensitive take_sensitive drop_import_public)
qed

lemma tpm_import_other_public:
  assumes "fits Q" and "length plain < 65502"
    and seed: "seed = shared_seed ''DUPLICATE'' (fst (smult d Q)) (fst Q) srkX"
    and "tpm_import d srkX public' (tpm2b (wrap seed (sha256_name public) plain)) (tpm2b (point_bytes Q)) \<noteq> None"
  shows "sha256 public' = sha256 public \<or> hmac_clash (integrity_key seed)
    (encrypted seed (sha256_name public) plain @ sha256_name public)
    (encrypted seed (sha256_name public) plain @ sha256_name public')"
proof -
  obtain x where "unwrap seed (sha256_name public') (wrap seed (sha256_name public) plain) = Some x"
    using assms by (auto simp: tpm_import_def tpm_open_wrapped bind_eq_None_conv)
  from unwrap_other_name [OF this] show ?thesis by (auto simp: sha256_name_def)
qed

section \<open>Properties\<close>

text \<open>\<open>io.ReadFull\<close> returns all the bytes it was asked for, or an error.\<close>

definition full_reader :: "'r reader \<Rightarrow> bool" where
  "full_reader readFull \<longleftrightarrow> (\<forall>n r b r'. readFull n r = (Inr b, r') \<longrightarrow> length b = n)"

text \<open>
  C22. \<open>WrapToPCR\<close> is the outer wrap of its specification. A key off the curve is refused before any
  randomness is drawn; an error of the reader, then of the generator, is passed on; otherwise the call
  succeeds. The public area carries the policy of the PCR values and the hash of obfuscation value and
  secret; the duplicate is the wrap of the sensitive area with the \<open>DUPLICATE\<close> seed of the agreement,
  under the Name of that public area, which is the one \<open>ObjectName\<close> computes.
\<close>

theorem WrapToPCR_is_outer_wrap:
  assumes "byte_codec C" and "full_reader readFull" and "length secret < 65000"
  shows "WrapToPCR C readFull gen srk secret sel vals rng =
    (let S = (be_nat (ecc_X srk), be_nat (ecc_Y srk))
     in if \<not> IsOnCurve (fst S) (snd S) then (Inl ErrSRKPointNotOnCurve, rng)
     else case readFull 32 rng of
       (Inl e, rng') \<Rightarrow> (Inl e, rng')
     | (Inr obf, rng') \<Rightarrow>
       (case gen rng' of
          (Inl e, rng'') \<Rightarrow> (Inl e, rng'')
        | (Inr (k, Q), rng'') \<Rightarrow>
          (let public = import_public_bytes (PolicyPCRDigest C sel vals) (sha256 (obf @ secret));
               seed = shared_seed ''DUPLICATE'' (fst (smult (k mod p256_n) S)) (fst Q) (fst S)
           in Inr \<lparr>ObjectPublic = public,
                Duplicate = tpm2b (wrap seed (sha256_name public) (tpm2b (sensitive_bytes obf secret))),
                InSymSeed = tpm2b (point_bytes Q)\<rparr>, rng''))) \<and>
    (\<forall>policy unique. length policy < 65536 \<and> length unique < 65536 \<longrightarrow>
      ObjectName C (marshalImportSealPublic C policy unique) =
      Inr (importObjectName C (marshalImportSealPublic C policy unique)))"
proof (rule conjI)
  show "\<forall>policy unique. length policy < 65536 \<and> length unique < 65536 \<longrightarrow>
      ObjectName C (marshalImportSealPublic C policy unique) =
      Inr (importObjectName C (marshalImportSealPublic C policy unique))"
    by (simp add: byte_codec.marshalImportSealPublic_eq [OF assms(1)] byte_codec.ObjectName_cases [OF assms(1)]
        byte_codec.importObjectName_eq [OF assms(1)] import_public_bytes_def)
qed (rule byte_codec.WrapToPCR_eq [OF assms(1,3)], use assms(2) in \<open>unfold full_reader_def, blast\<close>)

text \<open>A wrap with a key pair that agrees with the node's scalar succeeds, and imports on the node.\<close>

lemma wrapped_secret_exists:
  assumes "byte_codec C" and "full_reader readFull" and "length secret < 65000"
    and "IsOnCurve (be_nat (ecc_X srk)) (be_nat (ecc_Y srk))"
    and "readFull 32 rng = (Inr obf, rng')" and "gen rng' = (Inr (k, Q), rng'')" and "fits Q"
    and agree: "fst (smult d Q) = fst (smult (k mod p256_n) (be_nat (ecc_X srk), be_nat (ecc_Y srk)))"
  shows "\<exists>r. WrapToPCR C readFull gen srk secret sel vals rng = (Inr r, rng'') \<and>
    tpm_import d (be_nat (ecc_X srk)) (ObjectPublic r) (Duplicate r) (InSymSeed r) =
      Some (PolicyPCRDigest C sel vals, secret) \<and>
    ObjectPublic r = import_public_bytes (PolicyPCRDigest C sel vals) (sha256 (obf @ secret)) \<and>
    Duplicate r = tpm2b (wrap (shared_seed ''DUPLICATE'' (fst (smult d Q)) (fst Q) (be_nat (ecc_X srk)))
      (sha256_name (ObjectPublic r)) (tpm2b (sensitive_bytes obf secret))) \<and>
    InSymSeed r = tpm2b (point_bytes Q)"
proof -
  let ?seed = "shared_seed ''DUPLICATE'' (fst (smult d Q)) (fst Q) (be_nat (ecc_X srk))"
  let ?public = "import_public_bytes (PolicyPCRDigest C sel vals) (sha256 (obf @ secret))"
  let ?r = "\<lparr>ObjectPublic = ?public,
    Duplicate = tpm2b (wrap ?seed (sha256_name ?public) (tpm2b (sensitive_bytes obf secret))),
    InSymSeed = tpm2b (point_bytes Q)\<rparr>"
  have full: "\<And>r b r'. readFull 32 r = (Inr b, r') \<Longrightarrow> length b = 32"
    using assms(2) unfolding full_reader_def by blast
  then have obf: "length obf = 32" using assms(5) by blast
  have r: "WrapToPCR C readFull gen srk secret sel vals rng = (Inr ?r, rng'')"
    using assms(3-6) full by (simp add: byte_codec.WrapToPCR_eq [OF assms(1)] agree Let_def)
  have policy: "length (PolicyPCRDigest C sel vals) = 32"
    by (rule byte_codec.length_PolicyPCRDigest [OF assms(1)])
  show ?thesis
    using r tpm_import_wrapped [OF assms(7) obf assms(3) policy refl refl] by (intro exI [of _ ?r]) simp
qed

text \<open>
  C9. A wrapped secret comes back with its policy, and the policy cannot be exchanged. When the
  generator's key pair agrees with the node's private scalar, the node's TPM imports from the three
  blobs exactly the secret, under the policy of the PCR values it was wrapped to. With any other public
  area, in particular one with another policy, the same blobs import nothing, unless the two public
  areas collide under SHA-256 or their Names collide in the HMAC over the same ciphertext.
\<close>

theorem wrapped_secret_bound_to_policy:
  assumes "byte_codec C" and "full_reader readFull" and "length secret < 65000"
    and "IsOnCurve (be_nat (ecc_X srk)) (be_nat (ecc_Y srk))"
    and "readFull 32 rng = (Inr obf, rng')" and "gen rng' = (Inr (k, Q), rng'')" and "fits Q"
    and agree: "fst (smult d Q) = fst (smult (k mod p256_n) (be_nat (ecc_X srk), be_nat (ecc_Y srk)))"
    and seed: "seed = shared_seed ''DUPLICATE'' (fst (smult d Q)) (fst Q) (be_nat (ecc_X srk))"
  shows "\<exists>r. WrapToPCR C readFull gen srk secret sel vals rng = (Inr r, rng'') \<and>
    tpm_import d (be_nat (ecc_X srk)) (ObjectPublic r) (Duplicate r) (InSymSeed r) =
      Some (PolicyPCRDigest C sel vals, secret) \<and>
    (\<forall>public. tpm_import d (be_nat (ecc_X srk)) public (Duplicate r) (InSymSeed r) \<noteq> None \<longrightarrow>
      sha256 public = sha256 (ObjectPublic r) \<or> hmac_clash (integrity_key seed)
        (encrypted seed (sha256_name (ObjectPublic r)) (tpm2b (sensitive_bytes obf secret)) @ sha256_name (ObjectPublic r))
        (encrypted seed (sha256_name (ObjectPublic r)) (tpm2b (sensitive_bytes obf secret)) @ sha256_name public))"
proof -
  from wrapped_secret_exists [where readFull = readFull and gen = gen, OF assms(1-8)] obtain r where
    r: "WrapToPCR C readFull gen srk secret sel vals rng = (Inr r, rng'')"
      "tpm_import d (be_nat (ecc_X srk)) (ObjectPublic r) (Duplicate r) (InSymSeed r) =
        Some (PolicyPCRDigest C sel vals, secret)"
    and blobs: "Duplicate r = tpm2b (wrap seed (sha256_name (ObjectPublic r)) (tpm2b (sensitive_bytes obf secret)))"
      "InSymSeed r = tpm2b (point_bytes Q)" unfolding seed by blast
  have "length obf = 32" using assms(2,5) unfolding full_reader_def by blast
  then have "length (tpm2b (sensitive_bytes obf secret)) < 65502" using assms(3) by simp
  note other = tpm_import_other_public [OF assms(7) this seed, where public = "ObjectPublic r", folded blobs]
  show ?thesis using r other by blast
qed

definition base_srk :: ECCPublic where
  "base_srk = \<lparr>ecc_X = be_bytes 32 (fst p256_G), ecc_Y = be_bytes 32 (snd p256_G)\<rparr>"

lemma base_srk_point: "be_nat (ecc_X base_srk) = fst p256_G" "be_nat (ecc_Y base_srk) = snd p256_G"
  using fits_G by (simp_all only: base_srk_def ECCPublic.select_convs fits_def be_nat_be_bytes_id)

lemma base_srk_agrees:
  "IsOnCurve (be_nat (ecc_X base_srk)) (be_nat (ecc_Y base_srk))"
  "fst (smult 1 p256_G) = fst (smult (1 mod p256_n) (be_nat (ecc_X base_srk), be_nat (ecc_Y base_srk)))"
proof -
  have one: "1 mod p256_n = 1" by (simp add: p256_n_def)
  show "IsOnCurve (be_nat (ecc_X base_srk)) (be_nat (ecc_Y base_srk))"
    unfolding base_srk_point by (rule G_on_curve)
  show "fst (smult 1 p256_G) = fst (smult (1 mod p256_n) (be_nat (ecc_X base_srk), be_nat (ecc_Y base_srk)))"
    unfolding base_srk_point one by simp
qed

lemma zero_reader: "full_reader (\<lambda>n r. (Inr (replicate n 0), r))"
  by (simp add: full_reader_def)

theorem WrapToPCR_is_outer_wrap_witness:
  "WrapToPCR be_codec (\<lambda>n r. (Inr (replicate n 0), r)) (\<lambda>r. (Inr (1, p256_G), r)) \<lparr>ecc_X = [0], ecc_Y = [1]\<rparr>
     [7] [] [] (3 :: nat) = (Inl ErrSRKPointNotOnCurve, 3) \<and>
   (\<exists>r. WrapToPCR be_codec (\<lambda>n r. (Inr (replicate n 0), r)) (\<lambda>r. (Inr (1, p256_G), r)) base_srk
     [7] [] [[1]] (3 :: nat) = (Inr r, 3) \<and> InSymSeed r = tpm2b (point_bytes p256_G) \<and>
     ObjectPublic r = import_public_bytes (PolicyPCRDigest be_codec [] [[1]]) (sha256 (replicate 32 0 @ [7])))"
proof -
  let ?readFull = "\<lambda>(n :: nat) (r :: nat). (Inr (replicate n (0 :: u8)) :: bytes res, r)"
  have off: "\<not> IsOnCurve 0 1" by (simp add: IsOnCurve_def p256_p_def p256_b_def)
  have small: "length [7 :: u8] < 65000" by simp
  note wrapped = WrapToPCR_is_outer_wrap [OF be.byte_codec_axioms zero_reader small, THEN conjunct1]
  show ?thesis
  proof
    show "WrapToPCR be_codec (\<lambda>n r. (Inr (replicate n 0), r)) (\<lambda>r. (Inr (1, p256_G), r)) \<lparr>ecc_X = [0], ecc_Y = [1]\<rparr>
        [7] [] [] (3 :: nat) = (Inl ErrSRKPointNotOnCurve, 3)"
      using off by (simp add: wrapped)
    show "\<exists>r. WrapToPCR be_codec (\<lambda>n r. (Inr (replicate n 0), r)) (\<lambda>r. (Inr (1, p256_G), r)) base_srk
        [7] [] [[1]] (3 :: nat) = (Inr r, 3) \<and> InSymSeed r = tpm2b (point_bytes p256_G) \<and>
        ObjectPublic r = import_public_bytes (PolicyPCRDigest be_codec [] [[1]]) (sha256 (replicate 32 0 @ [7]))"
      unfolding wrapped Let_def fst_conv snd_conv using base_srk_agrees(1) by auto
  qed
qed

theorem wrapped_secret_bound_to_policy_witness:
  "\<exists>r. WrapToPCR be_codec (\<lambda>n r. (Inr (replicate n 0), r)) (\<lambda>r. (Inr (1, p256_G), r)) base_srk [7] [] [[1]] () =
      (Inr r, ()) \<and>
    tpm_import 1 (fst p256_G) (ObjectPublic r) (Duplicate r) (InSymSeed r) =
      Some (PolicyPCRDigest be_codec [] [[1]], [7])"
proof -
  note bound = wrapped_secret_bound_to_policy [where readFull = "\<lambda>n r. (Inr (replicate n 0), r)" and
    gen = "\<lambda>r. (Inr (1, p256_G), r)" and srk = base_srk and secret = "[7]" and sel = "[]" and vals = "[[1]]" and
    rng = "()" and rng' = "()" and rng'' = "()" and obf = "replicate 32 0" and k = 1 and d = 1 and Q = p256_G,
    OF be.byte_codec_axioms zero_reader]
  have "length [7 :: u8] < 65000" by simp
  from bound [OF this base_srk_agrees(1) refl refl fits_G base_srk_agrees(2) refl]
  show ?thesis unfolding base_srk_point by blast
qed

text \<open>
  C36. Importing. \<open>Import\<close> puts exactly one frame on the wire: the parent, the password session, no
  encryption key, the public area as a TPM2B, the two blobs as they are, and no inner wrapper; and
  \<open>ImportAndUnseal\<close> is \<open>Import\<close> followed by \<open>UnsealWithPCR\<close> on the private area it returns.
\<close>

theorem Import_frame_and_flow:
  assumes "wire_codec C" and "length public < 65536" and "length dup + length seed < 4294900000"
  shows "sent_only w (frame 0x8002 0x156 (be_bytes 4 (unat parent) @ [0, 0, 0, 9] @ password_auth @ [0, 0] @
      tpm2b public @ dup @ seed @ [0, 0x10])) (Import C tpm parent public dup seed w) \<and>
    ImportAndUnseal C tpm parent public dup seed sel nonce w =
    (case Import C tpm parent public dup seed w of
       (Inl e, w') \<Rightarrow> (Inl e, w')
     | (Inr priv, w') \<Rightarrow> UnsealWithPCR C tpm parent priv public sel nonce w')"
proof
  note wire = wire_codec.to_wire [OF assms(1)]
  note bc = wire_codec.axioms(1) [OF assms(1)]
  show "sent_only w (frame 0x8002 0x156 (be_bytes 4 (unat parent) @ [0, 0, 0, 9] @ password_auth @ [0, 0] @
      tpm2b public @ dup @ seed @ [0, 0x10])) (Import C tpm parent public dup seed w)"
    by (rule importcall.sends_frame)
      (use assms(2,3) in \<open>simp add: wire byte_codec.Import_body_eq [OF bc] ccImport_def\<close>)
qed (simp add: ImportAndUnseal_def UnsealWithPCR_def tbind_def [of "Import C tpm parent public dup seed"]
    split: sum.splits prod.splits)

theorem Import_frame_and_flow_witness:
  "sent_only \<lparr>dev = [], rand = (), trace = []\<rparr>
    (frame 0x8002 0x156 ([0x80, 0, 0, 1] @ [0, 0, 0, 9] @ password_auth @ [0, 0] @ [0, 1, 5] @ [0, 1, 6] @ [0, 1, 7] @ [0, 0x10]))
    (Import be_codec (New playback) 0x80000001 [5] [0, 1, 6] [0, 1, 7] \<lparr>dev = [], rand = (), trace = []\<rparr>)"
  using Import_frame_and_flow [OF be.wire_codec_axioms, where public = "[5]" and dup = "[0, 1, 6]" and
      seed = "[0, 1, 7]" and w = "\<lparr>dev = [], rand = (), trace = []\<rparr>" and tpm = "New playback" and
      parent = "0x80000001" and sel = "[]" and nonce = "[]"]
  by (simp add: be_eval tpm2b_def)

text \<open>
  A node's TPM with the private scalar \<open>d\<close> of the storage key: it imports what \<open>tpm_import\<close> recovers, and
  then runs the unsealing flow for that object with its current PCR values.
\<close>

definition import_flow ::
  "codec \<Rightarrow> 's TPM \<Rightarrow> 's \<Rightarrow> nat \<Rightarrow> nat \<Rightarrow> u32 \<Rightarrow> bytes \<Rightarrow> bytes \<Rightarrow> bytes \<Rightarrow> PCRSelection list \<Rightarrow> bytes \<Rightarrow> bytes list \<Rightarrow> 's \<Rightarrow> bool" where
  "import_flow C tpm s0 d srkX parent public dup seed sel nonce current s5 \<longleftrightarrow>
     (\<forall>policy secret. tpm_import d srkX public dup seed = Some (policy, secret) \<longrightarrow>
        (\<exists>s1 n priv rest item session. length priv < 65536 \<and>
           answers C tpm s0 (BuildCommand C (TagSessions C) ccImport (Import_body C parent public dup seed))
             (be_bytes 4 n @ tpm2b priv @ rest) s1 \<and>
           unseal_flow C tpm s1 parent priv public sel nonce current policy secret item session s5))"



end
