(* ===== verification/Never_Panic.thy ===== *)
theory Never_Panic
  imports Capability Nv Verify Activate Duplication
begin

text \<open>
  No answer of a TPM makes the package panic: the slice bounds of every decoder are guarded, whatever
  the lengths, counts and tags in the response claim, on a transport and a parser that return their
  errors as values. Here are the components' facts about it, put together.
\<close>

text \<open>A command that never panics, from any world.\<close>

definition never_panics :: "('s, 'r, 'a) cmd \<Rightarrow> bool" where
  "never_panics m \<longleftrightarrow> (\<forall>w. fst (m w) \<noteq> Inl Panic)"

lemma never_panicsI: "(\<And>w. fst (m w) \<noteq> Inl Panic) \<Longrightarrow> never_panics m"
  by (simp add: never_panics_def)

lemma never_panicsD: "never_panics m \<Longrightarrow> fst (m w) \<noteq> Inl Panic"
  by (simp add: never_panics_def)

lemma tbind_quiet: "never_panics m \<Longrightarrow> (\<And>a. never_panics (f a)) \<Longrightarrow> never_panics (tbind m f)"
proof (rule never_panicsI)
  fix w
  assume quiet: "never_panics m" "\<And>a. never_panics (f a)"
  obtain r w' where m: "m w = (r, w')" by fastforce
  show "fst (tbind m f w) \<noteq> Inl Panic"
    using never_panicsD [OF quiet(1), of w] never_panicsD [OF quiet(2), of _ w']
    by (cases r) (simp_all add: tbind_def m)
qed

lemma pair_quiet: "(\<And>x y. never_panics (f x y)) \<Longrightarrow> never_panics (case p of (x, y) \<Rightarrow> f x y)"
  by (cases p) simp

lemma lift_quiet: "r \<noteq> Inl Panic \<Longrightarrow> never_panics (lift r)"
  by (simp add: never_panics_def)

lemma fails_no_panic: "fails_only E r \<Longrightarrow> Panic \<notin> E \<Longrightarrow> r \<noteq> Inl Panic"
  by (auto simp: fails_only_iff)

lemma Inr_no_panic: "Inr x \<noteq> Inl Panic"
  by simp

section \<open>The commands\<close>

lemma starter_quiet:
  assumes "wire_codec C" and "calm C tpm"
  shows "never_panics (Startup C tpm su)" "never_panics (Shutdown C tpm su)" "never_panics (SelfTest C tpm full)"
    "never_panics (GetRandom C tpm n)" "never_panics (GetCapability C tpm cap property count)"
    "never_panics (PCRRead C tpm sel)" "never_panics (PCRExtend C tpm pcr hash digest)"
  by (intro never_panicsI startup.no_panic shutdown.no_panic selftest.no_panic getrandom.no_panic
      getcap.no_panic pcrread.no_panic pcrextend.no_panic assms(2);
    auto dest: byte_codec.response_errors [OF wire_codec.axioms(1) [OF assms(1)]])+

lemma capability_quiet:
  assumes "byte_codec C" and "calm C tpm"
  shows "never_panics (GetPCRBanks C tpm)" "never_panics (GetTPMProperties C tpm first count)"
    "never_panics (GetManufacturer C tpm)" "never_panics (GetAlgorithms C tpm first count)"
    "never_panics (GetHandles C tpm first count)"
  by (intro never_panicsI getbanks.no_panic getproperties.no_panic getmanufacturer.no_panic
      getalgorithms.no_panic gethandles.no_panic assms(2) byte_codec.typed_no_panic [OF assms(1)])+

lemma nv_quiet:
  assumes "byte_codec C" and "calm C tpm"
  shows "never_panics (NVDefineSpace C tpm pub)" "never_panics (NVUndefineSpace C tpm ix)"
    "never_panics (NVWrite C tpm ix data offset)" "never_panics (NVRead C tpm ix sz offset)"
    "never_panics (NVReadPublic C tpm ix)"
  by (intro never_panicsI nvdefine.no_panic nvundefine.no_panic nvwrite.no_panic nvread.no_panic
      nvreadpublic.no_panic assms(2) byte_codec.nv_responses_no_panic [OF assms(1)] Inr_no_panic)+

lemma attest_quiet:
  assumes "byte_codec C" and "calm C tpm"
  shows "never_panics (CreatePrimary C tpm)" "never_panics (CreatePrimaryPublic C tpm)"
    "never_panics (Quote C tpm key data sel)" "never_panics (CreateEK C tpm)"
proof -
  note safe = byte_codec.attest_fails [OF assms(1), THEN fails_no_panic]
    byte_codec.CreateEK_fails [OF assms(1), THEN fails_no_panic]
  show "never_panics (CreatePrimary C tpm)" "never_panics (CreatePrimaryPublic C tpm)"
    "never_panics (Quote C tpm key data sel)" "never_panics (CreateEK C tpm)"
    by (intro never_panicsI createprimary.no_panic createprimarypublic.no_panic quote.no_panic
        createek.no_panic assms(2) safe; simp)+
qed

lemma seal_quiet:
  assumes "byte_codec C" and "calm C tpm"
  shows "never_panics (CreateStoragePrimaryPub C tpm)" "never_panics (Create C tpm parent secret policy)"
    "never_panics (Load C tpm parent priv pub)" "never_panics (StartAuthSession C tpm nonce)"
    "never_panics (PolicyPCR C tpm session sel)" "never_panics (PolicyGetDigest C tpm session)"
    "never_panics (Unseal C tpm item session)"
proof -
  note safe = byte_codec.seal_fails [OF assms(1), THEN fails_no_panic]
  show "never_panics (CreateStoragePrimaryPub C tpm)" "never_panics (Create C tpm parent secret policy)"
    "never_panics (Load C tpm parent priv pub)" "never_panics (StartAuthSession C tpm nonce)"
    "never_panics (PolicyPCR C tpm session sel)" "never_panics (PolicyGetDigest C tpm session)"
    "never_panics (Unseal C tpm item session)"
    by (intro never_panicsI createstorage.no_panic create.no_panic load.no_panic startsession.no_panic
        policypcr.no_panic policydigest.no_panic unseal.no_panic assms(2) safe; simp)+
qed

lemma flows_quiet:
  assumes "byte_codec C" and "calm C tpm"
  shows "never_panics (CreateStoragePrimary C tpm)" "never_panics (SealToPCR C tpm parent secret sel vals)"
    "never_panics (UnsealWithPCR C tpm parent priv pub sel nonce)"
  unfolding CreateStoragePrimary_def [abs_def] SealToPCR_def [abs_def] UnsealWithPCR_def [abs_def] Let_def
  by (intro tbind_quiet pair_quiet lift_quiet seal_quiet assms Inr_no_panic)+

lemma activate_quiet:
  assumes "byte_codec C" and "calm C tpm"
  shows "never_panics (PolicySecret C tpm handle session)" "never_panics (ActivateCredential C tpm ak ek session blob secret)"
    "never_panics (Import C tpm parent public dup seed)"
    "never_panics (ImportAndUnseal C tpm parent public dup seed sel nonce)"
proof -
  note safe = byte_codec.ActivateCredential_fails [OF assms(1), THEN fails_no_panic]
    byte_codec.Import_fails [OF assms(1), THEN fails_no_panic]
  show "never_panics (PolicySecret C tpm handle session)"
    "never_panics (ActivateCredential C tpm ak ek session blob secret)"
    and import: "never_panics (Import C tpm parent public dup seed)"
    by (intro never_panicsI policysecret.no_panic activate.no_panic importcall.no_panic assms(2) safe; simp)+
  have flow: "ImportAndUnseal C tpm parent public dup seed sel nonce =
      tbind (Import C tpm parent public dup seed) (\<lambda>priv. UnsealWithPCR C tpm parent priv public sel nonce)"
    by (rule ext) (simp add: ImportAndUnseal_def UnsealWithPCR_def)
  show "never_panics (ImportAndUnseal C tpm parent public dup seed sel nonce)"
    unfolding flow by (intro tbind_quiet import flows_quiet assms)
qed

section \<open>Property\<close>



end
