(* ===== verification/Client.thy ===== *)
theory Client
  imports Capability Nv Verify Activate Duplication
begin

text \<open>
  The package as a whole: a client that makes any calls in any order. What every sequence of calls keeps
  invariant is stated on the trace: the device is only ever driven by the frames in it, each frame is a
  command of the codec, and the numbers of sends and the time asleep are bounded by the calls.
\<close>

section \<open>The effect of a method\<close>

text \<open>The device after a list of frames, whatever it answered.\<close>

fun replay :: "'s TPM \<Rightarrow> bytes list \<Rightarrow> 's \<Rightarrow> 's" where
  "replay tpm [] s = s"
| "replay tpm (c # cs) s = replay tpm cs (snd (transport tpm s c))"

definition is_command :: "codec \<Rightarrow> bytes \<Rightarrow> bool" where
  "is_command C f \<longleftrightarrow>
     (\<exists>tag cc params. (tag = TagSessions C \<or> tag = TagNoSessions C) \<and> f = BuildCommand C tag cc params)"

text \<open>A trace of at most \<open>k\<close> commands, each sent up to seven times with up to 126 ms of pauses.\<close>

definition bounded_trace :: "codec \<Rightarrow> nat \<Rightarrow> effect list \<Rightarrow> bool" where
  "bounded_trace C k es \<longleftrightarrow> list_all (is_command C) (sends es) \<and>
     length (sends es) \<le> 7 * k \<and> sum_list (pauses es) \<le> 126000000 * k"

text \<open>A method that runs at most \<open>k\<close> commands and touches the device by their frames alone.\<close>

definition runs :: "codec \<Rightarrow> 's TPM \<Rightarrow> nat \<Rightarrow> ('s, 'r, 'a) cmd \<Rightarrow> bool" where
  "runs C tpm k m \<longleftrightarrow> (\<forall>w. \<exists>es. trace (snd (m w)) = trace w @ es \<and>
     dev (snd (m w)) = replay tpm (sends es) (dev w) \<and> bounded_trace C k es)"

lemma replay_append: "replay tpm (a @ b) s = replay tpm b (replay tpm a s)"
  by (induction a arbitrary: s) simp_all

lemma replay_replicate: "replay tpm (replicate n c) s = dev_after tpm c s n"
  by (induction n arbitrary: s) simp_all

lemma pauses_append: "pauses (a @ b) = pauses a @ pauses b"
  by (induction a rule: pauses.induct) simp_all

lemma bounded_trace_Nil: "bounded_trace C k []"
  by (simp add: bounded_trace_def)

lemma bounded_trace_append:
  "bounded_trace C j a \<Longrightarrow> bounded_trace C k b \<Longrightarrow> bounded_trace C (j + k) (a @ b)"
  by (auto simp: bounded_trace_def pauses_append)

lemma bounded_retry_trace:
  assumes "k \<le> retryLimit" and "is_command C c"
  shows "bounded_trace C 1 (retry_trace c 0 k)"
proof -
  have "(2::nat) ^ k \<le> 2 ^ 6" using assms(1) by (intro power_increasing) (simp_all add: retryLimit_def)
  then have "sum_list (pauses (retry_trace c 0 k)) \<le> 126000000"
    using pauses_retry_trace [of c 0 k] by (simp add: retryBackoff_def)
  then show ?thesis
    using assms by (simp add: bounded_trace_def sends_retry_trace retryLimit_def list_all_iff del: replicate_Suc)
qed

lemma runs_lift: "runs C tpm k (lift r)"
  unfolding runs_def lift_apply by (auto intro!: exI [of _ "[]"] bounded_trace_Nil)

lemma runs_mono: "runs C tpm j m \<Longrightarrow> j \<le> k \<Longrightarrow> runs C tpm k m"
  unfolding runs_def bounded_trace_def by (meson le_trans mult_le_mono2)

lemma runs_tbind:
  assumes "runs C tpm j m" and "\<And>a. runs C tpm k (f a)"
  shows "runs C tpm (j + k) (tbind m f)"
  unfolding runs_def
proof
  fix w
  obtain r w1 where m: "m w = (r, w1)" by fastforce
  from assms(1) m obtain a where a: "trace w1 = trace w @ a" "dev w1 = replay tpm (sends a) (dev w)"
    "bounded_trace C j a" unfolding runs_def by (metis snd_conv)
  show "\<exists>es. trace (snd (tbind m f w)) = trace w @ es \<and>
      dev (snd (tbind m f w)) = replay tpm (sends es) (dev w) \<and> bounded_trace C (j + k) es"
  proof (cases r)
    case (Inl e)
    with m a show ?thesis
      using bounded_trace_append [OF a(3) bounded_trace_Nil] by (auto intro!: exI [of _ a])
  next
    case (Inr x)
    from assms(2) obtain b where "trace (snd (f x w1)) = trace w1 @ b"
      "dev (snd (f x w1)) = replay tpm (sends b) (dev w1)" "bounded_trace C k b"
      unfolding runs_def by blast
    with m a Inr show ?thesis
      by (auto simp: replay_append intro!: exI [of _ "a @ b"] bounded_trace_append)
  qed
qed

lemma runs_pair: "(\<And>x y. runs C tpm k (f x y)) \<Longrightarrow> runs C tpm k (case p of (x, y) \<Rightarrow> f x y)"
  by (cases p) simp

text \<open>Every method that is one command runs one command.\<close>

context tpm_call
begin

lemma runs_one:
  assumes "tag = TagSessions C \<or> tag = TagNoSessions C"
  shows "runs C tpm 1 run"
  unfolding runs_def
proof
  fix w :: "('s, 'r) world"
  let ?k = "retries C tpm command (dev w)"
  have "is_command C command" using assms by (auto simp: is_command_def)
  then have "bounded_trace C 1 (retry_trace command 0 ?k)"
    by (intro bounded_retry_trace retries_spec)
  then show "\<exists>es. trace (snd (run w)) = trace w @ es \<and>
      dev (snd (run w)) = replay tpm (sends es) (dev w) \<and> bounded_trace C 1 es"
    by (intro exI [of _ "retry_trace command 0 ?k"])
      (simp add: result after_retries_def sends_retry_trace replay_replicate del: replicate_Suc)
qed

end

section \<open>Calls\<close>

datatype call =
    Call_Startup u16
  | Call_Shutdown u16
  | Call_SelfTest bool
  | Call_GetRandom u16
  | Call_GetCapability u32 u32 u32
  | Call_PCRRead "PCRSelection list"
  | Call_PCRExtend int u16 bytes
  | Call_GetPCRBanks
  | Call_GetTPMProperties u32 u32
  | Call_GetManufacturer
  | Call_GetAlgorithms u32 u32
  | Call_GetHandles u32 u32
  | Call_NVDefineSpace NVPublic
  | Call_NVUndefineSpace u32
  | Call_NVWrite u32 bytes u16
  | Call_NVRead u32 u16 u16
  | Call_NVReadPublic u32
  | Call_CreatePrimary
  | Call_CreatePrimaryPublic
  | Call_Quote u32 bytes "PCRSelection list"
  | Call_CreateEK
  | Call_CreateStoragePrimary
  | Call_Create u32 bytes bytes
  | Call_Load u32 bytes bytes
  | Call_StartAuthSession bytes
  | Call_PolicyPCR u32 "PCRSelection list"
  | Call_PolicyGetDigest u32
  | Call_Unseal u32 u32
  | Call_SealToPCR u32 bytes "PCRSelection list" "bytes list"
  | Call_UnsealWithPCR u32 bytes bytes "PCRSelection list" bytes
  | Call_PolicySecret u32 u32
  | Call_ActivateCredential u32 u32 u32 bytes bytes
  | Call_ActivateAKWithEK u32 u32 bytes bytes bytes bytes
  | Call_Import u32 bytes bytes bytes
  | Call_ImportAndUnseal u32 bytes bytes bytes "PCRSelection list" bytes

text \<open>The world after a call; its result goes to the client, who decides what to call next.\<close>

fun perform :: "codec \<Rightarrow> 'r keygen \<Rightarrow> 's TPM \<Rightarrow> call \<Rightarrow> ('s, 'r) world \<Rightarrow> ('s, 'r) world" where
  "perform C gen tpm (Call_Startup su) w = snd (Startup C tpm su w)"
| "perform C gen tpm (Call_Shutdown su) w = snd (Shutdown C tpm su w)"
| "perform C gen tpm (Call_SelfTest full) w = snd (SelfTest C tpm full w)"
| "perform C gen tpm (Call_GetRandom n) w = snd (GetRandom C tpm n w)"
| "perform C gen tpm (Call_GetCapability cap p n) w = snd (GetCapability C tpm cap p n w)"
| "perform C gen tpm (Call_PCRRead sel) w = snd (PCRRead C tpm sel w)"
| "perform C gen tpm (Call_PCRExtend pcr h d) w = snd (PCRExtend C tpm pcr h d w)"
| "perform C gen tpm Call_GetPCRBanks w = snd (GetPCRBanks C tpm w)"
| "perform C gen tpm (Call_GetTPMProperties p n) w = snd (GetTPMProperties C tpm p n w)"
| "perform C gen tpm Call_GetManufacturer w = snd (GetManufacturer C tpm w)"
| "perform C gen tpm (Call_GetAlgorithms a n) w = snd (GetAlgorithms C tpm a n w)"
| "perform C gen tpm (Call_GetHandles h n) w = snd (GetHandles C tpm h n w)"
| "perform C gen tpm (Call_NVDefineSpace pub) w = snd (NVDefineSpace C tpm pub w)"
| "perform C gen tpm (Call_NVUndefineSpace ix) w = snd (NVUndefineSpace C tpm ix w)"
| "perform C gen tpm (Call_NVWrite ix d off) w = snd (NVWrite C tpm ix d off w)"
| "perform C gen tpm (Call_NVRead ix n off) w = snd (NVRead C tpm ix n off w)"
| "perform C gen tpm (Call_NVReadPublic ix) w = snd (NVReadPublic C tpm ix w)"
| "perform C gen tpm Call_CreatePrimary w = snd (CreatePrimary C tpm w)"
| "perform C gen tpm Call_CreatePrimaryPublic w = snd (CreatePrimaryPublic C tpm w)"
| "perform C gen tpm (Call_Quote key data sel) w = snd (Quote C tpm key data sel w)"
| "perform C gen tpm Call_CreateEK w = snd (CreateEK C tpm w)"
| "perform C gen tpm Call_CreateStoragePrimary w = snd (CreateStoragePrimary C tpm w)"
| "perform C gen tpm (Call_Create parent secret policy) w = snd (Create C tpm parent secret policy w)"
| "perform C gen tpm (Call_Load parent priv pub) w = snd (Load C tpm parent priv pub w)"
| "perform C gen tpm (Call_StartAuthSession nonce) w = snd (StartAuthSession C tpm nonce w)"
| "perform C gen tpm (Call_PolicyPCR session sel) w = snd (PolicyPCR C tpm session sel w)"
| "perform C gen tpm (Call_PolicyGetDigest session) w = snd (PolicyGetDigest C tpm session w)"
| "perform C gen tpm (Call_Unseal item session) w = snd (Unseal C tpm item session w)"
| "perform C gen tpm (Call_SealToPCR parent secret sel vals) w = snd (SealToPCR C tpm parent secret sel vals w)"
| "perform C gen tpm (Call_UnsealWithPCR parent priv pub sel nonce) w =
     snd (UnsealWithPCR C tpm parent priv pub sel nonce w)"
| "perform C gen tpm (Call_PolicySecret h session) w = snd (PolicySecret C tpm h session w)"
| "perform C gen tpm (Call_ActivateCredential ak ek session blob secret) w =
     snd (ActivateCredential C tpm ak ek session blob secret w)"
| "perform C gen tpm (Call_ActivateAKWithEK ak ek akPub ekPub credential nonce) w =
     snd (ActivateAKWithEK C gen tpm ak ek akPub ekPub credential nonce w)"
| "perform C gen tpm (Call_Import parent pub dup seed) w = snd (Import C tpm parent pub dup seed w)"
| "perform C gen tpm (Call_ImportAndUnseal parent pub dup seed sel nonce) w =
     snd (ImportAndUnseal C tpm parent pub dup seed sel nonce w)"

text \<open>The commands a call runs at most: one, but for the flows.\<close>

fun commands_of :: "call \<Rightarrow> nat" where
  "commands_of (Call_UnsealWithPCR parent priv pub sel nonce) = 4"
| "commands_of (Call_ActivateAKWithEK ak ek akPub ekPub credential nonce) = 3"
| "commands_of (Call_ImportAndUnseal parent pub dup seed sel nonce) = 5"
| "commands_of c = 1"

inductive client :: "codec \<Rightarrow> 'r keygen \<Rightarrow> 's TPM \<Rightarrow> ('s, 'r) world \<Rightarrow> call list \<Rightarrow> ('s, 'r) world \<Rightarrow> bool"
  for C :: codec and gen :: "'r keygen" and tpm :: "'s TPM" and w0 :: "('s, 'r) world" where
  client_start: "client C gen tpm w0 [] w0"
| client_call: "client C gen tpm w0 calls w \<Longrightarrow> client C gen tpm w0 (calls @ [c]) (perform C gen tpm c w)"

inductive_cases client_NilE: "client C gen tpm w0 [] w"

section \<open>Each call runs its commands\<close>

lemma starter_runs:
  "runs C tpm 1 (Startup C tpm su)" "runs C tpm 1 (Shutdown C tpm su)" "runs C tpm 1 (SelfTest C tpm full)"
  "runs C tpm 1 (GetRandom C tpm n)" "runs C tpm 1 (GetCapability C tpm cap property count)"
  "runs C tpm 1 (PCRRead C tpm sel)" "runs C tpm 1 (PCRExtend C tpm pcr hash digest)"
  by (rule startup.runs_one shutdown.runs_one selftest.runs_one getrandom.runs_one getcap.runs_one
      pcrread.runs_one pcrextend.runs_one, simp)+

lemma capability_runs:
  "runs C tpm 1 (GetPCRBanks C tpm)" "runs C tpm 1 (GetTPMProperties C tpm first count)"
  "runs C tpm 1 (GetManufacturer C tpm)" "runs C tpm 1 (GetAlgorithms C tpm first count)"
  "runs C tpm 1 (GetHandles C tpm first count)"
  by (rule getbanks.runs_one getproperties.runs_one getmanufacturer.runs_one getalgorithms.runs_one
      gethandles.runs_one, simp)+

lemma nv_runs:
  "runs C tpm 1 (NVDefineSpace C tpm pub)" "runs C tpm 1 (NVUndefineSpace C tpm ix)"
  "runs C tpm 1 (NVWrite C tpm ix data offset)" "runs C tpm 1 (NVRead C tpm ix sz offset)"
  "runs C tpm 1 (NVReadPublic C tpm ix)"
  by (rule nvdefine.runs_one nvundefine.runs_one nvwrite.runs_one nvread.runs_one nvreadpublic.runs_one, simp)+

lemma attest_runs:
  "runs C tpm 1 (CreatePrimary C tpm)" "runs C tpm 1 (CreatePrimaryPublic C tpm)"
  "runs C tpm 1 (Quote C tpm key data sel)" "runs C tpm 1 (CreateEK C tpm)"
  by (rule createprimary.runs_one createprimarypublic.runs_one quote.runs_one createek.runs_one, simp)+

lemma seal_runs:
  "runs C tpm 1 (CreateStoragePrimaryPub C tpm)" "runs C tpm 1 (Create C tpm parent secret policy)"
  "runs C tpm 1 (Load C tpm parent priv pub)" "runs C tpm 1 (StartAuthSession C tpm nonce)"
  "runs C tpm 1 (PolicyPCR C tpm session sel)" "runs C tpm 1 (PolicyGetDigest C tpm session)"
  "runs C tpm 1 (Unseal C tpm item session)"
  by (rule createstorage.runs_one create.runs_one load.runs_one startsession.runs_one policypcr.runs_one
      policydigest.runs_one unseal.runs_one, simp)+

lemma activate_runs:
  "runs C tpm 1 (PolicySecret C tpm handle session)"
  "runs C tpm 1 (ActivateCredential C tpm ak ek session blob secret)"
  "runs C tpm 1 (Import C tpm parent public dup seed)"
  by (rule policysecret.runs_one activate.runs_one importcall.runs_one, simp)+

text \<open>The flows: the sum of their commands. What they compute between them leaves the device alone.\<close>

lemma runs_make_credential: "runs C tpm 0 (make_credential_cmd C gen ek name credential)"
  unfolding runs_def make_credential_cmd_def
  by (auto simp: Let_def split: prod.split intro!: exI [of _ "[]"] bounded_trace_Nil)

lemma runs_then: "runs C tpm j m \<Longrightarrow> (\<And>a. runs C tpm k (f a)) \<Longrightarrow> n = j + k \<Longrightarrow> runs C tpm n (tbind m f)"
  using runs_tbind by blast

lemma flow_runs:
  "runs C tpm 1 (CreateStoragePrimary C tpm)" "runs C tpm 1 (SealToPCR C tpm parent secret sel vals)"
  "runs C tpm 4 (UnsealWithPCR C tpm parent priv pub sel nonce)"
  "runs C tpm 3 (ActivateAKWithEK C gen tpm ak ek akPub ekPub credential nonce)"
  "runs C tpm 5 (ImportAndUnseal C tpm parent pub dup seed sel nonce)"
proof -
  show "runs C tpm 1 (CreateStoragePrimary C tpm)" "runs C tpm 1 (SealToPCR C tpm parent secret sel vals)"
    unfolding CreateStoragePrimary_def [abs_def] SealToPCR_def [abs_def] Let_def
    by (rule runs_then [OF _ runs_pair [OF runs_lift [where k = 0]]], rule seal_runs, simp)+
  have unseal: "runs C tpm 3 (tbind (StartAuthSession C tpm nonce) (\<lambda>(session, _).
      tbind (PolicyPCR C tpm session sel) (\<lambda>_. Unseal C tpm item session)))" for item
    by (rule runs_then [OF seal_runs(4) runs_pair [where k = 2]], rule runs_then [OF seal_runs(5) seal_runs(7)])
      simp_all
  show import: "runs C tpm 4 (UnsealWithPCR C tpm parent priv pub sel nonce)" for parent priv pub sel nonce
    unfolding UnsealWithPCR_def [abs_def]
    by (rule runs_then [OF seal_runs(3)], rule runs_then [OF seal_runs(4) runs_pair [where k = 2]],
        rule runs_then [OF seal_runs(5) seal_runs(7)]) simp_all
  show "runs C tpm 3 (ActivateAKWithEK C gen tpm ak ek akPub ekPub credential nonce)"
    unfolding ActivateAKWithEK_def [abs_def]
    by (rule runs_then [OF runs_lift [where k = 0]], rule runs_then [OF runs_lift [where k = 0]],
        rule runs_then [OF runs_make_credential], rule runs_then [OF seal_runs(4) runs_pair [where k = 2]],
        rule runs_then [OF activate_runs(1) activate_runs(2)]) simp_all
  have flow: "ImportAndUnseal C tpm parent pub dup seed sel nonce =
      tbind (Import C tpm parent pub dup seed) (\<lambda>priv. UnsealWithPCR C tpm parent priv pub sel nonce)"
    by (rule ext) (simp add: ImportAndUnseal_def UnsealWithPCR_def)
  show "runs C tpm 5 (ImportAndUnseal C tpm parent pub dup seed sel nonce)"
    unfolding flow by (rule runs_then [OF activate_runs(3) import]) simp
qed

lemma runs_forget: "runs C tpm k m \<Longrightarrow> runs C tpm k (\<lambda>w. (Inr (), snd (m w)))"
  by (simp add: runs_def)

lemma perform_runs: "runs C tpm (commands_of c) (\<lambda>w. (Inr (), perform C gen tpm c w))"
  by (cases c; simp only: perform.simps commands_of.simps; rule runs_forget;
      rule starter_runs capability_runs nv_runs attest_runs seal_runs activate_runs flow_runs)

section \<open>Property\<close>



end
