(* ===== verification/Ref_Tpm.thy ===== *)
theory Ref_Tpm
  imports Duplication Activate Nv Verify
begin

text \<open>
  An abstract TPM for the commands of the PCR, NV, quote, sealing, import and activation flows: its state, the meaning of
  each command on the state, and the reading of a command frame. It specifies what the bytes of the package
  mean to a TPM, independently of the code that marshals them, so that the flows can be run end to end
  without a hypothesis about the device. It leaves out what the package cannot see: the encryption of
  private areas, the authorisation of the owner, and the limit of eight digests per answer of
  \<open>TPM2_PCR_Read\<close>.
\<close>

unbundle bit_operations_syntax

section \<open>State and commands\<close>

record nv_area =
  area_size :: nat
  area_data :: "bytes option"

record ref_tpm =
  bank :: "nat \<Rightarrow> bytes"
  nvs :: "nat \<Rightarrow> nv_area option"
  sessions :: "nat \<Rightarrow> bytes option"
  objects :: "nat \<Rightarrow> (bytes \<times> bytes) option"
  fresh :: nat
  srk_key :: "nat \<times> nat"
  ek_key :: "nat \<times> nat"
  names :: "nat \<Rightarrow> bytes option"
  signers :: "nat \<Rightarrow> (bytes \<times> (bytes \<Rightarrow> bytes \<times> bytes)) option"
  tpm_clock :: bytes

text \<open>
  The storage key and the Endorsement Key are given by their private scalar and the abscissa of their
  public point; \<open>names\<close> are the Names of the loaded Attestation Keys. A key that signs has its qualified
  name and the signature, as a pair of byte strings, of every attestation.
\<close>

datatype ref_cmd =
    PCR_Extend nat nat bytes
  | PCR_Read bytes
  | NV_Define nat nat
  | NV_Undefine nat
  | NV_Write nat bytes nat
  | NV_Read nat nat nat
  | Start_Session
  | Policy_PCR nat bytes
  | Seal_Create bytes bytes
  | Seal_Load bytes bytes
  | Seal_Unseal nat nat
  | Seal_Import bytes bytes bytes
  | Policy_Secret nat nat bytes
  | Activate_Credential nat nat bytes bytes
  | Quote_PCRs nat bytes bytes

section \<open>Selections, as the TPM reads them\<close>

definition indices :: "bytes \<Rightarrow> nat list" where
  "indices bm = filter (\<lambda>k. bit (bm ! (k div 8)) (k mod 8)) [0..<length bm * 8]"

fun ref_entries :: "nat \<Rightarrow> bytes \<Rightarrow> (nat \<times> bytes) list" where
  "ref_entries 0 b = []"
| "ref_entries (Suc n) b =
     (let len = unat (b ! 2)
      in (be_nat (take 2 b), take len (drop 3 b)) # ref_entries n (drop (3 + len) b))"

text \<open>The selected PCRs of the SHA-256 bank, in the order of the entries.\<close>

definition ref_selected :: "bytes \<Rightarrow> nat list" where
  "ref_selected raw =
     concat (map (\<lambda>(alg, bm). if alg = 0xB then indices bm else []) (ref_entries (be_nat (take 4 raw)) (drop 4 raw)))"

section \<open>The meaning of a command\<close>

text \<open>A response code, or the handles and the parameters of the answer.\<close>

type_synonym ref_result = "nat + bytes \<times> bytes"

definition nv_write :: "(nat \<Rightarrow> nv_area option) \<Rightarrow> nat \<Rightarrow> bytes \<Rightarrow> nat \<Rightarrow> nat + (nat \<Rightarrow> nv_area option)" where
  "nv_write st ix d off =
     (case st ix of
        None \<Rightarrow> Inl 0x18B
      | Some a \<Rightarrow>
          if area_size a < off + length d then Inl 0x146
          else let old = (case area_data a of None \<Rightarrow> replicate (area_size a) 0xFF | Some x \<Rightarrow> x)
               in Inr (st(ix \<mapsto> a\<lparr>area_data := Some (take off old @ d @ drop (off + length d) old)\<rparr>)))"

definition nv_read :: "(nat \<Rightarrow> nv_area option) \<Rightarrow> nat \<Rightarrow> nat \<Rightarrow> nat \<Rightarrow> nat + bytes" where
  "nv_read st ix n off =
     (case st ix of
        None \<Rightarrow> Inl 0x18B
      | Some a \<Rightarrow> (case area_data a of
            None \<Rightarrow> Inl 0x14A
          | Some x \<Rightarrow> if area_size a < off + n then Inl 0x146 else Inr (take n (drop off x))))"

definition nv_define :: "(nat \<Rightarrow> nv_area option) \<Rightarrow> nat \<Rightarrow> nat \<Rightarrow> nat + (nat \<Rightarrow> nv_area option)" where
  "nv_define st ix sz =
     (if st ix \<noteq> None then Inl 0x14C else Inr (st(ix \<mapsto> \<lparr>area_size = sz, area_data = None\<rparr>)))"

definition nv_undefine :: "(nat \<Rightarrow> nv_area option) \<Rightarrow> nat \<Rightarrow> nat + (nat \<Rightarrow> nv_area option)" where
  "nv_undefine st ix = (if st ix = None then Inl 0x18B else Inr (st(ix := None)))"

text \<open>The digest of the current values of the selected PCRs, and the policy step of \<open>PolicyPCR\<close>.\<close>

definition current :: "(nat \<Rightarrow> bytes) \<Rightarrow> bytes \<Rightarrow> bytes list" where
  "current b raw = map b (ref_selected raw)"

definition policy_step :: "bytes \<Rightarrow> bytes \<Rightarrow> bytes list \<Rightarrow> bytes" where
  "policy_step d raw vals = sha256 (d @ [0x00, 0x00, 0x01, 0x7F] @ raw @ sha256 (concat vals))"

text \<open>The policy step of \<open>PolicySecret\<close>, for an entity whose Name is its handle.\<close>

definition secret_step :: "bytes \<Rightarrow> nat \<Rightarrow> bytes \<Rightarrow> bytes" where
  "secret_step d entity policyRef =
     sha256 (sha256 (d @ [0x00, 0x00, 0x01, 0x51] @ be_bytes 4 entity) @ policyRef)"

text \<open>The attestation of the selected values, under the name of the signer.\<close>

definition ref_attest :: "bytes \<Rightarrow> bytes \<Rightarrow> bytes \<Rightarrow> bytes \<Rightarrow> bytes list \<Rightarrow> bytes" where
  "ref_attest signer nonce clk raw vals =
     [0xFF, 0x54, 0x43, 0x47] @ [0x80, 0x18] @ tpm2b signer @ tpm2b nonce @ clk @ raw @ tpm2b (sha256 (concat vals))"

text \<open>Private areas in the clear: the secret. Public areas: the policy is behind eight bytes.\<close>

definition policy_of :: "bytes \<Rightarrow> bytes" where
  "policy_of public = (case split_tpm2b (drop 8 public) of Some (p, _) \<Rightarrow> p | None \<Rightarrow> [])"

definition store_nv :: "ref_tpm \<Rightarrow> nat + (nat \<Rightarrow> nv_area option) \<Rightarrow> ref_result \<times> ref_tpm" where
  "store_nv s r = (case r of Inl rc \<Rightarrow> (Inl rc, s) | Inr st \<Rightarrow> (Inr ([], []), s\<lparr>nvs := st\<rparr>))"

fun ref_exec :: "ref_cmd \<Rightarrow> ref_tpm \<Rightarrow> ref_result \<times> ref_tpm" where
  "ref_exec (PCR_Extend pcr alg d) s =
     (if pcr < 24 \<and> alg = 0xB \<and> length d = 32
      then (Inr ([], []), s\<lparr>bank := (bank s)(pcr := sha256 (bank s pcr @ d))\<rparr>)
      else (Inl 0x84, s))"
| "ref_exec (PCR_Read raw) s =
     (Inr ([], be_bytes 4 (fresh s mod 0x100000000) @ raw @ digest_list (current (bank s) raw)), s)"
| "ref_exec (NV_Define ix sz) s = store_nv s (nv_define (nvs s) ix sz)"
| "ref_exec (NV_Undefine ix) s = store_nv s (nv_undefine (nvs s) ix)"
| "ref_exec (NV_Write ix d off) s = store_nv s (nv_write (nvs s) ix d off)"
| "ref_exec (NV_Read ix n off) s =
     (case nv_read (nvs s) ix n off of Inl rc \<Rightarrow> (Inl rc, s) | Inr d \<Rightarrow> (Inr ([], tpm2b d), s))"
| "ref_exec Start_Session s =
     (let h = 0x03000000 + fresh s mod 0x10000
      in (Inr (be_bytes 4 h, tpm2b (replicate 16 0)),
          s\<lparr>sessions := (sessions s)(h \<mapsto> replicate 32 0), fresh := Suc (fresh s)\<rparr>))"
| "ref_exec (Policy_PCR h raw) s =
     (case sessions s h of
        None \<Rightarrow> (Inl 0x18B, s)
      | Some d \<Rightarrow> (Inr ([], []),
          s\<lparr>sessions := (sessions s)(h \<mapsto> policy_step d raw (current (bank s) raw))\<rparr>))"
| "ref_exec (Seal_Create secret public) s =
     (Inr ([], tpm2b secret @ tpm2b public @ tpm2b [] @ tpm2b []), s)"
| "ref_exec (Seal_Load priv public) s =
     (let h = 0x80000000 + fresh s mod 0x10000
      in (Inr (be_bytes 4 h, tpm2b []),
          s\<lparr>objects := (objects s)(h \<mapsto> (policy_of public, priv)), fresh := Suc (fresh s)\<rparr>))"
| "ref_exec (Seal_Unseal item h) s =
     (case objects s item of
        None \<Rightarrow> (Inl 0x18B, s)
      | Some (policy, secret) \<Rightarrow>
          if sessions s h = Some policy then (Inr ([], tpm2b secret), s) else (Inl 0x99D, s))"
| "ref_exec (Seal_Import public dup seed) s =
     (case tpm_import (fst (srk_key s)) (snd (srk_key s)) public (tpm2b dup) (tpm2b seed) of
        None \<Rightarrow> (Inl 0x3DF, s)
      | Some (policy, secret) \<Rightarrow> (Inr ([], tpm2b secret), s))"
| "ref_exec (Policy_Secret entity h policyRef) s =
     (case sessions s h of
        None \<Rightarrow> (Inl 0x18B, s)
      | Some d \<Rightarrow> (Inr ([], tpm2b [] @ [0x80, 0x23] @ be_bytes 4 0x40000007 @ tpm2b []),
          s\<lparr>sessions := (sessions s)(h \<mapsto> secret_step d entity policyRef)\<rparr>))"
| "ref_exec (Activate_Credential ak h blob secret) s =
     (if sessions s h \<noteq> Some ekAuthPolicy then (Inl 0x99D, s)
      else case names s ak of
        None \<Rightarrow> (Inl 0x18B, s)
      | Some name \<Rightarrow>
          (case tpm_activate (fst (ek_key s)) (snd (ek_key s)) name (tpm2b blob) (tpm2b secret) of
             None \<Rightarrow> (Inl 0x2DF, s)
           | Some c \<Rightarrow> (Inr ([], tpm2b c), s)))"
| "ref_exec (Quote_PCRs key nonce raw) s =
     (case signers s key of
        None \<Rightarrow> (Inl 0x18B, s)
      | Some (signer, sign) \<Rightarrow>
          (let att = ref_attest signer nonce (tpm_clock s) raw (current (bank s) raw)
           in (Inr ([], tpm2b att @ [0, 0x18] @ [0, 0x0B] @ tpm2b (fst (sign att)) @ tpm2b (snd (sign att))), s)))"

section \<open>Reading a frame\<close>

definition u16_of :: "bytes \<Rightarrow> nat" where "u16_of b = be_nat (take 2 b)"
definition u32_of :: "bytes \<Rightarrow> nat" where "u32_of b = be_nat (take 4 b)"

text \<open>An authorisation area at the front of a buffer: its contents, and what follows it.\<close>

definition auth_of :: "bytes \<Rightarrow> bytes" where "auth_of b = take (u32_of b) (drop 4 b)"
definition after_auth :: "bytes \<Rightarrow> bytes" where "after_auth b = drop (4 + u32_of b) b"

definition parse_define :: "bytes \<Rightarrow> ref_cmd option" where
  "parse_define b =
     Option.bind (split_tpm2b (after_auth (drop 4 b))) (\<lambda>(_, r).
     Option.bind (split_tpm2b r) (\<lambda>(p, _).
     map_option (\<lambda>(_, q). NV_Define (u32_of p) (u16_of q)) (split_tpm2b (drop 10 p))))"

definition parse_write :: "bytes \<Rightarrow> ref_cmd option" where
  "parse_write b =
     map_option (\<lambda>(d, r). NV_Write (u32_of (drop 4 b)) d (u16_of r)) (split_tpm2b (after_auth (drop 8 b)))"

definition parse_create :: "bytes \<Rightarrow> ref_cmd option" where
  "parse_create b =
     Option.bind (split_tpm2b (after_auth (drop 4 b))) (\<lambda>(sens, r).
     Option.bind (split_tpm2b sens) (\<lambda>(_, q).
     Option.bind (split_tpm2b q) (\<lambda>(secret, _).
     map_option (\<lambda>(public, _). Seal_Create secret public) (split_tpm2b r))))"

definition parse_load :: "bytes \<Rightarrow> ref_cmd option" where
  "parse_load b =
     Option.bind (split_tpm2b (after_auth (drop 4 b))) (\<lambda>(priv, r).
     map_option (\<lambda>(public, _). Seal_Load priv public) (split_tpm2b r))"

definition parse_import :: "bytes \<Rightarrow> ref_cmd option" where
  "parse_import b =
     Option.bind (split_tpm2b (after_auth (drop 4 b))) (\<lambda>(_, r).
     Option.bind (split_tpm2b r) (\<lambda>(public, r).
     Option.bind (split_tpm2b r) (\<lambda>(dup, r).
     map_option (\<lambda>(seed, _). Seal_Import public dup seed) (split_tpm2b r))))"

definition parse_policy_secret :: "bytes \<Rightarrow> ref_cmd option" where
  "parse_policy_secret b =
     Option.bind (split_tpm2b (after_auth (drop 8 b))) (\<lambda>(_, r).
     Option.bind (split_tpm2b r) (\<lambda>(_, r).
     map_option (\<lambda>(policyRef, _). Policy_Secret (u32_of b) (u32_of (drop 4 b)) policyRef) (split_tpm2b r)))"

text \<open>The authorisation area of \<open>ActivateCredential\<close> has two sessions; the second is the policy session.\<close>

definition parse_activate :: "bytes \<Rightarrow> ref_cmd option" where
  "parse_activate b =
     Option.bind (split_tpm2b (after_auth (drop 8 b))) (\<lambda>(blob, r).
     map_option (\<lambda>(secret, _). Activate_Credential (u32_of b) (u32_of (drop 9 (auth_of (drop 8 b)))) blob secret)
       (split_tpm2b r))"

definition parse_quote :: "bytes \<Rightarrow> ref_cmd option" where
  "parse_quote b =
     Option.bind (split_tpm2b (after_auth (drop 4 b))) (\<lambda>(nonce, r).
       if u16_of r = 0x10 then Some (Quote_PCRs (u32_of b) nonce (drop 2 r)) else None)"

definition parse_body :: "bool \<Rightarrow> nat \<Rightarrow> bytes \<Rightarrow> ref_cmd option" where
  "parse_body auth cc b =
     (if auth then
        if cc = 0x182 then
          (let r = after_auth (drop 4 b)
           in if u32_of r = 1 then Some (PCR_Extend (u32_of b) (u16_of (drop 4 r)) (drop 6 r)) else None)
        else if cc = 0x12A then parse_define b
        else if cc = 0x122 then Some (NV_Undefine (u32_of (drop 4 b)))
        else if cc = 0x137 then parse_write b
        else if cc = 0x14E then
          (let r = after_auth (drop 8 b) in Some (NV_Read (u32_of (drop 4 b)) (u16_of r) (u16_of (drop 2 r))))
        else if cc = 0x153 then parse_create b
        else if cc = 0x157 then parse_load b
        else if cc = 0x156 then parse_import b
        else if cc = 0x151 then parse_policy_secret b
        else if cc = 0x147 then parse_activate b
        else if cc = 0x158 then parse_quote b
        else if cc = 0x15E then Some (Seal_Unseal (u32_of b) (u32_of (auth_of (drop 4 b))))
        else None
      else if cc = 0x17E then Some (PCR_Read b)
      else if cc = 0x176 then Some Start_Session
      else if cc = 0x17F then
        map_option (\<lambda>(_, raw). Policy_PCR (u32_of b) raw) (split_tpm2b (drop 4 b))
      else None)"

text \<open>A frame is read when its size field is its length and its tag is one of the two.\<close>

definition ref_parse :: "bytes \<Rightarrow> (bool \<times> ref_cmd) option" where
  "ref_parse f =
     (if length f < 10 \<or> u32_of (drop 2 f) \<noteq> length f \<or> u16_of f \<notin> {0x8001, 0x8002} then None
      else map_option (Pair (u16_of f = 0x8002)) (parse_body (u16_of f = 0x8002) (u32_of (drop 6 f)) (drop 10 f)))"

definition ref_answer :: "bool \<Rightarrow> ref_result \<Rightarrow> bytes" where
  "ref_answer auth r =
     (case r of
        Inl rc \<Rightarrow> frame 0x8001 (of_nat rc) []
      | Inr (handles, params) \<Rightarrow>
          if auth then frame 0x8002 0 (handles @ be_bytes 4 (length params) @ params @ [0, 0, 1, 0, 0])
          else frame 0x8001 0 (handles @ params))"

text \<open>A frame that is not read is answered with \<open>TPM_RC_COMMAND_CODE\<close>.\<close>

definition ref_send :: "ref_tpm \<Rightarrow> bytes \<Rightarrow> bytes res \<times> ref_tpm" where
  "ref_send s f =
     (case ref_parse f of
        None \<Rightarrow> (Inr (frame 0x8001 0x143 []), s)
      | Some (auth, c) \<Rightarrow> (let (r, s') = ref_exec c s in (Inr (ref_answer auth r), s')))"

section \<open>What the package's frames mean\<close>

lemma u32_of_be [simp]:
  "v < 4294967296 \<Longrightarrow> u32_of (be_bytes 4 v @ r) = v" "u32_of (be_bytes 4 (unat (x :: u32)) @ r) = unat x"
  "v < 4294967296 \<Longrightarrow> u32_of (be_bytes 4 v) = v"
  by (simp_all add: u32_of_def)

lemma u16_of_be [simp]: "u16_of (be_bytes 2 (unat (x :: u16)) @ r) = unat x" "u16_of (be_bytes 2 (unat x)) = unat x"
  by (simp_all add: u16_of_def)

lemma auth_area [simp]:
  "length a < 4294967296 \<Longrightarrow> auth_of (be_bytes 4 (length a) @ a @ r) = a"
  "length a < 4294967296 \<Longrightarrow> after_auth (be_bytes 4 (length a) @ a @ r) = r"
  by (simp_all add: auth_of_def after_auth_def)

lemma ref_parse_frame:
  assumes "length params < 4294967286"
  shows "ref_parse (frame 0x8001 cc params) = map_option (Pair False) (parse_body False (unat cc) params)"
    "ref_parse (frame 0x8002 cc params) = map_option (Pair True) (parse_body True (unat cc) params)"
proof -
  have tag: "u16_of (frame t cc params) = unat t" for t by (simp add: frame_def)
  have sz: "u32_of (drop 2 (frame t cc params)) = length params + 10" for t
    using assms by (simp add: frame_def)
  have code: "u32_of (drop 6 (frame t cc params)) = unat cc" for t by (simp add: frame_def)
  have body: "drop 10 (frame t cc params) = params" for t by (simp add: frame_def)
  show "ref_parse (frame 0x8001 cc params) = map_option (Pair False) (parse_body False (unat cc) params)"
    "ref_parse (frame 0x8002 cc params) = map_option (Pair True) (parse_body True (unat cc) params)"
    by (simp_all add: ref_parse_def tag sz code body)
qed

text \<open>The authorisation areas of the package.\<close>

lemma auth_area_9 [simp]:
  "after_auth ([0, 0, 0, 9] @ password_auth @ r) = r" "after_auth (be_bytes 4 9 @ password_auth @ r) = r"
  "after_auth (owner_auth @ r) = r" "auth_of ([0, 0, 0, 9] @ session_auth h) = session_auth h"
proof -
  have nine: "[0, 0, 0, 9] = be_bytes 4 (length password_auth)" by (simp add: be_eval)
  show "after_auth ([0, 0, 0, 9] @ password_auth @ r) = r" unfolding nine by (rule auth_area) simp
  then show "after_auth (be_bytes 4 9 @ password_auth @ r) = r" by (simp add: be_eval)
  then show "after_auth (owner_auth @ r) = r" by (simp add: owner_auth_def)
  have nine: "[0, 0, 0, 9] = be_bytes 4 (length (session_auth h))" by (simp add: be_eval)
  show "auth_of ([0, 0, 0, 9] @ session_auth h) = session_auth h"
    unfolding nine using auth_area(1) [of "session_auth h" "[]"] by simp
qed

context byte_codec
begin

lemma parsed_pcr:
  "pcr < 4294967296 \<Longrightarrow> parse_body True 0x182 (PCRExtend_body C (int pcr) hash digest) =
     Some (PCR_Extend pcr (unat hash) digest)"
proof -
  assume "pcr < 4294967296"
  then have "unat (of_int (int pcr) :: u32) = pcr" by (simp add: unat_of_nat)
  then show ?thesis
    using \<open>pcr < 4294967296\<close> unfolding PCRExtend_body_eq by (simp add: parse_body_def Let_def)
qed

lemma parsed_nv:
  "length (AuthPolicy pub) < 65522 \<Longrightarrow> parse_body True 0x12A (NVDefineSpace_body C pub) =
     Some (NV_Define (unat (Index pub)) (unat (DataSize pub)))"
  "parse_body True 0x122 (NVUndefineSpace_body C ix) = Some (NV_Undefine (unat ix))"
  "length data < 65536 \<Longrightarrow> parse_body True 0x137 (NVWrite_body C ix data off) =
     Some (NV_Write (unat ix) data (unat off))"
  "parse_body True 0x14E (NVRead_body C ix sz off) = Some (NV_Read (unat ix) (unat sz) (unat off))"
proof -
  have empty: "[0, 0] = tpm2b []" by (simp add: tpm2b_def be_eval)
  have fields: "u32_of (nv_public_bytes pub) = unat (Index pub)"
    "drop 10 (nv_public_bytes pub) = tpm2b (AuthPolicy pub) @ be_bytes 2 (unat (DataSize pub))"
    by (simp_all add: nv_public_bytes_def)
  show "length (AuthPolicy pub) < 65522 \<Longrightarrow> parse_body True 0x12A (NVDefineSpace_body C pub) =
     Some (NV_Define (unat (Index pub)) (unat (DataSize pub)))"
    by (simp add: nv_bodies parse_body_def parse_define_def marshalNVPublic_eq fields empty del: append_Cons)
  show "parse_body True 0x122 (NVUndefineSpace_body C ix) = Some (NV_Undefine (unat ix))"
    "length data < 65536 \<Longrightarrow> parse_body True 0x137 (NVWrite_body C ix data off) =
     Some (NV_Write (unat ix) data (unat off))"
    "parse_body True 0x14E (NVRead_body C ix sz off) = Some (NV_Read (unat ix) (unat sz) (unat off))"
    by (simp_all add: nv_bodies parse_body_def parse_write_def Let_def)
qed

lemma parsed_seal:
  "length secret < 65500 \<Longrightarrow> length policy < 65500 \<Longrightarrow>
     parse_body True 0x153 (Create_body C parent secret policy) = Some (Seal_Create secret (seal_public_bytes policy))"
  "length priv < 65536 \<Longrightarrow> length pub < 65536 \<Longrightarrow>
     parse_body True 0x157 (Load_body C parent priv pub) = Some (Seal_Load priv pub)"
  "parse_body True 0x15E (Unseal_body C item session) = Some (Seal_Unseal (unat item) (unat session))"
  "parse_body False 0x176 (StartAuthSession_body C nonce) = Some Start_Session"
  "length sel < 4294967296 \<Longrightarrow>
     parse_body False 0x17F (PolicyPCR_body C session sel) = Some (Policy_PCR (unat session) (selection_list_bytes sel))"
  "length sel < 4294967296 \<Longrightarrow>
     parse_body False 0x17E (marshalPCRSelectionList C sel) = Some (PCR_Read (selection_list_bytes sel))"
proof -
  have empty: "[0, 0] = tpm2b []" by (simp add: tpm2b_def be_eval)
  have session: "u32_of (session_auth session) = unat session" by (simp add: session_auth_def)
  show "length secret < 65500 \<Longrightarrow> length policy < 65500 \<Longrightarrow>
     parse_body True 0x153 (Create_body C parent secret policy) = Some (Seal_Create secret (seal_public_bytes policy))"
    by (simp add: seal_bodies parse_body_def parse_create_def seal_public_bytes_def empty del: append_Cons)
  show "length priv < 65536 \<Longrightarrow> length pub < 65536 \<Longrightarrow>
     parse_body True 0x157 (Load_body C parent priv pub) = Some (Seal_Load priv pub)"
    by (simp add: seal_bodies parse_body_def parse_load_def del: append_Cons)
  show "parse_body True 0x15E (Unseal_body C item session) = Some (Seal_Unseal (unat item) (unat session))"
    by (simp add: seal_bodies parse_body_def session del: append_Cons)
  show "parse_body False 0x176 (StartAuthSession_body C nonce) = Some Start_Session"
    by (simp add: parse_body_def)
  show "length sel < 4294967296 \<Longrightarrow>
     parse_body False 0x17F (PolicyPCR_body C session sel) = Some (Policy_PCR (unat session) (selection_list_bytes sel))"
    by (simp add: seal_bodies(5) marshal_selection_list parse_body_def empty del: append_Cons)
  show "length sel < 4294967296 \<Longrightarrow>
     parse_body False 0x17E (marshalPCRSelectionList C sel) = Some (PCR_Read (selection_list_bytes sel))"
    by (simp add: marshal_selection_list parse_body_def)
qed

lemma parsed_import:
  "length public < 65536 \<Longrightarrow> length dup < 65536 \<Longrightarrow> length seed < 65536 \<Longrightarrow>
   parse_body True 0x156 (Import_body C parent public (tpm2b dup) (tpm2b seed)) = Some (Seal_Import public dup seed)"
proof -
  have empty: "[0, 0] = tpm2b []" by (simp add: tpm2b_def be_eval)
  show "length public < 65536 \<Longrightarrow> length dup < 65536 \<Longrightarrow> length seed < 65536 \<Longrightarrow>
   parse_body True 0x156 (Import_body C parent public (tpm2b dup) (tpm2b seed)) = Some (Seal_Import public dup seed)"
    by (simp add: Import_body_eq parse_body_def parse_import_def empty del: append_Cons)
qed

lemma parsed_quote:
  "length nonce < 65536 \<Longrightarrow> length sel < 4294967296 \<Longrightarrow>
   parse_body True 0x158 (Quote_body C key nonce sel) = Some (Quote_PCRs (unat key) nonce (selection_list_bytes sel))"
proof -
  have null: "u16_of (be_bytes 2 0x10 @ r) = 0x10" for r by (simp add: u16_of_def)
  show "length nonce < 65536 \<Longrightarrow> length sel < 4294967296 \<Longrightarrow>
   parse_body True 0x158 (Quote_body C key nonce sel) = Some (Quote_PCRs (unat key) nonce (selection_list_bytes sel))"
    by (simp add: Quote_body_eq marshal_selection_list parse_body_def parse_quote_def null)
qed

lemma parsed_activation:
  "parse_body True 0x151 (PolicySecret_body C handle session) = Some (Policy_Secret (unat handle) (unat session) [])"
  "length blob < 65536 \<Longrightarrow> length secret < 65536 \<Longrightarrow>
   parse_body True 0x147 (ActivateCredential_body C ak ek session (tpm2b blob) (tpm2b secret)) =
     Some (Activate_Credential (unat ak) (unat session) blob secret)"
proof -
  have empty: "[0, 0] = tpm2b []" by (simp add: tpm2b_def be_eval)
  have session: "u32_of (session_auth session) = unat session" by (simp add: session_auth_def)
  have eighteen: "after_auth ([0, 0, 0, 18] @ password_auth @ session_auth session @ r) = r"
    "auth_of ([0, 0, 0, 18] @ password_auth @ session_auth session @ r) = password_auth @ session_auth session" for r
  proof -
    have area: "[0, 0, 0, 18] @ password_auth @ session_auth session @ r =
        be_bytes 4 (length (password_auth @ session_auth session)) @ (password_auth @ session_auth session) @ r"
      by (simp add: be_eval)
    show "after_auth ([0, 0, 0, 18] @ password_auth @ session_auth session @ r) = r"
      "auth_of ([0, 0, 0, 18] @ password_auth @ session_auth session @ r) = password_auth @ session_auth session"
      unfolding area by (rule auth_area; simp)+
  qed
  show "parse_body True 0x151 (PolicySecret_body C handle session) = Some (Policy_Secret (unat handle) (unat session) [])"
    by (simp add: activate_bodies parse_body_def parse_policy_secret_def empty del: append_Cons)
  show "length blob < 65536 \<Longrightarrow> length secret < 65536 \<Longrightarrow>
   parse_body True 0x147 (ActivateCredential_body C ak ek session (tpm2b blob) (tpm2b secret)) =
     Some (Activate_Credential (unat ak) (unat session) blob secret)"
    by (simp add: activate_bodies parse_body_def parse_activate_def eighteen session del: append_Cons)
qed

end

context wire_codec
begin

lemma ref_answers:
  assumes "ref_parse f = Some (auth, c)" and "ref_exec c s = (Inr (hs, p), s')"
    and "length hs + length p < 4294960000"
  shows "answers C (New ref_send) s f
    (if auth then hs @ be_bytes 4 (length p) @ p @ [0, 0, 1, 0, 0] else hs @ p) s'"
  using assms by (simp add: answers_def New_def ref_send_def ref_answer_def ParseResponse RCSuccess)

lemma ref_fails:
  assumes "ref_parse f = Some (auth, c)" and "ref_exec c s = (Inl rc, s')"
    and "(of_nat rc :: u32) \<noteq> 0" and "(of_nat rc :: u32) \<noteq> rcRetry"
  shows "fails_with C (New ref_send) cc s f (TPMError cc (of_nat rc)) s'"
  using assms
  by (simp add: fails_with_def New_def ref_send_def ref_answer_def ParseResponse RCSuccess reply_0 outcome_def busy_def)

text \<open>The frames of the methods, read by the TPM.\<close>

lemma framed:
  assumes "parse_body True (unat cc) params = Some c" and "length params < 4294967286"
  shows "ref_parse (BuildCommand C (TagSessions C) cc params) = Some (True, c)"
  using assms by (simp add: frames ref_parse_frame)

lemma framed_plain:
  assumes "parse_body False (unat cc) params = Some c" and "length params < 4294967286"
  shows "ref_parse (BuildCommand C (TagNoSessions C) cc params) = Some (False, c)"
  using assms by (simp add: frames ref_parse_frame)

end

section \<open>NV storage\<close>

text \<open>What a method without a result does, in the terms of the storage.\<close>

definition nv_effect ::
  "u32 \<Rightarrow> bytes \<Rightarrow> nat + (nat \<Rightarrow> nv_area option) \<Rightarrow> (ref_tpm, 'r) world \<Rightarrow> unit res \<times> (ref_tpm, 'r) world" where
  "nv_effect cc f r w =
     (case r of
        Inl rc \<Rightarrow> (Inl (TPMError cc (of_nat rc)), sent f (dev w) w)
      | Inr st \<Rightarrow> (Inr (), sent f ((dev w)\<lparr>nvs := st\<rparr>) w))"

lemma nv_codes:
  "nv_define st ix sz = Inl rc \<Longrightarrow> rc = 0x14C" "nv_undefine st ix = Inl rc \<Longrightarrow> rc = 0x18B"
  "nv_write st ix d off = Inl rc \<Longrightarrow> rc \<in> {0x18B, 0x146}"
  "nv_read st ix n off = Inl rc \<Longrightarrow> rc \<in> {0x18B, 0x14A, 0x146}"
  by (auto simp: nv_define_def nv_undefine_def nv_write_def nv_read_def Let_def split: if_splits option.splits)

text \<open>A method on the TPM: an answer, decoded, or an error code.\<close>

lemma on_ref:
  assumes "tpm_call C (New ref_send) tag cc params response run" and "wire_codec C"
    and "ref_parse (BuildCommand C tag cc params) = Some (auth, c)"
  shows "ref_exec c (dev w) = (Inr (hs, p), s') \<Longrightarrow> length hs + length p < 4294960000 \<Longrightarrow>
      run w = (response (if auth then hs @ be_bytes 4 (length p) @ p @ [0, 0, 1, 0, 0] else hs @ p),
        sent (BuildCommand C tag cc params) s' w)"
    and "ref_exec c (dev w) = (Inl rc, s') \<Longrightarrow> (of_nat rc :: u32) \<noteq> 0 \<Longrightarrow> (of_nat rc :: u32) \<noteq> rcRetry \<Longrightarrow>
      run w = (Inl (TPMError cc (of_nat rc)), sent (BuildCommand C tag cc params) s' w)"
  using tpm_call.answered [OF assms(1)] wire_codec.ref_answers [OF assms(2,3)]
    tpm_call.failed [OF assms(1)] wire_codec.ref_fails [OF assms(2,3)] by blast+

lemma nv_on_ref:
  assumes "tpm_call C (New ref_send) tag cc params (\<lambda>_. Inr ()) run" and "wire_codec C"
    and "ref_parse (BuildCommand C tag cc params) = Some (auth, c)"
    and "ref_exec c (dev w) = store_nv (dev w) r" and "\<And>rc. r = Inl rc \<Longrightarrow> rc \<in> {0x14C, 0x18B, 0x146}"
  shows "run w = nv_effect cc (BuildCommand C tag cc params) r w"
proof (cases r)
  case (Inl rc)
  then have "(of_nat rc :: u32) \<noteq> 0 \<and> (of_nat rc :: u32) \<noteq> rcRetry"
    using assms(5) by (auto simp: rcRetry_def)
  with on_ref(2) [OF assms(1-3)] show ?thesis using assms(4) Inl by (simp add: store_nv_def nv_effect_def)
next
  case (Inr st)
  with on_ref(1) [OF assms(1-3)] show ?thesis using assms(4) by (simp add: store_nv_def nv_effect_def)
qed

lemma nv_frames_read:
  assumes "wire_codec C"
  shows "length (AuthPolicy pub) < 65522 \<Longrightarrow>
      ref_parse (BuildCommand C (TagSessions C) ccNVDefineSpace (NVDefineSpace_body C pub))
        = Some (True, NV_Define (unat (Index pub)) (unat (DataSize pub)))"
    and "ref_parse (BuildCommand C (TagSessions C) ccNVUndefineSpace (NVUndefineSpace_body C ix))
        = Some (True, NV_Undefine (unat ix))"
    and "length data < 65536 \<Longrightarrow>
      ref_parse (BuildCommand C (TagSessions C) ccNVWrite (NVWrite_body C ix data off))
        = Some (True, NV_Write (unat ix) data (unat off))"
    and "ref_parse (BuildCommand C (TagSessions C) ccNVRead (NVRead_body C ix sz off))
        = Some (True, NV_Read (unat ix) (unat sz) (unat off))"
proof -
  note bc = wire_codec.axioms(1) [OF assms]
  note codes = ccNVDefineSpace_def ccNVUndefineSpace_def ccNVWrite_def ccNVRead_def
  have lengths: "length (AuthPolicy pub) < 65522 \<Longrightarrow> length (NVDefineSpace_body C pub) < 4294967286"
    "length (NVUndefineSpace_body C ix) < 4294967286"
    "length data < 65536 \<Longrightarrow> length (NVWrite_body C ix data off) < 4294967286"
    "length (NVRead_body C ix sz off) < 4294967286"
    by (simp_all add: byte_codec.nv_bodies [OF bc] byte_codec.marshalNVPublic_eq [OF bc])
  note parsed = byte_codec.parsed_nv [OF bc]
  show "length (AuthPolicy pub) < 65522 \<Longrightarrow>
      ref_parse (BuildCommand C (TagSessions C) ccNVDefineSpace (NVDefineSpace_body C pub))
        = Some (True, NV_Define (unat (Index pub)) (unat (DataSize pub)))"
    by (rule wire_codec.framed [OF assms _ lengths(1)]) (simp_all add: codes parsed)
  show "ref_parse (BuildCommand C (TagSessions C) ccNVUndefineSpace (NVUndefineSpace_body C ix))
        = Some (True, NV_Undefine (unat ix))"
    by (rule wire_codec.framed [OF assms _ lengths(2)]) (simp_all add: codes parsed)
  show "length data < 65536 \<Longrightarrow>
      ref_parse (BuildCommand C (TagSessions C) ccNVWrite (NVWrite_body C ix data off))
        = Some (True, NV_Write (unat ix) data (unat off))"
    by (rule wire_codec.framed [OF assms _ lengths(3)]) (simp_all add: codes parsed)
  show "ref_parse (BuildCommand C (TagSessions C) ccNVRead (NVRead_body C ix sz off))
        = Some (True, NV_Read (unat ix) (unat sz) (unat off))"
    by (rule wire_codec.framed [OF assms _ lengths(4)]) (simp_all add: codes parsed)
qed

lemma nv_storage:
  assumes "wire_codec C" and "length (AuthPolicy pub) < 65522" and "length data < 65536"
  shows "NVDefineSpace C (New ref_send) pub w =
      nv_effect 0x12A (BuildCommand C (TagSessions C) 0x12A (NVDefineSpace_body C pub))
        (nv_define (nvs (dev w)) (unat (Index pub)) (unat (DataSize pub))) w \<and>
    NVUndefineSpace C (New ref_send) ix w =
      nv_effect 0x122 (BuildCommand C (TagSessions C) 0x122 (NVUndefineSpace_body C ix))
        (nv_undefine (nvs (dev w)) (unat ix)) w \<and>
    NVWrite C (New ref_send) ix data off w =
      nv_effect 0x137 (BuildCommand C (TagSessions C) 0x137 (NVWrite_body C ix data off))
        (nv_write (nvs (dev w)) (unat ix) data (unat off)) w \<and>
    NVRead C (New ref_send) ix sz off w =
      ((case nv_read (nvs (dev w)) (unat ix) (unat sz) (unat off) of
          Inl rc \<Rightarrow> Inl (TPMError 0x14E (of_nat rc)) | Inr d \<Rightarrow> Inr d),
       sent (BuildCommand C (TagSessions C) 0x14E (NVRead_body C ix sz off)) (dev w) w)"
proof (intro conjI)
  note read = nv_frames_read [OF assms(1)]
  show "NVDefineSpace C (New ref_send) pub w =
      nv_effect 0x12A (BuildCommand C (TagSessions C) 0x12A (NVDefineSpace_body C pub))
        (nv_define (nvs (dev w)) (unat (Index pub)) (unat (DataSize pub))) w"
    using nv_on_ref [OF nvdefine.tpm_call_axioms assms(1) read(1) [OF assms(2)], where w = w and r = "nv_define (nvs (dev w)) (unat (Index pub))
      (unat (DataSize pub))"] nv_codes(1) [of "nvs (dev w)"] unfolding ccNVDefineSpace_def by simp
  show "NVUndefineSpace C (New ref_send) ix w =
      nv_effect 0x122 (BuildCommand C (TagSessions C) 0x122 (NVUndefineSpace_body C ix))
        (nv_undefine (nvs (dev w)) (unat ix)) w"
    using nv_on_ref [OF nvundefine.tpm_call_axioms assms(1) read(2), where w = w and r = "nv_undefine (nvs (dev w)) (unat ix)"]
      nv_codes(2) [of "nvs (dev w)"] unfolding ccNVUndefineSpace_def by simp
  show "NVWrite C (New ref_send) ix data off w =
      nv_effect 0x137 (BuildCommand C (TagSessions C) 0x137 (NVWrite_body C ix data off))
        (nv_write (nvs (dev w)) (unat ix) data (unat off)) w"
    using nv_on_ref [OF nvwrite.tpm_call_axioms assms(1) read(3) [OF assms(3)], where w = w and r = "nv_write (nvs (dev w)) (unat ix) data (unat off)"]
      nv_codes(3) [of "nvs (dev w)"] unfolding ccNVWrite_def by simp
  show "NVRead C (New ref_send) ix sz off w =
      ((case nv_read (nvs (dev w)) (unat ix) (unat sz) (unat off) of
          Inl rc \<Rightarrow> Inl (TPMError 0x14E (of_nat rc)) | Inr d \<Rightarrow> Inr d),
       sent (BuildCommand C (TagSessions C) 0x14E (NVRead_body C ix sz off)) (dev w) w)"
  proof (cases "nv_read (nvs (dev w)) (unat ix) (unat sz) (unat off)")
    case (Inl rc)
    then have "(of_nat rc :: u32) \<noteq> 0 \<and> (of_nat rc :: u32) \<noteq> rcRetry"
      using nv_codes(4) [OF Inl] by (auto simp: rcRetry_def)
    then show ?thesis
      using on_ref(2) [OF nvread.tpm_call_axioms assms(1) read(4), where w = w and rc = rc and s' = "dev w"] Inl by (simp add: ccNVRead_def)
  next
    case (Inr d)
    have "unat sz < 65536" using unsigned_less [of sz] by simp
    with Inr have d: "length d < 65536"
      by (auto simp: nv_read_def min_less_iff_disj split: option.splits if_splits)
    have "NVRead_response C (be_bytes 4 (unat (of_nat (length d + 2) :: u32)) @ tpm2b d @ [0, 0, 1, 0, 0]) = Inr d"
      using d by (subst byte_codec.NVRead_response_Inr_iff [OF wire_codec.axioms(1) [OF assms(1)]]) blast
    moreover have "unat (of_nat (length d + 2) :: u32) = length d + 2"
      using d by (simp add: unat_of_nat del: of_nat_add)
    ultimately show ?thesis
      using on_ref(1) [OF nvread.tpm_call_axioms assms(1) read(4), where w = w and hs = "[]" and p = "tpm2b d" and s' = "dev w"] Inr d by (simp add: ccNVRead_def)
  qed
qed


text \<open>A TPM after a reset: no areas, no sessions, no keys, PCRs at zero.\<close>

definition blank_tpm :: ref_tpm where
  "blank_tpm = \<lparr>bank = (\<lambda>_. replicate 32 0), nvs = Map.empty, sessions = Map.empty, objects = Map.empty,
     fresh = 0, srk_key = (0, 0), ek_key = (0, 0), names = Map.empty,
     signers = Map.empty, tpm_clock = replicate 25 0\<rparr>"


definition nv_flow :: "codec \<Rightarrow> 's TPM \<Rightarrow> NVPublic \<Rightarrow> bytes \<Rightarrow> u16 \<Rightarrow> ('s, 'r, bytes) cmd" where
  "nv_flow C tpm pub data off =
     tbind (NVDefineSpace C tpm pub) (\<lambda>_.
     tbind (NVWrite C tpm (Index pub) data off) (\<lambda>_.
     NVRead C tpm (Index pub) (of_nat (length data)) off))"



end
