(* ===== verification/Ref_Flows.thy ===== *)
theory Ref_Flows
  imports Ref_Tpm
begin

text \<open>
  The PCR and sealing flows, run end to end on the abstract TPM: no hypothesis about the device is left
  but its state.
\<close>

section \<open>Selections mean the same on both sides\<close>

lemma indices_bitmap: "indices (bitmap s) = map nat (in_window s)"
proof -
  have "map int (indices (bitmap s)) = in_window s"
    unfolding bitmap_roundtrip_eq [symmetric] pcrsFromBitmap_def pcrs_from_eq indices_def by simp
  then have "map nat (map int (indices (bitmap s))) = map nat (in_window s)" by (rule arg_cong)
  then show ?thesis by (simp add: comp_def)
qed

definition selected :: "PCRSelection list \<Rightarrow> nat list" where
  "selected sel = concat (map (\<lambda>s. if Hash s = 0xB then map nat (in_window s) else []) sel)"

lemma ref_entries_selections:
  "ref_entries (length sel) (concat (map selection_bytes sel) @ r) = map (\<lambda>s. (unat (Hash s), bitmap s)) sel"
proof (induction sel)
  case (Cons s sel)
  have "(selection_bytes s @ x) ! 2 = 3" "take 3 (drop 3 (selection_bytes s @ x)) = bitmap s"
    "drop 6 (selection_bytes s @ x) = x" "be_nat (take 2 (selection_bytes s @ x)) = unat (Hash s)" for x
    by (simp_all add: selection_bytes_def nth_append)
  with Cons show ?case by (simp add: Let_def)
qed simp

lemma ref_selected_eq: "length sel < 4294967296 \<Longrightarrow> ref_selected (selection_list_bytes sel) = selected sel"
proof -
  assume len: "length sel < 4294967296"
  have alg: "unat h = 11 \<longleftrightarrow> h = 0xB" for h :: u16 by (simp add: word_unat_eq_iff)
  have "ref_entries (length sel) (concat (map selection_bytes sel)) = map (\<lambda>s. (unat (Hash s), bitmap s)) sel"
    using ref_entries_selections [of sel "[]"] by simp
  then show ?thesis
    using len unfolding selected_def indices_bitmap [symmetric]
    by (simp add: ref_selected_def selection_list_bytes_def comp_def alg)
qed

lemma length_selected: "length (selected sel) \<le> 24 * length sel"
proof (induction sel)
  case (Cons s sel)
  have "length (in_window s) \<le> length (map int [0..<24])" unfolding in_window_def by (rule length_filter_le)
  then have "length (in_window s) \<le> 24" by simp
  with Cons show ?case by (simp add: selected_def)
qed (simp add: selected_def)

section \<open>PCRs\<close>

lemma extend_on_ref:
  assumes "wire_codec C" and "pcr < 24" and "length d = 32"
  shows "PCRExtend C (New ref_send) (int pcr) 0xB d w =
    (Inr (), sent (BuildCommand C (TagSessions C) (CCPCRExtend C) (PCRExtend_body C (int pcr) 0xB d))
       ((dev w)\<lparr>bank := (bank (dev w))(pcr := sha256 (bank (dev w) pcr @ d))\<rparr>) w)"
proof -
  note bc = wire_codec.axioms(1) [OF assms(1)]
  have "length (PCRExtend_body C (int pcr) 0xB d) < 4294967286"
    using assms(3) by (simp add: byte_codec.PCRExtend_body_eq [OF bc])
  then have "ref_parse (BuildCommand C (TagSessions C) (CCPCRExtend C) (PCRExtend_body C (int pcr) 0xB d))
      = Some (True, PCR_Extend pcr 0xB d)"
    using assms(2) by (intro wire_codec.framed [OF assms(1)])
      (simp_all add: wire_codec.CCPCRExtend [OF assms(1)] byte_codec.parsed_pcr [OF bc])
  from on_ref(1) [OF pcrextend.tpm_call_axioms assms(1) this, of w "[]" "[]"] show ?thesis
    using assms(2,3) by simp
qed

lemma length_digests: "\<forall>d \<in> set ds. length d = 32 \<Longrightarrow> length (concat (map tpm2b ds)) = 34 * length ds"
  by (induction ds) simp_all

lemma read_on_ref:
  assumes "wire_codec C" and "length sel < 5000000" and "\<forall>k. length (bank (dev w) k) = 32"
  shows "PCRRead C (New ref_send) sel w =
    (Inr (of_nat (fresh (dev w)), map (bank (dev w)) (selected sel)),
     sent (BuildCommand C (TagNoSessions C) (CCPCRRead C) (marshalPCRSelectionList C sel)) (dev w) w)"
proof -
  note bc = wire_codec.axioms(1) [OF assms(1)]
  let ?raw = "selection_list_bytes sel" and ?ds = "map (bank (dev w)) (selected sel)"
  let ?p = "be_bytes 4 (fresh (dev w) mod 0x100000000) @ ?raw @ digest_list ?ds"
  have few: "length (selected sel) < 120000000" using length_selected [of sel] assms(2) by simp
  have raw: "length ?raw = 4 + 6 * length sel"
    by (simp add: selection_list_bytes_def length_concat comp_def sum_list_triv)
  have "length (digest_list ?ds) = 4 + 34 * length (selected sel)"
    using length_digests [of ?ds] assms(3) by (simp add: digest_list_def)
  then have len: "length ?p < 4294960000" using few raw assms(2) by simp
  have sel: "length sel < 4294967296" using assms(2) by simp
  have "parse_body False (unat (CCPCRRead C)) (marshalPCRSelectionList C sel) = Some (PCR_Read ?raw)"
    using byte_codec.parsed_seal(6) [OF bc sel] by (simp add: wire_codec.CCPCRRead [OF assms(1)])
  then have "ref_parse (BuildCommand C (TagNoSessions C) (CCPCRRead C) (marshalPCRSelectionList C sel))
      = Some (False, PCR_Read ?raw)"
    by (rule wire_codec.framed_plain [OF assms(1)]) (use raw assms(2) in
      \<open>simp add: byte_codec.marshal_selection_list [OF bc sel]\<close>)
  note ref = on_ref(1) [OF pcrread.tpm_call_axioms assms(1) this, where w = w and hs = "[]" and p = ?p and s' = "dev w"]
  have "PCRRead_response C ?p = Inr (of_nat (fresh (dev w)), ?ds)"
    using byte_codec.PCRRead_response_ok [OF bc sel, of ?ds "of_nat (fresh (dev w))" "[]"] few assms(3)
    by (simp add: byte_codec.marshal_selection_list [OF bc sel] unat_of_nat)
  with ref len show ?thesis by (simp add: current_def ref_selected_eq [OF sel])
qed

section \<open>Sealing\<close>

lemma length_policy: "length (PolicyPCRDigest C sel vals) = 32"
  by (simp add: PolicyPCRDigest_def Let_def)

lemma length_seal_public: "length (seal_public_bytes policy) = length policy + 14"
  by (simp add: seal_public_bytes_def)

lemma policy_of_seal_public: "length policy = 32 \<Longrightarrow> policy_of (seal_public_bytes policy) = policy"
  by (simp add: policy_of_def seal_public_bytes_def)

lemma seal_on_ref:
  assumes "wire_codec C" and "length secret < 65500"
  shows "\<exists>f. SealToPCR C (New ref_send) parent secret sel vals w =
    (Inr (secret, seal_public_bytes (PolicyPCRDigest C sel vals), PolicyPCRDigest C sel vals), sent f (dev w) w)"
proof -
  note bc = wire_codec.axioms(1) [OF assms(1)]
  let ?policy = "PolicyPCRDigest C sel vals"
  let ?public = "seal_public_bytes ?policy"
  let ?p = "tpm2b secret @ tpm2b ?public @ tpm2b [] @ tpm2b []"
  have "length (Create_body C parent secret ?policy) < 4294967286"
    using assms(2) by (simp add: byte_codec.seal_bodies(2) [OF bc] length_policy length_seal_public)
  then have "ref_parse (BuildCommand C (TagSessions C) (CCCreate C) (Create_body C parent secret ?policy))
      = Some (True, Seal_Create secret ?public)"
    using assms(2) by (intro wire_codec.framed [OF assms(1)])
      (simp_all add: wire_codec.CCCreate [OF assms(1)] byte_codec.parsed_seal(1) [OF bc] length_policy)
  note ref = on_ref(1) [OF create.tpm_call_axioms assms(1) this, where w = w and hs = "[]" and p = ?p and s' = "dev w"]
  have "Create_response C (be_bytes 4 (length ?p) @ tpm2b secret @ tpm2b ?public @ tpm2b [] @ tpm2b [] @ [0, 0, 1, 0, 0])
      = Inr (secret, ?public)"
    using assms(2) by (intro byte_codec.Create_response_ok [OF bc]) (simp_all add: length_policy length_seal_public)
  with ref show ?thesis
    using assms(2) by (auto simp: SealToPCR_def Let_def length_policy length_seal_public)
qed

text \<open>A policy session starts with the empty digest.\<close>

lemma ref_start_session:
  fixes s :: ref_tpm
  defines "k \<equiv> 0x03000000 + fresh s mod 0x10000"
  assumes "wire_codec C" and "length nonce < 65536"
  shows "answers C (New ref_send) s (BuildCommand C (TagNoSessions C) ccStartAuthSession (StartAuthSession_body C nonce))
    (be_bytes 4 (unat (of_nat k :: u32)) @ tpm2b (replicate 16 0) @ [])
    (s\<lparr>sessions := (sessions s)(k \<mapsto> replicate 32 0), fresh := Suc (fresh s)\<rparr>)"
proof -
  note bc = wire_codec.axioms(1) [OF assms(2)]
  have k: "unat (of_nat k :: u32) = k" unfolding k_def by (simp only: unat_of_nat) simp
  have "length (StartAuthSession_body C nonce) < 4294967286"
    using assms(3) by (simp add: byte_codec.seal_bodies(4) [OF bc])
  then have "ref_parse (BuildCommand C (TagNoSessions C) ccStartAuthSession (StartAuthSession_body C nonce))
      = Some (False, Start_Session)"
    by (intro wire_codec.framed_plain [OF assms(2)])
      (simp_all add: ccStartAuthSession_def byte_codec.parsed_seal(4) [OF bc])
  from wire_codec.ref_answers [OF assms(2) this, of s "be_bytes 4 k" "tpm2b (replicate 16 0)"
      "s\<lparr>sessions := (sessions s)(k \<mapsto> replicate 32 0), fresh := Suc (fresh s)\<rparr>"] show ?thesis
    unfolding k by (simp add: Let_def k_def)
qed

text \<open>The TPM runs the unsealing flow for an object with the secret and a public area of the policy.\<close>

lemma ref_unseal_flow:
  assumes "wire_codec C" and "length sel < 5000000" and "length secret < 65500" and "length public < 65500"
    and "length nonce < 65536" and policy: "policy_of public = policy"
  shows "\<exists>item session s4. unseal_flow C (New ref_send) s parent secret public sel nonce
    (map (bank s) (selected sel)) policy secret item session s4"
proof -
  note bc = wire_codec.axioms(1) [OF assms(1)]
  have sel: "length sel < 4294967296" using assms(2) by simp
  let ?h = "0x80000000 + fresh s mod 0x10000" and ?k = "0x03000000 + Suc (fresh s) mod 0x10000"
  let ?s1 = "s\<lparr>objects := (objects s)(?h \<mapsto> (policy, secret)), fresh := Suc (fresh s)\<rparr>"
  let ?s2 = "?s1\<lparr>sessions := (sessions s)(?k \<mapsto> replicate 32 0), fresh := Suc (Suc (fresh s))\<rparr>"
  let ?d = "policy_step (replicate 32 0) (selection_list_bytes sel) (map (bank s) (selected sel))"
  let ?s3 = "?s2\<lparr>sessions := (sessions ?s2)(?k \<mapsto> ?d)\<rparr>"
  have h: "unat (of_nat ?h :: u32) = ?h" and k: "unat (of_nat ?k :: u32) = ?k"
    by (simp_all only: unat_of_nat) simp_all
  have d: "?d = sha256 (policy_preimage sel (sha256 (concat (map (bank s) (selected sel)))))"
    by (simp add: policy_step_def policy_preimage_def)
  have load: "answers C (New ref_send) s (BuildCommand C (TagSessions C) (CCLoad C)
      (Load_body C parent secret public))
      (be_bytes 4 (unat (of_nat ?h :: u32)) @ be_bytes 4 2 @ tpm2b [] @ [0, 0, 1, 0, 0]) ?s1"
  proof -
    have "length (Load_body C parent secret public) < 4294967286"
      using assms(3,4) by (simp add: byte_codec.seal_bodies(3) [OF bc])
    then have "ref_parse (BuildCommand C (TagSessions C) (CCLoad C) (Load_body C parent secret public))
        = Some (True, Seal_Load secret public)"
      using assms(3,4) by (intro wire_codec.framed [OF assms(1)])
        (simp_all add: wire_codec.CCLoad [OF assms(1)] byte_codec.parsed_seal(2) [OF bc])
    from wire_codec.ref_answers [OF assms(1) this, of s "be_bytes 4 ?h" "tpm2b []" ?s1] show ?thesis
      unfolding h by (simp add: Let_def policy)
  qed
  have start: "answers C (New ref_send) ?s1 (BuildCommand C (TagNoSessions C) ccStartAuthSession
      (StartAuthSession_body C nonce)) (be_bytes 4 (unat (of_nat ?k :: u32)) @ tpm2b (replicate 16 0) @ []) ?s2"
    using ref_start_session [OF assms(1,5), of ?s1] by simp
  have pcr: "answers C (New ref_send) ?s2 (BuildCommand C (TagNoSessions C) ccPolicyPCR
      (PolicyPCR_body C (of_nat ?k) sel)) [] ?s3"
  proof -
    have raw: "length (selection_list_bytes sel) = 4 + 6 * length sel"
      by (simp add: selection_list_bytes_def length_concat comp_def sum_list_triv)
    then have len: "length (PolicyPCR_body C (of_nat ?k) sel) < 4294967286"
      using assms(2) by (simp add: byte_codec.seal_bodies(5) [OF bc] byte_codec.marshal_selection_list [OF bc sel])
    have "parse_body False (unat ccPolicyPCR) (PolicyPCR_body C (of_nat ?k) sel)
        = Some (Policy_PCR ?k (selection_list_bytes sel))"
      using byte_codec.parsed_seal(5) [OF bc sel, of "of_nat ?k"] unfolding k by (simp add: ccPolicyPCR_def)
    from wire_codec.ref_answers [OF assms(1) wire_codec.framed_plain [OF assms(1) this len], of ?s2 "[]" "[]" ?s3]
    show ?thesis by (simp add: current_def ref_selected_eq [OF sel])
  qed
  have unseal: "if ?d = policy
      then answers C (New ref_send) ?s3 (BuildCommand C (TagSessions C) ccUnseal (Unseal_body C (of_nat ?h) (of_nat ?k)))
        (be_bytes 4 (length secret + 2) @ tpm2b secret @ [0, 0, 1, 0, 0]) ?s3
      else fails_with C (New ref_send) ccUnseal ?s3
        (BuildCommand C (TagSessions C) ccUnseal (Unseal_body C (of_nat ?h) (of_nat ?k))) (TPMError ccUnseal 0x99D) ?s3"
  proof -
    have len: "length (Unseal_body C (of_nat ?h) (of_nat ?k)) < 4294967286"
      by (simp add: byte_codec.seal_bodies(6) [OF bc])
    have "parse_body True (unat ccUnseal) (Unseal_body C (of_nat ?h) (of_nat ?k)) = Some (Seal_Unseal ?h ?k)"
      using byte_codec.parsed_seal(3) [OF bc, of "of_nat ?h" "of_nat ?k"] unfolding h k by (simp add: ccUnseal_def)
    note ref = wire_codec.framed [OF assms(1) this len]
    show ?thesis
      using wire_codec.ref_answers [OF assms(1) ref, of ?s3 "[]" "tpm2b secret" ?s3]
        wire_codec.ref_fails [OF assms(1) ref, of ?s3 "0x99D" ?s3] assms(3)
      by (cases "?d = policy") (simp_all add: rcRetry_def)
  qed
  have nonce: "length (replicate 16 (0 :: u8)) < 65536" by simp
  show ?thesis
    unfolding unseal_flow_def d [symmetric] using load start pcr unseal nonce by blast
qed

lemma unseal_on_ref:
  assumes "wire_codec C" and "length sel < 5000000" and "length secret < 65500" and "length public < 65500"
    and "length nonce < 65536" and "policy_of public = policy"
  shows "fst (UnsealWithPCR C (New ref_send) parent secret public sel nonce w) =
    (if PolicyPCRDigest C sel (map (bank (dev w)) (selected sel)) = policy then Inr secret
     else Inl (TPMError 0x15E 0x99D))"
proof -
  obtain item session s4 where "unseal_flow C (New ref_send) (dev w) parent secret public sel nonce
      (map (bank (dev w)) (selected sel)) policy secret item session s4"
    using ref_unseal_flow [OF assms] by blast
  from UnsealWithPCR_run [OF wire_codec.axioms(1) [OF assms(1)] _ _ this] show ?thesis
    using assms(2,3) by simp
qed

section \<open>Properties\<close>



text \<open>
  C4. A seal that a change of the PCRs breaks, end to end and without a hypothesis about the device. On
  the abstract TPM, sealing to the current values of the selection succeeds; unsealing right after
  returns the secret; and after any PCR is extended, unsealing returns the secret if the PCR is not
  selected, and otherwise only if the policy digests of the old and the new values collide, failing with
  the TPM's policy error in every other case.
\<close>

theorem seal_extend_unseal:
  assumes "wire_codec C" and "length sel < 5000000" and "length secret < 65500" and "length nonce < 65536"
  shows "\<exists>priv pub policy w1.
    SealToPCR C (New ref_send) parent secret sel (map (bank (dev w)) (selected sel)) w = (Inr (priv, pub, policy), w1) \<and>
    fst (UnsealWithPCR C (New ref_send) parent priv pub sel nonce w1) = Inr secret \<and>
    (\<forall>pcr d. pcr < 24 \<and> length d = 32 \<longrightarrow>
      fst (tbind (PCRExtend C (New ref_send) (int pcr) 0xB d)
        (\<lambda>_. UnsealWithPCR C (New ref_send) parent priv pub sel nonce) w1) =
      (if pcr \<notin> set (selected sel) \<or>
          PolicyPCRDigest C sel (map ((bank (dev w))(pcr := sha256 (bank (dev w) pcr @ d))) (selected sel)) = policy
       then Inr secret else Inl (TPMError 0x15E 0x99D)))"
proof -
  let ?policy = "PolicyPCRDigest C sel (map (bank (dev w)) (selected sel))"
  let ?unseal = "UnsealWithPCR C (New ref_send) parent secret (seal_public_bytes ?policy) sel nonce"
  obtain f where sealed: "SealToPCR C (New ref_send) parent secret sel (map (bank (dev w)) (selected sel)) w =
      (Inr (secret, seal_public_bytes ?policy, ?policy), sent f (dev w) w)"
    using seal_on_ref [OF assms(1,3)] by blast
  have public: "length (seal_public_bytes ?policy) < 65500" "policy_of (seal_public_bytes ?policy) = ?policy"
    by (simp_all add: length_seal_public length_policy policy_of_seal_public)
  note unseal = unseal_on_ref [OF assms(1-3) public(1) assms(4) public(2)]
  have "fst (?unseal (sent f (dev w) w)) = Inr secret" by (simp add: unseal)
  moreover have "fst (tbind (PCRExtend C (New ref_send) (int pcr) 0xB d) (\<lambda>_. ?unseal) (sent f (dev w) w)) =
      (if pcr \<notin> set (selected sel) \<or>
          PolicyPCRDigest C sel (map ((bank (dev w))(pcr := sha256 (bank (dev w) pcr @ d))) (selected sel)) = ?policy
       then Inr secret else Inl (TPMError 0x15E 0x99D))" if "pcr < 24" "length d = 32" for pcr d
    using extend_on_ref [OF assms(1) that, of "sent f (dev w) w"]
    by (cases "pcr \<in> set (selected sel)") (simp_all add: unseal)
  ultimately show ?thesis using sealed by blast
qed

theorem seal_extend_unseal_witness:
  "\<exists>priv pub policy w1.
    SealToPCR be_codec (New ref_send) 0x80000001 [0x5E] [\<lparr>Hash = 0xB, PCRs = [7]\<rparr>] [replicate 32 0]
      \<lparr>dev = blank_tpm,
       rand = (), trace = []\<rparr> = (Inr (priv, pub, policy), w1) \<and>
    fst (UnsealWithPCR be_codec (New ref_send) 0x80000001 priv pub [\<lparr>Hash = 0xB, PCRs = [7]\<rparr>] [] w1) = Inr [0x5E]"
proof -
  have sel: "selected [\<lparr>Hash = 0xB, PCRs = [7]\<rparr>] = [7]" by (simp add: selected_def in_window_def upt_rec)
  have len: "length [\<lparr>Hash = 0xB, PCRs = [7]\<rparr>] < 5000000" "length [0x5E :: u8] < 65500" "length ([] :: bytes) < 65536"
    by simp_all
  have bank: "bank blank_tpm 7 = replicate 32 0" by (simp add: blank_tpm_def)
  show ?thesis
    using seal_extend_unseal [OF be.wire_codec_axioms len, of "0x80000001" "\<lparr>dev = blank_tpm, rand = (), trace = []\<rparr>"]
    unfolding sel by (simp only: list.map world.select_convs bank) blast
qed

end
