(* ===== verification/Ref_Protocols.thy ===== *)
theory Ref_Protocols
  imports Ref_Flows
begin

text \<open>
  The protocols of the package with a remote verifier, run end to end on the abstract TPM: importing
  a secret that was wrapped offline, the identity step with the Endorsement Key, and attestation. What the verifier
  makes is the input of the device, and no hypothesis about the device is left but the keys it holds.
\<close>

section \<open>Importing\<close>

lemma import_on_ref:
  assumes "wire_codec C" and "length public < 65536" and "length dup < 65536" and "length seed < 65536"
    and "tpm_import (fst (srk_key (dev w))) (snd (srk_key (dev w))) public (tpm2b dup) (tpm2b seed) = r"
    and "\<forall>policy secret. r = Some (policy, secret) \<longrightarrow> length secret < 65536"
  shows "Import C (New ref_send) parent public (tpm2b dup) (tpm2b seed) w =
    ((case r of None \<Rightarrow> Inl (TPMError 0x156 0x3DF) | Some (policy, secret) \<Rightarrow> Inr secret),
     sent (BuildCommand C (TagSessions C) 0x156 (Import_body C parent public (tpm2b dup) (tpm2b seed))) (dev w) w)"
proof -
  note bc = wire_codec.axioms(1) [OF assms(1)]
  have "length (Import_body C parent public (tpm2b dup) (tpm2b seed)) < 4294967286"
    using assms(2-4) by (simp add: byte_codec.Import_body_eq [OF bc])
  then have read: "ref_parse (BuildCommand C (TagSessions C) ccImport (Import_body C parent public (tpm2b dup) (tpm2b seed)))
      = Some (True, Seal_Import public dup seed)"
    using assms(2-4) by (intro wire_codec.framed [OF assms(1)])
      (simp_all add: ccImport_def byte_codec.parsed_import [OF bc])
  note ref = on_ref [OF importcall.tpm_call_axioms assms(1) read, where w = w and s' = "dev w"]
  show ?thesis
  proof (cases r)
    case None
    then show ?thesis using ref(2) [of "0x3DF"] assms(5) by (simp add: rcRetry_def ccImport_def)
  next
    case (Some x)
    obtain policy secret where x: "x = (policy, secret)" by (cases x)
    with Some assms(6) have len: "length secret < 65536" by blast
    have "Import_response C (be_bytes 4 (length secret + 2) @ tpm2b secret @ [0, 0, 1, 0, 0]) = Inr secret"
      by (rule byte_codec.Import_response_ok [OF bc len])
    then show ?thesis using ref(1) [of "[]" "tpm2b secret"] Some x assms(5) len by (simp add: ccImport_def)
  qed
qed

lemma policy_of_import_public: "length policy = 32 \<Longrightarrow> policy_of (import_public_bytes policy unique) = policy"
  by (simp add: policy_of_def drop_import_public)

text \<open>
  C1. The measured-boot promise, end to end and without a hypothesis about the device but the key it
  holds. A secret wrapped offline for a node's storage key and PCR values is imported and unsealed by
  the TPM with that key, and comes back exactly when the policy digest of its current PCR values is that
  of the values it was wrapped to; otherwise the call fails with the TPM's policy error. With any other
  public area, in particular one with a weaker policy, the import itself is refused, unless the public
  areas collide under SHA-256 or their Names collide in the HMAC over the same ciphertext.
\<close>

theorem wrap_import_on_tpm:
  assumes "wire_codec C" and "full_reader readFull" and "length secret < 65000" and "length sel < 5000000"
    and "length nonce < 65536" and "IsOnCurve (be_nat (ecc_X srk)) (be_nat (ecc_Y srk))"
    and "readFull 32 rng = (Inr obf, rng')" and "gen rng' = (Inr (k, Q), rng'')" and "fits Q"
    and srk: "snd (srk_key (dev w)) = be_nat (ecc_X srk)"
    and agree: "fst (smult (fst (srk_key (dev w))) Q) = fst (smult (k mod p256_n) (be_nat (ecc_X srk), be_nat (ecc_Y srk)))"
    and seed: "seed = shared_seed ''DUPLICATE'' (fst (smult (fst (srk_key (dev w))) Q)) (fst Q) (be_nat (ecc_X srk))"
  shows "\<exists>r. WrapToPCR C readFull gen srk secret sel vals rng = (Inr r, rng'') \<and>
    fst (ImportAndUnseal C (New ref_send) parent (ObjectPublic r) (Duplicate r) (InSymSeed r) sel nonce w) =
      (if PolicyPCRDigest C sel (map (bank (dev w)) (selected sel)) = PolicyPCRDigest C sel vals
       then Inr secret else Inl (TPMError 0x15E 0x99D)) \<and>
    (\<forall>public. length public < 65536 \<and> sha256 public \<noteq> sha256 (ObjectPublic r) \<and>
      \<not> hmac_clash (integrity_key seed)
        (encrypted seed (sha256_name (ObjectPublic r)) (tpm2b (sensitive_bytes obf secret)) @ sha256_name (ObjectPublic r))
        (encrypted seed (sha256_name (ObjectPublic r)) (tpm2b (sensitive_bytes obf secret)) @ sha256_name public) \<longrightarrow>
      fst (ImportAndUnseal C (New ref_send) parent public (Duplicate r) (InSymSeed r) sel nonce w) =
        Inl (TPMError 0x156 0x3DF))"
proof -
  note bc = wire_codec.axioms(1) [OF assms(1)]
  note flow = import_on_ref [OF assms(1), where w = w and parent = parent, unfolded srk]
  obtain r where r: "WrapToPCR C readFull gen srk secret sel vals rng = (Inr r, rng'')"
    and import: "tpm_import (fst (srk_key (dev w))) (be_nat (ecc_X srk)) (ObjectPublic r) (Duplicate r) (InSymSeed r) =
      Some (PolicyPCRDigest C sel vals, secret)"
    and public: "ObjectPublic r = import_public_bytes (PolicyPCRDigest C sel vals) (sha256 (obf @ secret))"
    and dup: "Duplicate r = tpm2b (wrap seed (sha256_name (ObjectPublic r)) (tpm2b (sensitive_bytes obf secret)))"
    and blob: "InSymSeed r = tpm2b (point_bytes Q)"
    using wrapped_secret_exists [where readFull = readFull and gen = gen, OF bc assms(2,3,6-9) agree] unfolding seed by blast
  have obf: "length obf = 32" using assms(2,7) unfolding full_reader_def by blast
  let ?d = "wrap seed (sha256_name (ObjectPublic r)) (tpm2b (sensitive_bytes obf secret))"
  have len: "length ?d < 65536" "length (point_bytes Q) < 65536" "length (ObjectPublic r) < 65500"
    "length (tpm2b (sensitive_bytes obf secret)) < 65502"
    using assms(3) obf by (simp_all add: public length_policy)
  have policy: "policy_of (ObjectPublic r) = PolicyPCRDigest C sel vals"
    by (simp add: public policy_of_import_public length_policy)
  let ?run = "\<lambda>public. ImportAndUnseal C (New ref_send) parent public (Duplicate r) (InSymSeed r) sel nonce w"
  have run: "?run public = (case Import C (New ref_send) parent public (Duplicate r) (InSymSeed r) w of
      (Inl e, w') \<Rightarrow> (Inl e, w') | (Inr priv, w') \<Rightarrow> UnsealWithPCR C (New ref_send) parent priv public sel nonce w')" for public
    by (simp add: ImportAndUnseal_def UnsealWithPCR_def tbind_def [of "Import C (New ref_send) parent public _ _"]
        split: sum.splits prod.splits)
  have "fst (?run (ObjectPublic r)) = (if PolicyPCRDigest C sel (map (bank (dev w)) (selected sel)) =
      PolicyPCRDigest C sel vals then Inr secret else Inl (TPMError 0x15E 0x99D))"
    using flow [of "ObjectPublic r" ?d "point_bytes Q", folded dup blob] import len assms(3)
    by (simp add: run unseal_on_ref [OF assms(1,4) _ len(3) assms(5) policy])
  moreover have "fst (?run public) = Inl (TPMError 0x156 0x3DF)"
    if "length public < 65536" "sha256 public \<noteq> sha256 (ObjectPublic r)"
      "\<not> hmac_clash (integrity_key seed)
        (encrypted seed (sha256_name (ObjectPublic r)) (tpm2b (sensitive_bytes obf secret)) @ sha256_name (ObjectPublic r))
        (encrypted seed (sha256_name (ObjectPublic r)) (tpm2b (sensitive_bytes obf secret)) @ sha256_name public)" for public
  proof -
    have "tpm_import (fst (srk_key (dev w))) (be_nat (ecc_X srk)) public (Duplicate r) (InSymSeed r) = None"
      using tpm_import_other_public [OF assms(9) len(4) seed, of public "ObjectPublic r", folded dup blob] that(2,3) by blast
    then show ?thesis
      using flow [of public ?d "point_bytes Q", folded dup blob] len that(1) by (simp add: run)
  qed
  ultimately show ?thesis using r by blast
qed

theorem wrap_import_on_tpm_witness:
  "\<exists>r. WrapToPCR be_codec (\<lambda>n r. (Inr (replicate n 0), r)) (\<lambda>r. (Inr (1, p256_G), r)) base_srk [0x5E, 0xC7]
      [\<lparr>Hash = 0xB, PCRs = [7]\<rparr>] [replicate 32 0] () = (Inr r, ()) \<and>
    fst (ImportAndUnseal be_codec (New ref_send) 0x80000001 (ObjectPublic r) (Duplicate r) (InSymSeed r)
      [\<lparr>Hash = 0xB, PCRs = [7]\<rparr>] [] \<lparr>dev = blank_tpm\<lparr>srk_key := (1, fst p256_G)\<rparr>, rand = (), trace = []\<rparr>) =
      Inr [0x5E, 0xC7]"
proof -
  let ?w = "\<lparr>dev = blank_tpm\<lparr>srk_key := (1, fst p256_G)\<rparr>, rand = (), trace = []\<rparr>"
  have sel: "selected [\<lparr>Hash = 0xB, PCRs = [7]\<rparr>] = [7]" by (simp add: selected_def in_window_def upt_rec)
  have len: "length [0x5E, 0xC7 :: u8] < 65000" "length [\<lparr>Hash = 0xB, PCRs = [7]\<rparr>] < 5000000"
    "length ([] :: bytes) < 65536" by simp_all
  have srk: "snd (srk_key (dev ?w)) = be_nat (ecc_X base_srk)" "fst (srk_key (dev ?w)) = 1" "bank (dev ?w) 7 = replicate 32 0"
    by (simp_all add: base_srk_point blank_tpm_def)
  have agree: "fst (smult (fst (srk_key (dev ?w))) p256_G) =
      fst (smult (1 mod p256_n) (be_nat (ecc_X base_srk), be_nat (ecc_Y base_srk)))"
    unfolding srk(2) by (rule base_srk_agrees(2))
  show ?thesis
    using wrap_import_on_tpm [where readFull = "\<lambda>n r. (Inr (replicate n 0), r)" and gen = "\<lambda>r. (Inr (1, p256_G), r)"
        and rng = "()" and rng' = "()" and rng'' = "()" and obf = "replicate 32 0" and k = 1 and Q = p256_G and w = ?w and
        vals = "[replicate 32 0]" and parent = "0x80000001",
        OF be.wire_codec_axioms zero_reader len base_srk_agrees(1) refl refl fits_G srk(1) agree refl]
    unfolding sel list.map srk(3) if_P [OF refl] by (elim exE conjE) (intro exI conjI)
qed

section \<open>The identity step\<close>

lemma ek_policy_reached: "secret_step (replicate 32 0) (unat RHEndorsement) [] = ekAuthPolicy"
proof -
  have "[0x00, 0x00, 0x01, 0x51] @ be_bytes 4 (unat RHEndorsement) = [0, 0, 1, 0x51, 0x40, 0, 0, 0x0B]"
    by (simp add: be_eval RHEndorsement_def)
  then show ?thesis unfolding secret_step_def append_Nil2 by (simp only: sha256_ek_policy ekAuthPolicy_def)
qed

lemma secret_on_ref:
  assumes "wire_codec C" and "sessions (dev w) (unat session) = Some d"
  shows "PolicySecret C (New ref_send) RHEndorsement session w =
    (Inr (), sent (BuildCommand C (TagSessions C) ccPolicySecret (PolicySecret_body C RHEndorsement session))
      ((dev w)\<lparr>sessions := (sessions (dev w))(unat session \<mapsto> secret_step d (unat RHEndorsement) [])\<rparr>) w)"
proof -
  note bc = wire_codec.axioms(1) [OF assms(1)]
  have "length (PolicySecret_body C RHEndorsement session) < 4294967286"
    by (simp add: byte_codec.activate_bodies [OF bc])
  then have "ref_parse (BuildCommand C (TagSessions C) ccPolicySecret (PolicySecret_body C RHEndorsement session))
      = Some (True, Policy_Secret (unat RHEndorsement) (unat session) [])"
    by (intro wire_codec.framed [OF assms(1)])
      (simp_all add: ccPolicySecret_def byte_codec.parsed_activation(1) [OF bc])
  from on_ref(1) [OF policysecret.tpm_call_axioms assms(1) this, of w "[]"] show ?thesis
    using assms(2) by simp
qed

text \<open>\<open>ActivateCredential\<close> in a session that satisfies the policy of the Endorsement Key.\<close>

lemma activate_on_ref:
  assumes "wire_codec C" and "length blob < 65536" and "length secret < 65536"
    and "sessions (dev w) (unat session) = Some ekAuthPolicy"
    and r: "case names (dev w) (unat ak) of None \<Rightarrow> r = Inl 0x18B
      | Some name \<Rightarrow> r = (case tpm_activate (fst (ek_key (dev w))) (snd (ek_key (dev w))) name (tpm2b blob) (tpm2b secret) of
          None \<Rightarrow> Inl 0x2DF | Some c \<Rightarrow> Inr c)"
    and "\<forall>c. r = Inr c \<longrightarrow> length c < 65536"
  shows "fst (ActivateCredential C (New ref_send) ak ek session (tpm2b blob) (tpm2b secret) w) =
    (case r of Inl rc \<Rightarrow> Inl (TPMError 0x147 (of_nat rc)) | Inr c \<Rightarrow> Inr c)"
proof -
  note bc = wire_codec.axioms(1) [OF assms(1)]
  have "length (ActivateCredential_body C ak ek session (tpm2b blob) (tpm2b secret)) < 4294967286"
    using assms(2,3) by (simp add: byte_codec.activate_bodies [OF bc])
  then have "ref_parse (BuildCommand C (TagSessions C) ccActivateCredential
      (ActivateCredential_body C ak ek session (tpm2b blob) (tpm2b secret)))
      = Some (True, Activate_Credential (unat ak) (unat session) blob secret)"
    using assms(2,3) by (intro wire_codec.framed [OF assms(1)])
      (simp_all add: ccActivateCredential_def byte_codec.parsed_activation(2) [OF bc])
  note ref = on_ref [OF activate.tpm_call_axioms assms(1) this, where w = w and s' = "dev w"]
  show ?thesis
  proof (cases r)
    case (Inl rc)
    then have "rc \<in> {0x18B, 0x2DF}" using r by (auto split: option.splits)
    moreover have "ref_exec (Activate_Credential (unat ak) (unat session) blob secret) (dev w) = (Inl rc, dev w)"
      using r Inl assms(4) by (auto split: option.splits)
    ultimately show ?thesis using ref(2) [of rc] Inl by (auto simp: rcRetry_def ccActivateCredential_def)
  next
    case (Inr c)
    then have len: "length c < 65536" using assms(6) by blast
    have "ref_exec (Activate_Credential (unat ak) (unat session) blob secret) (dev w) = (Inr ([], tpm2b c), dev w)"
      using r Inr assms(4) by (auto split: option.splits)
    then show ?thesis
      using ref(1) [of "[]" "tpm2b c"] Inr len byte_codec.ActivateCredential_response_ok [OF bc len] by simp
  qed
qed

text \<open>
  C2. The identity step, sound and complete, without a hypothesis about the device but the keys it
  holds. On the TPM with the Endorsement Key, \<open>ActivateAKWithEK\<close> opens a session, reaches the policy of
  the key in it and returns exactly the challenge when the handle holds the Attestation Key whose public
  area the verifier was given; a handle that holds nothing, or an object with another Name, fails with
  the TPM's error, unless the two Names collide in the HMAC over the same ciphertext.
\<close>

theorem activation_on_tpm:
  fixes w :: "(ref_tpm, 'r) world"
  assumes "wire_codec C" and "length credential < 65000" and "length nonce < 65536"
    and ak: "4 \<le> length akPublic" "take 2 (drop 2 akPublic) = [0x00, 0x0B]"
    and ek: "is_ecc_public pt ekPublic" "IsOnCurve (be_nat (ak_X pt)) (be_nat (ak_Y pt))"
    and key: "gen (rand w) = (Inr (k, Q), rng')" "fits Q" "snd (ek_key (dev w)) = be_nat (ak_X pt)"
      "fst (smult (fst (ek_key (dev w))) Q) = fst (smult (k mod p256_n) (be_nat (ak_X pt), be_nat (ak_Y pt)))"
    and seed: "seed = shared_seed ''IDENTITY'' (fst (smult (fst (ek_key (dev w))) Q)) (fst Q) (be_nat (ak_X pt))"
    and name: "akName = [0x00, 0x0B] @ sha256 akPublic"
  shows "case names (dev w) (unat akHandle) of
      None \<Rightarrow> fst (ActivateAKWithEK C gen (New ref_send) akHandle ekHandle akPublic ekPublic credential nonce w) =
        Inl (TPMError 0x147 0x18B)
    | Some held \<Rightarrow>
        (held = akName \<longrightarrow>
          fst (ActivateAKWithEK C gen (New ref_send) akHandle ekHandle akPublic ekPublic credential nonce w) = Inr credential) \<and>
        (held \<noteq> akName \<and> \<not> hmac_clash (integrity_key seed) (encrypted seed akName (tpm2b credential) @ akName)
            (encrypted seed akName (tpm2b credential) @ held) \<longrightarrow>
          fst (ActivateAKWithEK C gen (New ref_send) akHandle ekHandle akPublic ekPublic credential nonce w) =
            Inl (TPMError 0x147 0x2DF))"
proof -
  note bc = wire_codec.axioms(1) [OF assms(1)]
  let ?ek = "\<lparr>ek_X = ak_X pt, ek_Y = ak_Y pt\<rparr>"
  let ?inner = "wrap seed akName (tpm2b credential)" and ?point = "point_bytes Q"
  let ?k = "0x03000000 + fresh (dev w) mod 0x10000" and ?w1 = "w\<lparr>rand := rng'\<rparr>"
  have k: "unat (of_nat ?k :: u32) = ?k" by (simp only: unat_of_nat) simp
  have seed': "seed = shared_seed ''IDENTITY'' (fst (smult (fst (ek_key (dev w))) Q)) (fst Q) (be_nat (ek_X ?ek))"
    using seed by simp
  have on: "IsOnCurve (be_nat (ek_X ?ek)) (be_nat (ek_Y ?ek))" using ek(2) by simp
  have agree: "fst (smult (fst (ek_key (dev w))) Q) = fst (smult (k mod p256_n) (be_nat (ek_X ?ek), be_nat (ek_Y ?ek)))"
    using key(4) by simp
  note made = credential_made [where gen = gen and akName = akName, OF bc assms(2) on key(1,2) agree seed']
  have len: "length ?inner < 65536" "length ?point < 65536" using assms(2) by simp_all
  have name': "ObjectName C akPublic = Inr akName"
    using ak name by (simp add: byte_codec.ObjectName_cases [OF bc] sha256_name_def)
  have point: "parseTPMTPublicECCPoint C ekPublic = Inr pt"
    using byte_codec.parseTPMTPublicECCPoint_Inr_iff [OF bc] ek(1) by (metis append_Nil2)
  have gen: "make_credential_cmd C gen ?ek akName credential w =
      (Inr \<lparr>CredentialBlob = tpm2b ?inner, Secret = tpm2b ?point\<rparr>, ?w1)"
    by (simp only: make_credential_cmd_def made(1) Let_def prod.case)
  define w2 where "w2 = sent (BuildCommand C (TagNoSessions C) ccStartAuthSession (StartAuthSession_body C nonce))
    ((dev w)\<lparr>sessions := (sessions (dev w))(?k \<mapsto> replicate 32 0), fresh := Suc (fresh (dev w))\<rparr>) ?w1"
  have start: "StartAuthSession C (New ref_send) nonce ?w1 = (Inr (of_nat ?k, replicate 16 0), w2)"
    using startsession.answered [of C "New ref_send" ?w1 nonce] ref_start_session [OF assms(1,3), of "dev w"]
      byte_codec.StartAuthSession_response_ok [OF bc, of "replicate 16 0" "of_nat ?k" "[]"] by (simp add: w2_def)
  have "sessions (dev w2) (unat (of_nat ?k :: u32)) = Some (replicate 32 0)" unfolding k by (simp add: w2_def)
  note secret = secret_on_ref [OF assms(1) this, unfolded ek_policy_reached]
  define w3 where "w3 = snd (PolicySecret C (New ref_send) RHEndorsement (of_nat ?k) w2)"
  have secret: "PolicySecret C (New ref_send) RHEndorsement (of_nat ?k) w2 = (Inr (), w3)"
    and s3: "sessions (dev w3) (unat (of_nat ?k :: u32)) = Some ekAuthPolicy"
    and kept: "names (dev w3) = names (dev w)" "ek_key (dev w3) = ek_key (dev w)"
    using secret by (simp_all add: w3_def w2_def)
  have run: "ActivateAKWithEK C gen (New ref_send) akHandle ekHandle akPublic ekPublic credential nonce w =
      ActivateCredential C (New ref_send) akHandle ekHandle (of_nat ?k) (tpm2b ?inner) (tpm2b ?point) w3"
    unfolding ActivateAKWithEK_def name' point tbind_lift_Inr using gen start secret by simp
  note last = activate_on_ref [where ak = akHandle and ek = ekHandle, OF assms(1) len s3, unfolded kept key(3), folded run]
  show ?thesis
  proof (cases "names (dev w) (unat akHandle)")
    case None
    then show ?thesis using last [where r = "Inl 0x18B"] by simp
  next
    case (Some held)
    have "fst (ActivateAKWithEK C gen (New ref_send) akHandle ekHandle akPublic ekPublic credential nonce w) = Inr credential"
      if "held = akName"
      using last [where r = "Inr credential"] Some that made(2) assms(2) by simp
    moreover have "fst (ActivateAKWithEK C gen (New ref_send) akHandle ekHandle akPublic ekPublic credential nonce w) =
        Inl (TPMError 0x147 0x2DF)"
      if "held \<noteq> akName" "\<not> hmac_clash (integrity_key seed) (encrypted seed akName (tpm2b credential) @ akName)
            (encrypted seed akName (tpm2b credential) @ held)"
    proof -
      have "tpm_activate (fst (ek_key (dev w))) (be_nat (ak_X pt)) held (tpm2b ?inner) (tpm2b ?point) = None"
        using made(3) [where name = held] that unfolding EKPublic.select_convs by blast
      then show ?thesis using last [where r = "Inl 0x2DF"] Some by simp
    qed
    ultimately show ?thesis using Some by simp
  qed
qed

theorem activation_on_tpm_witness:
  "fst (ActivateAKWithEK be_codec (\<lambda>r. (Inr (1, p256_G), r)) (New ref_send) 0x80000001 0x80000002 [0, 0x23, 0, 0xB]
     base_public [1, 2, 3] [] \<lparr>dev = blank_tpm\<lparr>ek_key := (1, fst p256_G),
       names := [0x80000001 \<mapsto> [0x00, 0x0B] @ sha256 [0, 0x23, 0, 0xB]]\<rparr>, rand = (), trace = []\<rparr>) = Inr [1, 2, 3]"
proof -
  let ?pt = "\<lparr>ak_X = ek_X base_key, ak_Y = ek_Y base_key\<rparr>"
  let ?w = "\<lparr>dev = blank_tpm\<lparr>ek_key := (1, fst p256_G),
       names := [0x80000001 \<mapsto> [0x00, 0x0B] @ sha256 [0, 0x23, 0, 0xB]]\<rparr>, rand = (), trace = []\<rparr>"
  have on: "IsOnCurve (be_nat (ak_X ?pt)) (be_nat (ak_Y ?pt))" using G_on_curve by (simp add: base_key_point)
  have ek: "snd (ek_key (dev ?w)) = be_nat (ak_X ?pt)" by (simp add: base_key_point)
  have one: "1 mod p256_n = 1" by (simp add: p256_n_def)
  have agree: "fst (smult (fst (ek_key (dev ?w))) p256_G) =
      fst (smult (1 mod p256_n) (be_nat (ak_X ?pt), be_nat (ak_Y ?pt)))"
    unfolding one AKPublic.select_convs base_key_point by simp
  have gen: "(Inr (1, p256_G) :: (nat \<times> nat \<times> nat) res, rand ?w) = (Inr (1, p256_G), ())" by simp
  have len: "length [1, 2, 3 :: u8] < 65000" "length ([] :: bytes) < 65536" "4 \<le> length [0, 0x23, 0, 0xB :: u8]"
    "take 2 (drop 2 [0, 0x23, 0, 0xB]) = [0x00, 0x0B :: u8]" by simp_all
  have held: "names (dev ?w) (unat (0x80000001 :: u32)) = Some ([0x00, 0x0B] @ sha256 [0, 0x23, 0, 0xB])" by simp
  show ?thesis
    using activation_on_tpm [where gen = "\<lambda>r. (Inr (1, p256_G), r)" and akHandle = "0x80000001" and
        ekHandle = "0x80000002" and w = ?w and rng' = "()" and k = 1 and Q = p256_G,
        OF be.wire_codec_axioms len base_public_is on gen fits_G ek agree refl refl, unfolded held]
    by simp
qed

section \<open>Attestation\<close>

lemma ref_attest_is_quote:
  assumes "length sel < 4294967296"
  shows "ref_attest signer nonce clk (selection_list_bytes sel) vals =
    quote_attest signer nonce clk (map (\<lambda>s. (Hash s, bitmap s)) sel) (sha256 (concat vals)) []"
  using assms by (simp add: ref_attest_def quote_attest_def selection_list_bytes_def comp_def
      selection_bytes_def [abs_def] raw_selection_def)

lemma raw_decoded_bitmap: "raw_decoded (Hash s, bitmap s) = s\<lparr>PCRs := in_window s\<rparr>"
  by (simp add: raw_decoded_def bitmap_roundtrip_eq)

lemma quote_on_ref:
  assumes "wire_codec C" and key: "signers (dev w) (unat key) = Some (signer, sign)"
    and att: "att = ref_attest signer nonce (tpm_clock (dev w)) (selection_list_bytes sel) (map (bank (dev w)) (selected sel))"
    and len: "length att < 65536" "length r < 65536" "length s < 65536" and sign: "sign att = (r, s)"
  shows "Quote C (New ref_send) key nonce sel w = (Inr (att, \<lparr>sig_R = r, sig_S = s\<rparr>),
    sent (BuildCommand C (TagSessions C) (CCQuote C) (Quote_body C key nonce sel)) (dev w) w)"
proof -
  note bc = wire_codec.axioms(1) [OF assms(1)]
  have raw: "length (selection_list_bytes sel) = 4 + 6 * length sel"
    by (simp add: selection_list_bytes_def length_concat comp_def sum_list_triv)
  from len(1) have small: "length nonce < 65536" "length sel < 65536"
    unfolding att ref_attest_def by (simp_all add: raw)
  then have sel: "length sel < 4294967296" by simp
  have "length (Quote_body C key nonce sel) < 4294967286"
    using small by (simp add: byte_codec.Quote_body_eq [OF bc] byte_codec.marshal_selection_list [OF bc sel] raw)
  then have read: "ref_parse (BuildCommand C (TagSessions C) (CCQuote C) (Quote_body C key nonce sel))
      = Some (True, Quote_PCRs (unat key) nonce (selection_list_bytes sel))"
    by (intro wire_codec.framed [OF assms(1)])
      (simp_all add: wire_codec.CCQuote [OF assms(1)] byte_codec.parsed_quote [OF bc small(1) sel])
  let ?p = "tpm2b att @ [0, 0x18] @ [0, 0x0B] @ tpm2b r @ tpm2b s"
  have exec: "ref_exec (Quote_PCRs (unat key) nonce (selection_list_bytes sel)) (dev w) = (Inr ([], ?p), dev w)"
    using key sign by (simp add: current_def ref_selected_eq [OF sel] att [symmetric] Let_def)
  have "parseQuoteResponse C (be_bytes 4 (length ?p) @ ?p @ [0, 0, 1, 0, 0]) = Inr (att, \<lparr>sig_R = r, sig_S = s\<rparr>)"
  proof (subst byte_codec.parseQuoteResponse_Inr_iff [OF bc], intro conjI exI)
    have nat: "unat (of_nat n :: u32) = n" if "n < 4294967296" for n using that by (simp add: unat_of_nat)
    have "length ?p < 4294967296" using len by simp
    from nat [OF this] show "be_bytes 4 (length ?p) @ ?p @ [0, 0, 1, 0, 0] = be_bytes 4 (unat (of_nat (length ?p) :: u32)) @ tpm2b att @
        be_bytes 2 0x18 @ be_bytes 2 (unat (0xB :: u16)) @ tpm2b (sig_R \<lparr>sig_R = r, sig_S = s\<rparr>) @
        tpm2b (sig_S \<lparr>sig_R = r, sig_S = s\<rparr>) @ [0, 0, 1, 0, 0]"
      by (simp only:) (simp add: be_eval)
  qed (use len in simp_all)
  with on_ref(1) [OF quote.tpm_call_axioms assms(1) read exec] show ?thesis using len by simp
qed

text \<open>
  C3. Attestation, end to end. On the abstract TPM with a signing key, \<open>Quote\<close> returns the attestation of
  the current values of the selection and its signature; when that signature is valid for the public key
  of the verifier, \<open>VerifyQuote\<close> accepts the quote exactly for the expected values whose concatenation has
  the digest of the current ones, and returns the nonce of the challenge, the selection and that digest;
  for every other expectation it is the digest mismatch.
\<close>

theorem quote_then_verify:
  assumes "wire_codec C" and "signers (dev w) (unat key) = Some (signer, sign)"
    and att: "att = ref_attest signer nonce (tpm_clock (dev w)) (selection_list_bytes sel) (map (bank (dev w)) (selected sel))"
    and len: "length att < 65536" "length r < 65536" "length s < 65536" "length (tpm_clock (dev w)) = 25"
    and "sign att = (r, s)"
    and valid: "ecdsa_Verify (be_nat (ak_X ak), be_nat (ak_Y ak)) (sha256 att) (be_nat r) (be_nat s)"
  shows "fst (Quote C (New ref_send) key nonce sel w) = Inr (att, \<lparr>sig_R = r, sig_S = s\<rparr>) \<and>
    (\<forall>expected. VerifyQuote C ak att \<lparr>sig_R = r, sig_S = s\<rparr> expected =
      (if sha256 (concat expected) = sha256 (concat (map (bank (dev w)) (selected sel)))
       then Inr \<lparr>ExtraData = nonce, Quoted = \<lparr>PCRSelect = map (\<lambda>s. s\<lparr>PCRs := in_window s\<rparr>) sel,
         PCRDigest = sha256 (concat (map (bank (dev w)) (selected sel)))\<rparr>\<rparr>
       else Inl ErrPCRDigestMismatch))"
proof
  note bc = wire_codec.axioms(1) [OF assms(1)]
  show "fst (Quote C (New ref_send) key nonce sel w) = Inr (att, \<lparr>sig_R = r, sig_S = s\<rparr>)"
    by (simp add: quote_on_ref [OF assms(1-6,8)])
  let ?digest = "sha256 (concat (map (bank (dev w)) (selected sel)))"
  let ?info = "\<lparr>ExtraData = nonce, Quoted = \<lparr>PCRSelect = map (\<lambda>s. s\<lparr>PCRs := in_window s\<rparr>) sel, PCRDigest = ?digest\<rparr>\<rparr>"
  have raw: "length (selection_list_bytes sel) = 4 + 6 * length sel"
    by (simp add: selection_list_bytes_def length_concat comp_def sum_list_triv)
  from len(1) have small: "length nonce < 65536" "length signer < 65536" "length sel < 4294967296"
    unfolding att ref_attest_def by (simp_all add: raw)
  have "is_quote_attest ?info att"
    unfolding is_quote_attest_def att ref_attest_is_quote [OF small(3)]
    by (intro exI [of _ signer] exI [of _ "tpm_clock (dev w)"] exI [of _ "map (\<lambda>s. (Hash s, bitmap s)) sel"] exI [of _ "[]"])
      (use small len(4) in \<open>auto simp: raw_decoded_bitmap comp_def\<close>)
  then have parse: "ParseAttest C att = Inr ?info" by (simp only: byte_codec.ParseAttest_Inr_iff [OF bc])
  show "\<forall>expected. VerifyQuote C ak att \<lparr>sig_R = r, sig_S = s\<rparr> expected =
      (if sha256 (concat expected) = ?digest then Inr ?info else Inl ErrPCRDigestMismatch)"
    using valid by (simp add: VerifyQuote_def parse guard_def Let_def)
qed

theorem quote_then_verify_witness:
  "fst (Quote be_codec (New ref_send) 0x80000001 [7, 1] [\<lparr>Hash = 0xB, PCRs = [0]\<rparr>]
     \<lparr>dev = blank_tpm\<lparr>bank := \<lambda>_. [0x61, 0x62, 0x63],
       signers := [0x80000001 \<mapsto> ([0, 0xB], \<lambda>_. (be_bytes 32 good_hash, be_bytes 32 good_hash))]\<rparr>,
      rand = (), trace = []\<rparr>) =
   Inr (good_attest, \<lparr>sig_R = be_bytes 32 good_hash, sig_S = be_bytes 32 good_hash\<rparr>) \<and>
   VerifyQuote be_codec \<lparr>ak_X = be_bytes 32 (fst good_point), ak_Y = be_bytes 32 (snd good_point)\<rparr> good_attest
     \<lparr>sig_R = be_bytes 32 good_hash, sig_S = be_bytes 32 good_hash\<rparr> [[0x61], [0x62, 0x63]] =
   Inr \<lparr>ExtraData = [7, 1], Quoted = \<lparr>PCRSelect = [\<lparr>Hash = 0xB, PCRs = [0]\<rparr>], PCRDigest = sha256 [0x61, 0x62, 0x63]\<rparr>\<rparr>"
proof -
  let ?w = "\<lparr>dev = blank_tpm\<lparr>bank := \<lambda>_. [0x61, 0x62, 0x63],
       signers := [0x80000001 \<mapsto> ([0, 0xB], \<lambda>_. (be_bytes 32 good_hash, be_bytes 32 good_hash))]\<rparr>, rand = (), trace = []\<rparr>"
  let ?sel = "[\<lparr>Hash = 0xB, PCRs = [0]\<rparr>]"
  let ?ak = "\<lparr>ak_X = be_bytes 32 (fst good_point), ak_Y = be_bytes 32 (snd good_point)\<rparr>"
  have sel: "selected ?sel = [0]" "in_window \<lparr>Hash = 0xB, PCRs = [0]\<rparr> = [0]"
    by (simp_all add: selected_def in_window_def upt_rec)
  have few: "length ?sel < 4294967296" by simp
  have bitmap: "bitmap \<lparr>Hash = 0xB, PCRs = [0]\<rparr> = [1, 0, 0]" by code_simp
  have vals: "map (bank (dev ?w)) (selected ?sel) = [[0x61, 0x62, 0x63]]" by (simp add: sel)
  have att: "good_attest = ref_attest [0, 0xB] [7, 1] (tpm_clock (dev ?w)) (selection_list_bytes ?sel)
      (map (bank (dev ?w)) (selected ?sel))"
    unfolding vals ref_attest_is_quote [OF few] by (simp add: good_attest_def blank_tpm_def bitmap)
  have fit: "fst good_point < 256 ^ 32" "snd good_point < 256 ^ 32" "good_hash < 256 ^ 32"
    by (simp_all add: good_point_def good_hash_def)
  note nums = be_nat_be_bytes_id [OF fit(1)] be_nat_be_bytes_id [OF fit(2)] be_nat_be_bytes_id [OF fit(3)]
  have valid: "ecdsa_Verify (be_nat (ak_X ?ak), be_nat (ak_Y ?ak)) (sha256 good_attest)
      (be_nat (be_bytes 32 good_hash)) (be_nat (be_bytes 32 good_hash))"
    unfolding AKPublic.select_convs nums prod.collapse by (rule good_signature)
  have key: "signers (dev ?w) (unat (0x80000001 :: u32)) =
      Some ([0, 0xB], \<lambda>_. (be_bytes 32 good_hash, be_bytes 32 good_hash))" by simp
  have len: "length good_attest < 65536" "length (be_bytes 32 good_hash) < 65536" "length (tpm_clock (dev ?w)) = 25"
    by (simp_all add: good_attest_def quote_attest_def raw_selection_def blank_tpm_def)
  note run = quote_then_verify [OF be.wire_codec_axioms key att len(1,2,2,3) refl valid, unfolded vals]
  show ?thesis
    using run by (simp add: sel)
qed

end
